(* ===== verification/Go_Prelude.thy ===== *)
theory Go_Prelude
  imports
    Complex_Main
    "HOL-Library.Sublist"
    "HOL-Library.List_Lexorder"
    "HOL-Library.Char_ord"
    "HOL-Library.Multiset"
    "HOL-Library.Word"
begin

text \<open>
  The parts of the Go language and its standard library that the orchestrator uses, as HOL
  definitions shared by every component theory:
  64-bit integers with wrap-around, \<^verbatim>\<open>float64\<close> arithmetic with IEEE rounding, byte strings and
  the \<^verbatim>\<open>strings\<close> functions, \<^verbatim>\<open>time.Time\<close> and its RFC3339Nano format, slices and maps, and the
  stable sort of package \<^verbatim>\<open>sort\<close>. The lemmas are the generic ones of the development; locale
  \<open>strict_weak\<close> holds the laws of the stable sort under the contract of its comparator.
\<close>

section \<open>Integers\<close>

text \<open>
  Go's \<^verbatim>\<open>int\<close> and \<^verbatim>\<open>int64\<close> are 64-bit two's complement. A value is an \<^typ>\<open>int\<close> and every
  arithmetic operation of the source whose result may leave the range wraps it with \<open>i64\<close>.
\<close>

definition i64 :: "int \<Rightarrow> int" where
  "i64 x = (x + 2 ^ 63) mod 2 ^ 64 - 2 ^ 63"

definition iadd :: "int \<Rightarrow> int \<Rightarrow> int" where
  "iadd a b = i64 (a + b)"

definition isub :: "int \<Rightarrow> int \<Rightarrow> int" where
  "isub a b = i64 (a - b)"

definition imul :: "int \<Rightarrow> int \<Rightarrow> int" where
  "imul a b = i64 (a * b)"

text \<open>Division and remainder truncate towards zero; the callers never divide by zero
  except where the model says so.\<close>

definition iquo :: "int \<Rightarrow> int \<Rightarrow> int" where
  "iquo a b = i64 (sgn a * sgn b * (\<bar>a\<bar> div \<bar>b\<bar>))"

definition irem :: "int \<Rightarrow> int \<Rightarrow> int" where
  "irem a b = sgn a * (\<bar>a\<bar> mod \<bar>b\<bar>)"

definition in64 :: "int \<Rightarrow> bool" where
  "in64 x \<longleftrightarrow> - (2 ^ 63) \<le> x \<and> x < 2 ^ 63"

lemma i64_id: "in64 x \<Longrightarrow> i64 x = x"
  unfolding in64_def i64_def by (subst mod_pos_pos_trivial) auto

lemma i64_in64: "in64 (i64 x)"
proof -
  have "0 \<le> (x + 2 ^ 63) mod 2 ^ 64" and "(x + 2 ^ 63) mod 2 ^ 64 < (2 ^ 64 :: int)"
    by simp_all
  then show ?thesis unfolding in64_def i64_def by simp
qed

lemma iadd_id: "in64 (a + b) \<Longrightarrow> iadd a b = a + b"
  by (simp add: iadd_def i64_id)

lemma isub_id: "in64 (a - b) \<Longrightarrow> isub a b = a - b"
  by (simp add: isub_def i64_id)

section \<open>Floating point\<close>

text \<open>
  A finite \<^verbatim>\<open>float64\<close> is a rational number; an operation computes the exact result and rounds
  it to 53 significant bits, ties to even (gradual underflow included). Overflow to infinity
  and NaN are outside the model: JSON carries neither, and no operation modelled here divides
  by zero.
\<close>

type_synonym float64 = rat

definition pow2 :: "int \<Rightarrow> rat" where
  "pow2 e = (if 0 \<le> e then 2 ^ nat e else 1 / 2 ^ nat (- e))"

function bit_len :: "int \<Rightarrow> int" where
  "bit_len n = (if n \<le> 0 then 0 else 1 + bit_len (n div 2))"
  by pat_completeness auto
termination
  by (relation "measure nat") auto

declare bit_len.simps [simp del]

definition round_even :: "rat \<Rightarrow> int" where
  "round_even x = (let f = \<lfloor>x\<rfloor>; d = x - of_int f in
     if d < 1 / 2 then f else if d > 1 / 2 then f + 1 else if even f then f else f + 1)"

definition fl_exp :: "rat \<Rightarrow> int" where
  "fl_exp x = (case quotient_of \<bar>x\<bar> of (n, d) \<Rightarrow>
     let e = bit_len n - bit_len d in if pow2 e \<le> \<bar>x\<bar> then e else e - 1)"

definition fl :: "rat \<Rightarrow> float64" where
  "fl x = (if x = 0 then 0 else
     let e = max (fl_exp x - 52) (- 1074) in of_int (round_even (x / pow2 e)) * pow2 e)"

definition f_of_int :: "int \<Rightarrow> float64" where
  "f_of_int n = fl (of_int n)"

definition fadd :: "float64 \<Rightarrow> float64 \<Rightarrow> float64" where
  "fadd a b = fl (a + b)"

definition fsub :: "float64 \<Rightarrow> float64 \<Rightarrow> float64" where
  "fsub a b = fl (a - b)"

definition fmul :: "float64 \<Rightarrow> float64 \<Rightarrow> float64" where
  "fmul a b = fl (a * b)"

definition fdiv :: "float64 \<Rightarrow> float64 \<Rightarrow> float64" where
  "fdiv a b = fl (a / b)"

text \<open>
  \<^verbatim>\<open>math.Ceil\<close>, the conversion \<^verbatim>\<open>int(x)\<close>, which truncates (the value of an out-of-range conversion is left to
  the implementation by Go; here it is the one of amd64), and \<^verbatim>\<open>%.2f\<close>.
\<close>

definition Ceil :: "float64 \<Rightarrow> float64" where
  "Ceil x = of_int \<lceil>x\<rceil>"

definition float_int :: "float64 \<Rightarrow> int" where
  "float_int x = (let n = (if x < 0 then \<lceil>x\<rceil> else \<lfloor>x\<rfloor>) in if in64 n then n else - (2 ^ 63))"

lemma fl_0 [simp]: "fl 0 = 0"
  by (simp add: fl_def)

lemma round_even_of_int [simp]: "round_even (of_int n) = n"
  by (simp add: round_even_def)

lemma round_even_nonneg: "0 \<le> x \<Longrightarrow> 0 \<le> round_even x"
  by (simp add: round_even_def Let_def)

lemma round_even_nonpos: "x \<le> 0 \<Longrightarrow> round_even x \<le> 0"
proof -
  assume "x \<le> 0"
  show ?thesis
  proof (cases "x = of_int \<lfloor>x\<rfloor>")
    case True
    then show ?thesis using \<open>x \<le> 0\<close> round_even_of_int [of "\<lfloor>x\<rfloor>"]
      by (metis of_int_le_0_iff)
  next
    case False
    then have "of_int \<lfloor>x\<rfloor> < x" using of_int_floor_le [of x] by linarith
    with \<open>x \<le> 0\<close> have "\<lfloor>x\<rfloor> < 0" by (metis floor_less_zero le_less of_int_0 floor_of_int less_le_not_le)
    then show ?thesis by (simp add: round_even_def Let_def)
  qed
qed

lemma pow2_pos [simp]: "0 < pow2 e"
  by (simp add: pow2_def)

lemma fl_nonneg: "0 \<le> x \<Longrightarrow> 0 \<le> fl x"
  using pow2_pos by (simp add: fl_def Let_def round_even_nonneg order.strict_implies_order)

section \<open>Strings\<close>

text \<open>
  A Go string is a list of bytes. \<^verbatim>\<open>TrimSpace\<close>, \<^verbatim>\<open>ToLower\<close> and \<^verbatim>\<open>EqualFold\<close> are modelled on ASCII:
  the two non-ASCII white-space characters and non-ASCII case folding are left out.
\<close>

definition is_space :: "char \<Rightarrow> bool" where
  "is_space c \<longleftrightarrow> (let n = (of_char c :: nat) in n = 32 \<or> (9 \<le> n \<and> n \<le> 13))"

definition TrimSpace :: "string \<Rightarrow> string" where
  "TrimSpace s = rev (dropWhile is_space (rev (dropWhile is_space s)))"

definition lower_char :: "char \<Rightarrow> char" where
  "lower_char c = (let n = (of_char c :: nat) in if 65 \<le> n \<and> n \<le> 90 then char_of (n + 32) else c)"

definition ToLower :: "string \<Rightarrow> string" where
  "ToLower s = map lower_char s"

definition EqualFold :: "string \<Rightarrow> string \<Rightarrow> bool" where
  "EqualFold s t \<longleftrightarrow> ToLower s = ToLower t"

definition HasPrefix :: "string \<Rightarrow> string \<Rightarrow> bool" where
  "HasPrefix s p \<longleftrightarrow> take (length p) s = p"

definition TrimPrefix :: "string \<Rightarrow> string \<Rightarrow> string" where
  "TrimPrefix s p = (if HasPrefix s p then drop (length p) s else s)"

definition TrimRight :: "string \<Rightarrow> char \<Rightarrow> string" where
  "TrimRight s c = rev (dropWhile (\<lambda>x. x = c) (rev s))"

text \<open>\<^verbatim>\<open>strings.TrimSpace(s) == ""\<close>, the emptiness test the handlers use.\<close>

definition blank :: "string \<Rightarrow> bool" where
  "blank s \<longleftrightarrow> TrimSpace s = []"

lemma blank_Nil [simp]: "blank []"
  by (simp add: blank_def TrimSpace_def)

lemma HasPrefix_iff: "HasPrefix s p \<longleftrightarrow> prefix p s"
  by (metis HasPrefix_def append_eq_conv_conj append_take_drop_id prefix_def)

lemma blank_iff: "blank s \<longleftrightarrow> (\<forall>c \<in> set s. is_space c)"
proof (cases "dropWhile is_space s")
  case Nil
  then have "\<forall>c \<in> set s. is_space c" by (simp add: dropWhile_eq_Nil_conv)
  with Nil show ?thesis by (auto simp: blank_def TrimSpace_def dest: set_dropWhileD)
next
  case (Cons c cs)
  then have "\<not> is_space c" and "c \<in> set s"
    by (auto simp: dropWhile_eq_Cons_conv) (metis in_set_conv_decomp)
  then show ?thesis using Cons by (auto simp: blank_def TrimSpace_def dropWhile_eq_Nil_conv)
qed

subsection \<open>Decimal printing\<close>

definition digit :: "nat \<Rightarrow> char" where
  "digit d = char_of (48 + d)"

fun show_nat :: "nat \<Rightarrow> string" where
  "show_nat n = (if n < 10 then [digit n] else show_nat (n div 10) @ [digit (n mod 10)])"

declare show_nat.simps [simp del]

definition show_int :: "int \<Rightarrow> string" where
  "show_int i = (if i < 0 then ''-'' @ show_nat (nat (- i)) else show_nat (nat i))"

text \<open>\<^verbatim>\<open>%04d\<close> and \<^verbatim>\<open>%02d\<close> for values that are not negative.\<close>

definition show_pad :: "nat \<Rightarrow> int \<Rightarrow> string" where
  "show_pad w i = (let t = show_int i in replicate (w - length t) (CHR ''0'') @ t)"

definition show_fixed2 :: "float64 \<Rightarrow> string" where
  "show_fixed2 x = (let n = round_even (\<bar>x\<bar> * 100) in
     (if x < 0 then ''-'' else []) @ show_int (n div 100) @ ''.'' @ show_pad 2 (n mod 100))"

section \<open>Time\<close>

text \<open>
  A \<^verbatim>\<open>time.Time\<close> in UTC is the number of nanoseconds since the Unix epoch; the zero time is
  January 1 of year 1. A \<^verbatim>\<open>time.Duration\<close> is a 64-bit number of nanoseconds.
\<close>

type_synonym gotime = int
type_synonym duration = int

definition zero_time :: gotime where
  "zero_time = - 62135596800000000000"

definition IsZero :: "gotime \<Rightarrow> bool" where
  "IsZero t \<longleftrightarrow> t = zero_time"

definition Second :: duration where
  "Second = 1000000000"

text \<open>\<^verbatim>\<open>time.Duration(n) * time.Second\<close>, which may wrap.\<close>

definition seconds :: "int \<Rightarrow> duration" where
  "seconds n = imul n Second"

text \<open>\<^verbatim>\<open>t.Sub(u)\<close> saturates at the bounds of \<^verbatim>\<open>Duration\<close>.\<close>

definition time_sub :: "gotime \<Rightarrow> gotime \<Rightarrow> duration" where
  "time_sub t u = max (- (2 ^ 63)) (min (2 ^ 63 - 1) (t - u))"

text \<open>\<^verbatim>\<open>t.Format(time.RFC3339Nano)\<close> in UTC: calendar date from the day number, and a fraction
  whose trailing zeros are dropped.\<close>

definition civil :: "int \<Rightarrow> int \<times> int \<times> int" where
  "civil days = (let z = days + 719468; era = z div 146097; doe = z - era * 146097;
     yoe = (doe - doe div 1460 + doe div 36524 - doe div 146096) div 365;
     doy = doe - (365 * yoe + yoe div 4 - yoe div 100);
     mp = (5 * doy + 2) div 153; d = doy - (153 * mp + 2) div 5 + 1;
     m = (if mp < 10 then mp + 3 else mp - 9); y = yoe + era * 400
     in (if m \<le> 2 then y + 1 else y, m, d))"

definition show_frac :: "int \<Rightarrow> string" where
  "show_frac ns = (if ns = 0 then [] else ''.'' @ TrimRight (show_pad 9 ns) (CHR ''0''))"

definition RFC3339Nano :: "gotime \<Rightarrow> string" where
  "RFC3339Nano t = (let secs = t div 1000000000; ns = t mod 1000000000;
     days = secs div 86400; sod = secs mod 86400 in
     case civil days of (y, m, d) \<Rightarrow>
       show_pad 4 y @ ''-'' @ show_pad 2 m @ ''-'' @ show_pad 2 d @ ''T'' @
       show_pad 2 (sod div 3600) @ '':'' @ show_pad 2 (sod mod 3600 div 60) @ '':'' @
       show_pad 2 (sod mod 60) @ show_frac ns @ ''Z'')"

section \<open>Slices and maps\<close>

text \<open>
  A slice or map whose source distinguishes \<^verbatim>\<open>nil\<close> from empty is an option; elsewhere it is a
  plain list. A \<^verbatim>\<open>map[string]V\<close> is the association list of its entries in key order, so that
  equality of values is \<^verbatim>\<open>reflect.DeepEqual\<close>.
\<close>

type_synonym 'a slice = "'a list option"
type_synonym 'v gomap = "(string \<times> 'v) list"

definition elems :: "'a slice \<Rightarrow> 'a list" where
  "elems s = (case s of None \<Rightarrow> [] | Some xs \<Rightarrow> xs)"

text \<open>What encoding with \<^verbatim>\<open>omitempty\<close> and decoding again makes of a slice or map.\<close>

definition omitempty :: "'a slice \<Rightarrow> 'a slice" where
  "omitempty s = (if elems s = [] then None else s)"

text \<open>\<^verbatim>\<open>m[k]\<close> with the zero value \<open>z\<close> for a missing key.\<close>

definition map_get :: "'v \<Rightarrow> 'v gomap \<Rightarrow> string \<Rightarrow> 'v" where
  "map_get z m k = (case map_of m k of None \<Rightarrow> z | Some v \<Rightarrow> v)"

text \<open>\<^verbatim>\<open>m[k] = v\<close>\<close>

fun map_put :: "string \<Rightarrow> 'v \<Rightarrow> 'v gomap \<Rightarrow> 'v gomap" where
  "map_put k v [] = [(k, v)]"
| "map_put k v ((k', v') # m) =
     (if k = k' then (k, v) # m else if k < k' then (k, v) # (k', v') # m
      else (k', v') # map_put k v m)"

lemma elems_simps [simp]: "elems None = []" "elems (Some xs) = xs"
  by (simp_all add: elems_def)

lemma elems_omitempty [simp]: "elems (omitempty s) = elems s"
  by (simp add: omitempty_def)

lemma omitempty_idem [simp]: "omitempty (omitempty s) = omitempty s"
  by (simp add: omitempty_def)

lemma map_of_map_put:
  "sorted (map fst m) \<Longrightarrow> distinct (map fst m) \<Longrightarrow> map_of (map_put k v m) = (map_of m)(k \<mapsto> v)"
  by (induction k v m rule: map_put.induct) (auto simp: fun_eq_iff)

section \<open>Stable sorting\<close>

text \<open>
  \<^verbatim>\<open>sort.SliceStable(xs, lt)\<close>. The result is determined by \<open>lt\<close> whenever it is a strict weak
  order, which the package requires of its caller: locale \<open>strict_weak\<close> is that contract.
\<close>

fun insert_by :: "('a \<Rightarrow> 'a \<Rightarrow> bool) \<Rightarrow> 'a \<Rightarrow> 'a list \<Rightarrow> 'a list" where
  "insert_by lt x [] = [x]"
| "insert_by lt x (y # ys) = (if lt y x then y # insert_by lt x ys else x # y # ys)"

definition SliceStable :: "('a \<Rightarrow> 'a \<Rightarrow> bool) \<Rightarrow> 'a list \<Rightarrow> 'a list" where
  "SliceStable lt xs = foldr (insert_by lt) xs []"

lemma SliceStable_simps [simp]:
  "SliceStable lt [] = []"
  "SliceStable lt (x # xs) = insert_by lt x (SliceStable lt xs)"
  by (simp_all add: SliceStable_def)

lemma mset_insert_by [simp]: "mset (insert_by lt x ys) = add_mset x (mset ys)"
  by (induction ys) auto

lemma mset_SliceStable [simp]: "mset (SliceStable lt xs) = mset xs"
  by (induction xs) auto

lemma set_SliceStable [simp]: "set (SliceStable lt xs) = set xs"
  by (metis mset_SliceStable set_mset_mset)

lemma length_SliceStable [simp]: "length (SliceStable lt xs) = length xs"
  by (metis mset_SliceStable size_mset)

lemma distinct_SliceStable [simp]: "distinct (SliceStable lt xs) = distinct xs"
  by (metis mset_SliceStable mset_eq_imp_distinct_iff)

lemma SliceStable_Nil_iff [simp]: "SliceStable lt xs = [] \<longleftrightarrow> xs = []"
  by (metis length_0_conv length_SliceStable)

locale strict_weak =
  fixes lt :: "'a \<Rightarrow> 'a \<Rightarrow> bool"
  assumes asym: "lt x y \<Longrightarrow> \<not> lt y x"
    and cotrans: "lt x z \<Longrightarrow> lt x y \<or> lt y z"
begin

lemma not_less_trans: "\<not> lt y x \<Longrightarrow> \<not> lt z y \<Longrightarrow> \<not> lt z x"
  using cotrans by blast

lemma set_insert_by: "set (insert_by lt x ys) = insert x (set ys)"
  by (induction ys) auto

lemma sorted_insert_by:
  "sorted_wrt (\<lambda>a b. \<not> lt b a) ys \<Longrightarrow> sorted_wrt (\<lambda>a b. \<not> lt b a) (insert_by lt x ys)"
proof (induction ys)
  case Nil
  then show ?case by simp
next
  case (Cons y ys)
  show ?case
  proof (cases "lt y x")
    case True
    then show ?thesis using Cons asym [OF True] by (simp add: set_insert_by)
  next
    case False
    then have "\<forall>b \<in> set ys. \<not> lt b x" using Cons.prems not_less_trans [of y x] by auto
    then show ?thesis using Cons.prems False by simp
  qed
qed

lemma sorted_SliceStable: "sorted_wrt (\<lambda>a b. \<not> lt b a) (SliceStable lt xs)"
  by (induction xs) (auto simp: sorted_insert_by)

text \<open>The head is the first of the minimal elements of the input.\<close>

lemma hd_insert_by:
  "hd (insert_by lt x ys) = (if ys \<noteq> [] \<and> lt (hd ys) x then hd ys else x)"
  by (cases ys) auto

lemma hd_SliceStable_first:
  "xs \<noteq> [] \<Longrightarrow> \<exists>us vs. xs = us @ hd (SliceStable lt xs) # vs \<and>
     (\<forall>u \<in> set us. lt (hd (SliceStable lt xs)) u) \<and>
     (\<forall>v \<in> set vs. \<not> lt v (hd (SliceStable lt xs)))"
proof (induction xs)
  case Nil
  then show ?case by simp
next
  case (Cons x xs)
  show ?case
  proof (cases "xs = []")
    case True
    then show ?thesis by (intro exI [of _ "[]"] exI [of _ "[]"]) simp
  next
    case False
    let ?h = "hd (SliceStable lt xs)"
    from Cons.IH False obtain us vs where xs: "xs = us @ ?h # vs"
      and us: "\<forall>u \<in> set us. lt ?h u" and vs: "\<forall>v \<in> set vs. \<not> lt v ?h" by blast
    show ?thesis
    proof (cases "lt ?h x")
      case True
      then have "hd (SliceStable lt (x # xs)) = ?h" using False by (simp add: hd_insert_by)
      then show ?thesis using xs us vs True
        by (intro exI [of _ "x # us"] exI [of _ vs]) auto
    next
      case nl: False
      then have h: "hd (SliceStable lt (x # xs)) = x" using False by (simp add: hd_insert_by)
      have "\<not> lt v x" if "v \<in> set xs" for v
      proof -
        from that xs have "v \<in> set us \<union> insert ?h (set vs)" by (metis Un_iff list.simps(15) set_append)
        then have "\<not> lt v ?h" using us vs asym by blast
        with nl show ?thesis using not_less_trans by blast
      qed
      then show ?thesis using h by (intro exI [of _ "[]"] exI [of _ xs]) simp
    qed
  qed
qed

lemma hd_SliceStable_minimal:
  assumes "xs \<noteq> []" and "y \<in> set xs"
  shows "\<not> lt y (hd (SliceStable lt xs))"
proof -
  have "sorted_wrt (\<lambda>a b. \<not> lt b a) (SliceStable lt xs)" by (rule sorted_SliceStable)
  moreover have "y \<in> set (SliceStable lt xs)" using assms by simp
  ultimately show ?thesis using asym by (cases "SliceStable lt xs") auto
qed

end

end
