(* ===== verification/Go_Effects.thy ===== *)
theory Go_Effects
  imports Go_Prelude
begin

text \<open>
  Go functions that change a state and return \<^verbatim>\<open>(value, error)\<close>. A call is a function from the
  state to a result (an error or a value) and the state after it; \<open>bnd\<close> is the idiom
  \<^verbatim>\<open>if err != nil { return err }\<close>, \<open>attempt\<close> hands the error to the caller as a value and
  \<open>ignore\<close> is \<^verbatim>\<open>_ = f()\<close>. Two proof rules carry the component proofs: \<open>stays R m\<close>, every run
  of \<open>m\<close> relates its two states by \<open>R\<close> whatever it returns (locale \<open>frame\<close>: it composes when
  \<open>R\<close> is a preorder), and \<open>wp m Q s\<close>, the run from \<open>s\<close> ends with \<open>Q\<close>.
\<close>

named_theorems stays_intros \<open>operations that stay in a frame relation\<close>
named_theorems wp_simps \<open>weakest-precondition equations\<close>

section \<open>Errors and calls\<close>

text \<open>
  Error values: the sentinel errors the code compares with \<^verbatim>\<open>errors.Is\<close>, an error with a text,
  an error that wraps another one (\<^verbatim>\<open>%w\<close>), a blocked lock and a run-time panic.
\<close>

datatype err =
    ErrNotFound
  | ErrKeyNotFound
  | ErrNoSchedulableNode
  | ErrText string
  | ErrWrap string err
  | ErrDeadlock
  | ErrPanic string

primrec err_is :: "err \<Rightarrow> err \<Rightarrow> bool" where
  "err_is ErrNotFound t \<longleftrightarrow> t = ErrNotFound"
| "err_is ErrKeyNotFound t \<longleftrightarrow> t = ErrKeyNotFound"
| "err_is ErrNoSchedulableNode t \<longleftrightarrow> t = ErrNoSchedulableNode"
| "err_is (ErrText m) t \<longleftrightarrow> t = ErrText m"
| "err_is (ErrWrap m e) t \<longleftrightarrow> t = ErrWrap m e \<or> err_is e t"
| "err_is ErrDeadlock t \<longleftrightarrow> t = ErrDeadlock"
| "err_is (ErrPanic m) t \<longleftrightarrow> t = ErrPanic m"

primrec err_text :: "err \<Rightarrow> string" where
  "err_text ErrNotFound = ''not found''"
| "err_text ErrKeyNotFound = ''Key not found''"
| "err_text ErrNoSchedulableNode = ''no schedulable node''"
| "err_text (ErrText m) = m"
| "err_text (ErrWrap m e) = m @ err_text e"
| "err_text ErrDeadlock = []"
| "err_text (ErrPanic m) = m"

type_synonym ('s, 'a) go = "'s \<Rightarrow> (err + 'a) \<times> 's"

definition ret :: "'a \<Rightarrow> ('s, 'a) go" where
  "ret x s = (Inr x, s)"

definition throw :: "err \<Rightarrow> ('s, 'a) go" where
  "throw e s = (Inl e, s)"

definition bnd :: "('s, 'a) go \<Rightarrow> ('a \<Rightarrow> ('s, 'b) go) \<Rightarrow> ('s, 'b) go" where
  "bnd m f s = (case m s of (r, s') \<Rightarrow> (case r of Inl e \<Rightarrow> (Inl e, s') | Inr x \<Rightarrow> f x s'))"

definition seq :: "('s, 'a) go \<Rightarrow> ('s, 'b) go \<Rightarrow> ('s, 'b) go" where
  "seq m k = bnd m (\<lambda>_. k)"

definition attempt :: "('s, 'a) go \<Rightarrow> ('s, err + 'a) go" where
  "attempt m s = (case m s of (r, s') \<Rightarrow> (Inr r, s'))"

definition ignore :: "('s, 'a) go \<Rightarrow> ('s, unit) go" where
  "ignore m = bnd (attempt m) (\<lambda>_. ret ())"

definition gets :: "('s \<Rightarrow> 'a) \<Rightarrow> ('s, 'a) go" where
  "gets f s = (Inr (f s), s)"

definition modify :: "('s \<Rightarrow> 's) \<Rightarrow> ('s, unit) go" where
  "modify f s = (Inr (), f s)"

definition when_so :: "bool \<Rightarrow> ('s, unit) go \<Rightarrow> ('s, unit) go" where
  "when_so b m = (if b then m else ret ())"

text \<open>\<^verbatim>\<open>for _, x := range xs { ... }\<close> whose body may return an error.\<close>

primrec for_each :: "'a list \<Rightarrow> ('a \<Rightarrow> ('s, unit) go) \<Rightarrow> ('s, unit) go" where
  "for_each [] f = ret ()"
| "for_each (x # xs) f = seq (f x) (for_each xs f)"

text \<open>A loop that stops at the first body returning \<^const>\<open>True\<close> (\<^verbatim>\<open>break\<close> or \<^verbatim>\<open>return\<close>).\<close>

primrec until_true :: "'a list \<Rightarrow> ('a \<Rightarrow> ('s, bool) go) \<Rightarrow> ('s, bool) go" where
  "until_true [] f = ret False"
| "until_true (x # xs) f = bnd (f x) (\<lambda>b. if b then ret True else until_true xs f)"

text \<open>\<^verbatim>\<open>for i := 0; i < n; i++\<close> whose body may return an error.\<close>

primrec times :: "nat \<Rightarrow> ('s, unit) go \<Rightarrow> ('s, unit) go" where
  "times 0 m = ret ()"
| "times (Suc n) m = seq m (times n m)"

text \<open>The monad laws, used to bring a block into the shape the rules below match.\<close>

lemma bnd_ret [simp]: "bnd (ret x) f = f x"
  by (simp add: fun_eq_iff bnd_def ret_def)

lemma bnd_throw [simp]: "bnd (throw e) f = throw e"
  by (simp add: fun_eq_iff bnd_def throw_def)

lemma bnd_assoc: "bnd (bnd m f) g = bnd m (\<lambda>x. bnd (f x) g)"
  by (auto simp: fun_eq_iff bnd_def split: prod.splits sum.splits)

lemma bnd_if: "bnd (if b then m else k) f = (if b then bnd m f else bnd k f)"
  by simp

lemmas go_laws = bnd_ret bnd_throw bnd_assoc bnd_if

lemma bnd_seq: "bnd (seq m k) f = seq m (bnd k f)"
  by (simp add: seq_def bnd_assoc)

section \<open>Weakest preconditions\<close>

definition wp :: "('s, 'a) go \<Rightarrow> (err + 'a \<Rightarrow> 's \<Rightarrow> bool) \<Rightarrow> 's \<Rightarrow> bool" where
  "wp m Q s \<longleftrightarrow> (case m s of (r, s') \<Rightarrow> Q r s')"

lemma wp_ret [wp_simps]: "wp (ret x) Q s = Q (Inr x) s"
  by (simp add: wp_def ret_def)

lemma wp_throw [wp_simps]: "wp (throw e) Q s = Q (Inl e) s"
  by (simp add: wp_def throw_def)

lemma wp_bnd [wp_simps]:
  "wp (bnd m f) Q s = wp m (\<lambda>r s'. case r of Inl e \<Rightarrow> Q (Inl e) s' | Inr x \<Rightarrow> wp (f x) Q s') s"
  by (auto simp: wp_def bnd_def split: prod.splits sum.splits)

lemma wp_seq [wp_simps]:
  "wp (seq m k) Q s = wp m (\<lambda>r s'. case r of Inl e \<Rightarrow> Q (Inl e) s' | Inr x \<Rightarrow> wp k Q s') s"
  by (simp add: seq_def wp_bnd)

lemma wp_attempt [wp_simps]: "wp (attempt m) Q s = wp m (\<lambda>r s'. Q (Inr r) s') s"
  by (auto simp: wp_def attempt_def split: prod.splits)

lemma wp_ignore [wp_simps]: "wp (ignore m) Q s = wp m (\<lambda>r s'. Q (Inr ()) s') s"
  by (simp add: ignore_def wp_simps)

lemma wp_gets [wp_simps]: "wp (gets f) Q s = Q (Inr (f s)) s"
  by (simp add: wp_def gets_def)

lemma wp_modify [wp_simps]: "wp (modify f) Q s = Q (Inr ()) (f s)"
  by (simp add: wp_def modify_def)

lemma wp_when [wp_simps]: "wp (when_so b m) Q s = (if b then wp m Q s else Q (Inr ()) s)"
  by (simp add: when_so_def wp_simps)

lemma wp_if [wp_simps]: "wp (if b then m else k) Q s = (if b then wp m Q s else wp k Q s)"
  by simp

lemma wp_conseq: "wp m P s \<Longrightarrow> (\<And>r t. P r t \<Longrightarrow> Q r t) \<Longrightarrow> wp m Q s"
  by (auto simp: wp_def split: prod.splits)

lemma wp_conj: "wp m P s \<Longrightarrow> wp m Q s \<Longrightarrow> wp m (\<lambda>r t. P r t \<and> Q r t) s"
  by (auto simp: wp_def split: prod.splits)

lemma wpD: "wp m Q s \<Longrightarrow> m s = (r, t) \<Longrightarrow> Q r t"
  by (auto simp: wp_def)

lemma wpI: "(\<And>r t. m s = (r, t) \<Longrightarrow> Q r t) \<Longrightarrow> wp m Q s"
  by (auto simp: wp_def split: prod.splits)

section \<open>Frames\<close>

definition stays :: "('s \<Rightarrow> 's \<Rightarrow> bool) \<Rightarrow> ('s, 'a) go \<Rightarrow> bool" where
  "stays R m \<longleftrightarrow> (\<forall>s. R s (snd (m s)))"

lemma staysD: "stays R m \<Longrightarrow> m s = (r, t) \<Longrightarrow> R s t"
  by (metis snd_conv stays_def)

lemma stays_wp: "stays R m \<Longrightarrow> wp m (\<lambda>r t. R s t) s"
  by (auto simp: wp_def stays_def split: prod.splits) (metis snd_conv)

lemma staysI: "(\<And>s. wp m (\<lambda>r t. R s t) s) \<Longrightarrow> stays R m"
  by (simp add: wp_def stays_def case_prod_beta)

lemma stays_mono: "stays R m \<Longrightarrow> (\<And>s t. R s t \<Longrightarrow> S s t) \<Longrightarrow> stays S m"
  by (auto simp: stays_def)

lemma stays_if [stays_intros]: "(b \<Longrightarrow> stays R m) \<Longrightarrow> (\<not> b \<Longrightarrow> stays R k) \<Longrightarrow> stays R (if b then m else k)"
  by simp

lemma stays_case_sum [stays_intros]:
  "(\<And>e. r = Inl e \<Longrightarrow> stays R (f e)) \<Longrightarrow> (\<And>x. r = Inr x \<Longrightarrow> stays R (g x)) \<Longrightarrow>
   stays R (case r of Inl e \<Rightarrow> f e | Inr x \<Rightarrow> g x)"
  by (cases r) auto

lemma stays_case_option [stays_intros]:
  "(r = None \<Longrightarrow> stays R m) \<Longrightarrow> (\<And>x. r = Some x \<Longrightarrow> stays R (g x)) \<Longrightarrow>
   stays R (case r of None \<Rightarrow> m | Some x \<Rightarrow> g x)"
  by (cases r) auto

lemma stays_case_list [stays_intros]:
  "(xs = [] \<Longrightarrow> stays R m) \<Longrightarrow> (\<And>y ys. xs = y # ys \<Longrightarrow> stays R (g y ys)) \<Longrightarrow>
   stays R (case xs of [] \<Rightarrow> m | y # ys \<Rightarrow> g y ys)"
  by (cases xs) auto

lemma stays_case_prod [stays_intros]:
  "(\<And>a b. p = (a, b) \<Longrightarrow> stays R (f a b)) \<Longrightarrow> stays R (case p of (a, b) \<Rightarrow> f a b)"
  by (cases p) auto

lemma stays_Let [stays_intros]: "(\<And>x. x = t \<Longrightarrow> stays R (f x)) \<Longrightarrow> stays R (let x = t in f x)"
  by (simp add: Let_def)

text \<open>\<open>gives P m\<close>: whenever \<open>m\<close> returns a value, the value satisfies \<open>P\<close>.\<close>

definition gives :: "('a \<Rightarrow> bool) \<Rightarrow> ('s, 'a) go \<Rightarrow> bool" where
  "gives P m \<longleftrightarrow> (\<forall>s x t. m s = (Inr x, t) \<longrightarrow> P x)"

lemma gives_ret: "P x \<Longrightarrow> gives P (ret x)"
  by (simp add: gives_def ret_def)

lemma gives_throw: "gives P (throw e)"
  by (simp add: gives_def throw_def)

lemma gives_bnd: "gives Q m \<Longrightarrow> (\<And>x. Q x \<Longrightarrow> gives P (f x)) \<Longrightarrow> gives P (bnd m f)"
  by (auto simp: gives_def bnd_def split: prod.splits sum.splits) meson

lemma gives_seq: "gives P k \<Longrightarrow> gives P (seq m k)"
  by (auto simp: gives_def seq_def bnd_def split: prod.splits sum.splits)

lemma gives_any: "gives (\<lambda>_. True) m"
  by (simp add: gives_def)

lemma gives_if: "(b \<Longrightarrow> gives P m) \<Longrightarrow> (\<not> b \<Longrightarrow> gives P k) \<Longrightarrow> gives P (if b then m else k)"
  by simp

lemma wp_gives: "gives P m \<Longrightarrow> wp m (\<lambda>r t. \<forall>x. r = Inr x \<longrightarrow> P x) s"
  by (auto simp: gives_def wp_def split: prod.splits)

lemma wp_for_each:
  assumes "I [] s"
    and "\<And>pre x post t. xs = pre @ x # post \<Longrightarrow> I pre t \<Longrightarrow>
      wp (f x) (\<lambda>r u. case r of Inl e \<Rightarrow> Q (Inl e) u | Inr _ \<Rightarrow> I (pre @ [x]) u) t"
    and "\<And>t. I xs t \<Longrightarrow> Q (Inr ()) t"
  shows "wp (for_each xs f) Q s"
proof -
  have "wp (for_each post f) Q t" if "xs = pre @ post" "I pre t" for pre post t
    using that
  proof (induction post arbitrary: pre t)
    case Nil
    then show ?case using assms(3) by (simp add: wp_ret)
  next
    case (Cons x post)
    show ?case
      unfolding for_each.simps wp_seq
      by (rule wp_conseq [OF assms(2) [OF Cons.prems]]) (use Cons in \<open>auto split: sum.splits\<close>)
  qed
  from this [of "[]" xs s] assms(1) show ?thesis by simp
qed

lemma wp_until_true:
  assumes "\<And>x t. x \<in> set xs \<Longrightarrow> I t \<Longrightarrow> wp (f x) (\<lambda>r u. if r = Inr False then I u else Q r u) t"
    and "\<And>t. I t \<Longrightarrow> Q (Inr False) t" and "I s"
  shows "wp (until_true xs f) Q s"
  using assms(1,3)
proof (induction xs arbitrary: s)
  case (Cons x xs)
  show ?case
    unfolding until_true.simps wp_bnd
  proof (rule wp_conseq [OF Cons.prems(1) [OF _ Cons.prems(2)]])
    fix r u assume u: "if r = Inr False then I u else Q r u"
    show "case r of Inl e \<Rightarrow> Q (Inl e) u | Inr b \<Rightarrow> wp (if b then ret True else until_true xs f) Q u"
      using u Cons.IH [of u] Cons.prems(1) by (cases r) (auto simp: wp_ret split: if_splits)
  qed simp
qed (simp add: wp_ret assms(2))

lemma wp_ifI: "(b \<Longrightarrow> wp m Q s) \<Longrightarrow> (\<not> b \<Longrightarrow> wp k Q s) \<Longrightarrow> wp (if b then m else k) Q s"
  by simp

lemma wp_any: "(\<And>r t. Q r t) \<Longrightarrow> wp m Q s"
  by (simp add: wp_def case_prod_beta)

lemma wp_case_sumI:
  "(\<And>e. r = Inl e \<Longrightarrow> wp (f e) Q s) \<Longrightarrow> (\<And>x. r = Inr x \<Longrightarrow> wp (g x) Q s) \<Longrightarrow>
   wp (case r of Inl e \<Rightarrow> f e | Inr x \<Rightarrow> g x) Q s"
  by (cases r) auto

lemma wp_bnd_gives:
  assumes "gives P m" and "wp m (\<lambda>r t. (\<exists>x. r = Inr x) \<and> R t) s" and "\<And>x t. P x \<Longrightarrow> R t \<Longrightarrow> wp (f x) Q t"
  shows "wp (bnd m f) Q s"
  unfolding wp_bnd
  by (rule wp_conseq [OF wp_conj [OF wp_gives [OF assms(1)] assms(2)]]) (use assms(3) in auto)

locale frame =
  fixes R :: "'s \<Rightarrow> 's \<Rightarrow> bool"
  assumes refl: "R s s"
    and trans: "R s t \<Longrightarrow> R t u \<Longrightarrow> R s u"
begin

lemma ret: "stays R (ret x)"
  by (simp add: stays_def ret_def refl)

lemma throw: "stays R (throw e)"
  by (simp add: stays_def throw_def refl)

lemma gets: "stays R (gets f)"
  by (simp add: stays_def gets_def refl)

lemma bnd: "stays R m \<Longrightarrow> (\<And>x. stays R (f x)) \<Longrightarrow> stays R (bnd m f)"
  by (auto simp: stays_def bnd_def refl split: prod.splits sum.splits) (metis snd_conv trans)+

lemma bnd_gives: "stays R m \<Longrightarrow> gives P m \<Longrightarrow> (\<And>x. P x \<Longrightarrow> stays R (f x)) \<Longrightarrow> stays R (bnd m f)"
  by (auto simp: stays_def gives_def bnd_def refl split: prod.splits sum.splits) (metis snd_conv trans)+

lemma seq: "stays R m \<Longrightarrow> stays R k \<Longrightarrow> stays R (seq m k)"
  by (simp add: seq_def bnd)

lemma attempt: "stays R m \<Longrightarrow> stays R (attempt m)"
  by (auto simp: stays_def attempt_def split: prod.splits) (metis snd_conv)

lemma ignore: "stays R m \<Longrightarrow> stays R (ignore m)"
  by (simp add: ignore_def bnd attempt ret)

lemma when_so: "(b \<Longrightarrow> stays R m) \<Longrightarrow> stays R (when_so b m)"
  by (simp add: when_so_def ret)

lemma for_each: "(\<And>x. x \<in> set xs \<Longrightarrow> stays R (f x)) \<Longrightarrow> stays R (for_each xs f)"
  by (induction xs) (auto intro: ret seq)

lemma until_true: "(\<And>x. x \<in> set xs \<Longrightarrow> stays R (f x)) \<Longrightarrow> stays R (until_true xs f)"
  by (induction xs) (auto intro!: ret bnd)

lemma times: "stays R m \<Longrightarrow> stays R (times n m)"
  by (induction n) (auto intro: ret seq)

lemmas rules = ret throw gets bnd seq attempt ignore when_so for_each until_true times

end

end
