(* ===== verification/Model_Types.thy ===== *)
theory Model_Types
  imports Go_Prelude
begin

text \<open>
  The data model of \<^verbatim>\<open>src/internal/model/types.go\<close>: one record per struct, with the fields in
  the order of the source, and one datatype per string-typed enumeration. A Go string type can
  hold any text, so an enumeration has a constructor for the other texts and, where the code
  tests for it, one for the empty text. A slice or map field is an option where the code
  distinguishes \<^verbatim>\<open>nil\<close> from empty.
  The last section is the effect of storing a value as JSON and reading it back.
\<close>

section \<open>Structs and enumerations\<close>

record Resource =
  MilliCPU :: int
  MemoryMB :: int

record Taint =
  ta_Key :: string
  ta_Value :: string
  ta_Effect :: string

record Toleration =
  to_Key :: string
  to_Value :: string
  to_Effect :: string
  to_Operator :: string

datatype NodeStatus =
    NodeReady
  | NodeUnknown
  | NodeDown
  | NodeStatusOther string

datatype NodeFailureClass =
    NodeFailureHealthy
  | NodeFailureWarning
  | NodeFailureCritical
  | NodeFailureOther string

record NodeHealth =
  h_CPUUtilization :: float64
  h_MemoryUtilization :: float64
  h_LastHeartbeatAgeSec :: int
  h_ConsecutiveMissedTTL :: int
  h_FailureClass :: NodeFailureClass
  h_Reason :: string
  h_Isolated :: bool
  h_Draining :: bool
  h_LastEvaluatedAt :: gotime

record Node =
  n_ID :: string
  n_Address :: string
  n_Labels :: "string gomap option"
  n_Taints :: "Taint list"
  n_Capacity :: Resource
  n_Allocatable :: Resource
  n_Used :: Resource
  n_Status :: NodeStatus
  n_Health :: NodeHealth
  n_LastSeen :: gotime

datatype DeploymentStatus =
    DeploymentPending
  | DeploymentRunning
  | DeploymentFailed
  | DeploymentStatusOther string

datatype RolloutStrategyType =
    StrategyUnset
  | RolloutStrategyRollingUpdate
  | RolloutStrategyCanary
  | StrategyOther string

record RollingUpdateSpec =
  MaxUnavailable :: int
  MaxSurge :: int

record CanarySpec =
  ca_Enabled :: bool
  ca_Percentage :: int

record RolloutSpec =
  ro_Strategy :: RolloutStrategyType
  ro_RollingUpdate :: RollingUpdateSpec
  ro_Canary :: CanarySpec
  ro_ProgressDeadlineSeconds :: int
  ro_AutoRollbackOnFailure :: bool
  ro_MaxFailedWorkloads :: int
  ro_SLOErrorRateThreshold :: float64
  ro_SLOWindowSeconds :: int

record ProbeSpec =
  pr_Enabled :: bool
  pr_InitialDelaySeconds :: int
  pr_FailureThreshold :: int

record SecretMountSpec =
  sm_SecretName :: string
  sm_MountPath :: string

record DeploymentSpec =
  sp_Namespace :: string
  sp_Name :: string
  sp_Image :: string
  sp_ImagePullSecret :: string
  sp_SecretMounts :: "SecretMountSpec slice"
  sp_VolumeClaims :: "string slice"
  sp_Replicas :: int
  sp_Priority :: int
  sp_Resources :: Resource
  sp_Labels :: "string gomap option"
  sp_Tolerations :: "Toleration slice"
  sp_LivenessProbe :: ProbeSpec
  sp_ReadinessProbe :: ProbeSpec
  sp_Rollout :: RolloutSpec

datatype DeploymentConditionType =
    ConditionAvailable
  | ConditionProgressing
  | ConditionDegraded
  | ConditionOther string

record DeploymentCondition =
  c_Type :: DeploymentConditionType
  c_Status :: bool
  c_Reason :: string
  c_Message :: string
  c_LastTransitionTime :: gotime

record DeploymentRevision =
  rv_Revision :: int
  rv_Spec :: DeploymentSpec
  rv_CreatedAt :: gotime

record DeploymentRolloutStatus =
  rs_Phase :: string
  rs_UpdatedReplicas :: int
  rs_ReadyReplicas :: int
  rs_UnavailableReplicas :: int
  rs_Message :: string
  rs_StartedAt :: gotime
  rs_LastUpdatedAt :: gotime

record Deployment =
  d_ID :: string
  d_Spec :: DeploymentSpec
  d_Generation :: int
  d_ObservedGeneration :: int
  d_CurrentRevision :: int
  d_RevisionHistory :: "DeploymentRevision list"
  d_RolloutStatus :: DeploymentRolloutStatus
  d_Owner :: string
  d_Finalizers :: "string list"
  d_DeletionTimestamp :: "gotime option"
  d_Status :: DeploymentStatus
  d_Conditions :: "DeploymentCondition list"
  d_CreatedAt :: gotime
  d_UpdatedAt :: gotime

datatype WorkloadStatus =
    WorkloadPending
  | WorkloadRunning
  | WorkloadFailed
  | WorkloadTerminating
  | WorkloadTerminated
  | WorkloadStatusOther string

record Workload =
  w_ID :: string
  w_DeploymentID :: string
  w_Priority :: int
  w_NodeID :: string
  w_Image :: string
  w_Resources :: Resource
  w_Status :: WorkloadStatus
  w_ContainerID :: string
  w_RestartCount :: int
  w_Version :: int
  w_CreatedAt :: gotime
  w_UpdatedAt :: gotime

record SecretFile =
  sf_Path :: string
  sf_Content :: string

record VolumeMount =
  vm_ClaimName :: string
  vm_MountPath :: string
  vm_ReadOnly :: bool

record Assignment =
  a_Action :: string
  a_ID :: string
  a_NodeID :: string
  a_WorkloadID :: string
  a_Image :: string
  a_ImagePullSecret :: string
  a_ContainerID :: string
  a_SecretFiles :: "SecretFile list"
  a_VolumeMounts :: "VolumeMount list"
  a_Resources :: Resource

datatype ServiceProtocol =
    ServiceProtocolTCP
  | ServiceProtocolUDP
  | ServiceProtocolOther string

record ServicePort =
  po_Name :: string
  po_Port :: int
  po_TargetPort :: int
  po_NodePort :: int
  po_Protocol :: ServiceProtocol

datatype ServiceType =
    ServiceTypeUnset
  | ServiceTypeClusterIP
  | ServiceTypeNodePort
  | ServiceTypeOther string

record ServiceSpec =
  ss_Namespace :: string
  ss_Name :: string
  ss_Selector :: "string gomap"
  ss_Ports :: "ServicePort list"
  ss_Type :: ServiceType

record Namespace =
  ns_Name :: string
  ns_Tenant :: string
  ns_CreatedAt :: gotime
  ns_UpdatedAt :: gotime

record NamespaceQuota =
  q_Namespace :: string
  q_MaxDeployments :: int
  q_MaxMilliCPU :: int
  q_MaxMemoryMB :: int
  q_CreatedAt :: gotime
  q_UpdatedAt :: gotime

record Secret =
  se_Namespace :: string
  se_Name :: string
  se_Data :: "string gomap option"
  se_CreatedAt :: gotime
  se_UpdatedAt :: gotime

datatype PersistentVolumePhase =
    PersistentVolumePhaseUnset
  | PersistentVolumeAvailable
  | PersistentVolumeBound
  | PersistentVolumeReleased
  | PersistentVolumePhaseOther string

record PersistentVolume =
  pv_Name :: string
  pv_CapacityMB :: int
  pv_StorageClass :: string
  pv_AccessMode :: string
  pv_ClaimNamespace :: string
  pv_ClaimName :: string
  pv_BoundDeployment :: string
  pv_Phase :: PersistentVolumePhase
  pv_CreatedAt :: gotime
  pv_UpdatedAt :: gotime

datatype PersistentVolumeClaimPhase =
    PersistentVolumeClaimPhaseUnset
  | PersistentVolumeClaimPending
  | PersistentVolumeClaimBound
  | PersistentVolumeClaimPhaseOther string

record PersistentVolumeClaim =
  pvc_Namespace :: string
  pvc_Name :: string
  pvc_RequestedCapacity :: int
  pvc_StorageClass :: string
  pvc_AccessMode :: string
  pvc_VolumeName :: string
  pvc_Phase :: PersistentVolumeClaimPhase
  pvc_CreatedAt :: gotime
  pvc_UpdatedAt :: gotime

record NetworkPolicyPeer =
  pe_Namespace :: string
  pe_Labels :: "string gomap"

record NetworkPolicyRule =
  ru_From :: "NetworkPolicyPeer list"
  ru_To :: "NetworkPolicyPeer list"
  ru_Port :: int

record NetworkPolicy =
  np_Namespace :: string
  np_Name :: string
  np_PodSelector :: "string gomap"
  np_Ingress :: "NetworkPolicyRule list"
  np_Egress :: "NetworkPolicyRule list"
  np_Group :: string
  np_CreatedAt :: gotime
  np_UpdatedAt :: gotime

datatype JobPhase =
    JobPhaseUnset
  | JobPending
  | JobRunning
  | JobSucceeded
  | JobFailed
  | JobPhaseOther string

record JobSpec =
  js_Namespace :: string
  js_Name :: string
  js_Template :: DeploymentSpec
  js_Completions :: int
  js_BackoffLimit :: int
  js_TTLSeconds :: int
  js_HistoryLimit :: int
  js_ScheduleReason :: string

record Job =
  j_ID :: string
  j_Spec :: JobSpec
  j_Status :: JobPhase
  j_Deployment :: string
  j_Succeeded :: int
  j_Failed :: int
  j_RunCount :: int
  j_LastRunAt :: gotime
  j_CompletedAt :: gotime
  j_CreatedAt :: gotime
  j_UpdatedAt :: gotime

record CronJob =
  cj_Namespace :: string
  cj_Name :: string
  cj_ScheduleEveryS :: int
  cj_Template :: JobSpec
  cj_Suspend :: bool
  cj_HistoryLimit :: int
  cj_LastRunAt :: gotime
  cj_CreatedAt :: gotime
  cj_UpdatedAt :: gotime

record RoleBinding =
  rb_Namespace :: string
  rb_Name :: string
  rb_Subject :: string
  rb_Roles :: "string list"
  rb_Inherits :: "string list"
  rb_CreatedAt :: gotime
  rb_UpdatedAt :: gotime

record ControllerLease =
  l_LeaderID :: string
  l_ExpiresAt :: gotime
  l_Term :: int
  l_UpdatedAt :: gotime

record ControlPlaneTransition =
  t_ID :: string
  t_NodeID :: string
  t_Term :: int
  t_Action :: string
  t_Description :: string
  t_CreatedAt :: gotime

record Service =
  sv_ID :: string
  sv_Spec :: ServiceSpec
  sv_ClusterIP :: string
  sv_DNSRecordTTLSeconds :: int
  sv_CreatedAt :: gotime
  sv_UpdatedAt :: gotime

record ServiceEndpoint =
  e_ID :: string
  e_ServiceID :: string
  e_WorkloadID :: string
  e_NodeID :: string
  e_Address :: string
  e_Port :: int
  e_Protocol :: ServiceProtocol
  e_Ready :: bool
  e_UpdatedAt :: gotime

record DeploymentMetricSample =
  m_ID :: string
  m_DeploymentID :: string
  m_Timestamp :: gotime
  m_CPUUsage :: float64
  m_MemoryUsage :: float64
  m_Custom :: "float64 gomap option"

record AutoscalerPolicy =
  as_ID :: string
  as_DeploymentID :: string
  as_MinReplicas :: int
  as_MaxReplicas :: int
  as_TargetCPUUtilization :: float64
  as_TargetMemoryUtilization :: float64
  as_CustomMetricName :: string
  as_TargetCustomMetricValue :: float64
  as_PredictiveScalingEnabled :: bool
  as_PredictiveLookbackSamples :: int
  as_PredictiveScaleFactor :: float64
  as_StabilizationWindowSec :: int
  as_ScaleUpCooldownSec :: int
  as_ScaleDownCooldownSec :: int
  as_LastScaleAt :: gotime
  as_LastScaleDirection :: string
  as_CreatedAt :: gotime
  as_UpdatedAt :: gotime

record ClusterState =
  cs_Nodes :: "Node list"
  cs_Deployments :: "Deployment list"
  cs_Workloads :: "Workload list"

record NodeHealthSample =
  hs_NodeID :: string
  hs_Timestamp :: gotime
  hs_CPUUtilization :: float64
  hs_MemoryUtilization :: float64
  hs_FailureClass :: NodeFailureClass

record NodeHealthTrend =
  ht_NodeID :: string
  ht_SampleCount :: int
  ht_AvgCPUUtilization :: float64
  ht_AvgMemoryUtilization :: float64
  ht_MaxCPUUtilization :: float64
  ht_MaxMemoryUtilization :: float64
  ht_CurrentFailureClass :: NodeFailureClass
  ht_AnomalyDetected :: bool
  ht_AnomalyReason :: string
  ht_LastEvaluatedAt :: gotime

datatype EventLevel =
    EventInfo
  | EventWarn
  | EventError

record Event =
  ev_ID :: string
  ev_Timestamp :: gotime
  ev_Level :: EventLevel
  ev_Type :: string
  ev_Reason :: string
  ev_Message :: string
  ev_DeploymentID :: string
  ev_WorkloadID :: string
  ev_NodeID :: string

section \<open>Zero values\<close>

text \<open>The zero value of a struct: what a variable declaration or a composite literal with omitted
  fields starts from.\<close>

definition zero_Resource :: Resource where
  "zero_Resource = \<lparr>MilliCPU = 0, MemoryMB = 0\<rparr>"

definition zero_Taint :: Taint where
  "zero_Taint = \<lparr>ta_Key = [], ta_Value = [], ta_Effect = []\<rparr>"

definition zero_Toleration :: Toleration where
  "zero_Toleration = \<lparr>to_Key = [], to_Value = [], to_Effect = [], to_Operator = []\<rparr>"

definition zero_NodeHealth :: NodeHealth where
  "zero_NodeHealth = \<lparr>h_CPUUtilization = 0, h_MemoryUtilization = 0, h_LastHeartbeatAgeSec = 0,
     h_ConsecutiveMissedTTL = 0, h_FailureClass = NodeFailureOther [], h_Reason = [],
     h_Isolated = False, h_Draining = False, h_LastEvaluatedAt = zero_time\<rparr>"

definition zero_Node :: Node where
  "zero_Node = \<lparr>n_ID = [], n_Address = [], n_Labels = None, n_Taints = [], n_Capacity = zero_Resource,
     n_Allocatable = zero_Resource, n_Used = zero_Resource, n_Status = NodeStatusOther [],
     n_Health = zero_NodeHealth, n_LastSeen = zero_time\<rparr>"

definition zero_RollingUpdateSpec :: RollingUpdateSpec where
  "zero_RollingUpdateSpec = \<lparr>MaxUnavailable = 0, MaxSurge = 0\<rparr>"

definition zero_CanarySpec :: CanarySpec where
  "zero_CanarySpec = \<lparr>ca_Enabled = False, ca_Percentage = 0\<rparr>"

definition zero_RolloutSpec :: RolloutSpec where
  "zero_RolloutSpec = \<lparr>ro_Strategy = StrategyUnset, ro_RollingUpdate = zero_RollingUpdateSpec, ro_Canary =
     zero_CanarySpec, ro_ProgressDeadlineSeconds = 0, ro_AutoRollbackOnFailure = False,
     ro_MaxFailedWorkloads = 0, ro_SLOErrorRateThreshold = 0, ro_SLOWindowSeconds = 0\<rparr>"

definition zero_ProbeSpec :: ProbeSpec where
  "zero_ProbeSpec = \<lparr>pr_Enabled = False, pr_InitialDelaySeconds = 0, pr_FailureThreshold = 0\<rparr>"

definition zero_SecretMountSpec :: SecretMountSpec where
  "zero_SecretMountSpec = \<lparr>sm_SecretName = [], sm_MountPath = []\<rparr>"

definition zero_DeploymentSpec :: DeploymentSpec where
  "zero_DeploymentSpec = \<lparr>sp_Namespace = [], sp_Name = [], sp_Image = [], sp_ImagePullSecret = [], sp_SecretMounts =
     None, sp_VolumeClaims = None, sp_Replicas = 0, sp_Priority = 0, sp_Resources =
     zero_Resource, sp_Labels = None, sp_Tolerations = None, sp_LivenessProbe = zero_ProbeSpec,
     sp_ReadinessProbe = zero_ProbeSpec, sp_Rollout = zero_RolloutSpec\<rparr>"

definition zero_DeploymentCondition :: DeploymentCondition where
  "zero_DeploymentCondition = \<lparr>c_Type = ConditionOther [], c_Status = False, c_Reason = [], c_Message = [],
     c_LastTransitionTime = zero_time\<rparr>"

definition zero_DeploymentRevision :: DeploymentRevision where
  "zero_DeploymentRevision = \<lparr>rv_Revision = 0, rv_Spec = zero_DeploymentSpec, rv_CreatedAt = zero_time\<rparr>"

definition zero_DeploymentRolloutStatus :: DeploymentRolloutStatus where
  "zero_DeploymentRolloutStatus = \<lparr>rs_Phase = [], rs_UpdatedReplicas = 0, rs_ReadyReplicas = 0, rs_UnavailableReplicas = 0,
     rs_Message = [], rs_StartedAt = zero_time, rs_LastUpdatedAt = zero_time\<rparr>"

definition zero_Deployment :: Deployment where
  "zero_Deployment = \<lparr>d_ID = [], d_Spec = zero_DeploymentSpec, d_Generation = 0, d_ObservedGeneration = 0,
     d_CurrentRevision = 0, d_RevisionHistory = [], d_RolloutStatus =
     zero_DeploymentRolloutStatus, d_Owner = [], d_Finalizers = [], d_DeletionTimestamp = None,
     d_Status = DeploymentStatusOther [], d_Conditions = [], d_CreatedAt = zero_time,
     d_UpdatedAt = zero_time\<rparr>"

definition zero_Workload :: Workload where
  "zero_Workload = \<lparr>w_ID = [], w_DeploymentID = [], w_Priority = 0, w_NodeID = [], w_Image = [], w_Resources =
     zero_Resource, w_Status = WorkloadStatusOther [], w_ContainerID = [], w_RestartCount = 0,
     w_Version = 0, w_CreatedAt = zero_time, w_UpdatedAt = zero_time\<rparr>"

definition zero_SecretFile :: SecretFile where
  "zero_SecretFile = \<lparr>sf_Path = [], sf_Content = []\<rparr>"

definition zero_VolumeMount :: VolumeMount where
  "zero_VolumeMount = \<lparr>vm_ClaimName = [], vm_MountPath = [], vm_ReadOnly = False\<rparr>"

definition zero_Assignment :: Assignment where
  "zero_Assignment = \<lparr>a_Action = [], a_ID = [], a_NodeID = [], a_WorkloadID = [], a_Image = [],
     a_ImagePullSecret = [], a_ContainerID = [], a_SecretFiles = [], a_VolumeMounts = [],
     a_Resources = zero_Resource\<rparr>"

definition zero_ServicePort :: ServicePort where
  "zero_ServicePort = \<lparr>po_Name = [], po_Port = 0, po_TargetPort = 0, po_NodePort = 0, po_Protocol =
     ServiceProtocolOther []\<rparr>"

definition zero_ServiceSpec :: ServiceSpec where
  "zero_ServiceSpec = \<lparr>ss_Namespace = [], ss_Name = [], ss_Selector = [], ss_Ports = [], ss_Type =
     ServiceTypeUnset\<rparr>"

definition zero_Namespace :: Namespace where
  "zero_Namespace = \<lparr>ns_Name = [], ns_Tenant = [], ns_CreatedAt = zero_time, ns_UpdatedAt = zero_time\<rparr>"

definition zero_NamespaceQuota :: NamespaceQuota where
  "zero_NamespaceQuota = \<lparr>q_Namespace = [], q_MaxDeployments = 0, q_MaxMilliCPU = 0, q_MaxMemoryMB = 0, q_CreatedAt
     = zero_time, q_UpdatedAt = zero_time\<rparr>"

definition zero_Secret :: Secret where
  "zero_Secret = \<lparr>se_Namespace = [], se_Name = [], se_Data = None, se_CreatedAt = zero_time, se_UpdatedAt =
     zero_time\<rparr>"

definition zero_PersistentVolume :: PersistentVolume where
  "zero_PersistentVolume = \<lparr>pv_Name = [], pv_CapacityMB = 0, pv_StorageClass = [], pv_AccessMode = [],
     pv_ClaimNamespace = [], pv_ClaimName = [], pv_BoundDeployment = [], pv_Phase =
     PersistentVolumePhaseUnset, pv_CreatedAt = zero_time, pv_UpdatedAt = zero_time\<rparr>"

definition zero_PersistentVolumeClaim :: PersistentVolumeClaim where
  "zero_PersistentVolumeClaim = \<lparr>pvc_Namespace = [], pvc_Name = [], pvc_RequestedCapacity = 0, pvc_StorageClass = [],
     pvc_AccessMode = [], pvc_VolumeName = [], pvc_Phase = PersistentVolumeClaimPhaseUnset,
     pvc_CreatedAt = zero_time, pvc_UpdatedAt = zero_time\<rparr>"

definition zero_NetworkPolicyPeer :: NetworkPolicyPeer where
  "zero_NetworkPolicyPeer = \<lparr>pe_Namespace = [], pe_Labels = []\<rparr>"

definition zero_NetworkPolicyRule :: NetworkPolicyRule where
  "zero_NetworkPolicyRule = \<lparr>ru_From = [], ru_To = [], ru_Port = 0\<rparr>"

definition zero_NetworkPolicy :: NetworkPolicy where
  "zero_NetworkPolicy = \<lparr>np_Namespace = [], np_Name = [], np_PodSelector = [], np_Ingress = [], np_Egress = [],
     np_Group = [], np_CreatedAt = zero_time, np_UpdatedAt = zero_time\<rparr>"

definition zero_JobSpec :: JobSpec where
  "zero_JobSpec = \<lparr>js_Namespace = [], js_Name = [], js_Template = zero_DeploymentSpec, js_Completions = 0,
     js_BackoffLimit = 0, js_TTLSeconds = 0, js_HistoryLimit = 0, js_ScheduleReason = []\<rparr>"

definition zero_Job :: Job where
  "zero_Job = \<lparr>j_ID = [], j_Spec = zero_JobSpec, j_Status = JobPhaseUnset, j_Deployment = [], j_Succeeded
     = 0, j_Failed = 0, j_RunCount = 0, j_LastRunAt = zero_time, j_CompletedAt = zero_time,
     j_CreatedAt = zero_time, j_UpdatedAt = zero_time\<rparr>"

definition zero_CronJob :: CronJob where
  "zero_CronJob = \<lparr>cj_Namespace = [], cj_Name = [], cj_ScheduleEveryS = 0, cj_Template = zero_JobSpec,
     cj_Suspend = False, cj_HistoryLimit = 0, cj_LastRunAt = zero_time, cj_CreatedAt =
     zero_time, cj_UpdatedAt = zero_time\<rparr>"

definition zero_RoleBinding :: RoleBinding where
  "zero_RoleBinding = \<lparr>rb_Namespace = [], rb_Name = [], rb_Subject = [], rb_Roles = [], rb_Inherits = [],
     rb_CreatedAt = zero_time, rb_UpdatedAt = zero_time\<rparr>"

definition zero_ControllerLease :: ControllerLease where
  "zero_ControllerLease = \<lparr>l_LeaderID = [], l_ExpiresAt = zero_time, l_Term = 0, l_UpdatedAt = zero_time\<rparr>"

definition zero_ControlPlaneTransition :: ControlPlaneTransition where
  "zero_ControlPlaneTransition = \<lparr>t_ID = [], t_NodeID = [], t_Term = 0, t_Action = [], t_Description = [], t_CreatedAt =
     zero_time\<rparr>"

definition zero_Service :: Service where
  "zero_Service = \<lparr>sv_ID = [], sv_Spec = zero_ServiceSpec, sv_ClusterIP = [], sv_DNSRecordTTLSeconds = 0,
     sv_CreatedAt = zero_time, sv_UpdatedAt = zero_time\<rparr>"

definition zero_ServiceEndpoint :: ServiceEndpoint where
  "zero_ServiceEndpoint = \<lparr>e_ID = [], e_ServiceID = [], e_WorkloadID = [], e_NodeID = [], e_Address = [], e_Port = 0,
     e_Protocol = ServiceProtocolOther [], e_Ready = False, e_UpdatedAt = zero_time\<rparr>"

definition zero_DeploymentMetricSample :: DeploymentMetricSample where
  "zero_DeploymentMetricSample = \<lparr>m_ID = [], m_DeploymentID = [], m_Timestamp = zero_time, m_CPUUsage = 0, m_MemoryUsage =
     0, m_Custom = None\<rparr>"

definition zero_AutoscalerPolicy :: AutoscalerPolicy where
  "zero_AutoscalerPolicy = \<lparr>as_ID = [], as_DeploymentID = [], as_MinReplicas = 0, as_MaxReplicas = 0,
     as_TargetCPUUtilization = 0, as_TargetMemoryUtilization = 0, as_CustomMetricName = [],
     as_TargetCustomMetricValue = 0, as_PredictiveScalingEnabled = False,
     as_PredictiveLookbackSamples = 0, as_PredictiveScaleFactor = 0, as_StabilizationWindowSec
     = 0, as_ScaleUpCooldownSec = 0, as_ScaleDownCooldownSec = 0, as_LastScaleAt = zero_time,
     as_LastScaleDirection = [], as_CreatedAt = zero_time, as_UpdatedAt = zero_time\<rparr>"

definition zero_NodeHealthSample :: NodeHealthSample where
  "zero_NodeHealthSample = \<lparr>hs_NodeID = [], hs_Timestamp = zero_time, hs_CPUUtilization = 0, hs_MemoryUtilization = 0,
     hs_FailureClass = NodeFailureOther []\<rparr>"

definition zero_NodeHealthTrend :: NodeHealthTrend where
  "zero_NodeHealthTrend = \<lparr>ht_NodeID = [], ht_SampleCount = 0, ht_AvgCPUUtilization = 0, ht_AvgMemoryUtilization = 0,
     ht_MaxCPUUtilization = 0, ht_MaxMemoryUtilization = 0, ht_CurrentFailureClass =
     NodeFailureOther [], ht_AnomalyDetected = False, ht_AnomalyReason = [], ht_LastEvaluatedAt
     = zero_time\<rparr>"

section \<open>JSON\<close>

text \<open>
  What \<^verbatim>\<open>json.Marshal\<close> followed by \<^verbatim>\<open>json.Unmarshal\<close> returns. Fields tagged \<^verbatim>\<open>omitempty\<close> that
  hold an empty slice or map come back as \<^verbatim>\<open>nil\<close>; all other fields come back as they were.
\<close>

definition json_DeploymentSpec :: "DeploymentSpec \<Rightarrow> DeploymentSpec" where
  "json_DeploymentSpec s = s\<lparr>sp_SecretMounts := omitempty (sp_SecretMounts s),
     sp_VolumeClaims := omitempty (sp_VolumeClaims s),
     sp_Tolerations := omitempty (sp_Tolerations s)\<rparr>"

definition json_Deployment :: "Deployment \<Rightarrow> Deployment" where
  "json_Deployment d = d\<lparr>d_Spec := json_DeploymentSpec (d_Spec d),
     d_RevisionHistory := map (\<lambda>r. r\<lparr>rv_Spec := json_DeploymentSpec (rv_Spec r)\<rparr>) (d_RevisionHistory d)\<rparr>"

definition json_JobSpec :: "JobSpec \<Rightarrow> JobSpec" where
  "json_JobSpec s = s\<lparr>js_Template := json_DeploymentSpec (js_Template s)\<rparr>"

definition json_Job :: "Job \<Rightarrow> Job" where
  "json_Job j = j\<lparr>j_Spec := json_JobSpec (j_Spec j)\<rparr>"

definition json_CronJob :: "CronJob \<Rightarrow> CronJob" where
  "json_CronJob c = c\<lparr>cj_Template := json_JobSpec (cj_Template c)\<rparr>"

definition json_DeploymentMetricSample :: "DeploymentMetricSample \<Rightarrow> DeploymentMetricSample" where
  "json_DeploymentMetricSample m = m\<lparr>m_Custom := omitempty (m_Custom m)\<rparr>"

lemma json_DeploymentSpec_idem [simp]:
  "json_DeploymentSpec (json_DeploymentSpec s) = json_DeploymentSpec s"
  by (simp add: json_DeploymentSpec_def)

lemma json_Deployment_idem [simp]: "json_Deployment (json_Deployment d) = json_Deployment d"
  by (simp add: json_Deployment_def)

lemma json_DeploymentSpec_simps [simp]:
  "sp_Namespace (json_DeploymentSpec s) = sp_Namespace s"
  "sp_Name (json_DeploymentSpec s) = sp_Name s"
  "sp_Image (json_DeploymentSpec s) = sp_Image s"
  "sp_Replicas (json_DeploymentSpec s) = sp_Replicas s"
  "sp_Priority (json_DeploymentSpec s) = sp_Priority s"
  "sp_Resources (json_DeploymentSpec s) = sp_Resources s"
  "sp_Labels (json_DeploymentSpec s) = sp_Labels s"
  "sp_LivenessProbe (json_DeploymentSpec s) = sp_LivenessProbe s"
  "sp_ReadinessProbe (json_DeploymentSpec s) = sp_ReadinessProbe s"
  "sp_Rollout (json_DeploymentSpec s) = sp_Rollout s"
  "elems (sp_Tolerations (json_DeploymentSpec s)) = elems (sp_Tolerations s)"
  "elems (sp_VolumeClaims (json_DeploymentSpec s)) = elems (sp_VolumeClaims s)"
  "elems (sp_SecretMounts (json_DeploymentSpec s)) = elems (sp_SecretMounts s)"
  by (simp_all add: json_DeploymentSpec_def)

lemma json_Deployment_simps [simp]:
  "d_ID (json_Deployment d) = d_ID d"
  "d_Spec (json_Deployment d) = json_DeploymentSpec (d_Spec d)"
  "d_Generation (json_Deployment d) = d_Generation d"
  "d_ObservedGeneration (json_Deployment d) = d_ObservedGeneration d"
  "d_CurrentRevision (json_Deployment d) = d_CurrentRevision d"
  "d_RolloutStatus (json_Deployment d) = d_RolloutStatus d"
  "d_Finalizers (json_Deployment d) = d_Finalizers d"
  "d_DeletionTimestamp (json_Deployment d) = d_DeletionTimestamp d"
  "d_Status (json_Deployment d) = d_Status d"
  "d_Conditions (json_Deployment d) = d_Conditions d"
  "map rv_Revision (d_RevisionHistory (json_Deployment d)) = map rv_Revision (d_RevisionHistory d)"
  by (simp_all add: json_Deployment_def)

end
