(* ===== verification/State_Store.thy ===== *)
theory State_Store
  imports Go_Effects Model_Types
begin

text \<open>
  \<^verbatim>\<open>src/internal/store/store.go\<close>: the typed state store over a BadgerDB key-value database.

  BadgerDB is a third-party package, so its operations are a parameter: the record \<open>badger\<close> holds
  the view (\<open>bd_get\<close>, \<open>bd_scan\<close>) and update (\<open>bd_update\<close>) transactions on a database of any type,
  each of which may fail, and \<open>bd_map\<close>, the committed contents as a map from keys to values.
  \<open>badger_ok\<close> is what its documentation promises: reads return committed values, an iterator
  visits the keys with its prefix in byte order, an update transaction commits all of its writes
  or none. The clock and the random source are parameters too (record \<open>env\<close>).

  A stored value is its JSON encoding; \<open>blob\<close> has one constructor per encoded struct. The store
  operations follow the source; a multi-key \<^verbatim>\<open>db.Update\<close> is one \<open>bd_update\<close> with the list of its
  writes in order. Texts are stored as they are: that \<^verbatim>\<open>json.Marshal\<close> replaces bytes that are no UTF-8
  and refuses years beyond 9999 is not modelled. \<open>st_PopAssignments\<close> panics on a negative maximum as
  \<^verbatim>\<open>make\<close> does; that \<^verbatim>\<open>make\<close> also panics on a capacity beyond the memory of the machine is not
  modelled. The store's read-write mutex makes each call atomic and is not modelled
  further.
\<close>

section \<open>Database, clock and random source\<close>

datatype blob =
    JNode Node
  | JDeployment Deployment
  | JWorkload Workload
  | JService Service
  | JNamespace Namespace
  | JNamespaceQuota NamespaceQuota
  | JSecret Secret
  | JPersistentVolume PersistentVolume
  | JPersistentVolumeClaim PersistentVolumeClaim
  | JNetworkPolicy NetworkPolicy
  | JJob Job
  | JCronJob CronJob
  | JRoleBinding RoleBinding
  | JControllerLease ControllerLease
  | JControlPlaneTransition ControlPlaneTransition
  | JServiceEndpoint ServiceEndpoint
  | JAutoscalerPolicy AutoscalerPolicy
  | JDeploymentMetricSample DeploymentMetricSample
  | JAssignment Assignment
  | JEvent Event

record 'db badger =
  bd_get :: "'db \<Rightarrow> string \<Rightarrow> (err + blob) \<times> 'db"
  bd_scan :: "'db \<Rightarrow> string \<Rightarrow> (err + (string \<times> blob) list) \<times> 'db"
  bd_update :: "'db \<Rightarrow> (string \<times> blob option) list \<Rightarrow> err option \<times> 'db"
  bd_map :: "'db \<Rightarrow> string \<Rightarrow> blob option"

record 'db env =
  env_badger :: "'db badger"
  env_clock :: "nat \<Rightarrow> gotime"
  env_rand :: "nat \<Rightarrow> int \<Rightarrow> int"

text \<open>The state every operation threads: the database and a count of the calls made to the
  clock and the random source, which numbers their answers.\<close>

record 'db store_state =
  st_db :: 'db
  st_tick :: nat

definition apply_writes :: "(string \<times> blob option) list \<Rightarrow> (string \<Rightarrow> blob option) \<Rightarrow> string \<Rightarrow> blob option" where
  "apply_writes ws m = foldl (\<lambda>m (k, v). m(k := v)) m ws"

definition badger_get_ok :: "'db badger \<Rightarrow> bool" where
  "badger_get_ok B \<longleftrightarrow> (\<forall>db k r db'. bd_get B db k = (r, db') \<longrightarrow>
     bd_map B db' = bd_map B db \<and>
     (\<forall>v. r = Inr v \<longrightarrow> bd_map B db k = Some v) \<and>
     (\<forall>e. r = Inl e \<longrightarrow> \<not> err_is e ErrNotFound \<and> (err_is e ErrKeyNotFound \<longrightarrow> bd_map B db k = None)))"

definition badger_scan_ok :: "'db badger \<Rightarrow> bool" where
  "badger_scan_ok B \<longleftrightarrow> (\<forall>db p r db'. bd_scan B db p = (r, db') \<longrightarrow>
     bd_map B db' = bd_map B db \<and>
     (\<forall>kvs. r = Inr kvs \<longrightarrow> sorted_wrt (<) (map fst kvs) \<and>
        set kvs = {(k, v). prefix p k \<and> bd_map B db k = Some v}))"

definition badger_update_ok :: "'db badger \<Rightarrow> bool" where
  "badger_update_ok B \<longleftrightarrow>
     (\<forall>db ws db'. bd_update B db ws = (None, db') \<longrightarrow> bd_map B db' = apply_writes ws (bd_map B db)) \<and>
     (\<forall>db ws e db'. bd_update B db ws = (Some e, db') \<longrightarrow> bd_map B db' = bd_map B db)"

definition badger_ok :: "'db badger \<Rightarrow> bool" where
  "badger_ok B \<longleftrightarrow> badger_get_ok B \<and> badger_scan_ok B \<and> badger_update_ok B"

text \<open>A database whose transactions do not fail.\<close>

definition badger_total :: "'db badger \<Rightarrow> bool" where
  "badger_total B \<longleftrightarrow> badger_ok B \<and>
     (\<forall>db k. fst (bd_get B db k) = (case bd_map B db k of None \<Rightarrow> Inl ErrKeyNotFound | Some v \<Rightarrow> Inr v)) \<and>
     (\<forall>db p. \<exists>kvs. fst (bd_scan B db p) = Inr kvs) \<and>
     (\<forall>db ws. fst (bd_update B db ws) = None)"

type_synonym ('db, 'e, 's, 'a) store_op = "('db, 'e) env_scheme \<Rightarrow> (('db, 's) store_state_scheme, 'a) go"

definition time_now :: "('db, 'e) env_scheme \<Rightarrow> (('db, 's) store_state_scheme, gotime) go" where
  "time_now E s = (Inr (env_clock E (st_tick s)), s\<lparr>st_tick := Suc (st_tick s)\<rparr>)"

definition rand_intn :: "('db, 'e) env_scheme \<Rightarrow> int \<Rightarrow> (('db, 's) store_state_scheme, int) go" where
  "rand_intn E n s = (Inr (env_rand E (st_tick s) n), s\<lparr>st_tick := Suc (st_tick s)\<rparr>)"

definition db_get :: "('db, 'e) env_scheme \<Rightarrow> string \<Rightarrow> (('db, 's) store_state_scheme, blob) go" where
  "db_get E k s = (case bd_get (env_badger E) (st_db s) k of (r, db') \<Rightarrow> (r, s\<lparr>st_db := db'\<rparr>))"

definition db_scan :: "('db, 'e) env_scheme \<Rightarrow> string \<Rightarrow> (('db, 's) store_state_scheme, (string \<times> blob) list) go" where
  "db_scan E p s = (case bd_scan (env_badger E) (st_db s) p of (r, db') \<Rightarrow> (r, s\<lparr>st_db := db'\<rparr>))"

definition db_update :: "('db, 'e) env_scheme \<Rightarrow> (string \<times> blob option) list \<Rightarrow> (('db, 's) store_state_scheme, unit) go" where
  "db_update E ws s = (case bd_update (env_badger E) (st_db s) ws of (r, db') \<Rightarrow>
     ((case r of None \<Rightarrow> Inr () | Some e \<Rightarrow> Inl e), s\<lparr>st_db := db'\<rparr>))"

section \<open>JSON encoding of the stored structs\<close>

definition un_Node :: "blob \<Rightarrow> Node option" where
  "un_Node b = (case b of JNode x \<Rightarrow> Some x | _ \<Rightarrow> None)"

definition un_Deployment :: "blob \<Rightarrow> Deployment option" where
  "un_Deployment b = (case b of JDeployment x \<Rightarrow> Some x | _ \<Rightarrow> None)"

definition un_Workload :: "blob \<Rightarrow> Workload option" where
  "un_Workload b = (case b of JWorkload x \<Rightarrow> Some x | _ \<Rightarrow> None)"

definition un_Service :: "blob \<Rightarrow> Service option" where
  "un_Service b = (case b of JService x \<Rightarrow> Some x | _ \<Rightarrow> None)"

definition un_Namespace :: "blob \<Rightarrow> Namespace option" where
  "un_Namespace b = (case b of JNamespace x \<Rightarrow> Some x | _ \<Rightarrow> None)"

definition un_NamespaceQuota :: "blob \<Rightarrow> NamespaceQuota option" where
  "un_NamespaceQuota b = (case b of JNamespaceQuota x \<Rightarrow> Some x | _ \<Rightarrow> None)"

definition un_Secret :: "blob \<Rightarrow> Secret option" where
  "un_Secret b = (case b of JSecret x \<Rightarrow> Some x | _ \<Rightarrow> None)"

definition un_PersistentVolume :: "blob \<Rightarrow> PersistentVolume option" where
  "un_PersistentVolume b = (case b of JPersistentVolume x \<Rightarrow> Some x | _ \<Rightarrow> None)"

definition un_PersistentVolumeClaim :: "blob \<Rightarrow> PersistentVolumeClaim option" where
  "un_PersistentVolumeClaim b = (case b of JPersistentVolumeClaim x \<Rightarrow> Some x | _ \<Rightarrow> None)"

definition un_NetworkPolicy :: "blob \<Rightarrow> NetworkPolicy option" where
  "un_NetworkPolicy b = (case b of JNetworkPolicy x \<Rightarrow> Some x | _ \<Rightarrow> None)"

definition un_Job :: "blob \<Rightarrow> Job option" where
  "un_Job b = (case b of JJob x \<Rightarrow> Some x | _ \<Rightarrow> None)"

definition un_CronJob :: "blob \<Rightarrow> CronJob option" where
  "un_CronJob b = (case b of JCronJob x \<Rightarrow> Some x | _ \<Rightarrow> None)"

definition un_RoleBinding :: "blob \<Rightarrow> RoleBinding option" where
  "un_RoleBinding b = (case b of JRoleBinding x \<Rightarrow> Some x | _ \<Rightarrow> None)"

definition un_ControllerLease :: "blob \<Rightarrow> ControllerLease option" where
  "un_ControllerLease b = (case b of JControllerLease x \<Rightarrow> Some x | _ \<Rightarrow> None)"

definition un_ControlPlaneTransition :: "blob \<Rightarrow> ControlPlaneTransition option" where
  "un_ControlPlaneTransition b = (case b of JControlPlaneTransition x \<Rightarrow> Some x | _ \<Rightarrow> None)"

definition un_ServiceEndpoint :: "blob \<Rightarrow> ServiceEndpoint option" where
  "un_ServiceEndpoint b = (case b of JServiceEndpoint x \<Rightarrow> Some x | _ \<Rightarrow> None)"

definition un_AutoscalerPolicy :: "blob \<Rightarrow> AutoscalerPolicy option" where
  "un_AutoscalerPolicy b = (case b of JAutoscalerPolicy x \<Rightarrow> Some x | _ \<Rightarrow> None)"

definition un_DeploymentMetricSample :: "blob \<Rightarrow> DeploymentMetricSample option" where
  "un_DeploymentMetricSample b = (case b of JDeploymentMetricSample x \<Rightarrow> Some x | _ \<Rightarrow> None)"

definition un_Assignment :: "blob \<Rightarrow> Assignment option" where
  "un_Assignment b = (case b of JAssignment x \<Rightarrow> Some x | _ \<Rightarrow> None)"

definition un_Event :: "blob \<Rightarrow> Event option" where
  "un_Event b = (case b of JEvent x \<Rightarrow> Some x | _ \<Rightarrow> None)"

section \<open>Keys\<close>

definition keyNode :: "string \<Rightarrow> string" where
  "keyNode nodeID = ''node:'' @ nodeID"

definition keyDeployment :: "string \<Rightarrow> string" where
  "keyDeployment deploymentID = ''deployment:'' @ deploymentID"

definition keyWorkload :: "string \<Rightarrow> string" where
  "keyWorkload workloadID = ''workload:'' @ workloadID"

definition keyAssignmentPrefix :: "string \<Rightarrow> string" where
  "keyAssignmentPrefix nodeID = ''assignment:'' @ nodeID @ '':''"

definition keyAssignment :: "string \<Rightarrow> string \<Rightarrow> string" where
  "keyAssignment nodeID assignmentID = keyAssignmentPrefix nodeID @ assignmentID"

definition keyEvent :: "gotime \<Rightarrow> string \<Rightarrow> string" where
  "keyEvent ts eventID = ''event:'' @ RFC3339Nano ts @ '':'' @ eventID"

definition keyService :: "string \<Rightarrow> string" where
  "keyService serviceID = ''service:'' @ serviceID"

definition keyServiceEndpointPrefix :: "string \<Rightarrow> string" where
  "keyServiceEndpointPrefix serviceID = ''service-endpoint:'' @ serviceID @ '':''"

definition keyServiceEndpoint :: "string \<Rightarrow> string \<Rightarrow> string" where
  "keyServiceEndpoint serviceID endpointID = keyServiceEndpointPrefix serviceID @ endpointID"

definition keyAutoscalerPolicy :: "string \<Rightarrow> string" where
  "keyAutoscalerPolicy policyID = ''autoscaler:'' @ policyID"

definition keyDeploymentMetricPrefix :: "string \<Rightarrow> string" where
  "keyDeploymentMetricPrefix deploymentID = ''metric:'' @ deploymentID @ '':''"

definition keyDeploymentMetric :: "string \<Rightarrow> gotime \<Rightarrow> string \<Rightarrow> string" where
  "keyDeploymentMetric deploymentID ts metricID =
     keyDeploymentMetricPrefix deploymentID @ RFC3339Nano ts @ '':'' @ metricID"

definition keyNamespace :: "string \<Rightarrow> string" where
  "keyNamespace name = ''namespace:'' @ name"

definition keyNamespaceQuota :: "string \<Rightarrow> string" where
  "keyNamespaceQuota namespace = ''quota:'' @ namespace"

definition keySecretPrefix :: "string \<Rightarrow> string" where
  "keySecretPrefix namespace = ''secret:'' @ namespace @ '':''"

definition keySecret :: "string \<Rightarrow> string \<Rightarrow> string" where
  "keySecret namespace name = keySecretPrefix namespace @ name"

definition keyPersistentVolume :: "string \<Rightarrow> string" where
  "keyPersistentVolume name = ''pv:'' @ name"

definition keyPersistentVolumeClaimPrefix :: "string \<Rightarrow> string" where
  "keyPersistentVolumeClaimPrefix namespace = ''pvc:'' @ namespace @ '':''"

definition keyPersistentVolumeClaim :: "string \<Rightarrow> string \<Rightarrow> string" where
  "keyPersistentVolumeClaim namespace name = keyPersistentVolumeClaimPrefix namespace @ name"

definition keyNetworkPolicyPrefix :: "string \<Rightarrow> string" where
  "keyNetworkPolicyPrefix namespace = ''netpol:'' @ namespace @ '':''"

definition keyNetworkPolicy :: "string \<Rightarrow> string \<Rightarrow> string" where
  "keyNetworkPolicy namespace name = keyNetworkPolicyPrefix namespace @ name"

definition keyJob :: "string \<Rightarrow> string" where
  "keyJob ident = ''job:'' @ ident"

definition keyCronJobPrefix :: "string \<Rightarrow> string" where
  "keyCronJobPrefix namespace = ''cronjob:'' @ namespace @ '':''"

definition keyCronJob :: "string \<Rightarrow> string \<Rightarrow> string" where
  "keyCronJob namespace name = keyCronJobPrefix namespace @ name"

definition keyRoleBindingPrefix :: "string \<Rightarrow> string" where
  "keyRoleBindingPrefix namespace =
     (if blank namespace then ''rbac:global:'' else ''rbac:'' @ namespace @ '':'')"

definition keyRoleBinding :: "string \<Rightarrow> string \<Rightarrow> string" where
  "keyRoleBinding namespace name = keyRoleBindingPrefix namespace @ name"

definition keyControllerLease :: "string" where
  "keyControllerLease = ''controller:lease''"

definition keyControlPlaneTransition :: "gotime \<Rightarrow> string \<Rightarrow> string" where
  "keyControlPlaneTransition ts ident = ''transition:'' @ RFC3339Nano ts @ '':'' @ ident"

section \<open>Reading and writing one value\<close>

definition json_error :: err where
  "json_error = ErrText ''json: cannot unmarshal value''"

definition st_put :: "('db, 'e) env_scheme \<Rightarrow> string \<Rightarrow> blob \<Rightarrow> (('db, 's) store_state_scheme, unit) go" where
  "st_put E key b = db_update E [(key, Some b)]"

definition st_delete :: "('db, 'e) env_scheme \<Rightarrow> string \<Rightarrow> (('db, 's) store_state_scheme, unit) go" where
  "st_delete E key = db_update E [(key, None)]"

definition st_get :: "(blob \<Rightarrow> 'a option) \<Rightarrow> ('db, 'e) env_scheme \<Rightarrow> string \<Rightarrow> (('db, 's) store_state_scheme, 'a) go" where
  "st_get un E key =
     bnd (attempt (db_get E key)) (\<lambda>r. case r of
       Inl e \<Rightarrow> throw (if err_is e ErrKeyNotFound then ErrNotFound else e)
     | Inr b \<Rightarrow> (case un b of None \<Rightarrow> throw json_error | Some x \<Rightarrow> ret x))"

fun decode_all :: "(blob \<Rightarrow> 'a option) \<Rightarrow> blob list \<Rightarrow> 'a list option" where
  "decode_all un [] = Some []"
| "decode_all un (b # bs) = (case un b of None \<Rightarrow> None
     | Some x \<Rightarrow> (case decode_all un bs of None \<Rightarrow> None | Some xs \<Rightarrow> Some (x # xs)))"

definition listPrefix :: "(blob \<Rightarrow> 'a option) \<Rightarrow> ('db, 'e) env_scheme \<Rightarrow> string \<Rightarrow> (('db, 's) store_state_scheme, 'a list) go" where
  "listPrefix un E p =
     bnd (db_scan E p) (\<lambda>kvs. case decode_all un (map snd kvs) of
       None \<Rightarrow> throw json_error | Some xs \<Rightarrow> ret xs)"

text \<open>\<^verbatim>\<open>items[len(items)-limit:]\<close> when there are more than \<open>limit\<close> items, the default limit being 100.\<close>

definition last_items :: "int \<Rightarrow> 'a list \<Rightarrow> 'a list" where
  "last_items limit items = (let limit = (if limit \<le> 0 then 100 else limit) in
     if int (length items) > limit then drop (length items - nat limit) items else items)"

section \<open>Operations\<close>

definition st_UpsertNode :: "('db, 'e) env_scheme \<Rightarrow> Node \<Rightarrow> (('db, 's) store_state_scheme, unit) go" where
  "st_UpsertNode E node =
     bnd (if IsZero (n_LastSeen node)
          then bnd (time_now E) (\<lambda>now. ret (node\<lparr>n_LastSeen := now\<rparr>)) else ret node) (\<lambda>node.
     st_put E (keyNode (n_ID node)) (JNode node))"

definition st_GetNode :: "('db, 'e) env_scheme \<Rightarrow> string \<Rightarrow> (('db, 's) store_state_scheme, Node) go" where
  "st_GetNode E ident =
     st_get un_Node E (keyNode ident)"

definition st_ListNodes :: "('db, 'e) env_scheme \<Rightarrow> (('db, 's) store_state_scheme, Node list) go" where
  "st_ListNodes E =
     listPrefix un_Node E ''node:''"

definition st_GetDeployment :: "('db, 'e) env_scheme \<Rightarrow> string \<Rightarrow> (('db, 's) store_state_scheme, Deployment) go" where
  "st_GetDeployment E ident =
     st_get un_Deployment E (keyDeployment ident)"

definition st_CreateDeployment :: "('db, 'e) env_scheme \<Rightarrow> Deployment \<Rightarrow> (('db, 's) store_state_scheme, unit) go" where
  "st_CreateDeployment E dep =
     bnd (attempt (st_GetDeployment E (d_ID dep))) (\<lambda>r. case r of
       Inr _ \<Rightarrow> throw (ErrText (''deployment '' @ d_ID dep @ '' already exists''))
     | Inl _ \<Rightarrow> st_put E (keyDeployment (d_ID dep)) (JDeployment (json_Deployment dep)))"

definition st_DeleteDeployment :: "('db, 'e) env_scheme \<Rightarrow> string \<Rightarrow> (('db, 's) store_state_scheme, unit) go" where
  "st_DeleteDeployment E ident =
     bnd (db_scan E ''workload:'') (\<lambda>kvs. case decode_all un_Workload (map snd kvs) of
       None \<Rightarrow> throw json_error
     | Some ws \<Rightarrow> db_update E ((keyDeployment ident, None) #
         map (\<lambda>(kv, w). (fst kv, None)) (filter (\<lambda>(kv, w). w_DeploymentID w = ident) (zip kvs ws))))"

definition st_ListDeployments :: "('db, 'e) env_scheme \<Rightarrow> (('db, 's) store_state_scheme, Deployment list) go" where
  "st_ListDeployments E =
     listPrefix un_Deployment E ''deployment:''"

definition st_UpdateDeployment :: "('db, 'e) env_scheme \<Rightarrow> Deployment \<Rightarrow> (('db, 's) store_state_scheme, unit) go" where
  "st_UpdateDeployment E dep =
     st_put E (keyDeployment (d_ID dep)) (JDeployment (json_Deployment dep))"

definition st_UpsertWorkload :: "('db, 'e) env_scheme \<Rightarrow> Workload \<Rightarrow> (('db, 's) store_state_scheme, unit) go" where
  "st_UpsertWorkload E w =
     bnd (time_now E) (\<lambda>now. st_put E (keyWorkload (w_ID w)) (JWorkload (w\<lparr>w_UpdatedAt := now\<rparr>)))"

definition st_GetWorkload :: "('db, 'e) env_scheme \<Rightarrow> string \<Rightarrow> (('db, 's) store_state_scheme, Workload) go" where
  "st_GetWorkload E ident =
     st_get un_Workload E (keyWorkload ident)"

definition st_ListWorkloads :: "('db, 'e) env_scheme \<Rightarrow> (('db, 's) store_state_scheme, Workload list) go" where
  "st_ListWorkloads E =
     listPrefix un_Workload E ''workload:''"

definition st_ListWorkloadsByDeployment :: "('db, 'e) env_scheme \<Rightarrow> string \<Rightarrow> (('db, 's) store_state_scheme, Workload list) go" where
  "st_ListWorkloadsByDeployment E deploymentID =
     bnd (st_ListWorkloads E) (\<lambda>items. ret (filter (\<lambda>w. w_DeploymentID w = deploymentID) items))"

definition st_DeleteWorkload :: "('db, 'e) env_scheme \<Rightarrow> string \<Rightarrow> (('db, 's) store_state_scheme, unit) go" where
  "st_DeleteWorkload E ident =
     st_delete E (keyWorkload ident)"

definition st_GetService :: "('db, 'e) env_scheme \<Rightarrow> string \<Rightarrow> (('db, 's) store_state_scheme, Service) go" where
  "st_GetService E ident =
     st_get un_Service E (keyService ident)"

definition st_CreateService :: "('db, 'e) env_scheme \<Rightarrow> Service \<Rightarrow> (('db, 's) store_state_scheme, unit) go" where
  "st_CreateService E svc =
     bnd (attempt (st_GetService E (sv_ID svc))) (\<lambda>r. case r of
       Inr _ \<Rightarrow> throw (ErrText (''service '' @ sv_ID svc @ '' already exists''))
     | Inl _ \<Rightarrow> st_put E (keyService (sv_ID svc)) (JService svc))"

definition st_ListServices :: "('db, 'e) env_scheme \<Rightarrow> (('db, 's) store_state_scheme, Service list) go" where
  "st_ListServices E =
     listPrefix un_Service E ''service:''"

definition st_UpdateService :: "('db, 'e) env_scheme \<Rightarrow> Service \<Rightarrow> (('db, 's) store_state_scheme, unit) go" where
  "st_UpdateService E svc =
     st_put E (keyService (sv_ID svc)) (JService svc)"

definition st_DeleteService :: "('db, 'e) env_scheme \<Rightarrow> string \<Rightarrow> (('db, 's) store_state_scheme, unit) go" where
  "st_DeleteService E ident =
     bnd (db_scan E (keyServiceEndpointPrefix ident)) (\<lambda>kvs.
       db_update E ((keyService ident, None) # map (\<lambda>kv. (fst kv, None)) kvs))"

definition st_GetNamespace :: "('db, 'e) env_scheme \<Rightarrow> string \<Rightarrow> (('db, 's) store_state_scheme, Namespace) go" where
  "st_GetNamespace E name =
     st_get un_Namespace E (keyNamespace name)"

definition st_CreateNamespace :: "('db, 'e) env_scheme \<Rightarrow> Namespace \<Rightarrow> (('db, 's) store_state_scheme, unit) go" where
  "st_CreateNamespace E ns =
     bnd (attempt (st_GetNamespace E (ns_Name ns))) (\<lambda>r. case r of
       Inr _ \<Rightarrow> throw (ErrText (''namespace '' @ ns_Name ns @ '' already exists''))
     | Inl _ \<Rightarrow>
         bnd (if IsZero (ns_CreatedAt ns)
              then bnd (time_now E) (\<lambda>now. ret (ns\<lparr>ns_CreatedAt := now\<rparr>)) else ret ns) (\<lambda>ns.
         let ns = (if IsZero (ns_UpdatedAt ns) then ns\<lparr>ns_UpdatedAt := ns_CreatedAt ns\<rparr> else ns) in
         st_put E (keyNamespace (ns_Name ns)) (JNamespace ns)))"

definition st_ListNamespaces :: "('db, 'e) env_scheme \<Rightarrow> (('db, 's) store_state_scheme, Namespace list) go" where
  "st_ListNamespaces E =
     listPrefix un_Namespace E ''namespace:''"

definition st_DeleteNamespace :: "('db, 'e) env_scheme \<Rightarrow> string \<Rightarrow> (('db, 's) store_state_scheme, unit) go" where
  "st_DeleteNamespace E name =
     st_delete E (keyNamespace name)"

definition st_UpsertNamespaceQuota :: "('db, 'e) env_scheme \<Rightarrow> NamespaceQuota \<Rightarrow> (('db, 's) store_state_scheme, unit) go" where
  "st_UpsertNamespaceQuota E quota =
     bnd (if IsZero (q_CreatedAt quota)
          then bnd (time_now E) (\<lambda>now. ret (quota\<lparr>q_CreatedAt := now\<rparr>)) else ret quota) (\<lambda>quota.
     bnd (time_now E) (\<lambda>now. let quota = quota\<lparr>q_UpdatedAt := now\<rparr> in
     st_put E (keyNamespaceQuota (q_Namespace quota)) (JNamespaceQuota quota)))"

definition st_GetNamespaceQuota :: "('db, 'e) env_scheme \<Rightarrow> string \<Rightarrow> (('db, 's) store_state_scheme, NamespaceQuota) go" where
  "st_GetNamespaceQuota E namespace =
     st_get un_NamespaceQuota E (keyNamespaceQuota namespace)"

definition st_ListNamespaceQuotas :: "('db, 'e) env_scheme \<Rightarrow> (('db, 's) store_state_scheme, NamespaceQuota list) go" where
  "st_ListNamespaceQuotas E =
     listPrefix un_NamespaceQuota E ''quota:''"

definition st_DeleteNamespaceQuota :: "('db, 'e) env_scheme \<Rightarrow> string \<Rightarrow> (('db, 's) store_state_scheme, unit) go" where
  "st_DeleteNamespaceQuota E namespace =
     st_delete E (keyNamespaceQuota namespace)"

definition st_UpsertSecret :: "('db, 'e) env_scheme \<Rightarrow> Secret \<Rightarrow> (('db, 's) store_state_scheme, unit) go" where
  "st_UpsertSecret E secret =
     bnd (if IsZero (se_CreatedAt secret)
          then bnd (time_now E) (\<lambda>now. ret (secret\<lparr>se_CreatedAt := now\<rparr>)) else ret secret) (\<lambda>secret.
     bnd (time_now E) (\<lambda>now. let secret = secret\<lparr>se_UpdatedAt := now\<rparr> in
     st_put E (keySecret (se_Namespace secret) (se_Name secret)) (JSecret secret)))"

definition st_GetSecret :: "('db, 'e) env_scheme \<Rightarrow> string \<Rightarrow> string \<Rightarrow> (('db, 's) store_state_scheme, Secret) go" where
  "st_GetSecret E namespace name =
     st_get un_Secret E (keySecret namespace name)"

definition st_ListSecrets :: "('db, 'e) env_scheme \<Rightarrow> string \<Rightarrow> (('db, 's) store_state_scheme, Secret list) go" where
  "st_ListSecrets E namespace =
     listPrefix un_Secret E (keySecretPrefix namespace)"

definition st_DeleteSecret :: "('db, 'e) env_scheme \<Rightarrow> string \<Rightarrow> string \<Rightarrow> (('db, 's) store_state_scheme, unit) go" where
  "st_DeleteSecret E namespace name =
     st_delete E (keySecret namespace name)"

definition st_UpsertPersistentVolume :: "('db, 'e) env_scheme \<Rightarrow> PersistentVolume \<Rightarrow> (('db, 's) store_state_scheme, unit) go" where
  "st_UpsertPersistentVolume E pv =
     bnd (if IsZero (pv_CreatedAt pv)
          then bnd (time_now E) (\<lambda>now. ret (pv\<lparr>pv_CreatedAt := now\<rparr>)) else ret pv) (\<lambda>pv.
     bnd (time_now E) (\<lambda>now. let pv = pv\<lparr>pv_UpdatedAt := now\<rparr>;
       pv = (if pv_Phase pv = PersistentVolumePhaseUnset then pv\<lparr>pv_Phase := PersistentVolumeAvailable\<rparr> else pv) in
     st_put E (keyPersistentVolume (pv_Name pv)) (JPersistentVolume pv)))"

definition st_GetPersistentVolume :: "('db, 'e) env_scheme \<Rightarrow> string \<Rightarrow> (('db, 's) store_state_scheme, PersistentVolume) go" where
  "st_GetPersistentVolume E name =
     st_get un_PersistentVolume E (keyPersistentVolume name)"

definition st_ListPersistentVolumes :: "('db, 'e) env_scheme \<Rightarrow> (('db, 's) store_state_scheme, PersistentVolume list) go" where
  "st_ListPersistentVolumes E =
     listPrefix un_PersistentVolume E ''pv:''"

definition st_DeletePersistentVolume :: "('db, 'e) env_scheme \<Rightarrow> string \<Rightarrow> (('db, 's) store_state_scheme, unit) go" where
  "st_DeletePersistentVolume E name =
     st_delete E (keyPersistentVolume name)"

definition st_UpsertPersistentVolumeClaim :: "('db, 'e) env_scheme \<Rightarrow> PersistentVolumeClaim \<Rightarrow> (('db, 's) store_state_scheme, unit) go" where
  "st_UpsertPersistentVolumeClaim E pvc =
     bnd (if IsZero (pvc_CreatedAt pvc)
          then bnd (time_now E) (\<lambda>now. ret (pvc\<lparr>pvc_CreatedAt := now\<rparr>)) else ret pvc) (\<lambda>pvc.
     bnd (time_now E) (\<lambda>now. let pvc = pvc\<lparr>pvc_UpdatedAt := now\<rparr>;
       pvc = (if pvc_Phase pvc = PersistentVolumeClaimPhaseUnset
              then pvc\<lparr>pvc_Phase := PersistentVolumeClaimPending\<rparr> else pvc) in
     st_put E (keyPersistentVolumeClaim (pvc_Namespace pvc) (pvc_Name pvc)) (JPersistentVolumeClaim pvc)))"

definition st_GetPersistentVolumeClaim :: "('db, 'e) env_scheme \<Rightarrow> string \<Rightarrow> string \<Rightarrow> (('db, 's) store_state_scheme, PersistentVolumeClaim) go" where
  "st_GetPersistentVolumeClaim E namespace name =
     st_get un_PersistentVolumeClaim E (keyPersistentVolumeClaim namespace name)"

definition st_ListPersistentVolumeClaims :: "('db, 'e) env_scheme \<Rightarrow> string \<Rightarrow> (('db, 's) store_state_scheme, PersistentVolumeClaim list) go" where
  "st_ListPersistentVolumeClaims E namespace =
     listPrefix un_PersistentVolumeClaim E (keyPersistentVolumeClaimPrefix namespace)"

definition st_DeletePersistentVolumeClaim :: "('db, 'e) env_scheme \<Rightarrow> string \<Rightarrow> string \<Rightarrow> (('db, 's) store_state_scheme, unit) go" where
  "st_DeletePersistentVolumeClaim E namespace name =
     st_delete E (keyPersistentVolumeClaim namespace name)"

definition st_UpsertNetworkPolicy :: "('db, 'e) env_scheme \<Rightarrow> NetworkPolicy \<Rightarrow> (('db, 's) store_state_scheme, unit) go" where
  "st_UpsertNetworkPolicy E policy =
     bnd (if IsZero (np_CreatedAt policy)
          then bnd (time_now E) (\<lambda>now. ret (policy\<lparr>np_CreatedAt := now\<rparr>)) else ret policy) (\<lambda>policy.
     bnd (time_now E) (\<lambda>now. let policy = policy\<lparr>np_UpdatedAt := now\<rparr> in
     st_put E (keyNetworkPolicy (np_Namespace policy) (np_Name policy)) (JNetworkPolicy policy)))"

definition st_GetNetworkPolicy :: "('db, 'e) env_scheme \<Rightarrow> string \<Rightarrow> string \<Rightarrow> (('db, 's) store_state_scheme, NetworkPolicy) go" where
  "st_GetNetworkPolicy E namespace name =
     st_get un_NetworkPolicy E (keyNetworkPolicy namespace name)"

definition st_ListNetworkPolicies :: "('db, 'e) env_scheme \<Rightarrow> string \<Rightarrow> (('db, 's) store_state_scheme, NetworkPolicy list) go" where
  "st_ListNetworkPolicies E namespace =
     listPrefix un_NetworkPolicy E (keyNetworkPolicyPrefix namespace)"

definition st_DeleteNetworkPolicy :: "('db, 'e) env_scheme \<Rightarrow> string \<Rightarrow> string \<Rightarrow> (('db, 's) store_state_scheme, unit) go" where
  "st_DeleteNetworkPolicy E namespace name =
     st_delete E (keyNetworkPolicy namespace name)"

definition st_UpsertJob :: "('db, 'e) env_scheme \<Rightarrow> Job \<Rightarrow> (('db, 's) store_state_scheme, unit) go" where
  "st_UpsertJob E job =
     bnd (if IsZero (j_CreatedAt job)
          then bnd (time_now E) (\<lambda>now. ret (job\<lparr>j_CreatedAt := now\<rparr>)) else ret job) (\<lambda>job.
     bnd (time_now E) (\<lambda>now. let job = job\<lparr>j_UpdatedAt := now\<rparr>;
       job = (if j_Status job = JobPhaseUnset then job\<lparr>j_Status := JobPending\<rparr> else job) in
     st_put E (keyJob (j_ID job)) (JJob (json_Job job))))"

definition st_GetJob :: "('db, 'e) env_scheme \<Rightarrow> string \<Rightarrow> (('db, 's) store_state_scheme, Job) go" where
  "st_GetJob E ident =
     st_get un_Job E (keyJob ident)"

definition st_ListJobs :: "('db, 'e) env_scheme \<Rightarrow> string \<Rightarrow> (('db, 's) store_state_scheme, Job list) go" where
  "st_ListJobs E namespace =
     bnd (listPrefix un_Job E ''job:'') (\<lambda>jobs.
     if blank namespace then ret jobs
     else ret (filter (\<lambda>j. EqualFold (TrimSpace (js_Namespace (j_Spec j))) (TrimSpace namespace)) jobs))"

definition st_DeleteJob :: "('db, 'e) env_scheme \<Rightarrow> string \<Rightarrow> (('db, 's) store_state_scheme, unit) go" where
  "st_DeleteJob E ident =
     st_delete E (keyJob ident)"

definition st_UpsertCronJob :: "('db, 'e) env_scheme \<Rightarrow> CronJob \<Rightarrow> (('db, 's) store_state_scheme, unit) go" where
  "st_UpsertCronJob E cj =
     bnd (if IsZero (cj_CreatedAt cj)
          then bnd (time_now E) (\<lambda>now. ret (cj\<lparr>cj_CreatedAt := now\<rparr>)) else ret cj) (\<lambda>cj.
     bnd (time_now E) (\<lambda>now. let cj = cj\<lparr>cj_UpdatedAt := now\<rparr>;
       cj = (if cj_ScheduleEveryS cj \<le> 0 then cj\<lparr>cj_ScheduleEveryS := 60\<rparr> else cj) in
     st_put E (keyCronJob (cj_Namespace cj) (cj_Name cj)) (JCronJob (json_CronJob cj))))"

definition st_GetCronJob :: "('db, 'e) env_scheme \<Rightarrow> string \<Rightarrow> string \<Rightarrow> (('db, 's) store_state_scheme, CronJob) go" where
  "st_GetCronJob E namespace name =
     st_get un_CronJob E (keyCronJob namespace name)"

definition st_ListCronJobs :: "('db, 'e) env_scheme \<Rightarrow> string \<Rightarrow> (('db, 's) store_state_scheme, CronJob list) go" where
  "st_ListCronJobs E namespace =
     listPrefix un_CronJob E (keyCronJobPrefix namespace)"

definition st_DeleteCronJob :: "('db, 'e) env_scheme \<Rightarrow> string \<Rightarrow> string \<Rightarrow> (('db, 's) store_state_scheme, unit) go" where
  "st_DeleteCronJob E namespace name =
     st_delete E (keyCronJob namespace name)"

definition st_UpsertRoleBinding :: "('db, 'e) env_scheme \<Rightarrow> RoleBinding \<Rightarrow> (('db, 's) store_state_scheme, unit) go" where
  "st_UpsertRoleBinding E binding =
     bnd (if IsZero (rb_CreatedAt binding)
          then bnd (time_now E) (\<lambda>now. ret (binding\<lparr>rb_CreatedAt := now\<rparr>)) else ret binding) (\<lambda>binding.
     bnd (time_now E) (\<lambda>now. let binding = binding\<lparr>rb_UpdatedAt := now\<rparr> in
     st_put E (keyRoleBinding (rb_Namespace binding) (rb_Name binding)) (JRoleBinding binding)))"

definition st_GetRoleBinding :: "('db, 'e) env_scheme \<Rightarrow> string \<Rightarrow> string \<Rightarrow> (('db, 's) store_state_scheme, RoleBinding) go" where
  "st_GetRoleBinding E namespace name =
     st_get un_RoleBinding E (keyRoleBinding namespace name)"

definition st_ListRoleBindings :: "('db, 'e) env_scheme \<Rightarrow> string \<Rightarrow> (('db, 's) store_state_scheme, RoleBinding list) go" where
  "st_ListRoleBindings E namespace =
     listPrefix un_RoleBinding E (keyRoleBindingPrefix namespace)"

definition st_DeleteRoleBinding :: "('db, 'e) env_scheme \<Rightarrow> string \<Rightarrow> string \<Rightarrow> (('db, 's) store_state_scheme, unit) go" where
  "st_DeleteRoleBinding E namespace name =
     st_delete E (keyRoleBinding namespace name)"

definition st_UpsertControllerLease :: "('db, 'e) env_scheme \<Rightarrow> ControllerLease \<Rightarrow> (('db, 's) store_state_scheme, unit) go" where
  "st_UpsertControllerLease E lease =
     bnd (if IsZero (l_UpdatedAt lease)
          then bnd (time_now E) (\<lambda>now. ret (lease\<lparr>l_UpdatedAt := now\<rparr>)) else ret lease) (\<lambda>lease.
     st_put E keyControllerLease (JControllerLease lease))"

definition st_GetControllerLease :: "('db, 'e) env_scheme \<Rightarrow> (('db, 's) store_state_scheme, ControllerLease) go" where
  "st_GetControllerLease E =
     st_get un_ControllerLease E keyControllerLease"

definition st_DeleteControllerLease :: "('db, 'e) env_scheme \<Rightarrow> (('db, 's) store_state_scheme, unit) go" where
  "st_DeleteControllerLease E =
     st_delete E keyControllerLease"

definition st_AppendControlPlaneTransition :: "('db, 'e) env_scheme \<Rightarrow> ControlPlaneTransition \<Rightarrow> (('db, 's) store_state_scheme, unit) go" where
  "st_AppendControlPlaneTransition E t =
     bnd (if IsZero (t_CreatedAt t)
          then bnd (time_now E) (\<lambda>now. ret (t\<lparr>t_CreatedAt := now\<rparr>)) else ret t) (\<lambda>t.
     let t = (if blank (t_ID t) then t\<lparr>t_ID := ''tr-'' @ show_int (t_CreatedAt t)\<rparr> else t) in
     st_put E (keyControlPlaneTransition (t_CreatedAt t) (t_ID t)) (JControlPlaneTransition t))"

definition st_ListControlPlaneTransitions :: "('db, 'e) env_scheme \<Rightarrow> int \<Rightarrow> (('db, 's) store_state_scheme, ControlPlaneTransition list) go" where
  "st_ListControlPlaneTransitions E limit =
     bnd (listPrefix un_ControlPlaneTransition E ''transition:'') (\<lambda>items. ret (last_items limit items))"

text \<open>The loop over the endpoints fills in a missing identifier and time stamp and collects the
  writes of the transaction.\<close>

fun endpoint_writes :: "('db, 'e) env_scheme \<Rightarrow> ServiceEndpoint list \<Rightarrow>
    (('db, 's) store_state_scheme, (string \<times> blob option) list) go" where
  "endpoint_writes E [] = ret []"
| "endpoint_writes E (ep # eps) =
     (let ep = (if e_ID ep = [] then ep\<lparr>e_ID := e_ServiceID ep @ ''-'' @ e_WorkloadID ep @ ''-'' @ show_int (e_Port ep)\<rparr> else ep) in
      bnd (if IsZero (e_UpdatedAt ep)
           then bnd (time_now E) (\<lambda>now. ret (ep\<lparr>e_UpdatedAt := now\<rparr>)) else ret ep) (\<lambda>ep.
      bnd (endpoint_writes E eps) (\<lambda>ws.
      ret ((keyServiceEndpoint (e_ServiceID ep) (e_ID ep), Some (JServiceEndpoint ep)) # ws))))"

definition st_ReplaceServiceEndpoints :: "('db, 'e) env_scheme \<Rightarrow> string \<Rightarrow> ServiceEndpoint list \<Rightarrow> (('db, 's) store_state_scheme, unit) go" where
  "st_ReplaceServiceEndpoints E serviceID endpoints =
     bnd (db_scan E (keyServiceEndpointPrefix serviceID)) (\<lambda>kvs.
     bnd (endpoint_writes E endpoints) (\<lambda>ws.
     db_update E (map (\<lambda>kv. (fst kv, None)) kvs @ ws)))"

definition st_ListServiceEndpoints :: "('db, 'e) env_scheme \<Rightarrow> string \<Rightarrow> (('db, 's) store_state_scheme, ServiceEndpoint list) go" where
  "st_ListServiceEndpoints E serviceID =
     listPrefix un_ServiceEndpoint E (keyServiceEndpointPrefix serviceID)"

definition st_UpsertAutoscalerPolicy :: "('db, 'e) env_scheme \<Rightarrow> AutoscalerPolicy \<Rightarrow> (('db, 's) store_state_scheme, unit) go" where
  "st_UpsertAutoscalerPolicy E policy =
     bnd (if IsZero (as_UpdatedAt policy)
          then bnd (time_now E) (\<lambda>now. ret (policy\<lparr>as_UpdatedAt := now\<rparr>)) else ret policy) (\<lambda>policy.
     let policy = (if IsZero (as_CreatedAt policy) then policy\<lparr>as_CreatedAt := as_UpdatedAt policy\<rparr> else policy) in
     st_put E (keyAutoscalerPolicy (as_ID policy)) (JAutoscalerPolicy policy))"

definition st_GetAutoscalerPolicy :: "('db, 'e) env_scheme \<Rightarrow> string \<Rightarrow> (('db, 's) store_state_scheme, AutoscalerPolicy) go" where
  "st_GetAutoscalerPolicy E ident =
     st_get un_AutoscalerPolicy E (keyAutoscalerPolicy ident)"

definition st_ListAutoscalerPolicies :: "('db, 'e) env_scheme \<Rightarrow> (('db, 's) store_state_scheme, AutoscalerPolicy list) go" where
  "st_ListAutoscalerPolicies E =
     listPrefix un_AutoscalerPolicy E ''autoscaler:''"

definition st_DeleteAutoscalerPolicy :: "('db, 'e) env_scheme \<Rightarrow> string \<Rightarrow> (('db, 's) store_state_scheme, unit) go" where
  "st_DeleteAutoscalerPolicy E ident =
     st_delete E (keyAutoscalerPolicy ident)"

definition st_AppendDeploymentMetric :: "('db, 'e) env_scheme \<Rightarrow> DeploymentMetricSample \<Rightarrow> (('db, 's) store_state_scheme, unit) go" where
  "st_AppendDeploymentMetric E sample =
     bnd (if m_ID sample = []
          then bnd (time_now E) (\<lambda>now. ret (sample\<lparr>m_ID := ''m-'' @ show_int now\<rparr>)) else ret sample) (\<lambda>sample.
     bnd (if IsZero (m_Timestamp sample)
          then bnd (time_now E) (\<lambda>now. ret (sample\<lparr>m_Timestamp := now\<rparr>)) else ret sample) (\<lambda>sample.
     st_put E (keyDeploymentMetric (m_DeploymentID sample) (m_Timestamp sample) (m_ID sample))
       (JDeploymentMetricSample (json_DeploymentMetricSample sample))))"

definition st_ListDeploymentMetrics :: "('db, 'e) env_scheme \<Rightarrow> string \<Rightarrow> int \<Rightarrow> (('db, 's) store_state_scheme, DeploymentMetricSample list) go" where
  "st_ListDeploymentMetrics E deploymentID limit =
     bnd (listPrefix un_DeploymentMetricSample E (keyDeploymentMetricPrefix deploymentID)) (\<lambda>items.
     ret (last_items limit items))"

definition st_EnqueueAssignment :: "('db, 'e) env_scheme \<Rightarrow> Assignment \<Rightarrow> (('db, 's) store_state_scheme, unit) go" where
  "st_EnqueueAssignment E a =
     bnd (if a_ID a = []
          then bnd (time_now E) (\<lambda>now. ret (a\<lparr>a_ID := a_WorkloadID a @ ''-'' @ show_int now\<rparr>)) else ret a) (\<lambda>a.
     st_put E (keyAssignment (a_NodeID a) (a_ID a)) (JAssignment a))"

definition st_PopAssignments :: "('db, 'e) env_scheme \<Rightarrow> string \<Rightarrow> int \<Rightarrow> (('db, 's) store_state_scheme, Assignment list) go" where
  "st_PopAssignments E nodeID mx =
     (if mx < 0 then throw (ErrPanic ''makeslice: cap out of range'') else
     bnd (db_scan E (keyAssignmentPrefix nodeID)) (\<lambda>kvs.
     let kvs = take (nat mx) kvs in
     case decode_all un_Assignment (map snd kvs) of
       None \<Rightarrow> throw json_error
     | Some items \<Rightarrow> seq (db_update E (map (\<lambda>kv. (fst kv, None)) kvs)) (ret items)))"

definition st_Snapshot :: "('db, 'e) env_scheme \<Rightarrow> (('db, 's) store_state_scheme, ClusterState) go" where
  "st_Snapshot E =
     bnd (st_ListNodes E) (\<lambda>nodes.
     bnd (st_ListDeployments E) (\<lambda>deps.
     bnd (st_ListWorkloads E) (\<lambda>workloads.
     ret \<lparr>cs_Nodes = nodes, cs_Deployments = deps, cs_Workloads = workloads\<rparr>)))"

definition st_AppendEvent :: "('db, 'e) env_scheme \<Rightarrow> Event \<Rightarrow> (('db, 's) store_state_scheme, unit) go" where
  "st_AppendEvent E e =
     bnd (if ev_ID e = []
          then bnd (time_now E) (\<lambda>now. ret (e\<lparr>ev_ID := ''evt-'' @ show_int now\<rparr>)) else ret e) (\<lambda>e.
     bnd (if IsZero (ev_Timestamp e)
          then bnd (time_now E) (\<lambda>now. ret (e\<lparr>ev_Timestamp := now\<rparr>)) else ret e) (\<lambda>e.
     st_put E (keyEvent (ev_Timestamp e) (ev_ID e)) (JEvent e)))"

definition st_ListEvents :: "('db, 'e) env_scheme \<Rightarrow> int \<Rightarrow> (('db, 's) store_state_scheme, Event list) go" where
  "st_ListEvents E limit =
     bnd (listPrefix un_Event E ''event:'') (\<lambda>events. ret (last_items limit events))"

end
