(* ===== verification/Store_Laws.thy ===== *)
theory Store_Laws
  imports State_Store
begin

text \<open>
  The contract of the state store. \<open>contents\<close> is the committed database; \<open>store_wf\<close> says that
  every value sits at the key its own fields determine, which every write of the store keeps;
  \<open>view\<close> reads one kind of resource as a map from identifiers to structs; \<open>evolves\<close> says which
  writes a call performed, whatever it returned. Locale \<open>collection\<close> is the interface of one kind of
  resource (its key prefix, its encoding, the part of the key its fields determine): the laws of
  put, get, list and delete are proved once in it and it is interpreted for every kind.
\<close>

section \<open>Contents, views and frames\<close>

definition blob_key :: "blob \<Rightarrow> string" where
  "blob_key b = (case b of
       JNode x \<Rightarrow> keyNode (n_ID x)
     | JDeployment x \<Rightarrow> keyDeployment (d_ID x)
     | JWorkload x \<Rightarrow> keyWorkload (w_ID x)
     | JService x \<Rightarrow> keyService (sv_ID x)
     | JNamespace x \<Rightarrow> keyNamespace (ns_Name x)
     | JNamespaceQuota x \<Rightarrow> keyNamespaceQuota (q_Namespace x)
     | JSecret x \<Rightarrow> keySecret (se_Namespace x) (se_Name x)
     | JPersistentVolume x \<Rightarrow> keyPersistentVolume (pv_Name x)
     | JPersistentVolumeClaim x \<Rightarrow> keyPersistentVolumeClaim (pvc_Namespace x) (pvc_Name x)
     | JNetworkPolicy x \<Rightarrow> keyNetworkPolicy (np_Namespace x) (np_Name x)
     | JJob x \<Rightarrow> keyJob (j_ID x)
     | JCronJob x \<Rightarrow> keyCronJob (cj_Namespace x) (cj_Name x)
     | JRoleBinding x \<Rightarrow> keyRoleBinding (rb_Namespace x) (rb_Name x)
     | JControllerLease x \<Rightarrow> keyControllerLease
     | JControlPlaneTransition x \<Rightarrow> keyControlPlaneTransition (t_CreatedAt x) (t_ID x)
     | JServiceEndpoint x \<Rightarrow> keyServiceEndpoint (e_ServiceID x) (e_ID x)
     | JAutoscalerPolicy x \<Rightarrow> keyAutoscalerPolicy (as_ID x)
     | JDeploymentMetricSample x \<Rightarrow> keyDeploymentMetric (m_DeploymentID x) (m_Timestamp x) (m_ID x)
     | JAssignment x \<Rightarrow> keyAssignment (a_NodeID x) (a_ID x)
     | JEvent x \<Rightarrow> keyEvent (ev_Timestamp x) (ev_ID x))"

lemma keyRoleBinding_eq:
  "keyRoleBinding ns n = ''rbac:'' @ (if blank ns then ''global'' else ns) @ '':'' @ n"
  by (simp add: keyRoleBinding_def keyRoleBindingPrefix_def)

lemmas key_defs = keyNode_def keyDeployment_def keyWorkload_def keyService_def keyNamespace_def
  keyNamespaceQuota_def keySecret_def keySecretPrefix_def keyPersistentVolume_def
  keyPersistentVolumeClaim_def keyPersistentVolumeClaimPrefix_def keyNetworkPolicy_def
  keyNetworkPolicyPrefix_def keyJob_def keyCronJob_def keyCronJobPrefix_def keyRoleBinding_eq
  keyControllerLease_def keyControlPlaneTransition_def
  keyServiceEndpoint_def keyServiceEndpointPrefix_def keyAutoscalerPolicy_def
  keyDeploymentMetric_def keyDeploymentMetricPrefix_def keyAssignment_def keyAssignmentPrefix_def
  keyEvent_def

definition contents :: "('db, 'e) env_scheme \<Rightarrow> ('db, 's) store_state_scheme \<Rightarrow> string \<Rightarrow> blob option" where
  "contents E s = bd_map (env_badger E) (st_db s)"

definition store_wf :: "(string \<Rightarrow> blob option) \<Rightarrow> bool" where
  "store_wf m \<longleftrightarrow> (\<forall>k b. m k = Some b \<longrightarrow> blob_key b = k)"

definition view :: "(blob \<Rightarrow> 'a option) \<Rightarrow> string \<Rightarrow> (string \<Rightarrow> blob option) \<Rightarrow> string \<Rightarrow> 'a option" where
  "view un p m i = (case m (p @ i) of None \<Rightarrow> None | Some b \<Rightarrow> un b)"

definition same_rest :: "('db, 's) store_state_scheme \<Rightarrow> ('db, 's) store_state_scheme \<Rightarrow> bool" where
  "same_rest s t \<longleftrightarrow> store_state.more t = store_state.more s"

definition env_ok :: "('db, 'e) env_scheme \<Rightarrow> bool" where
  "env_ok E \<longleftrightarrow> badger_ok (env_badger E)"

definition env_total :: "('db, 'e) env_scheme \<Rightarrow> bool" where
  "env_total E \<longleftrightarrow> badger_total (env_badger E)"

section \<open>The database primitives\<close>

lemma env_total_ok: "env_total E \<Longrightarrow> env_ok E"
  by (simp add: env_total_def env_ok_def badger_total_def)

lemma db_get_ok:
  assumes "env_ok E" and "db_get E k s = (r, t)"
  shows "contents E t = contents E s" and "r = Inr v \<Longrightarrow> contents E s k = Some v"
    and "r = Inl e \<Longrightarrow> err_is e ErrKeyNotFound \<Longrightarrow> contents E s k = None"
    and "r = Inl e \<Longrightarrow> \<not> err_is e ErrNotFound" and "same_rest s t"
  using assms
  by (auto simp: env_ok_def badger_ok_def badger_get_ok_def contents_def db_get_def same_rest_def
      split: prod.splits)

lemma db_scan_ok:
  assumes "env_ok E" and "db_scan E p s = (r, t)"
  shows "contents E t = contents E s" and "r = Inr kvs \<Longrightarrow> sorted_wrt (<) (map fst kvs)"
    and "r = Inr kvs \<Longrightarrow> set kvs = {(k, v). prefix p k \<and> contents E s k = Some v}"
    and "same_rest s t"
  using assms
  by (auto simp: env_ok_def badger_ok_def badger_scan_ok_def contents_def db_scan_def same_rest_def
      split: prod.splits)

lemma db_update_ok:
  assumes "env_ok E" and "db_update E ws s = (r, t)"
  shows "r = Inr x \<Longrightarrow> contents E t = apply_writes ws (contents E s)"
    and "r = Inl e \<Longrightarrow> contents E t = contents E s" and "same_rest s t"
  using assms
  by (auto simp: env_ok_def badger_ok_def badger_update_ok_def contents_def db_update_def same_rest_def
      split: prod.splits option.splits)

lemma db_get_total: "env_total E \<Longrightarrow> db_get E k s = (Inl e, t) \<Longrightarrow> e = ErrKeyNotFound"
  unfolding env_total_def badger_total_def db_get_def
  by (auto split: prod.splits) (metis fst_conv sum.inject(1) sum.distinct(1) option.exhaust option.simps(4,5))

lemma db_scan_total: "env_total E \<Longrightarrow> db_scan E p s \<noteq> (Inl e, t)"
  unfolding env_total_def badger_total_def db_scan_def
  by (auto split: prod.splits) (metis fst_conv sum.distinct(1))

lemma db_update_total: "env_total E \<Longrightarrow> db_update E ws s \<noteq> (Inl e, t)"
  unfolding env_total_def badger_total_def db_update_def
  by (auto split: prod.splits option.splits) (metis fst_conv option.distinct(1))

lemma apply_writes_simps [simp]:
  "apply_writes [] m = m"
  "apply_writes ((k, v) # ws) m = apply_writes ws (m(k := v))"
  by (simp_all add: apply_writes_def)

lemma apply_writes_append: "apply_writes (us @ vs) m = apply_writes vs (apply_writes us m)"
  by (simp add: apply_writes_def)

lemma apply_writes_other: "k \<notin> fst ` set ws \<Longrightarrow> apply_writes ws m k = m k"
  by (induction ws arbitrary: m) auto

lemma apply_writes_in: "k \<in> fst ` set ws \<Longrightarrow> (k, apply_writes ws m k) \<in> set ws"
proof (induction ws arbitrary: m rule: rev_induct)
  case (snoc w ws)
  then show ?case by (cases w) (auto simp: apply_writes_append)
qed simp

lemma apply_deletes: "apply_writes (map (\<lambda>k. (k, None)) ks) m = (\<lambda>k. if k \<in> set ks then None else m k)"
  by (induction ks arbitrary: m) auto

section \<open>Writes\<close>

text \<open>
  \<open>writes W m n\<close>: the database \<open>n\<close> is reached from \<open>m\<close> by writes and deletes that all satisfy
  \<open>W\<close> (a key and the value written, \<^const>\<open>None\<close> for a delete). One rule per operation says which
  writes it performs; that keys outside a set are unchanged and that well-formedness is kept are
  consequences for a suitable \<open>W\<close>.
\<close>

inductive writes :: "(string \<Rightarrow> blob option \<Rightarrow> bool) \<Rightarrow> (string \<Rightarrow> blob option) \<Rightarrow> (string \<Rightarrow> blob option) \<Rightarrow> bool"
  for W where
  refl: "writes W m m"
| step: "writes W m n \<Longrightarrow> W k v \<Longrightarrow> writes W m (n(k := v))"

lemma writes_trans: "writes W n l \<Longrightarrow> writes W m n \<Longrightarrow> writes W m l"
  by (induction rule: writes.induct) (auto intro: writes.step)

lemma writes_mono: "writes V m n \<Longrightarrow> (\<And>k v. V k v \<Longrightarrow> W k v) \<Longrightarrow> writes W m n"
  by (induction rule: writes.induct) (auto intro: writes.intros)

lemma writes_apply: "(\<And>k v. (k, v) \<in> set ws \<Longrightarrow> W k v) \<Longrightarrow> writes W m (apply_writes ws m)"
proof (induction ws arbitrary: m)
  case (Cons w ws)
  obtain k v where w: "w = (k, v)" by (cases w)
  have "writes W m (m(k := v))" using Cons.prems w by (auto intro: writes.intros)
  moreover have "writes W (m(k := v)) (apply_writes ws (m(k := v)))" using Cons by simp
  ultimately show ?case using w writes_trans by simp
qed (simp add: writes.refl)

lemma writes_outside: "writes W m n \<Longrightarrow> (\<And>v. \<not> W k v) \<Longrightarrow> n k = m k"
  by (induction rule: writes.induct) auto

definition own_key :: "string \<Rightarrow> blob option \<Rightarrow> bool" where
  "own_key k v \<longleftrightarrow> (\<forall>b. v = Some b \<longrightarrow> blob_key b = k)"

lemma own_key_simps [simp]: "own_key k None" "own_key k (Some b) \<longleftrightarrow> blob_key b = k"
  by (simp_all add: own_key_def)

lemma writes_wf: "writes own_key m n \<Longrightarrow> store_wf m \<Longrightarrow> store_wf n"
proof (induction rule: writes.induct)
  case (step m n k v)
  then show ?case unfolding store_wf_def own_key_def by (metis fun_upd_apply)
qed

definition evolves :: "('db, 'e) env_scheme \<Rightarrow> (string \<Rightarrow> blob option \<Rightarrow> bool) \<Rightarrow>
    ('db, 's) store_state_scheme \<Rightarrow> ('db, 's) store_state_scheme \<Rightarrow> bool" where
  "evolves E W s t \<longleftrightarrow> writes W (contents E s) (contents E t)"

interpretation ev: frame "evolves E W"
  by unfold_locales (auto simp: evolves_def intro: writes.refl writes_trans)

interpretation rest: frame same_rest
  by unfold_locales (auto simp: same_rest_def)

lemma store_wf_put: "store_wf m \<Longrightarrow> store_wf (m(blob_key b \<mapsto> b))"
  by (simp add: store_wf_def)

lemma evolves_same: "contents E t = contents E s \<Longrightarrow> evolves E W s t"
  by (simp add: evolves_def writes.refl)

lemma evolves_from: "contents E t = contents E s \<Longrightarrow> evolves E W t = evolves E W s"
  by (rule ext) (simp add: evolves_def)

lemma evolves_mono: "evolves E V s t \<Longrightarrow> (\<And>k v. V k v \<Longrightarrow> W k v) \<Longrightarrow> evolves E W s t"
  by (auto simp: evolves_def intro: writes_mono)

lemma evolves_outside: "evolves E W s t \<Longrightarrow> (\<And>v. \<not> W k v) \<Longrightarrow> contents E t k = contents E s k"
  by (simp add: evolves_def writes_outside)

lemma evolves_wf:
  "evolves E W s t \<Longrightarrow> (\<And>k v. W k v \<Longrightarrow> own_key k v) \<Longrightarrow> store_wf (contents E s) \<Longrightarrow> store_wf (contents E t)"
  by (auto simp: evolves_def intro: writes_wf writes_mono)

lemma ev_get: "env_ok E \<Longrightarrow> stays (evolves E W) (db_get E k)"
  and ev_scan: "env_ok E \<Longrightarrow> stays (evolves E W) (db_scan E p)"
  by (auto intro!: staysI wpI evolves_same dest: db_get_ok(1) db_scan_ok(1))

lemma ev_time: "stays (evolves E W) (time_now E)"
  and ev_rand: "stays (evolves E W) (rand_intn E n)"
  by (auto simp: stays_def time_now_def rand_intn_def contents_def intro!: evolves_same)

lemma ev_update:
  assumes E: "env_ok E" and W: "\<And>k v. (k, v) \<in> set ws \<Longrightarrow> W k v"
  shows "stays (evolves E W) (db_update E ws)"
proof (intro staysI wpI)
  fix s r t assume "db_update E ws s = (r, t)"
  from db_update_ok [OF E this] show "evolves E W s t"
    by (cases r) (auto simp: evolves_def writes_apply [OF W] writes.refl)
qed

lemma rest_prims:
  "stays same_rest (db_get E k)" "stays same_rest (db_scan E p)" "stays same_rest (db_update E ws)"
  "stays same_rest (time_now E)" "stays same_rest (rand_intn E n)"
  by (auto simp: stays_def db_get_def db_scan_def db_update_def time_now_def rand_intn_def same_rest_def
      split: prod.splits)

lemmas ev_rules = stays_intros ev.rules ev_get ev_scan ev_time ev_rand ev_update
lemmas rest_rules = stays_intros rest.rules rest_prims

section \<open>Collections\<close>

text \<open>
  One kind of resource: values of type \<open>'a\<close> are stored as \<open>enc x\<close> under \<open>pre @ key x\<close>, and no
  other kind uses that prefix.
\<close>

locale collection =
  fixes pre :: string and enc :: "'a \<Rightarrow> blob" and un :: "blob \<Rightarrow> 'a option" and key :: "'a \<Rightarrow> string"
  assumes un_enc: "un (enc x) = Some x"
    and un_inv: "un b = Some x \<Longrightarrow> b = enc x"
    and key: "blob_key (enc x) = pre @ key x"
    and only: "prefix pre (blob_key b) \<Longrightarrow> \<exists>x. b = enc x"
begin

lemma enc_inj: "enc x = enc y \<longleftrightarrow> x = y"
  by (metis un_enc option.inject)

lemma wf_val: "store_wf m \<Longrightarrow> m (pre @ i) = Some b \<Longrightarrow> \<exists>x. b = enc x \<and> key x = i"
  by (metis key only prefixI same_append_eq store_wf_def)

lemma wf_view: "store_wf m \<Longrightarrow> view un pre m i = Some x \<longleftrightarrow> m (pre @ i) = Some (enc x)"
  by (auto simp: view_def un_enc dest: un_inv split: option.splits)

lemma wf_view_None: "store_wf m \<Longrightarrow> view un pre m i = None \<longleftrightarrow> m (pre @ i) = None"
  by (auto simp: view_def un_enc dest!: wf_val split: option.splits)

lemma wf_view_key: "store_wf m \<Longrightarrow> view un pre m i = Some x \<Longrightarrow> key x = i"
  by (metis key same_append_eq store_wf_def wf_view)

lemma view_put: "view un pre (m(pre @ key x \<mapsto> enc x)) = (view un pre m)(key x \<mapsto> x)"
  by (auto simp: view_def fun_eq_iff un_enc)

lemma view_delete: "view un pre (m(pre @ i := None)) = (view un pre m)(i := None)"
  by (auto simp: view_def fun_eq_iff)

lemma view_other: "\<not> prefix pre k \<Longrightarrow> view un pre (m(k := v)) = view un pre m"
  by (auto simp: view_def fun_eq_iff)

lemma decode_all_enc: "decode_all un (map enc xs) = Some xs"
  by (induction xs) (simp_all add: un_enc)

lemma wp_get:
  assumes "env_ok E" and "store_wf (contents E s)"
    and "\<And>x t. contents E t = contents E s \<Longrightarrow> same_rest s t \<Longrightarrow>
           view un pre (contents E s) i = Some x \<Longrightarrow> Q (Inr x) t"
    and "\<And>t. contents E t = contents E s \<Longrightarrow> same_rest s t \<Longrightarrow>
           view un pre (contents E s) i = None \<Longrightarrow> Q (Inl ErrNotFound) t"
    and "\<And>e t. contents E t = contents E s \<Longrightarrow> same_rest s t \<Longrightarrow> \<not> env_total E \<Longrightarrow>
           \<not> err_is e ErrNotFound \<Longrightarrow> Q (Inl e) t"
  shows "wp (st_get un E (pre @ i)) Q s"
proof (unfold st_get_def wp_simps, intro wpI)
  fix r t assume g: "db_get E (pre @ i) s = (r, t)"
  note ok = db_get_ok [OF assms(1) g]
  show "case Inr r of Inl e \<Rightarrow> Q (Inl e) t
        | Inr x \<Rightarrow> wp (case x of Inl e \<Rightarrow> throw (if err_is e ErrKeyNotFound then ErrNotFound else e)
           | Inr b \<Rightarrow> case un b of None \<Rightarrow> throw json_error | Some x \<Rightarrow> ret x) Q t"
  proof (cases r)
    case (Inr b)
    then obtain x where b: "b = enc x" using ok(2) wf_val [OF assms(2)] by blast
    then have "view un pre (contents E s) i = Some x" using ok(2) Inr wf_view [OF assms(2)] by simp
    then show ?thesis using Inr b assms(3) ok(1,5) by (simp add: un_enc wp_simps)
  next
    case (Inl e)
    have "\<not> env_total E" if "\<not> err_is e ErrKeyNotFound"
      using that g Inl db_get_total by fastforce
    then show ?thesis using Inl assms(4,5) ok(1,3,4,5) wf_view_None [OF assms(2)]
      by (auto simp: wp_simps)
  qed
qed

lemma scan_items:
  assumes wf: "store_wf m" and pre: "prefix pre p" and kvs: "set kvs = {(k, v). prefix p k \<and> m k = Some v}"
  shows "\<exists>xs. kvs = map (\<lambda>x. (pre @ key x, enc x)) xs \<and>
    set xs = {x. prefix p (pre @ key x) \<and> m (pre @ key x) = Some (enc x)}"
proof -
  have "\<exists>x. kv = (pre @ key x, enc x)" if "kv \<in> set kvs" for kv
  proof -
    obtain k v where kv: "kv = (k, v)" by (cases kv)
    with that kvs have k: "prefix p k" "m k = Some v" by simp_all
    obtain i where i: "k = pre @ i" using k(1) pre by (metis prefix_order.trans prefixE)
    then show ?thesis using k(2) wf_val [OF wf, of i v] by (simp add: kv) blast
  qed
  then obtain f where f: "\<And>kv. kv \<in> set kvs \<Longrightarrow> kv = (pre @ key (f kv), enc (f kv))" by metis
  define xs where "xs = map f kvs"
  have kvs_xs: "kvs = map (\<lambda>x. (pre @ key x, enc x)) xs"
    unfolding xs_def map_map comp_def by (rule map_idI [symmetric]) (rule f [symmetric])
  have "x \<in> set xs \<longleftrightarrow> (pre @ key x, enc x) \<in> set kvs" for x
    by (auto simp: kvs_xs enc_inj)
  then have "set xs = {x. prefix p (pre @ key x) \<and> m (pre @ key x) = Some (enc x)}"
    using kvs by (simp add: set_eq_iff)
  with kvs_xs show ?thesis by blast
qed

lemma wp_list_prefix:
  assumes "env_ok E" and "store_wf (contents E s)" and "prefix pre p"
    and "\<And>xs t. contents E t = contents E s \<Longrightarrow> same_rest s t \<Longrightarrow>
           sorted_wrt (<) (map (\<lambda>x. pre @ key x) xs) \<Longrightarrow>
           set xs = {x. prefix p (pre @ key x) \<and> contents E s (pre @ key x) = Some (enc x)} \<Longrightarrow> Q (Inr xs) t"
    and "\<And>e t. contents E t = contents E s \<Longrightarrow> same_rest s t \<Longrightarrow> \<not> env_total E \<Longrightarrow> Q (Inl e) t"
  shows "wp (listPrefix un E p) Q s"
proof (unfold listPrefix_def wp_simps, intro wpI)
  fix r t assume g: "db_scan E p s = (r, t)"
  note ok = db_scan_ok [OF assms(1) g]
  show "case r of Inl e \<Rightarrow> Q (Inl e) t
        | Inr kvs \<Rightarrow> wp (case decode_all un (map snd kvs) of None \<Rightarrow> throw json_error | Some xs \<Rightarrow> ret xs) Q t"
  proof (cases r)
    case (Inl e)
    then have "\<not> env_total E" using g db_scan_total by blast
    then show ?thesis using Inl assms(5) ok(1,4) by simp
  next
    case (Inr kvs)
    obtain xs where kvs_xs: "kvs = map (\<lambda>x. (pre @ key x, enc x)) xs"
      and xs: "set xs = {x. prefix p (pre @ key x) \<and> contents E s (pre @ key x) = Some (enc x)}"
      using scan_items [OF assms(2,3) ok(3) [OF Inr]] by blast
    have "map fst kvs = map (\<lambda>x. pre @ key x) xs" "map snd kvs = map enc xs"
      by (simp_all add: kvs_xs)
    then show ?thesis using Inr assms(4) ok(1,4) ok(2) [OF Inr] xs
      by (simp add: decode_all_enc wp_simps del: map_map)
  qed
qed

lemma wp_list:
  assumes "env_ok E" and "store_wf (contents E s)"
    and "\<And>xs t. contents E t = contents E s \<Longrightarrow> same_rest s t \<Longrightarrow> distinct (map key xs) \<Longrightarrow>
           sorted_wrt (<) (map (\<lambda>x. pre @ key x) xs) \<Longrightarrow> set xs = ran (view un pre (contents E s)) \<Longrightarrow> Q (Inr xs) t"
    and "\<And>e t. contents E t = contents E s \<Longrightarrow> same_rest s t \<Longrightarrow> \<not> env_total E \<Longrightarrow> Q (Inl e) t"
  shows "wp (listPrefix un E pre) Q s"
proof (rule wp_list_prefix [OF assms(1,2)], goal_cases pre ok err)
  case (ok xs t)
  have "distinct (map (\<lambda>x. pre @ key x) xs)" using ok(3) by (rule strict_sorted_iff [THEN iffD1, THEN conjunct2])
  then have "distinct (map key xs)" by (auto simp: distinct_map inj_on_def)
  moreover have "set xs = ran (view un pre (contents E s))"
    using ok(4) wf_view [OF assms(2)] wf_view_key [OF assms(2)] by (auto simp: ran_def)
  ultimately show ?case using ok assms(3) by blast
qed (use assms(4) in auto)

text \<open>The same followed by the rest of a call, over a database whose transactions do not fail.\<close>

lemma wp_bnd_get:
  assumes "env_total E" and "store_wf (contents E s)"
    and "\<And>x t. contents E t = contents E s \<Longrightarrow> same_rest s t \<Longrightarrow> contents E s (pre @ i) = Some (enc x) \<Longrightarrow> wp (f x) Q t"
    and "\<And>t. contents E t = contents E s \<Longrightarrow> same_rest s t \<Longrightarrow> contents E s (pre @ i) = None \<Longrightarrow> Q (Inl ErrNotFound) t"
  shows "wp (bnd (st_get un E (pre @ i)) f) Q s"
  unfolding wp_bnd
  by (rule wp_get [OF env_total_ok [OF assms(1)] assms(2)]) (use assms wf_view [OF assms(2)] wf_view_None [OF assms(2)] in auto)

lemma wp_bnd_list:
  assumes "env_total E" and wf: "store_wf (contents E s)"
    and "\<And>xs t. contents E t = contents E s \<Longrightarrow> same_rest s t \<Longrightarrow> distinct (map key xs) \<Longrightarrow>
           (\<And>x. x \<in> set xs \<longleftrightarrow> contents E s (pre @ key x) = Some (enc x)) \<Longrightarrow> wp (f xs) Q t"
  shows "wp (bnd (listPrefix un E pre) f) Q s"
  unfolding wp_bnd
proof (rule wp_list [OF env_total_ok [OF assms(1)] wf], unfold sum.case, goal_cases ok err)
  case (ok xs t)
  show ?case
    by (rule assms(3) [OF ok(1-3)]) (use ok(5) wf_view [OF wf] wf_view_key [OF wf] in \<open>auto simp: ran_def\<close>)
qed (use assms(1) in simp)

end

section \<open>The collections of the store\<close>

interpretation nd: collection "''node:''" JNode un_Node n_ID
  by unfold_locales (auto simp: un_Node_def blob_key_def key_defs split: blob.splits)

interpretation dp: collection "''deployment:''" JDeployment un_Deployment d_ID
  by unfold_locales (auto simp: un_Deployment_def blob_key_def key_defs split: blob.splits)

interpretation wl: collection "''workload:''" JWorkload un_Workload w_ID
  by unfold_locales (auto simp: un_Workload_def blob_key_def key_defs split: blob.splits)

interpretation sv: collection "''service:''" JService un_Service sv_ID
  by unfold_locales (auto simp: un_Service_def blob_key_def key_defs split: blob.splits)

interpretation nsp: collection "''namespace:''" JNamespace un_Namespace ns_Name
  by unfold_locales (auto simp: un_Namespace_def blob_key_def key_defs split: blob.splits)

interpretation qt: collection "''quota:''" JNamespaceQuota un_NamespaceQuota q_Namespace
  by unfold_locales (auto simp: un_NamespaceQuota_def blob_key_def key_defs split: blob.splits)

interpretation sec: collection "''secret:''" JSecret un_Secret "\<lambda>x. se_Namespace x @ '':'' @ se_Name x"
  by unfold_locales (auto simp: un_Secret_def blob_key_def key_defs split: blob.splits)

interpretation pvol: collection "''pv:''" JPersistentVolume un_PersistentVolume pv_Name
  by unfold_locales (auto simp: un_PersistentVolume_def blob_key_def key_defs split: blob.splits)

interpretation claim: collection "''pvc:''" JPersistentVolumeClaim un_PersistentVolumeClaim "\<lambda>x. pvc_Namespace x @ '':'' @ pvc_Name x"
  by unfold_locales (auto simp: un_PersistentVolumeClaim_def blob_key_def key_defs split: blob.splits)

interpretation npol: collection "''netpol:''" JNetworkPolicy un_NetworkPolicy "\<lambda>x. np_Namespace x @ '':'' @ np_Name x"
  by unfold_locales (auto simp: un_NetworkPolicy_def blob_key_def key_defs split: blob.splits)

interpretation jb: collection "''job:''" JJob un_Job j_ID
  by unfold_locales (auto simp: un_Job_def blob_key_def key_defs split: blob.splits)

interpretation cj: collection "''cronjob:''" JCronJob un_CronJob "\<lambda>x. cj_Namespace x @ '':'' @ cj_Name x"
  by unfold_locales (auto simp: un_CronJob_def blob_key_def key_defs split: blob.splits)

interpretation rb: collection "''rbac:''" JRoleBinding un_RoleBinding "\<lambda>x. (if blank (rb_Namespace x) then ''global'' else rb_Namespace x) @ '':'' @ rb_Name x"
  by unfold_locales (auto simp: un_RoleBinding_def blob_key_def key_defs split: blob.splits)

interpretation lea: collection "''controller:''" JControllerLease un_ControllerLease "\<lambda>x. ''lease''"
  by unfold_locales (auto simp: un_ControllerLease_def blob_key_def key_defs split: blob.splits)

interpretation tra: collection "''transition:''" JControlPlaneTransition un_ControlPlaneTransition "\<lambda>x. RFC3339Nano (t_CreatedAt x) @ '':'' @ t_ID x"
  by unfold_locales (auto simp: un_ControlPlaneTransition_def blob_key_def key_defs split: blob.splits)

interpretation epo: collection "''service-endpoint:''" JServiceEndpoint un_ServiceEndpoint "\<lambda>x. e_ServiceID x @ '':'' @ e_ID x"
  by unfold_locales (auto simp: un_ServiceEndpoint_def blob_key_def key_defs split: blob.splits)

interpretation asp: collection "''autoscaler:''" JAutoscalerPolicy un_AutoscalerPolicy as_ID
  by unfold_locales (auto simp: un_AutoscalerPolicy_def blob_key_def key_defs split: blob.splits)

interpretation met: collection "''metric:''" JDeploymentMetricSample un_DeploymentMetricSample "\<lambda>x. m_DeploymentID x @ '':'' @ RFC3339Nano (m_Timestamp x) @ '':'' @ m_ID x"
  by unfold_locales (auto simp: un_DeploymentMetricSample_def blob_key_def key_defs split: blob.splits)

interpretation asg: collection "''assignment:''" JAssignment un_Assignment "\<lambda>x. a_NodeID x @ '':'' @ a_ID x"
  by unfold_locales (auto simp: un_Assignment_def blob_key_def key_defs split: blob.splits)

interpretation evt: collection "''event:''" JEvent un_Event "\<lambda>x. RFC3339Nano (ev_Timestamp x) @ '':'' @ ev_ID x"
  by unfold_locales (auto simp: un_Event_def blob_key_def key_defs split: blob.splits)

section \<open>Puts, deletes and the clock\<close>

lemma wp_update:
  assumes "env_ok E"
    and "\<And>t. contents E t = apply_writes ws (contents E s) \<Longrightarrow> same_rest s t \<Longrightarrow> Q (Inr ()) t"
    and "\<And>e t. contents E t = contents E s \<Longrightarrow> same_rest s t \<Longrightarrow> \<not> env_total E \<Longrightarrow> Q (Inl e) t"
  shows "wp (db_update E ws) Q s"
proof (intro wpI)
  fix r t assume u: "db_update E ws s = (r, t)"
  note ok = db_update_ok [OF assms(1) u]
  show "Q r t"
  proof (cases r)
    case (Inl e)
    with u have "\<not> env_total E" using db_update_total by blast
    with Inl show ?thesis using ok assms(3) by simp
  next
    case (Inr x)
    then show ?thesis using ok assms(2) by simp
  qed
qed

lemma wp_put:
  assumes "env_ok E"
    and "\<And>t. contents E t = (contents E s)(k \<mapsto> b) \<Longrightarrow> same_rest s t \<Longrightarrow> Q (Inr ()) t"
    and "\<And>e t. contents E t = contents E s \<Longrightarrow> same_rest s t \<Longrightarrow> \<not> env_total E \<Longrightarrow> Q (Inl e) t"
  shows "wp (st_put E k b) Q s"
  unfolding st_put_def by (rule wp_update) (use assms in auto)

lemma wp_delete:
  assumes "env_ok E"
    and "\<And>t. contents E t = (contents E s)(k := None) \<Longrightarrow> same_rest s t \<Longrightarrow> Q (Inr ()) t"
    and "\<And>e t. contents E t = contents E s \<Longrightarrow> same_rest s t \<Longrightarrow> \<not> env_total E \<Longrightarrow> Q (Inl e) t"
  shows "wp (st_delete E k) Q s"
  unfolding st_delete_def by (rule wp_update) (use assms in auto)

lemma wp_scan:
  assumes "env_ok E"
    and "\<And>kvs t. contents E t = contents E s \<Longrightarrow> same_rest s t \<Longrightarrow> sorted_wrt (<) (map fst kvs) \<Longrightarrow>
           set kvs = {(k, v). prefix p k \<and> contents E s k = Some v} \<Longrightarrow> Q (Inr kvs) t"
    and "\<And>e t. contents E t = contents E s \<Longrightarrow> same_rest s t \<Longrightarrow> \<not> env_total E \<Longrightarrow> Q (Inl e) t"
  shows "wp (db_scan E p) Q s"
proof (intro wpI)
  fix r t assume u: "db_scan E p s = (r, t)"
  note ok = db_scan_ok [OF assms(1) u]
  show "Q r t"
  proof (cases r)
    case (Inl e)
    with u have "\<not> env_total E" using db_scan_total by blast
    with Inl show ?thesis using ok assms(3) by simp
  next
    case (Inr kvs)
    then show ?thesis using ok(1) ok(2) [OF Inr] ok(3) [OF Inr] ok(4) assms(2) by simp
  qed
qed

lemma wp_time:
  assumes "\<And>t. contents E t = contents E s \<Longrightarrow> same_rest s t \<Longrightarrow> Q (Inr (env_clock E (st_tick s))) t"
  shows "wp (time_now E) Q s"
  using assms by (auto simp: wp_def time_now_def contents_def same_rest_def)

section \<open>What each operation writes\<close>

text \<open>
  A read writes nothing. The rule of a write names the key and every value the operation can put
  there: the argument with the time stamps and defaults the store fills in.
\<close>

lemma ev_put: "env_ok E \<Longrightarrow> W k (Some b) \<Longrightarrow> stays (evolves E W) (st_put E k b)"
  and ev_delete: "env_ok E \<Longrightarrow> W k None \<Longrightarrow> stays (evolves E W) (st_delete E k)"
  by (auto simp: st_put_def st_delete_def intro: ev_update)

lemma ev_st_get: "env_ok E \<Longrightarrow> stays (evolves E W) (st_get un E k)"
  and ev_list: "env_ok E \<Longrightarrow> stays (evolves E W) (listPrefix un E p)"
  unfolding st_get_def listPrefix_def by (intro ev_rules; assumption)+

lemma rest_ops [stays_intros]:
  "stays same_rest (st_put E k b)" "stays same_rest (st_delete E k)"
  "stays same_rest (st_get un E k)" "stays same_rest (listPrefix un E p)"
  unfolding st_put_def st_delete_def st_get_def listPrefix_def by (intro rest_rules)+

lemma ev_reads [stays_intros]:
  assumes E: "env_ok E"
  shows "stays (evolves E W) (st_GetNode E a)"
    and "stays (evolves E W) (st_GetDeployment E a)"
    and "stays (evolves E W) (st_GetWorkload E a)"
    and "stays (evolves E W) (st_GetService E a)"
    and "stays (evolves E W) (st_GetNamespace E a)"
    and "stays (evolves E W) (st_GetNamespaceQuota E a)"
    and "stays (evolves E W) (st_GetSecret E a b)"
    and "stays (evolves E W) (st_GetPersistentVolume E a)"
    and "stays (evolves E W) (st_GetPersistentVolumeClaim E a b)"
    and "stays (evolves E W) (st_GetNetworkPolicy E a b)"
    and "stays (evolves E W) (st_GetJob E a)"
    and "stays (evolves E W) (st_GetCronJob E a b)"
    and "stays (evolves E W) (st_GetRoleBinding E a b)"
    and "stays (evolves E W) (st_GetControllerLease E)"
    and "stays (evolves E W) (st_GetAutoscalerPolicy E a)"
    and "stays (evolves E W) (st_ListNodes E)"
    and "stays (evolves E W) (st_ListDeployments E)"
    and "stays (evolves E W) (st_ListWorkloads E)"
    and "stays (evolves E W) (st_ListWorkloadsByDeployment E a)"
    and "stays (evolves E W) (st_ListServices E)"
    and "stays (evolves E W) (st_ListNamespaces E)"
    and "stays (evolves E W) (st_ListNamespaceQuotas E)"
    and "stays (evolves E W) (st_ListSecrets E a)"
    and "stays (evolves E W) (st_ListPersistentVolumes E)"
    and "stays (evolves E W) (st_ListPersistentVolumeClaims E a)"
    and "stays (evolves E W) (st_ListNetworkPolicies E a)"
    and "stays (evolves E W) (st_ListJobs E a)"
    and "stays (evolves E W) (st_ListCronJobs E a)"
    and "stays (evolves E W) (st_ListRoleBindings E a)"
    and "stays (evolves E W) (st_ListServiceEndpoints E a)"
    and "stays (evolves E W) (st_ListAutoscalerPolicies E)"
    and "stays (evolves E W) (st_ListControlPlaneTransitions E n)"
    and "stays (evolves E W) (st_ListDeploymentMetrics E a n)"
    and "stays (evolves E W) (st_ListEvents E n)"
    and "stays (evolves E W) (st_Snapshot E)"
  unfolding st_GetNode_def st_GetDeployment_def st_GetWorkload_def st_GetService_def st_GetNamespace_def st_GetNamespaceQuota_def st_GetSecret_def st_GetPersistentVolume_def st_GetPersistentVolumeClaim_def st_GetNetworkPolicy_def st_GetJob_def st_GetCronJob_def st_GetRoleBinding_def st_GetControllerLease_def st_GetAutoscalerPolicy_def st_ListNodes_def st_ListDeployments_def st_ListWorkloads_def st_ListWorkloadsByDeployment_def st_ListServices_def st_ListNamespaces_def st_ListNamespaceQuotas_def st_ListSecrets_def st_ListPersistentVolumes_def st_ListPersistentVolumeClaims_def st_ListNetworkPolicies_def st_ListJobs_def st_ListCronJobs_def st_ListRoleBindings_def st_ListServiceEndpoints_def st_ListAutoscalerPolicies_def st_ListControlPlaneTransitions_def st_ListDeploymentMetrics_def st_ListEvents_def
    st_Snapshot_def
  by (intro ev_rules ev_st_get ev_list E)+

lemma rest_reads [stays_intros]:
  "stays same_rest (st_GetNode E a)"
  "stays same_rest (st_GetDeployment E a)"
  "stays same_rest (st_GetWorkload E a)"
  "stays same_rest (st_GetService E a)"
  "stays same_rest (st_GetNamespace E a)"
  "stays same_rest (st_GetNamespaceQuota E a)"
  "stays same_rest (st_GetSecret E a b)"
  "stays same_rest (st_GetPersistentVolume E a)"
  "stays same_rest (st_GetPersistentVolumeClaim E a b)"
  "stays same_rest (st_GetNetworkPolicy E a b)"
  "stays same_rest (st_GetJob E a)"
  "stays same_rest (st_GetCronJob E a b)"
  "stays same_rest (st_GetRoleBinding E a b)"
  "stays same_rest (st_GetControllerLease E)"
  "stays same_rest (st_GetAutoscalerPolicy E a)"
  "stays same_rest (st_ListNodes E)"
  "stays same_rest (st_ListDeployments E)"
  "stays same_rest (st_ListWorkloads E)"
  "stays same_rest (st_ListWorkloadsByDeployment E a)"
  "stays same_rest (st_ListServices E)"
  "stays same_rest (st_ListNamespaces E)"
  "stays same_rest (st_ListNamespaceQuotas E)"
  "stays same_rest (st_ListSecrets E a)"
  "stays same_rest (st_ListPersistentVolumes E)"
  "stays same_rest (st_ListPersistentVolumeClaims E a)"
  "stays same_rest (st_ListNetworkPolicies E a)"
  "stays same_rest (st_ListJobs E a)"
  "stays same_rest (st_ListCronJobs E a)"
  "stays same_rest (st_ListRoleBindings E a)"
  "stays same_rest (st_ListServiceEndpoints E a)"
  "stays same_rest (st_ListAutoscalerPolicies E)"
  "stays same_rest (st_ListControlPlaneTransitions E n)"
  "stays same_rest (st_ListDeploymentMetrics E a n)"
  "stays same_rest (st_ListEvents E n)"
  "stays same_rest (st_Snapshot E)"
  unfolding st_GetNode_def st_GetDeployment_def st_GetWorkload_def st_GetService_def st_GetNamespace_def st_GetNamespaceQuota_def st_GetSecret_def st_GetPersistentVolume_def st_GetPersistentVolumeClaim_def st_GetNetworkPolicy_def st_GetJob_def st_GetCronJob_def st_GetRoleBinding_def st_GetControllerLease_def st_GetAutoscalerPolicy_def st_ListNodes_def st_ListDeployments_def st_ListWorkloads_def st_ListWorkloadsByDeployment_def st_ListServices_def st_ListNamespaces_def st_ListNamespaceQuotas_def st_ListSecrets_def st_ListPersistentVolumes_def st_ListPersistentVolumeClaims_def st_ListNetworkPolicies_def st_ListJobs_def st_ListCronJobs_def st_ListRoleBindings_def st_ListServiceEndpoints_def st_ListAutoscalerPolicies_def st_ListControlPlaneTransitions_def st_ListDeploymentMetrics_def st_ListEvents_def
    st_Snapshot_def
  by (intro rest_rules rest_ops)+

lemma ev_deletes:
  assumes E: "env_ok E"
  shows "W (keyWorkload i) None \<Longrightarrow> stays (evolves E W) (st_DeleteWorkload E i)"
    and "W (keyNamespace i) None \<Longrightarrow> stays (evolves E W) (st_DeleteNamespace E i)"
    and "W (keyNamespaceQuota i) None \<Longrightarrow> stays (evolves E W) (st_DeleteNamespaceQuota E i)"
    and "W (keySecret i j) None \<Longrightarrow> stays (evolves E W) (st_DeleteSecret E i j)"
    and "W (keyPersistentVolume i) None \<Longrightarrow> stays (evolves E W) (st_DeletePersistentVolume E i)"
    and "W (keyPersistentVolumeClaim i j) None \<Longrightarrow> stays (evolves E W) (st_DeletePersistentVolumeClaim E i j)"
    and "W (keyNetworkPolicy i j) None \<Longrightarrow> stays (evolves E W) (st_DeleteNetworkPolicy E i j)"
    and "W (keyJob i) None \<Longrightarrow> stays (evolves E W) (st_DeleteJob E i)"
    and "W (keyCronJob i j) None \<Longrightarrow> stays (evolves E W) (st_DeleteCronJob E i j)"
    and "W (keyRoleBinding i j) None \<Longrightarrow> stays (evolves E W) (st_DeleteRoleBinding E i j)"
    and "W (keyControllerLease) None \<Longrightarrow> stays (evolves E W) (st_DeleteControllerLease E )"
    and "W (keyAutoscalerPolicy i) None \<Longrightarrow> stays (evolves E W) (st_DeleteAutoscalerPolicy E i)"
  unfolding st_DeleteWorkload_def st_DeleteNamespace_def st_DeleteNamespaceQuota_def st_DeleteSecret_def st_DeletePersistentVolume_def st_DeletePersistentVolumeClaim_def st_DeleteNetworkPolicy_def st_DeleteJob_def st_DeleteCronJob_def st_DeleteRoleBinding_def st_DeleteControllerLease_def st_DeleteAutoscalerPolicy_def
  by (intro ev_delete E; assumption)+

lemma ev_UpsertNode:
  assumes E: "env_ok E" and W: "\<And>t. W (keyNode (n_ID x)) (Some (JNode (x\<lparr>n_LastSeen := t\<rparr>)))"
  shows "stays (evolves E W) (st_UpsertNode E x)"
proof -
  have c: "x\<lparr>n_LastSeen := n_LastSeen x\<rparr> = x" by simp
  show ?thesis
    unfolding st_UpsertNode_def Let_def go_laws using W [where t = "n_LastSeen x", unfolded c] W
    by (auto intro!: stays_intros ev.rules ev_put ev_time E)
qed

lemma ev_CreateDeployment:
  assumes E: "env_ok E" and W: "W (keyDeployment (d_ID x)) (Some (JDeployment (json_Deployment x)))"
  shows "stays (evolves E W) (st_CreateDeployment E x)"
  unfolding st_CreateDeployment_def Let_def go_laws using W
  by (auto intro!: stays_intros ev.rules ev_put ev_time E)

lemma ev_UpdateDeployment:
  assumes E: "env_ok E" and W: "W (keyDeployment (d_ID x)) (Some (JDeployment (json_Deployment x)))"
  shows "stays (evolves E W) (st_UpdateDeployment E x)"
  unfolding st_UpdateDeployment_def Let_def go_laws using W
  by (auto intro!: stays_intros ev.rules ev_put ev_time E)

lemma ev_UpsertWorkload:
  assumes E: "env_ok E" and W: "\<And>t. W (keyWorkload (w_ID x)) (Some (JWorkload (x\<lparr>w_UpdatedAt := t\<rparr>)))"
  shows "stays (evolves E W) (st_UpsertWorkload E x)"
  unfolding st_UpsertWorkload_def Let_def go_laws using W
  by (auto intro!: stays_intros ev.rules ev_put ev_time E)

lemma ev_CreateService:
  assumes E: "env_ok E" and W: "W (keyService (sv_ID x)) (Some (JService x))"
  shows "stays (evolves E W) (st_CreateService E x)"
  unfolding st_CreateService_def Let_def go_laws using W
  by (auto intro!: stays_intros ev.rules ev_put ev_time E)

lemma ev_UpdateService:
  assumes E: "env_ok E" and W: "W (keyService (sv_ID x)) (Some (JService x))"
  shows "stays (evolves E W) (st_UpdateService E x)"
  unfolding st_UpdateService_def Let_def go_laws using W
  by (auto intro!: stays_intros ev.rules ev_put ev_time E)

lemma ev_CreateNamespace:
  assumes E: "env_ok E" and W: "\<And>t u. W (keyNamespace (ns_Name x)) (Some (JNamespace (x\<lparr>ns_CreatedAt := t, ns_UpdatedAt := u\<rparr>)))"
  shows "stays (evolves E W) (st_CreateNamespace E x)"
proof -
  have c: "x\<lparr>ns_CreatedAt := ns_CreatedAt x\<rparr> = x" "\<And>y. x\<lparr>ns_CreatedAt := y, ns_UpdatedAt := ns_UpdatedAt x\<rparr> = x\<lparr>ns_CreatedAt := y\<rparr>"
    "x\<lparr>ns_UpdatedAt := ns_UpdatedAt x\<rparr> = x" by simp_all
  show ?thesis
    unfolding st_CreateNamespace_def Let_def go_laws using W [where t = "ns_CreatedAt x" and u = "ns_UpdatedAt x", unfolded c] W [where t = "ns_CreatedAt x", unfolded c]
    W [where u = "ns_UpdatedAt x", unfolded c] W
    by (auto intro!: stays_intros ev.rules ev_put ev_time E)
qed

lemma ev_UpsertNamespaceQuota:
  assumes E: "env_ok E" and W: "\<And>t u. W (keyNamespaceQuota (q_Namespace x)) (Some (JNamespaceQuota (x\<lparr>q_CreatedAt := t, q_UpdatedAt := u\<rparr>)))"
  shows "stays (evolves E W) (st_UpsertNamespaceQuota E x)"
proof -
  have c: "x\<lparr>q_CreatedAt := q_CreatedAt x\<rparr> = x" by simp
  show ?thesis
    unfolding st_UpsertNamespaceQuota_def Let_def go_laws using W [where t = "q_CreatedAt x", unfolded c] W
    by (auto intro!: stays_intros ev.rules ev_put ev_time E)
qed

lemma ev_UpsertSecret:
  assumes E: "env_ok E" and W: "\<And>t u. W (keySecret (se_Namespace x) (se_Name x)) (Some (JSecret (x\<lparr>se_CreatedAt := t, se_UpdatedAt := u\<rparr>)))"
  shows "stays (evolves E W) (st_UpsertSecret E x)"
proof -
  have c: "x\<lparr>se_CreatedAt := se_CreatedAt x\<rparr> = x" by simp
  show ?thesis
    unfolding st_UpsertSecret_def Let_def go_laws using W [where t = "se_CreatedAt x", unfolded c] W
    by (auto intro!: stays_intros ev.rules ev_put ev_time E)
qed

lemma ev_UpsertPersistentVolume:
  assumes E: "env_ok E"
    and W: "\<And>t u. pv_Phase x = PersistentVolumePhaseUnset \<Longrightarrow> W (keyPersistentVolume (pv_Name x)) (Some (JPersistentVolume (x\<lparr>pv_CreatedAt := t, pv_UpdatedAt := u, pv_Phase := PersistentVolumeAvailable\<rparr>)))"
    and V: "\<And>t u. \<not> pv_Phase x = PersistentVolumePhaseUnset \<Longrightarrow> W (keyPersistentVolume (pv_Name x)) (Some (JPersistentVolume (x\<lparr>pv_CreatedAt := t, pv_UpdatedAt := u\<rparr>)))"
  shows "stays (evolves E W) (st_UpsertPersistentVolume E x)"
proof -
  have c: "x\<lparr>pv_CreatedAt := pv_CreatedAt x\<rparr> = x" by simp
  show ?thesis
    unfolding st_UpsertPersistentVolume_def Let_def go_laws using W [where t = "pv_CreatedAt x", unfolded c] V [where t = "pv_CreatedAt x", unfolded c] W V
    by (auto intro!: stays_intros ev.rules ev_put ev_time E)
qed

lemma ev_UpsertPersistentVolumeClaim:
  assumes E: "env_ok E"
    and W: "\<And>t u. pvc_Phase x = PersistentVolumeClaimPhaseUnset \<Longrightarrow> W (keyPersistentVolumeClaim (pvc_Namespace x) (pvc_Name x)) (Some (JPersistentVolumeClaim (x\<lparr>pvc_CreatedAt := t, pvc_UpdatedAt := u, pvc_Phase := PersistentVolumeClaimPending\<rparr>)))"
    and V: "\<And>t u. \<not> pvc_Phase x = PersistentVolumeClaimPhaseUnset \<Longrightarrow> W (keyPersistentVolumeClaim (pvc_Namespace x) (pvc_Name x)) (Some (JPersistentVolumeClaim (x\<lparr>pvc_CreatedAt := t, pvc_UpdatedAt := u\<rparr>)))"
  shows "stays (evolves E W) (st_UpsertPersistentVolumeClaim E x)"
proof -
  have c: "x\<lparr>pvc_CreatedAt := pvc_CreatedAt x\<rparr> = x" by simp
  show ?thesis
    unfolding st_UpsertPersistentVolumeClaim_def Let_def go_laws using W [where t = "pvc_CreatedAt x", unfolded c] V [where t = "pvc_CreatedAt x", unfolded c] W V
    by (auto intro!: stays_intros ev.rules ev_put ev_time E)
qed

lemma ev_UpsertNetworkPolicy:
  assumes E: "env_ok E" and W: "\<And>t u. W (keyNetworkPolicy (np_Namespace x) (np_Name x)) (Some (JNetworkPolicy (x\<lparr>np_CreatedAt := t, np_UpdatedAt := u\<rparr>)))"
  shows "stays (evolves E W) (st_UpsertNetworkPolicy E x)"
proof -
  have c: "x\<lparr>np_CreatedAt := np_CreatedAt x\<rparr> = x" by simp
  show ?thesis
    unfolding st_UpsertNetworkPolicy_def Let_def go_laws using W [where t = "np_CreatedAt x", unfolded c] W
    by (auto intro!: stays_intros ev.rules ev_put ev_time E)
qed

lemma ev_UpsertJob:
  assumes E: "env_ok E"
    and W: "\<And>t u. j_Status x = JobPhaseUnset \<Longrightarrow> W (keyJob (j_ID x)) (Some (JJob (json_Job (x\<lparr>j_CreatedAt := t, j_UpdatedAt := u, j_Status := JobPending\<rparr>))))"
    and V: "\<And>t u. \<not> j_Status x = JobPhaseUnset \<Longrightarrow> W (keyJob (j_ID x)) (Some (JJob (json_Job (x\<lparr>j_CreatedAt := t, j_UpdatedAt := u\<rparr>))))"
  shows "stays (evolves E W) (st_UpsertJob E x)"
proof -
  have c: "x\<lparr>j_CreatedAt := j_CreatedAt x\<rparr> = x" by simp
  show ?thesis
    unfolding st_UpsertJob_def Let_def go_laws using W [where t = "j_CreatedAt x", unfolded c] V [where t = "j_CreatedAt x", unfolded c] W V
    by (auto intro!: stays_intros ev.rules ev_put ev_time E)
qed

lemma ev_UpsertCronJob:
  assumes E: "env_ok E"
    and W: "\<And>t u. cj_ScheduleEveryS x \<le> 0 \<Longrightarrow> W (keyCronJob (cj_Namespace x) (cj_Name x)) (Some (JCronJob (json_CronJob (x\<lparr>cj_CreatedAt := t, cj_UpdatedAt := u, cj_ScheduleEveryS := 60\<rparr>))))"
    and V: "\<And>t u. \<not> cj_ScheduleEveryS x \<le> 0 \<Longrightarrow> W (keyCronJob (cj_Namespace x) (cj_Name x)) (Some (JCronJob (json_CronJob (x\<lparr>cj_CreatedAt := t, cj_UpdatedAt := u\<rparr>))))"
  shows "stays (evolves E W) (st_UpsertCronJob E x)"
proof -
  have c: "x\<lparr>cj_CreatedAt := cj_CreatedAt x\<rparr> = x" by simp
  show ?thesis
    unfolding st_UpsertCronJob_def Let_def go_laws using W [where t = "cj_CreatedAt x", unfolded c] V [where t = "cj_CreatedAt x", unfolded c] W V
    by (auto intro!: stays_intros ev.rules ev_put ev_time E)
qed

lemma ev_UpsertRoleBinding:
  assumes E: "env_ok E" and W: "\<And>t u. W (keyRoleBinding (rb_Namespace x) (rb_Name x)) (Some (JRoleBinding (x\<lparr>rb_CreatedAt := t, rb_UpdatedAt := u\<rparr>)))"
  shows "stays (evolves E W) (st_UpsertRoleBinding E x)"
proof -
  have c: "x\<lparr>rb_CreatedAt := rb_CreatedAt x\<rparr> = x" by simp
  show ?thesis
    unfolding st_UpsertRoleBinding_def Let_def go_laws using W [where t = "rb_CreatedAt x", unfolded c] W
    by (auto intro!: stays_intros ev.rules ev_put ev_time E)
qed

lemma ev_UpsertControllerLease:
  assumes E: "env_ok E" and W: "\<And>t. W (keyControllerLease) (Some (JControllerLease (x\<lparr>l_UpdatedAt := t\<rparr>)))"
  shows "stays (evolves E W) (st_UpsertControllerLease E x)"
proof -
  have c: "x\<lparr>l_UpdatedAt := l_UpdatedAt x\<rparr> = x" by simp
  show ?thesis
    unfolding st_UpsertControllerLease_def Let_def go_laws using W [where t = "l_UpdatedAt x", unfolded c] W
    by (auto intro!: stays_intros ev.rules ev_put ev_time E)
qed

lemma ev_AppendControlPlaneTransition:
  assumes E: "env_ok E" and W: "\<And>t i. W (keyControlPlaneTransition t i) (Some (JControlPlaneTransition (x\<lparr>t_CreatedAt := t, t_ID := i\<rparr>)))"
  shows "stays (evolves E W) (st_AppendControlPlaneTransition E x)"
proof -
  have c: "x\<lparr>t_CreatedAt := t_CreatedAt x\<rparr> = x" "\<And>y. x\<lparr>t_CreatedAt := y, t_ID := t_ID x\<rparr> = x\<lparr>t_CreatedAt := y\<rparr>"
    "x\<lparr>t_ID := t_ID x\<rparr> = x" by simp_all
  show ?thesis
    unfolding st_AppendControlPlaneTransition_def Let_def go_laws using W [where t = "t_CreatedAt x" and i = "t_ID x", unfolded c] W [where t = "t_CreatedAt x", unfolded c]
    W [where i = "t_ID x", unfolded c] W
    by (auto intro!: stays_intros ev.rules ev_put ev_time E)
qed

lemma ev_UpsertAutoscalerPolicy:
  assumes E: "env_ok E" and W: "\<And>t u. W (keyAutoscalerPolicy (as_ID x)) (Some (JAutoscalerPolicy (x\<lparr>as_UpdatedAt := u, as_CreatedAt := t\<rparr>)))"
  shows "stays (evolves E W) (st_UpsertAutoscalerPolicy E x)"
proof -
  have c: "x\<lparr>as_UpdatedAt := as_UpdatedAt x\<rparr> = x" "\<And>y. x\<lparr>as_UpdatedAt := y, as_CreatedAt := as_CreatedAt x\<rparr> = x\<lparr>as_UpdatedAt := y\<rparr>"
    "x\<lparr>as_CreatedAt := as_CreatedAt x\<rparr> = x" by simp_all
  show ?thesis
    unfolding st_UpsertAutoscalerPolicy_def Let_def go_laws using W [where t = "as_CreatedAt x" and u = "as_UpdatedAt x", unfolded c] W [where t = "as_CreatedAt x", unfolded c]
    W [where u = "as_UpdatedAt x", unfolded c] W
    by (auto intro!: stays_intros ev.rules ev_put ev_time E)
qed

lemma ev_AppendDeploymentMetric:
  assumes E: "env_ok E" and W: "\<And>t i. W (keyDeploymentMetric (m_DeploymentID x) t i) (Some (JDeploymentMetricSample (json_DeploymentMetricSample (x\<lparr>m_ID := i, m_Timestamp := t\<rparr>))))"
  shows "stays (evolves E W) (st_AppendDeploymentMetric E x)"
proof -
  have c: "x\<lparr>m_ID := m_ID x\<rparr> = x" "\<And>y. x\<lparr>m_ID := y, m_Timestamp := m_Timestamp x\<rparr> = x\<lparr>m_ID := y\<rparr>"
    "x\<lparr>m_Timestamp := m_Timestamp x\<rparr> = x" by simp_all
  show ?thesis
    unfolding st_AppendDeploymentMetric_def Let_def go_laws using W [where t = "m_Timestamp x" and i = "m_ID x", unfolded c] W [where t = "m_Timestamp x", unfolded c]
    W [where i = "m_ID x", unfolded c] W
    by (auto intro!: stays_intros ev.rules ev_put ev_time E)
qed

lemma ev_EnqueueAssignment:
  assumes E: "env_ok E" and W: "\<And>i. W (keyAssignment (a_NodeID x) i) (Some (JAssignment (x\<lparr>a_ID := i\<rparr>)))"
  shows "stays (evolves E W) (st_EnqueueAssignment E x)"
proof -
  have c: "x\<lparr>a_ID := a_ID x\<rparr> = x" by simp
  show ?thesis
    unfolding st_EnqueueAssignment_def Let_def go_laws using W [where i = "a_ID x", unfolded c] W
    by (auto intro!: stays_intros ev.rules ev_put ev_time E)
qed

lemma ev_AppendEvent:
  assumes E: "env_ok E" and W: "\<And>t i. W (keyEvent t i) (Some (JEvent (x\<lparr>ev_ID := i, ev_Timestamp := t\<rparr>)))"
  shows "stays (evolves E W) (st_AppendEvent E x)"
proof -
  have c: "x\<lparr>ev_ID := ev_ID x\<rparr> = x" "\<And>y. x\<lparr>ev_ID := y, ev_Timestamp := ev_Timestamp x\<rparr> = x\<lparr>ev_ID := y\<rparr>"
    "x\<lparr>ev_Timestamp := ev_Timestamp x\<rparr> = x" by simp_all
  show ?thesis
    unfolding st_AppendEvent_def Let_def go_laws using W [where t = "ev_Timestamp x" and i = "ev_ID x", unfolded c] W [where t = "ev_Timestamp x", unfolded c]
    W [where i = "ev_ID x", unfolded c] W
    by (auto intro!: stays_intros ev.rules ev_put ev_time E)
qed

lemma ev_DeleteDeployment:
  assumes E: "env_ok E" and D: "W (keyDeployment i) None"
    and K: "\<And>k. prefix ''workload:'' k \<Longrightarrow> W k None"
  shows "stays (evolves E W) (st_DeleteDeployment E i)"
proof (intro staysI)
  fix s
  show "wp (st_DeleteDeployment E i) (\<lambda>r t. evolves E W s t) s"
    unfolding st_DeleteDeployment_def wp_simps
  proof (rule wp_scan [OF E], goal_cases ok err)
    case (ok kvs t)
    show ?case
    proof (cases "decode_all un_Workload (map snd kvs)")
      case (Some ws)
      have "stays (evolves E W) (db_update E ((keyDeployment i, None) #
         map (\<lambda>(kv, w). (fst kv, None)) (filter (\<lambda>(kv, w). w_DeploymentID w = i) (zip kvs ws))))"
        by (rule ev_update [OF E]) (use ok(4) D K in \<open>auto dest: set_zip_leftD\<close>)
      from stays_wp [OF this, of t] show ?thesis
        using Some evolves_from [OF ok(1)] by simp
    qed (use ok(1) in \<open>simp add: wp_simps evolves_same\<close>)
  qed (simp add: evolves_same)
qed

text \<open>A scan followed by one transaction over the scanned keys.\<close>

lemma ev_scan_update:
  assumes E: "env_ok E"
    and W: "\<And>kvs. (\<And>k v. (k, v) \<in> set kvs \<Longrightarrow> prefix p k) \<Longrightarrow> stays (evolves E W) (f kvs)"
  shows "stays (evolves E W) (bnd (db_scan E p) f)"
proof (intro staysI)
  fix s
  show "wp (bnd (db_scan E p) f) (\<lambda>r t. evolves E W s t) s"
    unfolding wp_simps
  proof (rule wp_scan [OF E], goal_cases ok err)
    case (ok kvs t)
    have "stays (evolves E W) (f kvs)" by (rule W) (use ok(4) in auto)
    from stays_wp [OF this, of t] show ?case using evolves_from [OF ok(1)] by simp
  qed (simp add: evolves_same)
qed

lemma ev_DeleteService:
  assumes E: "env_ok E" and D: "W (keyService i) None"
    and K: "\<And>k. prefix (keyServiceEndpointPrefix i) k \<Longrightarrow> W k None"
  shows "stays (evolves E W) (st_DeleteService E i)"
  unfolding st_DeleteService_def
  by (rule ev_scan_update [OF E], rule ev_update [OF E]) (auto intro: D K)

lemma ev_PopAssignments:
  assumes E: "env_ok E" and K: "\<And>k. prefix (keyAssignmentPrefix i) k \<Longrightarrow> W k None"
  shows "stays (evolves E W) (st_PopAssignments E i mx)"
  unfolding st_PopAssignments_def Let_def
  by (intro stays_intros ev.throw ev_scan_update [OF E] ev.seq ev.ret ev_update [OF E])
    (auto intro: K dest!: in_set_takeD)

text \<open>An endpoint as it is written: its identifier and time stamp filled in where they were missing.\<close>

definition stamped :: "ServiceEndpoint \<Rightarrow> ServiceEndpoint \<Rightarrow> bool" where
  "stamped ep ep' \<longleftrightarrow> (\<exists>t. ep' = ep\<lparr>e_ID := (if e_ID ep = [] then
       e_ServiceID ep @ ''-'' @ e_WorkloadID ep @ ''-'' @ show_int (e_Port ep) else e_ID ep), e_UpdatedAt := t\<rparr>)"

definition endpoint_write :: "ServiceEndpoint \<Rightarrow> string \<times> blob option \<Rightarrow> bool" where
  "endpoint_write ep w \<longleftrightarrow> (\<exists>ep'. stamped ep ep' \<and>
     w = (keyServiceEndpoint (e_ServiceID ep') (e_ID ep'), Some (JServiceEndpoint ep')))"

lemma endpoint_writes_all:
  "wp (endpoint_writes E eps) (\<lambda>r t. contents E t = contents E s \<and> same_rest s t \<and>
     (\<exists>ws. r = Inr ws \<and> list_all2 endpoint_write eps ws)) s"
proof (induction eps arbitrary: s)
  case (Cons e eps)
  have step: "wp (bnd (endpoint_writes E eps) (\<lambda>ws. ret (w # ws))) (\<lambda>r t. contents E t = contents E s \<and>
      same_rest s t \<and> (\<exists>ws. r = Inr ws \<and> list_all2 endpoint_write (e # eps) ws)) t"
    if "contents E t = contents E s" "same_rest s t" "endpoint_write e w" for w t
    unfolding wp_simps
    by (rule wp_conseq [OF Cons.IH [of t]]) (use that in \<open>auto simp: wp_simps same_rest_def\<close>)
  have st: "endpoint_write e (keyServiceEndpoint (e_ServiceID e') (e_ID e'), Some (JServiceEndpoint e'))"
    if "stamped e e'" for e' using that by (auto simp: endpoint_write_def)
  have [simp]: "same_rest s s" by (simp add: same_rest_def)
  define d where "d = (if e_ID e = [] then e\<lparr>e_ID := e_ServiceID e @ ''-'' @ e_WorkloadID e @ ''-'' @ show_int (e_Port e)\<rparr> else e)"
  have d: "stamped e (d\<lparr>e_UpdatedAt := t\<rparr>)" for t by (auto simp: stamped_def d_def intro!: exI [of _ t])
  from d [of "e_UpdatedAt d"] have d': "stamped e d" by simp
  show ?case
    unfolding endpoint_writes.simps Let_def go_laws d_def [symmetric]
  proof (cases "IsZero (e_UpdatedAt d)", simp_all only: if_True if_False)
    case True
    show "wp (bnd (time_now E) (\<lambda>now. bnd (endpoint_writes E eps) (\<lambda>ws. ret ((keyServiceEndpoint (e_ServiceID (d\<lparr>e_UpdatedAt := now\<rparr>)) (e_ID (d\<lparr>e_UpdatedAt := now\<rparr>)), Some (JServiceEndpoint (d\<lparr>e_UpdatedAt := now\<rparr>))) # ws))))
      (\<lambda>r t. contents E t = contents E s \<and> same_rest s t \<and> (\<exists>ws. r = Inr ws \<and> list_all2 endpoint_write (e # eps) ws)) s"
      by (subst wp_bnd, rule wp_time, subst sum.case, rule step, assumption, assumption, rule st, rule d)
  next
    case False
    show "wp (bnd (endpoint_writes E eps) (\<lambda>ws. ret ((keyServiceEndpoint (e_ServiceID d) (e_ID d), Some (JServiceEndpoint d)) # ws)))
      (\<lambda>r t. contents E t = contents E s \<and> same_rest s t \<and> (\<exists>ws. r = Inr ws \<and> list_all2 endpoint_write (e # eps) ws)) s"
      by (rule step) (auto intro!: st d')
  qed
qed (simp add: wp_simps same_rest_def)

text \<open>Replacing the endpoints of a service: below its prefix exactly the given endpoints remain.\<close>

lemma wp_ReplaceServiceEndpoints:
  assumes E: "env_total E" and own: "\<And>ep. ep \<in> set eps \<Longrightarrow> e_ServiceID ep = i \<and> e_ID ep \<noteq> []"
    and Q: "\<And>t. same_rest s t \<Longrightarrow> (\<And>k. \<not> prefix (keyServiceEndpointPrefix i) k \<Longrightarrow> contents E t k = contents E s k) \<Longrightarrow>
      (\<And>k. prefix (keyServiceEndpointPrefix i) k \<Longrightarrow> contents E t k \<noteq> None \<longleftrightarrow>
        (\<exists>ep \<in> set eps. k = keyServiceEndpoint i (e_ID ep))) \<Longrightarrow>
      (\<And>k b. prefix (keyServiceEndpointPrefix i) k \<Longrightarrow> contents E t k = Some b \<Longrightarrow>
        (\<exists>ep \<in> set eps. \<exists>u. k = keyServiceEndpoint i (e_ID ep) \<and> b = JServiceEndpoint (ep\<lparr>e_UpdatedAt := u\<rparr>))) \<Longrightarrow> Q (Inr ()) t"
  shows "wp (st_ReplaceServiceEndpoints E i eps) Q s"
  unfolding st_ReplaceServiceEndpoints_def wp_bnd
proof (rule wp_scan [OF env_total_ok [OF E]], unfold sum.case, goal_cases ok err)
  case (ok kvs t)
  show ?case
  proof (rule wp_conseq [OF endpoint_writes_all], elim conjE exE, simp only: sum.case, rule wp_update [OF env_total_ok [OF E]], goal_cases)
    case (1 _ t' ws u)
    have w: "\<exists>ep \<in> set eps. \<exists>u. w = (keyServiceEndpoint i (e_ID ep), Some (JServiceEndpoint (ep\<lparr>e_UpdatedAt := u\<rparr>)))" if "w \<in> set ws" for w
    proof -
      from that obtain n where n: "n < length ws" "w = ws ! n" by (auto simp: in_set_conv_nth)
      with 1(4) have "eps ! n \<in> set eps" "endpoint_write (eps ! n) w" by (auto simp: list_all2_conv_all_nth)
      then show ?thesis using own [of "eps ! n"]
        by (auto simp: endpoint_write_def stamped_def intro!: bexI [of _ "eps ! n"])
    qed
    have w': "keyServiceEndpoint i (e_ID ep) \<in> fst ` set ws" if "ep \<in> set eps" for ep
    proof -
      from that obtain n where n: "n < length eps" "ep = eps ! n" by (auto simp: in_set_conv_nth)
      with 1(4) have "ws ! n \<in> set ws" "endpoint_write ep (ws ! n)" by (auto simp: list_all2_conv_all_nth)
      then show ?thesis using own [OF that] by (force simp: endpoint_write_def stamped_def)
    qed
    let ?p = "keyServiceEndpointPrefix i"
    have m: "contents E u = apply_writes ws (\<lambda>k. if prefix ?p k then None else contents E s k)"
    proof -
      have "apply_writes (map (\<lambda>kv. (fst kv, None)) kvs) (contents E s) = (\<lambda>k. if k \<in> fst ` set kvs then None else contents E s k)"
        using apply_deletes [of "map fst kvs" "contents E s"] by (simp add: comp_def)
      moreover have "k \<in> fst ` set kvs \<longleftrightarrow> prefix ?p k \<and> contents E s k \<noteq> None" for k
        unfolding ok(4) by force
      ultimately have "apply_writes (map (\<lambda>kv. (fst kv, None)) kvs) (contents E s) = (\<lambda>k. if prefix ?p k then None else contents E s k)"
        by (auto simp: fun_eq_iff)
      moreover have "contents E t' = contents E s" using 1(1) ok(1) by simp
      ultimately show ?thesis using 1(5) by (simp add: apply_writes_append)
    qed
    have keys: "prefix ?p k" if "k \<in> fst ` set ws" for k using w that by (fastforce simp: keyServiceEndpoint_def)
    show ?case
    proof (rule Q)
      show "same_rest s u" using ok(2) 1(2,6) by (simp add: same_rest_def)
      fix k
      show "contents E u k = contents E s k" if "\<not> prefix ?p k"
        using that keys [of k] by (cases "k \<in> fst ` set ws") (simp_all add: m apply_writes_other)
      assume k: "prefix ?p k"
      show "contents E u k \<noteq> None \<longleftrightarrow> (\<exists>ep \<in> set eps. k = keyServiceEndpoint i (e_ID ep))"
      proof (cases "k \<in> fst ` set ws")
        case True
        from w [OF apply_writes_in [OF True]] show ?thesis by (auto simp: m)
      next
        case False
        then show ?thesis using w' k by (auto simp: m apply_writes_other)
      qed
      fix b assume b: "contents E u k = Some b"
      then have "k \<in> fst ` set ws" using k by (cases "k \<in> fst ` set ws") (simp_all add: m apply_writes_other)
      from w [OF apply_writes_in [OF this, of "\<lambda>k. if prefix ?p k then None else contents E s k"]] b
      show "\<exists>ep \<in> set eps. \<exists>u. k = keyServiceEndpoint i (e_ID ep) \<and> b = JServiceEndpoint (ep\<lparr>e_UpdatedAt := u\<rparr>)" by (auto simp: m)
    qed
  qed (use E in simp)
qed (use E in simp)

lemma ev_ReplaceServiceEndpoints:
  assumes E: "env_ok E" and D: "\<And>k. prefix (keyServiceEndpointPrefix i) k \<Longrightarrow> W k None"
    and P: "\<And>ep ep'. ep \<in> set eps \<Longrightarrow> stamped ep ep' \<Longrightarrow>
      W (keyServiceEndpoint (e_ServiceID ep') (e_ID ep')) (Some (JServiceEndpoint ep'))"
  shows "stays (evolves E W) (st_ReplaceServiceEndpoints E i eps)"
  unfolding st_ReplaceServiceEndpoints_def
proof (rule ev_scan_update [OF E], intro staysI, unfold wp_simps)
  fix kvs :: "(string \<times> blob) list" and s :: "('a, 'c) store_state_scheme"
  assume kvs: "\<And>k v. (k, v) \<in> set kvs \<Longrightarrow> prefix (keyServiceEndpointPrefix i) k"
  show "wp (endpoint_writes E eps) (\<lambda>r s'. case r of Inl e \<Rightarrow> evolves E W s s'
     | Inr ws \<Rightarrow> wp (db_update E (map (\<lambda>kv. (fst kv, None)) kvs @ ws)) (\<lambda>r. evolves E W s) s') s"
  proof (rule wp_conseq [OF endpoint_writes_all], elim conjE exE)
    fix r ws and t :: "('a, 'c) store_state_scheme"
    assume c: "contents E t = contents E s" and r: "r = Inr ws" and ws: "list_all2 endpoint_write eps ws"
    have "w \<in> set ws \<Longrightarrow> \<exists>ep\<in>set eps. endpoint_write ep w" for w
      using ws by (auto simp: list_all2_conv_all_nth in_set_conv_nth intro!: bexI nth_mem)
    then have "stays (evolves E W) (db_update E (map (\<lambda>kv. (fst kv, None)) kvs @ ws))"
      by (intro ev_update [OF E]) (auto simp: endpoint_write_def intro: P dest!: kvs D)
    from stays_wp [OF this, of t] show "case r of Inl e \<Rightarrow> evolves E W s t
       | Inr ws \<Rightarrow> wp (db_update E (map (\<lambda>kv. (fst kv, None)) kvs @ ws)) (\<lambda>r. evolves E W s) t"
      using r evolves_from [OF c] by simp
  qed
qed

lemma rest_endpoint_writes: "stays same_rest (endpoint_writes E eps)"
  by (induction eps) (auto simp: Let_def intro!: rest_rules)

lemma rest_writes [stays_intros]:
  "stays same_rest (st_UpsertNode E x1)"
  "stays same_rest (st_CreateDeployment E x2)"
  "stays same_rest (st_UpdateDeployment E x3)"
  "stays same_rest (st_UpsertWorkload E x4)"
  "stays same_rest (st_CreateService E x5)"
  "stays same_rest (st_UpdateService E x6)"
  "stays same_rest (st_CreateNamespace E x7)"
  "stays same_rest (st_UpsertNamespaceQuota E x8)"
  "stays same_rest (st_UpsertSecret E x9)"
  "stays same_rest (st_UpsertPersistentVolume E x10)"
  "stays same_rest (st_UpsertPersistentVolumeClaim E x11)"
  "stays same_rest (st_UpsertNetworkPolicy E x12)"
  "stays same_rest (st_UpsertJob E x13)"
  "stays same_rest (st_UpsertCronJob E x14)"
  "stays same_rest (st_UpsertRoleBinding E x15)"
  "stays same_rest (st_UpsertControllerLease E x16)"
  "stays same_rest (st_AppendControlPlaneTransition E x17)"
  "stays same_rest (st_UpsertAutoscalerPolicy E x18)"
  "stays same_rest (st_AppendDeploymentMetric E x19)"
  "stays same_rest (st_EnqueueAssignment E x20)"
  "stays same_rest (st_AppendEvent E x21)"
  "stays same_rest (st_DeleteWorkload E i)"
  "stays same_rest (st_DeleteNamespace E i)"
  "stays same_rest (st_DeleteNamespaceQuota E i)"
  "stays same_rest (st_DeleteSecret E i j)"
  "stays same_rest (st_DeletePersistentVolume E i)"
  "stays same_rest (st_DeletePersistentVolumeClaim E i j)"
  "stays same_rest (st_DeleteNetworkPolicy E i j)"
  "stays same_rest (st_DeleteJob E i)"
  "stays same_rest (st_DeleteCronJob E i j)"
  "stays same_rest (st_DeleteRoleBinding E i j)"
  "stays same_rest (st_DeleteControllerLease E)"
  "stays same_rest (st_DeleteAutoscalerPolicy E i)"
  "stays same_rest (st_DeleteDeployment E i)"
  "stays same_rest (st_DeleteService E i)"
  "stays same_rest (st_PopAssignments E i mx)"
  "stays same_rest (st_ReplaceServiceEndpoints E i eps)"
  unfolding st_UpsertNode_def st_CreateDeployment_def st_UpdateDeployment_def st_UpsertWorkload_def st_CreateService_def st_UpdateService_def st_CreateNamespace_def st_UpsertNamespaceQuota_def st_UpsertSecret_def st_UpsertPersistentVolume_def st_UpsertPersistentVolumeClaim_def st_UpsertNetworkPolicy_def st_UpsertJob_def st_UpsertCronJob_def st_UpsertRoleBinding_def st_UpsertControllerLease_def st_AppendControlPlaneTransition_def st_UpsertAutoscalerPolicy_def st_AppendDeploymentMetric_def st_EnqueueAssignment_def st_AppendEvent_def st_DeleteWorkload_def st_DeleteNamespace_def st_DeleteNamespaceQuota_def st_DeleteSecret_def st_DeletePersistentVolume_def st_DeletePersistentVolumeClaim_def st_DeleteNetworkPolicy_def st_DeleteJob_def st_DeleteCronJob_def st_DeleteRoleBinding_def st_DeleteControllerLease_def st_DeleteAutoscalerPolicy_def st_DeleteDeployment_def st_DeleteService_def st_PopAssignments_def
    st_ReplaceServiceEndpoints_def Let_def
  by (intro rest_rules rest_ops rest_reads rest_endpoint_writes)+

section \<open>Every operation keeps every value at its own key\<close>

text \<open>One step of a client: any write operation of the store, whatever it returns.\<close>

inductive store_step :: "('db, 'e) env_scheme \<Rightarrow> ('db, 's) store_state_scheme \<Rightarrow> ('db, 's) store_state_scheme \<Rightarrow> bool"
  for E where
  UpsertNode: "st_UpsertNode E x s = (r, t) \<Longrightarrow> store_step E s t"
| CreateDeployment: "st_CreateDeployment E x s = (r, t) \<Longrightarrow> store_step E s t"
| UpdateDeployment: "st_UpdateDeployment E x s = (r, t) \<Longrightarrow> store_step E s t"
| UpsertWorkload: "st_UpsertWorkload E x s = (r, t) \<Longrightarrow> store_step E s t"
| CreateService: "st_CreateService E x s = (r, t) \<Longrightarrow> store_step E s t"
| UpdateService: "st_UpdateService E x s = (r, t) \<Longrightarrow> store_step E s t"
| CreateNamespace: "st_CreateNamespace E x s = (r, t) \<Longrightarrow> store_step E s t"
| UpsertNamespaceQuota: "st_UpsertNamespaceQuota E x s = (r, t) \<Longrightarrow> store_step E s t"
| UpsertSecret: "st_UpsertSecret E x s = (r, t) \<Longrightarrow> store_step E s t"
| UpsertPersistentVolume: "st_UpsertPersistentVolume E x s = (r, t) \<Longrightarrow> store_step E s t"
| UpsertPersistentVolumeClaim: "st_UpsertPersistentVolumeClaim E x s = (r, t) \<Longrightarrow> store_step E s t"
| UpsertNetworkPolicy: "st_UpsertNetworkPolicy E x s = (r, t) \<Longrightarrow> store_step E s t"
| UpsertJob: "st_UpsertJob E x s = (r, t) \<Longrightarrow> store_step E s t"
| UpsertCronJob: "st_UpsertCronJob E x s = (r, t) \<Longrightarrow> store_step E s t"
| UpsertRoleBinding: "st_UpsertRoleBinding E x s = (r, t) \<Longrightarrow> store_step E s t"
| UpsertControllerLease: "st_UpsertControllerLease E x s = (r, t) \<Longrightarrow> store_step E s t"
| AppendControlPlaneTransition: "st_AppendControlPlaneTransition E x s = (r, t) \<Longrightarrow> store_step E s t"
| UpsertAutoscalerPolicy: "st_UpsertAutoscalerPolicy E x s = (r, t) \<Longrightarrow> store_step E s t"
| AppendDeploymentMetric: "st_AppendDeploymentMetric E x s = (r, t) \<Longrightarrow> store_step E s t"
| EnqueueAssignment: "st_EnqueueAssignment E x s = (r, t) \<Longrightarrow> store_step E s t"
| AppendEvent: "st_AppendEvent E x s = (r, t) \<Longrightarrow> store_step E s t"
| DeleteWorkload: "st_DeleteWorkload E i s = (r, t) \<Longrightarrow> store_step E s t"
| DeleteNamespace: "st_DeleteNamespace E i s = (r, t) \<Longrightarrow> store_step E s t"
| DeleteNamespaceQuota: "st_DeleteNamespaceQuota E i s = (r, t) \<Longrightarrow> store_step E s t"
| DeleteSecret: "st_DeleteSecret E i j s = (r, t) \<Longrightarrow> store_step E s t"
| DeletePersistentVolume: "st_DeletePersistentVolume E i s = (r, t) \<Longrightarrow> store_step E s t"
| DeletePersistentVolumeClaim: "st_DeletePersistentVolumeClaim E i j s = (r, t) \<Longrightarrow> store_step E s t"
| DeleteNetworkPolicy: "st_DeleteNetworkPolicy E i j s = (r, t) \<Longrightarrow> store_step E s t"
| DeleteJob: "st_DeleteJob E i s = (r, t) \<Longrightarrow> store_step E s t"
| DeleteCronJob: "st_DeleteCronJob E i j s = (r, t) \<Longrightarrow> store_step E s t"
| DeleteRoleBinding: "st_DeleteRoleBinding E i j s = (r, t) \<Longrightarrow> store_step E s t"
| DeleteControllerLease: "st_DeleteControllerLease E s = (r, t) \<Longrightarrow> store_step E s t"
| DeleteAutoscalerPolicy: "st_DeleteAutoscalerPolicy E i s = (r, t) \<Longrightarrow> store_step E s t"
| DeleteDeployment: "st_DeleteDeployment E i s = (r, t) \<Longrightarrow> store_step E s t"
| DeleteService: "st_DeleteService E i s = (r, t) \<Longrightarrow> store_step E s t"
| PopAssignments: "st_PopAssignments E i mx s = (r, t) \<Longrightarrow> store_step E s t"
| ReplaceServiceEndpoints: "st_ReplaceServiceEndpoints E i eps s = (r, t) \<Longrightarrow> store_step E s t"

lemma blob_key_simps [simp]:
  "blob_key (JNode x1) = keyNode (n_ID x1)"
  "blob_key (JDeployment x2) = keyDeployment (d_ID x2)"
  "blob_key (JWorkload x3) = keyWorkload (w_ID x3)"
  "blob_key (JService x4) = keyService (sv_ID x4)"
  "blob_key (JNamespace x5) = keyNamespace (ns_Name x5)"
  "blob_key (JNamespaceQuota x6) = keyNamespaceQuota (q_Namespace x6)"
  "blob_key (JSecret x7) = keySecret (se_Namespace x7) (se_Name x7)"
  "blob_key (JPersistentVolume x8) = keyPersistentVolume (pv_Name x8)"
  "blob_key (JPersistentVolumeClaim x9) = keyPersistentVolumeClaim (pvc_Namespace x9) (pvc_Name x9)"
  "blob_key (JNetworkPolicy x10) = keyNetworkPolicy (np_Namespace x10) (np_Name x10)"
  "blob_key (JJob x11) = keyJob (j_ID x11)"
  "blob_key (JCronJob x12) = keyCronJob (cj_Namespace x12) (cj_Name x12)"
  "blob_key (JRoleBinding x13) = keyRoleBinding (rb_Namespace x13) (rb_Name x13)"
  "blob_key (JControllerLease x14) = keyControllerLease"
  "blob_key (JControlPlaneTransition x15) = keyControlPlaneTransition (t_CreatedAt x15) (t_ID x15)"
  "blob_key (JServiceEndpoint x16) = keyServiceEndpoint (e_ServiceID x16) (e_ID x16)"
  "blob_key (JAutoscalerPolicy x17) = keyAutoscalerPolicy (as_ID x17)"
  "blob_key (JDeploymentMetricSample x18) = keyDeploymentMetric (m_DeploymentID x18) (m_Timestamp x18) (m_ID x18)"
  "blob_key (JAssignment x19) = keyAssignment (a_NodeID x19) (a_ID x19)"
  "blob_key (JEvent x20) = keyEvent (ev_Timestamp x20) (ev_ID x20)"
  by (simp_all add: blob_key_def)

lemmas ev_writes = ev_UpsertNode ev_CreateDeployment ev_UpdateDeployment ev_UpsertWorkload ev_CreateService ev_UpdateService ev_CreateNamespace ev_UpsertNamespaceQuota ev_UpsertSecret ev_UpsertPersistentVolume ev_UpsertPersistentVolumeClaim ev_UpsertNetworkPolicy ev_UpsertJob ev_UpsertCronJob ev_UpsertRoleBinding ev_UpsertControllerLease ev_AppendControlPlaneTransition ev_UpsertAutoscalerPolicy ev_AppendDeploymentMetric ev_EnqueueAssignment ev_AppendEvent
  ev_deletes ev_DeleteDeployment ev_DeleteService ev_PopAssignments ev_ReplaceServiceEndpoints

lemma own_writes:
  assumes "env_ok E"
  shows "stays (evolves E own_key) (st_UpsertNode E x0)"
    and "stays (evolves E own_key) (st_CreateDeployment E x1)"
    and "stays (evolves E own_key) (st_UpdateDeployment E x2)"
    and "stays (evolves E own_key) (st_UpsertWorkload E x3)"
    and "stays (evolves E own_key) (st_CreateService E x4)"
    and "stays (evolves E own_key) (st_UpdateService E x5)"
    and "stays (evolves E own_key) (st_CreateNamespace E x6)"
    and "stays (evolves E own_key) (st_UpsertNamespaceQuota E x7)"
    and "stays (evolves E own_key) (st_UpsertSecret E x8)"
    and "stays (evolves E own_key) (st_UpsertPersistentVolume E x9)"
    and "stays (evolves E own_key) (st_UpsertPersistentVolumeClaim E x10)"
    and "stays (evolves E own_key) (st_UpsertNetworkPolicy E x11)"
    and "stays (evolves E own_key) (st_UpsertJob E x12)"
    and "stays (evolves E own_key) (st_UpsertCronJob E x13)"
    and "stays (evolves E own_key) (st_UpsertRoleBinding E x14)"
    and "stays (evolves E own_key) (st_UpsertControllerLease E x15)"
    and "stays (evolves E own_key) (st_AppendControlPlaneTransition E x16)"
    and "stays (evolves E own_key) (st_UpsertAutoscalerPolicy E x17)"
    and "stays (evolves E own_key) (st_AppendDeploymentMetric E x18)"
    and "stays (evolves E own_key) (st_EnqueueAssignment E x19)"
    and "stays (evolves E own_key) (st_AppendEvent E x20)"
    and "stays (evolves E own_key) (st_DeleteWorkload E i)"
    and "stays (evolves E own_key) (st_DeleteNamespace E i)"
    and "stays (evolves E own_key) (st_DeleteNamespaceQuota E i)"
    and "stays (evolves E own_key) (st_DeleteSecret E i j)"
    and "stays (evolves E own_key) (st_DeletePersistentVolume E i)"
    and "stays (evolves E own_key) (st_DeletePersistentVolumeClaim E i j)"
    and "stays (evolves E own_key) (st_DeleteNetworkPolicy E i j)"
    and "stays (evolves E own_key) (st_DeleteJob E i)"
    and "stays (evolves E own_key) (st_DeleteCronJob E i j)"
    and "stays (evolves E own_key) (st_DeleteRoleBinding E i j)"
    and "stays (evolves E own_key) (st_DeleteControllerLease E)"
    and "stays (evolves E own_key) (st_DeleteAutoscalerPolicy E i)"
    and "stays (evolves E own_key) (st_DeleteDeployment E i)"
    and "stays (evolves E own_key) (st_DeleteService E i)"
    and "stays (evolves E own_key) (st_PopAssignments E i mx)"
    and "stays (evolves E own_key) (st_ReplaceServiceEndpoints E i eps)"
  by (rule ev_writes [OF assms]; auto simp: stamped_def json_Job_def json_CronJob_def json_DeploymentMetricSample_def)+

lemma step_evolves: "store_step E s t \<Longrightarrow> env_ok E \<Longrightarrow> evolves E own_key s t"
  by (erule store_step.cases; hypsubst?; erule staysD [rotated]; rule own_writes; assumption)

section \<open>A database in memory\<close>

text \<open>A concrete database with the documented behaviour, on which the operations can be run.\<close>

type_synonym memdb = "(string \<times> blob) list"

definition mem_write :: "string \<times> blob option \<Rightarrow> memdb \<Rightarrow> memdb" where
  "mem_write w db = (let rest = filter (\<lambda>kv. fst kv \<noteq> fst w) db in
     case snd w of None \<Rightarrow> rest | Some b \<Rightarrow> (fst w, b) # rest)"

definition mem_badger :: "memdb badger" where
  "mem_badger = \<lparr>
     bd_get = (\<lambda>db k. (case map_of db k of None \<Rightarrow> Inl ErrKeyNotFound | Some v \<Rightarrow> Inr v, db)),
     bd_scan = (\<lambda>db p. (Inr (map (\<lambda>k. (k, the (map_of db k)))
        (filter (prefix p) (sort (remdups (map fst db))))), db)),
     bd_update = (\<lambda>db ws. (None, fold mem_write ws db)),
     bd_map = map_of\<rparr>"

definition mem_env :: "(nat \<Rightarrow> gotime) \<Rightarrow> (nat \<Rightarrow> int \<Rightarrow> int) \<Rightarrow> memdb env" where
  "mem_env clock rand = \<lparr>env_badger = mem_badger, env_clock = clock, env_rand = rand\<rparr>"

lemma map_of_mem_write: "map_of (mem_write (k, v) db) = (map_of db)(k := v)"
proof -
  have "map_of (filter (\<lambda>kv. fst kv \<noteq> k) db) = (map_of db)(k := None)"
    by (induction db) (auto simp: fun_eq_iff)
  then show ?thesis by (auto simp: mem_write_def Let_def split: option.splits)
qed

lemma map_of_fold_write: "map_of (fold mem_write ws db) = apply_writes ws (map_of db)"
proof (induction ws arbitrary: db)
  case (Cons w ws)
  then show ?case by (cases w) (simp only: fold_simps apply_writes_simps map_of_mem_write comp_def)
qed simp

lemma mem_badger_total: "badger_total mem_badger"
proof -
  have get: "badger_get_ok mem_badger"
    by (auto simp: badger_get_ok_def mem_badger_def split: option.splits)
  have "sorted_wrt (<) (filter P (sort (remdups xs)))" for P and xs :: "string list"
    by (simp add: strict_sorted_iff sorted_wrt_filter)
  moreover have "set (map (\<lambda>k. (k, the (map_of db k))) (filter (prefix p) (sort (remdups (map fst db))))) =
      {(k, v). prefix p k \<and> map_of db k = Some v}" for p and db :: memdb
  proof -
    have dom: "fst ` set db = dom (map_of db)" by (simp add: dom_map_of_conv_image_fst)
    show ?thesis by (auto simp: dom image_iff)
  qed
  ultimately have scan: "badger_scan_ok mem_badger"
    unfolding badger_scan_ok_def mem_badger_def by (simp add: comp_def)
  have "badger_update_ok mem_badger"
    by (auto simp: badger_update_ok_def mem_badger_def map_of_fold_write)
  with get scan show ?thesis
    by (auto simp: badger_total_def badger_ok_def) (auto simp: mem_badger_def)
qed

lemma mem_env_total: "env_total (mem_env clock rand)"
  by (simp add: env_total_def mem_env_def mem_badger_total)

section \<open>Reads in terms of views\<close>

lemmas wp_GetNode = nd.wp_get [folded keyNode_def, folded st_GetNode_def]
lemmas wp_GetDeployment = dp.wp_get [folded keyDeployment_def, folded st_GetDeployment_def]
lemmas wp_GetWorkload = wl.wp_get [folded keyWorkload_def, folded st_GetWorkload_def]
lemmas wp_GetService = sv.wp_get [folded keyService_def, folded st_GetService_def]
lemmas wp_GetNamespace = nsp.wp_get [folded keyNamespace_def, folded st_GetNamespace_def]
lemmas wp_GetNamespaceQuota = qt.wp_get [folded keyNamespaceQuota_def, folded st_GetNamespaceQuota_def]
lemmas wp_GetPersistentVolume = pvol.wp_get [folded keyPersistentVolume_def, folded st_GetPersistentVolume_def]
lemmas wp_GetJob = jb.wp_get [folded keyJob_def, folded st_GetJob_def]
lemmas wp_GetAutoscalerPolicy = asp.wp_get [folded keyAutoscalerPolicy_def, folded st_GetAutoscalerPolicy_def]
lemmas wp_bnd_ListNodes = nd.wp_bnd_list [folded st_ListNodes_def, folded keyNode_def]
lemmas wp_bnd_ListDeployments = dp.wp_bnd_list [folded st_ListDeployments_def, folded keyDeployment_def]
lemmas wp_bnd_ListWorkloads = wl.wp_bnd_list [folded st_ListWorkloads_def, folded keyWorkload_def]
lemmas wp_bnd_ListServices = sv.wp_bnd_list [folded st_ListServices_def, folded keyService_def]
lemmas wp_bnd_GetNode = nd.wp_bnd_get [folded keyNode_def, folded st_GetNode_def]
lemmas wp_bnd_GetDeployment = dp.wp_bnd_get [folded keyDeployment_def, folded st_GetDeployment_def]
lemmas wp_bnd_GetWorkload = wl.wp_bnd_get [folded keyWorkload_def, folded st_GetWorkload_def]
lemmas wp_bnd_GetService = sv.wp_bnd_get [folded keyService_def, folded st_GetService_def]
lemmas wp_ListNodes = nd.wp_list [folded st_ListNodes_def]
lemmas wp_ListDeployments = dp.wp_list [folded st_ListDeployments_def]
lemmas wp_ListWorkloads = wl.wp_list [folded st_ListWorkloads_def]
lemmas wp_ListServices = sv.wp_list [folded st_ListServices_def]
lemmas wp_ListNamespaces = nsp.wp_list [folded st_ListNamespaces_def]
lemmas wp_ListNamespaceQuotas = qt.wp_list [folded st_ListNamespaceQuotas_def]
lemmas wp_ListPersistentVolumes = pvol.wp_list [folded st_ListPersistentVolumes_def]
lemmas wp_ListAutoscalerPolicies = asp.wp_list [folded st_ListAutoscalerPolicies_def]

lemma wp_GetControllerLease:
  assumes "env_ok E" and "store_wf (contents E s)"
    and "\<And>x t. contents E t = contents E s \<Longrightarrow> same_rest s t \<Longrightarrow>
           contents E s keyControllerLease = Some (JControllerLease x) \<Longrightarrow> Q (Inr x) t"
    and "\<And>t. contents E t = contents E s \<Longrightarrow> same_rest s t \<Longrightarrow>
           contents E s keyControllerLease = None \<Longrightarrow> Q (Inl ErrNotFound) t"
    and "\<And>e t. contents E t = contents E s \<Longrightarrow> same_rest s t \<Longrightarrow> \<not> env_total E \<Longrightarrow>
           \<not> err_is e ErrNotFound \<Longrightarrow> Q (Inl e) t"
  shows "wp (st_GetControllerLease E) Q s"
proof -
  have k: "keyControllerLease = ''controller:'' @ ''lease''" by (simp add: keyControllerLease_def)
  show ?thesis
    unfolding st_GetControllerLease_def k
    by (rule lea.wp_get [OF assms(1,2)])
      (use assms(3,4,5) in \<open>auto simp: lea.wf_view [OF assms(2)] lea.wf_view_None [OF assms(2)] k\<close>)
qed

lemma wp_UpsertWorkload_at:
  assumes "env_ok E"
    and "\<And>t. contents E t = (contents E s)(keyWorkload (w_ID w) \<mapsto> JWorkload (w\<lparr>w_UpdatedAt := env_clock E (st_tick s)\<rparr>)) \<Longrightarrow>
           same_rest s t \<Longrightarrow> Q (Inr ()) t"
    and "\<And>e t. contents E t = contents E s \<Longrightarrow> same_rest s t \<Longrightarrow> \<not> env_total E \<Longrightarrow> Q (Inl e) t"
  shows "wp (st_UpsertWorkload E w) Q s"
  unfolding st_UpsertWorkload_def wp_bnd
  by (rule wp_time, subst sum.case, rule wp_put [OF assms(1)])
    (use assms(2,3) in \<open>auto simp: same_rest_def\<close>)

lemma wp_UpsertWorkload:
  assumes "env_ok E"
    and "\<And>now t. contents E t = (contents E s)(keyWorkload (w_ID w) \<mapsto> JWorkload (w\<lparr>w_UpdatedAt := now\<rparr>)) \<Longrightarrow>
           same_rest s t \<Longrightarrow> Q (Inr ()) t"
    and "\<And>e t. contents E t = contents E s \<Longrightarrow> same_rest s t \<Longrightarrow> \<not> env_total E \<Longrightarrow> Q (Inl e) t"
  shows "wp (st_UpsertWorkload E w) Q s"
  by (rule wp_UpsertWorkload_at [OF assms(1)]) (use assms(2,3) in blast)+

end
