(* ===== verification/Store_Props.thy ===== *)
theory Store_Props
  imports Store_Laws
begin

text \<open>
  What the state store promises to the orchestrator: every value stays at its own key whatever
  calls are made, a write is read back, a duplicate create is refused, popping assignments hands
  out each once and in key order, deleting a deployment takes its workloads with it, and replacing
  the endpoints of a service leaves exactly the new ones.
\<close>

section \<open>Keys and prefixes\<close>

definition colon_free :: "string \<Rightarrow> bool" where
  "colon_free s \<longleftrightarrow> CHR '':'' \<notin> set s"

lemma colon_free_prefix:
  assumes "colon_free a" and "colon_free b"
  shows "prefix (a @ '':'') (b @ '':'' @ c) \<longleftrightarrow> a = b"
proof
  assume "prefix (a @ '':'') (b @ '':'' @ c)"
  then show "a = b" using assms
  proof (induction a arbitrary: b)
    case Nil
    then show ?case by (cases b) (auto simp: colon_free_def)
  next
    case (Cons x a)
    then show ?case by (cases b) (auto simp: colon_free_def)
  qed
qed simp

lemma keyAssignment_prefix:
  "colon_free n \<Longrightarrow> colon_free m \<Longrightarrow> prefix (keyAssignmentPrefix n) (keyAssignment m i) \<longleftrightarrow> n = m"
  using colon_free_prefix [of n m i] by (simp add: keyAssignmentPrefix_def keyAssignment_def)

lemma keyServiceEndpoint_prefix:
  "colon_free n \<Longrightarrow> colon_free m \<Longrightarrow> prefix (keyServiceEndpointPrefix n) (keyServiceEndpoint m i) \<longleftrightarrow> n = m"
  using colon_free_prefix [of n m i] by (simp add: keyServiceEndpointPrefix_def keyServiceEndpoint_def)

abbreviation assignment_key :: "Assignment \<Rightarrow> string" where
  "assignment_key a \<equiv> keyAssignment (a_NodeID a) (a_ID a)"

section \<open>Pending assignments\<close>

lemma wp_PopAssignments:
  assumes E: "env_ok E" and wf: "store_wf (contents E s)" and mx: "0 \<le> mx"
    and ok: "\<And>items t. sorted_wrt (<) (map assignment_key items) \<Longrightarrow>
       set items = {a. prefix (keyAssignmentPrefix n) (assignment_key a) \<and>
                       contents E s (assignment_key a) = Some (JAssignment a)} \<Longrightarrow>
       contents E t = (\<lambda>k. if k \<in> assignment_key ` set (take (nat mx) items) then None else contents E s k) \<Longrightarrow>
       Q (Inr (take (nat mx) items)) t"
    and err: "\<And>e t. contents E t = contents E s \<Longrightarrow> \<not> env_total E \<Longrightarrow> Q (Inl e) t"
  shows "wp (st_PopAssignments E n mx) Q s"
proof -
  have pre: "prefix ''assignment:'' (keyAssignmentPrefix n)" by (simp add: keyAssignmentPrefix_def)
  have key: "''assignment:'' @ a_NodeID a @ '':'' @ a_ID a = assignment_key a" for a
    by (simp add: keyAssignment_def keyAssignmentPrefix_def)
  have neg: "(mx < 0) = False" using mx by simp
  show ?thesis
    unfolding st_PopAssignments_def Let_def neg if_False wp_simps
  proof (rule wp_scan [OF E], goal_cases ok err)
    case (ok kvs t)
    obtain items where kvs: "kvs = map (\<lambda>a. (assignment_key a, JAssignment a)) items"
      and set_items: "set items = {a. prefix (keyAssignmentPrefix n) (assignment_key a) \<and>
        contents E s (assignment_key a) = Some (JAssignment a)}"
      using asg.scan_items [OF wf pre ok(4)] unfolding key by blast
    have sorted: "sorted_wrt (<) (map assignment_key items)" using ok(3) by (simp add: kvs comp_def)
    have take: "take (nat mx) kvs = map (\<lambda>a. (assignment_key a, JAssignment a)) (take (nat mx) items)"
      by (simp add: kvs take_map)
    have dec: "decode_all un_Assignment (map snd (take (nat mx) kvs)) = Some (take (nat mx) items)"
      using asg.decode_all_enc [of "take (nat mx) items"] by (simp add: take comp_def)
    have keys: "map (\<lambda>kv. (fst kv, None)) (take (nat mx) kvs) = map (\<lambda>k. (k, None)) (map assignment_key (take (nat mx) items))"
      by (simp add: take comp_def)
    show ?case
      unfolding dec option.case wp_simps keys sum.case
      by (rule wp_update [OF E])
        (use ok(1) sorted set_items assms(4) err in \<open>auto simp: apply_deletes simp del: map_map\<close>)
  qed (use err in auto)
qed

section \<open>Deployments\<close>

lemma wp_DeleteDeployment:
  assumes E: "env_ok E" and wf: "store_wf (contents E s)"
    and ok: "\<And>t. contents E t = (\<lambda>k. if k = keyDeployment i \<or>
         (\<exists>w. contents E s k = Some (JWorkload w) \<and> w_DeploymentID w = i) then None else contents E s k) \<Longrightarrow> Q (Inr ()) t"
    and err: "\<And>e t. contents E t = contents E s \<Longrightarrow> \<not> env_total E \<Longrightarrow> Q (Inl e) t"
  shows "wp (st_DeleteDeployment E i) Q s"
  unfolding st_DeleteDeployment_def wp_simps
proof (rule wp_scan [OF E], goal_cases ok err)
  case (ok kvs t)
  have key: "''workload:'' @ w_ID w = keyWorkload (w_ID w)" for w by (simp add: keyWorkload_def)
  obtain ws where kvs: "kvs = map (\<lambda>w. (keyWorkload (w_ID w), JWorkload w)) ws"
    and ws: "set ws = {w. prefix ''workload:'' (keyWorkload (w_ID w)) \<and> contents E s (keyWorkload (w_ID w)) = Some (JWorkload w)}"
    using wl.scan_items [OF wf _ ok(4)] unfolding key by blast
  have dec: "decode_all un_Workload (map snd kvs) = Some ws"
    using wl.decode_all_enc [of ws] by (simp add: kvs comp_def)
  have zip: "map (\<lambda>(kv, w). (fst kv, None)) (filter (\<lambda>(kv, w). w_DeploymentID w = i) (zip kvs ws)) =
      map (\<lambda>k. (k, None :: blob option)) (map (\<lambda>w. keyWorkload (w_ID w)) (filter (\<lambda>w. w_DeploymentID w = i) ws))"
    by (simp add: kvs zip_map1 zip_same_conv_map filter_map comp_def)
  have mine: "k \<in> (\<lambda>w. keyWorkload (w_ID w)) ` {w \<in> set ws. w_DeploymentID w = i} \<longleftrightarrow>
      (\<exists>w. contents E s k = Some (JWorkload w) \<and> w_DeploymentID w = i)" for k
  proof -
    have "prefix ''workload:'' (keyWorkload j)" for j by (simp add: keyWorkload_def)
    moreover have "contents E s k = Some (JWorkload w) \<Longrightarrow> k = keyWorkload (w_ID w)" for w
      using wf by (metis blob_key_simps(3) store_wf_def)
    ultimately show ?thesis by (auto simp: ws)
  qed
  show ?case
    unfolding dec option.case zip sum.case
  proof (rule wp_update [OF E], goal_cases fin err)
    case (fin u)
    show ?case
      by (rule assms(3), rule ext) (use fin(1) ok(1) mine in \<open>auto simp: apply_deletes simp del: map_map\<close>)
  qed (use ok(1) err in simp)
qed (use err in auto)

lemma wp_CreateDeployment:
  assumes E: "env_ok E" and wf: "store_wf (contents E s)"
    and ok: "\<And>t. contents E t = (contents E s)(keyDeployment (d_ID d) \<mapsto> JDeployment (json_Deployment d)) \<Longrightarrow>
       same_rest s t \<Longrightarrow> contents E s (keyDeployment (d_ID d)) = None \<or> \<not> env_total E \<Longrightarrow> Q (Inr ()) t"
    and dup: "\<And>t. contents E t = contents E s \<Longrightarrow> same_rest s t \<Longrightarrow> contents E s (keyDeployment (d_ID d)) \<noteq> None \<Longrightarrow>
       Q (Inl (ErrText (''deployment '' @ d_ID d @ '' already exists''))) t"
    and err: "\<And>e t. contents E t = contents E s \<Longrightarrow> same_rest s t \<Longrightarrow> \<not> env_total E \<Longrightarrow> Q (Inl e) t"
  shows "wp (st_CreateDeployment E d) Q s"
  unfolding st_CreateDeployment_def wp_simps
proof (rule wp_GetDeployment [OF E wf], goal_cases found missing err)
  case (found x t)
  then show ?case using dup [of t] dp.wf_view [OF wf, of "d_ID d" x]
    by (simp add: wp_simps keyDeployment_def)
next
  case (missing t)
  then have "contents E s (keyDeployment (d_ID d)) = None"
    using dp.wf_view_None [OF wf, of "d_ID d"] by (simp add: keyDeployment_def)
  then show ?case unfolding sum.case
    by (intro wp_put [OF E]) (use missing ok err in \<open>auto simp: same_rest_def\<close>)
next
  case (err e t)
  then show ?case unfolding sum.case
    by (intro wp_put [OF E]) (use err ok assms(5) in \<open>auto simp: same_rest_def\<close>)
qed

section \<open>A concrete run\<close>

definition demo_env :: "memdb env" where
  "demo_env = mem_env (\<lambda>n. 1700000000000000000 + int n) (\<lambda>_ _. 0)"

definition demo_state :: "memdb \<Rightarrow> memdb store_state" where
  "demo_state db = \<lparr>st_db = db, st_tick = 0\<rparr>"

lemma demo_total: "env_total demo_env"
  by (simp add: demo_env_def mem_env_total)

lemma demo_ok: "env_ok demo_env"
  by (rule env_total_ok [OF demo_total])

lemma demo_contents: "contents demo_env (demo_state db) = map_of db"
  by (simp add: contents_def demo_env_def demo_state_def mem_env_def mem_badger_def)

lemma store_wf_map_of: "list_all (\<lambda>(k, b). blob_key b = k) db \<Longrightarrow> store_wf (map_of db)"
  by (auto simp: store_wf_def list_all_iff dest!: map_of_SomeD)

definition demo_workload :: "string \<Rightarrow> string \<Rightarrow> Workload" where
  "demo_workload i d = zero_Workload\<lparr>w_ID := i, w_DeploymentID := d\<rparr>"

definition demo_assignment :: "string \<Rightarrow> string \<Rightarrow> Assignment" where
  "demo_assignment i n = zero_Assignment\<lparr>a_ID := i, a_NodeID := n\<rparr>"

definition demo_deployment :: "string \<Rightarrow> Deployment" where
  "demo_deployment i = zero_Deployment\<lparr>d_ID := i\<rparr>"

definition demo_db :: memdb where
  "demo_db = map (\<lambda>b. (blob_key b, b))
     [JDeployment (demo_deployment ''d1''), JDeployment (demo_deployment ''d2''),
      JWorkload (demo_workload ''w1'' ''d1''), JWorkload (demo_workload ''w2'' ''d2''),
      JWorkload (demo_workload ''w3'' ''d1''),
      JAssignment (demo_assignment ''a1'' ''n1''), JAssignment (demo_assignment ''a2'' ''n1''),
      JAssignment (demo_assignment ''a3'' ''n2'')]"

lemma demo_wf: "store_wf (contents demo_env (demo_state demo_db))"
  unfolding demo_contents by (rule store_wf_map_of) (simp add: demo_db_def)

section \<open>Properties\<close>

text \<open>
  (C36) Starting from a database in which every value is stored under the key its own fields
  determine, every sequence of store operations, succeeding or failing at any point, leaves it so.
\<close>

theorem store_wf_invariant:
  assumes "env_ok E" and "store_wf (contents E s)" and "(store_step E)\<^sup>*\<^sup>* s t"
  shows "store_wf (contents E t)"
  using assms(3,2)
  by (induction rule: rtranclp_induct) (auto dest: step_evolves [OF _ assms(1)] evolves_wf)

theorem store_wf_invariant_witness:
  "store_wf (contents demo_env (snd (st_DeleteWorkload demo_env ''w1'' (demo_state demo_db))))"
proof -
  have "store_step demo_env (demo_state demo_db) (snd (st_DeleteWorkload demo_env ''w1'' (demo_state demo_db)))"
    by (rule store_step.DeleteWorkload [of _ _ _ "fst (st_DeleteWorkload demo_env ''w1'' (demo_state demo_db))"]) simp
  then show ?thesis by (intro store_wf_invariant [OF demo_ok demo_wf]) (rule r_into_rtranclp)
qed

text \<open>
  (C37) A workload that was upserted is read back, with the time of the write as its update time,
  and no other key of the database changes.
\<close>

theorem upsert_get_workload:
  assumes "env_total E" and "store_wf (contents E s)"
  shows "wp (seq (st_UpsertWorkload E w) (st_GetWorkload E (w_ID w)))
    (\<lambda>r t. r = Inr (w\<lparr>w_UpdatedAt := env_clock E (st_tick s)\<rparr>) \<and>
       (\<forall>k. k \<noteq> keyWorkload (w_ID w) \<longrightarrow> contents E t k = contents E s k)) s"
proof -
  have E: "env_ok E" by (rule env_total_ok [OF assms(1)])
  show ?thesis
    unfolding wp_simps
  proof (rule wp_UpsertWorkload_at [OF E], goal_cases ok err)
    case (ok t)
    let ?x = "w\<lparr>w_UpdatedAt := env_clock E (st_tick s)\<rparr>"
    have key: "keyWorkload (w_ID w) = ''workload:'' @ w_ID ?x" by (simp add: keyWorkload_def)
    have wf: "store_wf (contents E t)" using assms(2) ok(1) by (auto simp: store_wf_def)
    have view: "view un_Workload ''workload:'' (contents E t) (w_ID w) = Some ?x"
      using ok(1) wl.view_put [of "contents E s" ?x] by (simp add: key)
    show ?case unfolding sum.case
      by (rule wp_GetWorkload [OF E wf]) (use ok(1) view assms(1) in auto)
  qed (use assms(1) in simp)
qed

theorem upsert_get_workload_witness:
  "wp (seq (st_UpsertWorkload demo_env (demo_workload ''w9'' ''d1'')) (st_GetWorkload demo_env ''w9''))
    (\<lambda>r t. r = Inr (demo_workload ''w9'' ''d1''\<lparr>w_UpdatedAt := env_clock demo_env (st_tick (demo_state demo_db))\<rparr>) \<and>
       contents demo_env t (keyWorkload ''w1'') = contents demo_env (demo_state demo_db) (keyWorkload ''w1'')) (demo_state demo_db)"
proof -
  have "w_ID (demo_workload ''w9'' ''d1'') = ''w9''" by (simp add: demo_workload_def)
  with upsert_get_workload [OF demo_total demo_wf, of "demo_workload ''w9'' ''d1''"] show ?thesis
    by (auto elim!: wp_conseq simp: keyWorkload_def)
qed

text \<open>
  (C38) Creating a deployment stores it under its identifier exactly when no deployment has that
  identifier; otherwise the call fails with \<^verbatim>\<open>already exists\<close> and the database is unchanged.
\<close>

theorem create_deployment_unique:
  assumes "env_total E" and "store_wf (contents E s)"
  shows "wp (st_CreateDeployment E d) (\<lambda>r t.
    if contents E s (keyDeployment (d_ID d)) = None
    then r = Inr () \<and> contents E t = (contents E s)(keyDeployment (d_ID d) \<mapsto> JDeployment (json_Deployment d))
    else r = Inl (ErrText (''deployment '' @ d_ID d @ '' already exists'')) \<and> contents E t = contents E s) s"
  by (rule wp_CreateDeployment [OF env_total_ok [OF assms(1)] assms(2)]) (use assms(1) in auto)

theorem create_deployment_unique_witness:
  "wp (st_CreateDeployment demo_env (demo_deployment ''d1'')) (\<lambda>r t.
    r = Inl (ErrText ''deployment d1 already exists'') \<and>
    contents demo_env t = contents demo_env (demo_state demo_db)) (demo_state demo_db)"
  using create_deployment_unique [OF demo_total demo_wf, of "demo_deployment ''d1''"]
  by (simp add: demo_contents demo_db_def demo_deployment_def)

text \<open>
  (C39) Deleting a deployment removes its record and the records of exactly the workloads that
  belong to it, in one step; every other key keeps its value.
\<close>

theorem delete_deployment_cascade:
  assumes "env_total E" and "store_wf (contents E s)"
  shows "wp (st_DeleteDeployment E i) (\<lambda>r t. r = Inr () \<and> contents E t = (\<lambda>k.
    if k = keyDeployment i \<or> (\<exists>w. contents E s k = Some (JWorkload w) \<and> w_DeploymentID w = i)
    then None else contents E s k)) s"
  by (rule wp_DeleteDeployment [OF env_total_ok [OF assms(1)] assms(2)]) (use assms(1) in auto)

theorem delete_deployment_cascade_witness:
  "wp (st_DeleteDeployment demo_env ''d1'') (\<lambda>r t. r = Inr () \<and>
     contents demo_env t (keyWorkload ''w1'') = None \<and>
     contents demo_env t (keyWorkload ''w2'') = Some (JWorkload (demo_workload ''w2'' ''d2''))) (demo_state demo_db)"
  by (rule wp_conseq [OF delete_deployment_cascade [OF demo_total demo_wf]])
    (auto simp: demo_contents demo_db_def demo_workload_def key_defs)

text \<open>
  (C40) Popping assignments for a node returns the first pending assignments of that node in key
  order, at most the requested number, removes exactly those, and never returns an assignment of
  another node as long as no node identifier contains a colon.
\<close>

theorem pop_assignments_exactly_once:
  assumes "env_total E" and "store_wf (contents E s)" and "0 \<le> mx" and "colon_free n"
    and "\<forall>k a. contents E s k = Some (JAssignment a) \<longrightarrow> colon_free (a_NodeID a)"
  shows "wp (st_PopAssignments E n mx) (\<lambda>r t. \<exists>pending.
    set pending = {a. a_NodeID a = n \<and> contents E s (assignment_key a) = Some (JAssignment a)} \<and>
    sorted_wrt (<) (map assignment_key pending) \<and>
    r = Inr (take (nat mx) pending) \<and>
    contents E t = (\<lambda>k. if k \<in> assignment_key ` set (take (nat mx) pending) then None else contents E s k)) s"
proof (rule wp_PopAssignments [OF env_total_ok [OF assms(1)] assms(2,3)], goal_cases ok err)
  case (ok items t)
  have "set items = {a. a_NodeID a = n \<and> contents E s (assignment_key a) = Some (JAssignment a)}"
    using ok(2) keyAssignment_prefix [OF assms(4)] assms(5) by auto
  with ok show ?case by blast
qed (use assms(1) in simp)

theorem pop_assignments_exactly_once_witness:
  "wp (st_PopAssignments demo_env ''n1'' 1) (\<lambda>r t. \<exists>pending.
    set pending = {a. a_NodeID a = ''n1'' \<and>
      contents demo_env (demo_state demo_db) (assignment_key a) = Some (JAssignment a)} \<and>
    sorted_wrt (<) (map assignment_key pending) \<and>
    r = Inr (take (nat 1) pending) \<and>
    contents demo_env t = (\<lambda>k. if k \<in> assignment_key ` set (take (nat 1) pending) then None
      else contents demo_env (demo_state demo_db) k)) (demo_state demo_db)"
  by (rule pop_assignments_exactly_once [OF demo_total demo_wf])
    (auto simp: colon_free_def demo_contents demo_db_def demo_assignment_def split: if_splits)

end
