(* ===== verification/Scheduler.thy ===== *)
theory Scheduler
  imports Go_Effects Model_Types
begin

text \<open>
  \<^verbatim>\<open>internal/scheduler/scheduler.go\<close>: the planner, its two score functions, the eligibility tests
  of a node and \<^verbatim>\<open>SelectNode\<close>. The external score plugin is another process; its answers are the
  parameter \<open>run\<close>, a function of the command words, the node and the request.
\<close>

section \<open>Planner\<close>

type_synonym ScorePlugin = "Node \<Rightarrow> Resource \<Rightarrow> float64"

type_synonym score_process = "string list \<Rightarrow> Node \<Rightarrow> Resource \<Rightarrow> err + float64"

definition PolicyLeastLoaded :: string where
  "PolicyLeastLoaded = ''least-loaded''"

definition PolicyBestFit :: string where
  "PolicyBestFit = ''best-fit''"

record Planner =
  pl_policy :: string
  pl_plugins :: "string \<Rightarrow> ScorePlugin option"
  pl_externalPluginCmd :: string

definition leastLoadedScore :: ScorePlugin where
  "leastLoadedScore n req = (let
     allocCPU = max 1 (f_of_int (MilliCPU (n_Allocatable n)));
     allocMem = max 1 (f_of_int (MemoryMB (n_Allocatable n)));
     cpuAfter = fdiv (f_of_int (iadd (MilliCPU (n_Used n)) (MilliCPU req))) allocCPU;
     memAfter = fdiv (f_of_int (iadd (MemoryMB (n_Used n)) (MemoryMB req))) allocMem;
     spreadPenalty = \<bar>fsub cpuAfter memAfter\<bar>
   in fadd (fmul (fadd cpuAfter memAfter) (fl 0.5)) (fmul spreadPenalty (fl 0.15)))"

definition bestFitScore :: ScorePlugin where
  "bestFitScore n req = (let
     allocCPU = max 1 (f_of_int (MilliCPU (n_Allocatable n)));
     allocMem = max 1 (f_of_int (MemoryMB (n_Allocatable n)));
     leftCPU = f_of_int (isub (isub (MilliCPU (n_Allocatable n)) (MilliCPU (n_Used n))) (MilliCPU req));
     leftMem = f_of_int (isub (isub (MemoryMB (n_Allocatable n)) (MemoryMB (n_Used n))) (MemoryMB req));
     leftCPU = fdiv (max 0 leftCPU) allocCPU;
     leftMem = fdiv (max 0 leftMem) allocMem;
     leftoverScore = fmul (fadd leftCPU leftMem) (fl 0.5);
     balancePenalty = fmul \<bar>fsub leftCPU leftMem\<bar> (fl 0.1)
   in fadd leftoverScore balancePenalty)"

definition RegisterPlugin :: "Planner \<Rightarrow> string \<Rightarrow> ScorePlugin \<Rightarrow> Planner" where
  "RegisterPlugin p policy plugin = p\<lparr>pl_plugins := (pl_plugins p)(policy \<mapsto> plugin)\<rparr>"

definition NewPlanner :: "string \<Rightarrow> Planner" where
  "NewPlanner policy = (let
     raw = TrimSpace policy;
     ext = HasPrefix (ToLower raw) ''external:'';
     pluginCmd = (if ext then TrimSpace (TrimPrefix raw ''external:'') else []);
     raw = (if ext then ''external'' else raw);
     p = TrimSpace (ToLower raw);
     p = (if p \<noteq> PolicyBestFit then PolicyLeastLoaded else p);
     planner = \<lparr>pl_policy = p, pl_plugins = Map.empty, pl_externalPluginCmd = pluginCmd\<rparr>;
     planner = RegisterPlugin planner PolicyLeastLoaded leastLoadedScore
   in RegisterPlugin planner PolicyBestFit bestFitScore)"

section \<open>Scoring\<close>

text \<open>\<^verbatim>\<open>strings.Fields\<close>\<close>

function Fields :: "string \<Rightarrow> string list" where
  "Fields s = (let s = dropWhile is_space s in
     if s = [] then [] else takeWhile (Not \<circ> is_space) s # Fields (dropWhile (Not \<circ> is_space) s))"
  by pat_completeness auto
termination
proof (relation "measure length")
  fix s x :: string assume x: "x = dropWhile is_space s" "x \<noteq> []"
  have "\<not> is_space (hd x)" using x hd_dropWhile [of is_space s] by simp
  then have "length (dropWhile (Not \<circ> is_space) x) < length x"
    using x(2) by (cases x) (simp_all add: length_dropWhile_le le_imp_less_Suc)
  also have "\<dots> \<le> length s" using x(1) by (simp add: length_dropWhile_le)
  finally show "(dropWhile (Not \<circ> is_space) x, s) \<in> measure length" by simp
qed simp

declare Fields.simps [simp del]

definition scoreNodeWithExternalPlugin :: "score_process \<Rightarrow> Planner \<Rightarrow> Node \<Rightarrow> Resource \<Rightarrow> err + float64" where
  "scoreNodeWithExternalPlugin run p n req = (let parts = Fields (pl_externalPluginCmd p) in
     if length parts = 0 then Inl (ErrText ''external plugin command is empty'')
     else run parts n req)"

definition plugin_score :: "Planner \<Rightarrow> ScorePlugin" where
  "plugin_score p n req = (case pl_plugins p (pl_policy p) of
       Some plugin \<Rightarrow> plugin n req
     | None \<Rightarrow> (case pl_plugins p PolicyLeastLoaded of
           Some plugin \<Rightarrow> plugin n req
         | None \<Rightarrow> leastLoadedScore n req))"

definition scoreNode :: "score_process \<Rightarrow> Planner \<Rightarrow> Node \<Rightarrow> Resource \<Rightarrow> float64" where
  "scoreNode run p n req =
     (if pl_externalPluginCmd p \<noteq> [] then
        (case scoreNodeWithExternalPlugin run p n req of
           Inr score \<Rightarrow> score
         | Inl _ \<Rightarrow> plugin_score p n req)
      else plugin_score p n req)"

section \<open>Eligibility\<close>

definition fits :: "Node \<Rightarrow> Resource \<Rightarrow> bool" where
  "fits n req = (let
     availCPU = isub (MilliCPU (n_Allocatable n)) (MilliCPU (n_Used n));
     availMem = isub (MemoryMB (n_Allocatable n)) (MemoryMB (n_Used n))
   in MilliCPU req \<le> availCPU \<and> MemoryMB req \<le> availMem)"

fun taint_matched :: "Taint \<Rightarrow> Toleration list \<Rightarrow> bool" where
  "taint_matched taint [] = False"
| "taint_matched taint (tol # tols) =
     (if blank (to_Key tol) then taint_matched taint tols
      else if to_Key tol \<noteq> ta_Key taint then taint_matched taint tols
      else if \<not> blank (to_Effect tol) \<and> to_Effect tol \<noteq> ta_Effect taint then taint_matched taint tols
      else if ToLower (TrimSpace (to_Operator tol)) = ''exists'' then True
      else if blank (to_Value tol) \<or> to_Value tol = ta_Value taint then True
      else taint_matched taint tols)"

fun tolerates_all :: "Taint list \<Rightarrow> Toleration list \<Rightarrow> bool" where
  "tolerates_all [] tols = True"
| "tolerates_all (taint # taints) tols =
     (if \<not> taint_matched taint tols then False else tolerates_all taints tols)"

definition toleratesNodeTaints :: "Node \<Rightarrow> Toleration list \<Rightarrow> bool" where
  "toleratesNodeTaints n tols = (if length (n_Taints n) = 0 then True else tolerates_all (n_Taints n) tols)"

text \<open>The two loops over the labels; a map is ranged over in some order, which does not matter.\<close>

fun affinity_loop :: "Node \<Rightarrow> string gomap \<Rightarrow> bool" where
  "affinity_loop n [] = True"
| "affinity_loop n ((k, v) # labels) =
     (if \<not> HasPrefix k ''affinity.'' then affinity_loop n labels
      else if map_get [] (elems (n_Labels n)) (TrimPrefix k ''affinity.'') \<noteq> v then False
      else affinity_loop n labels)"

fun anti_affinity_loop :: "Node \<Rightarrow> string gomap \<Rightarrow> bool" where
  "anti_affinity_loop n [] = True"
| "anti_affinity_loop n ((k, v) # labels) =
     (if \<not> HasPrefix k ''anti-affinity.'' then anti_affinity_loop n labels
      else if map_get [] (elems (n_Labels n)) (TrimPrefix k ''anti-affinity.'') = v then False
      else anti_affinity_loop n labels)"

definition matchesAffinity :: "Node \<Rightarrow> string gomap \<Rightarrow> bool" where
  "matchesAffinity n labels =
     (if length labels = 0 then True
      else if \<not> affinity_loop n labels then False
      else anti_affinity_loop n labels)"

section \<open>Selection\<close>

record candidate =
  cd_node :: Node
  cd_score :: float64

fun collect_candidates :: "score_process \<Rightarrow> Planner \<Rightarrow> Node list \<Rightarrow> Resource \<Rightarrow> string gomap \<Rightarrow>
    Toleration list \<Rightarrow> candidate list" where
  "collect_candidates run p [] req labels tols = []"
| "collect_candidates run p (n # nodes) req labels tols =
     (let rest = collect_candidates run p nodes req labels tols in
      if n_Status n \<noteq> NodeReady then rest
      else if \<not> fits n req then rest
      else if \<not> toleratesNodeTaints n tols then rest
      else if \<not> matchesAffinity n labels then rest
      else \<lparr>cd_node = n, cd_score = scoreNode run p n req\<rparr> # rest)"

definition SelectNode :: "score_process \<Rightarrow> Planner \<Rightarrow> Node list \<Rightarrow> Resource \<Rightarrow> string gomap \<Rightarrow>
    Toleration list \<Rightarrow> err + Node" where
  "SelectNode run p nodes req labels tols = (let
     candidates = collect_candidates run p nodes req labels tols in
     if length candidates = 0 then Inl ErrNoSchedulableNode
     else Inr (cd_node (hd (SliceStable (\<lambda>a b. cd_score a < cd_score b) candidates))))"

section \<open>Specification of the tests\<close>

definition toleration_covers :: "Toleration \<Rightarrow> Taint \<Rightarrow> bool" where
  "toleration_covers tol taint \<longleftrightarrow> \<not> blank (to_Key tol) \<and> to_Key tol = ta_Key taint \<and>
     (blank (to_Effect tol) \<or> to_Effect tol = ta_Effect taint) \<and>
     (ToLower (TrimSpace (to_Operator tol)) = ''exists'' \<or> blank (to_Value tol) \<or> to_Value tol = ta_Value taint)"

lemma taint_matched_iff: "taint_matched taint tols \<longleftrightarrow> (\<exists>tol \<in> set tols. toleration_covers tol taint)"
  by (induction tols) (auto simp: toleration_covers_def)

lemma tolerates_all_iff: "tolerates_all taints tols \<longleftrightarrow> (\<forall>taint \<in> set taints. taint_matched taint tols)"
  by (induction taints) auto

lemma toleratesNodeTaints_iff:
  "toleratesNodeTaints n tols \<longleftrightarrow> (\<forall>taint \<in> set (n_Taints n). \<exists>tol \<in> set tols. toleration_covers tol taint)"
  by (auto simp: toleratesNodeTaints_def tolerates_all_iff taint_matched_iff)

definition node_label :: "Node \<Rightarrow> string \<Rightarrow> string" where
  "node_label n k = map_get [] (elems (n_Labels n)) k"

lemma HasPrefix_append [simp]: "HasPrefix (p @ k) p"
  by (simp add: HasPrefix_def)

lemma TrimPrefix_append [simp]: "TrimPrefix (p @ k) p = k"
  by (simp add: TrimPrefix_def)

lemma HasPrefixE: "HasPrefix k p \<Longrightarrow> (\<And>i. k = p @ i \<Longrightarrow> P) \<Longrightarrow> P"
  by (metis HasPrefix_iff prefixE)

lemma affinity_loop_iff:
  "affinity_loop n labels \<longleftrightarrow> (\<forall>k v. (''affinity.'' @ k, v) \<in> set labels \<longrightarrow> node_label n k = v)"
proof (induction n labels rule: affinity_loop.induct)
  case (2 n k v labels)
  show ?case
  proof (cases "HasPrefix k ''affinity.''")
    case True
    then obtain i where "k = ''affinity.'' @ i" by (rule HasPrefixE)
    then show ?thesis using 2 True TrimPrefix_append [of "''affinity.''" i] by (auto simp: node_label_def)
  next
    case False
    then have "k \<noteq> ''affinity.'' @ i" for i using HasPrefix_append by metis
    then show ?thesis using 2 False by auto
  qed
qed simp

lemma anti_affinity_loop_iff:
  "anti_affinity_loop n labels \<longleftrightarrow> (\<forall>k v. (''anti-affinity.'' @ k, v) \<in> set labels \<longrightarrow> node_label n k \<noteq> v)"
proof (induction n labels rule: anti_affinity_loop.induct)
  case (2 n k v labels)
  show ?case
  proof (cases "HasPrefix k ''anti-affinity.''")
    case True
    then obtain i where "k = ''anti-affinity.'' @ i" by (rule HasPrefixE)
    then show ?thesis using 2 True TrimPrefix_append [of "''anti-affinity.''" i] by (auto simp: node_label_def)
  next
    case False
    then have "k \<noteq> ''anti-affinity.'' @ i" for i using HasPrefix_append by metis
    then show ?thesis using 2 False by auto
  qed
qed simp

lemma matchesAffinity_iff:
  "matchesAffinity n labels \<longleftrightarrow>
     (\<forall>k v. (''affinity.'' @ k, v) \<in> set labels \<longrightarrow> node_label n k = v) \<and>
     (\<forall>k v. (''anti-affinity.'' @ k, v) \<in> set labels \<longrightarrow> node_label n k \<noteq> v)"
  by (simp add: matchesAffinity_def affinity_loop_iff anti_affinity_loop_iff del: append.simps)

section \<open>The selected node\<close>

definition eligible :: "Resource \<Rightarrow> string gomap \<Rightarrow> Toleration list \<Rightarrow> Node \<Rightarrow> bool" where
  "eligible req labels tols n \<longleftrightarrow> n_Status n = NodeReady \<and> fits n req \<and> toleratesNodeTaints n tols \<and> matchesAffinity n labels"

lemma collect_candidates_eq:
  "collect_candidates run p nodes req labels tols =
     map (\<lambda>n. \<lparr>cd_node = n, cd_score = scoreNode run p n req\<rparr>) (filter (eligible req labels tols) nodes)"
  by (induction nodes) (auto simp: eligible_def Let_def)

interpretation score: strict_weak "\<lambda>a b. cd_score a < cd_score b"
  by unfold_locales auto

lemma SelectNode_None:
  "SelectNode run p nodes req labels tols = Inl e \<longleftrightarrow>
     e = ErrNoSchedulableNode \<and> (\<forall>n \<in> set nodes. \<not> eligible req labels tols n)"
  by (auto simp: SelectNode_def collect_candidates_eq filter_empty_conv Let_def)

lemma SelectNode_Some:
  assumes "SelectNode run p nodes req labels tols = Inr n"
  shows "n \<in> set nodes" and "eligible req labels tols n"
    and "\<exists>us vs. filter (eligible req labels tols) nodes = us @ n # vs \<and>
       (\<forall>u \<in> set us. scoreNode run p n req < scoreNode run p u req) \<and>
       (\<forall>v \<in> set vs. scoreNode run p n req \<le> scoreNode run p v req)"
proof -
  let ?es = "filter (eligible req labels tols) nodes"
  let ?mk = "\<lambda>n. \<lparr>cd_node = n, cd_score = scoreNode run p n req\<rparr>"
  let ?h = "hd (SliceStable (\<lambda>a b. cd_score a < cd_score b) (map ?mk ?es))"
  have ne: "map ?mk ?es \<noteq> []" and n: "n = cd_node ?h"
    using assms by (auto simp: SelectNode_def collect_candidates_eq Let_def split: if_splits)
  obtain us vs where split: "map ?mk ?es = us @ ?h # vs"
    and us: "\<forall>u \<in> set us. cd_score ?h < cd_score u" and vs: "\<forall>v \<in> set vs. \<not> cd_score v < cd_score ?h"
    using score.hd_SliceStable_first [OF ne] by blast
  from split obtain us' m vs' where es: "?es = us' @ m # vs'" "us = map ?mk us'" "?h = ?mk m" "vs = map ?mk vs'"
    by (auto simp: map_eq_append_conv map_eq_Cons_conv)
  have m: "m = n" using n es(3) by simp
  show "\<exists>us vs. ?es = us @ n # vs \<and> (\<forall>u \<in> set us. scoreNode run p n req < scoreNode run p u req) \<and>
       (\<forall>v \<in> set vs. scoreNode run p n req \<le> scoreNode run p v req)"
    by (rule exI [of _ us'], rule exI [of _ vs']) (use es us vs m in auto)
  have "n \<in> set ?es" using es(1) m by simp
  then show "n \<in> set nodes" "eligible req labels tols n" by auto
qed

lemma fits_within:
  assumes "fits n req" and "in64 (MilliCPU (n_Allocatable n) - MilliCPU (n_Used n))"
    and "in64 (MemoryMB (n_Allocatable n) - MemoryMB (n_Used n))"
  shows "MilliCPU (n_Used n) + MilliCPU req \<le> MilliCPU (n_Allocatable n)"
    and "MemoryMB (n_Used n) + MemoryMB req \<le> MemoryMB (n_Allocatable n)"
  using assms by (auto simp: fits_def Let_def isub_id)

section \<open>Properties\<close>

text \<open>
  (C28) \<^verbatim>\<open>SelectNode\<close> fails exactly when no node is ready, large enough, tolerated and allowed by
  the affinity labels; otherwise it returns the first of the eligible nodes with the least score,
  whatever the external plugin answers.
\<close>

theorem select_node_spec:
  "case SelectNode run p nodes req labels tols of
     Inl e \<Rightarrow> e = ErrNoSchedulableNode \<and> filter (eligible req labels tols) nodes = []
   | Inr n \<Rightarrow> \<exists>us vs. filter (eligible req labels tols) nodes = us @ n # vs \<and>
       list_all (\<lambda>u. scoreNode run p n req < scoreNode run p u req) us \<and>
       list_all (\<lambda>v. scoreNode run p n req \<le> scoreNode run p v req) vs"
proof (cases "SelectNode run p nodes req labels tols")
  case (Inl e)
  then show ?thesis using SelectNode_None [of run p nodes req labels tols e] by (simp add: filter_empty_conv)
next
  case (Inr n)
  then show ?thesis using SelectNode_Some(3) [OF Inr] by (simp add: list_all_iff)
qed

text \<open>
  (C29) A node chosen by \<^verbatim>\<open>SelectNode\<close> still has room: charging the request to it does not exceed
  its allocatable CPU or memory (when the subtraction of the free amount does not overflow).
\<close>

theorem select_node_no_overcommit:
  assumes "SelectNode run p nodes req labels tols = Inr n"
    and "in64 (MilliCPU (n_Allocatable n) - MilliCPU (n_Used n))"
    and "in64 (MemoryMB (n_Allocatable n) - MemoryMB (n_Used n))"
  shows "n \<in> set nodes \<and> n_Status n = NodeReady \<and>
    MilliCPU (n_Used n) + MilliCPU req \<le> MilliCPU (n_Allocatable n) \<and>
    MemoryMB (n_Used n) + MemoryMB req \<le> MemoryMB (n_Allocatable n)"
  using SelectNode_Some(1,2) [OF assms(1)] fits_within [OF _ assms(2,3)] by (auto simp: eligible_def)

definition demo_node :: "string \<Rightarrow> int \<Rightarrow> Node" where
  "demo_node i used = zero_Node\<lparr>n_ID := i, n_Status := NodeReady,
     n_Allocatable := \<lparr>MilliCPU = 1000, MemoryMB = 1024\<rparr>, n_Used := \<lparr>MilliCPU = used, MemoryMB = 0\<rparr>\<rparr>"

theorem select_node_no_overcommit_witness:
  "SelectNode (\<lambda>_ _ _. Inl (ErrText ''no plugin'')) (NewPlanner ''best-fit'')
     [demo_node ''n1'' 900] \<lparr>MilliCPU = 100, MemoryMB = 64\<rparr> [] [] = Inr (demo_node ''n1'' 900) \<and>
   MilliCPU (n_Used (demo_node ''n1'' 900)) + 100 \<le> MilliCPU (n_Allocatable (demo_node ''n1'' 900))"
proof -
  let ?req = "\<lparr>MilliCPU = 100, MemoryMB = 64\<rparr>"
  have sel: "SelectNode (\<lambda>_ _ _. Inl (ErrText ''no plugin'')) (NewPlanner ''best-fit'')
     [demo_node ''n1'' 900] ?req [] [] = Inr (demo_node ''n1'' 900)"
    by (simp add: SelectNode_def collect_candidates_eq eligible_def fits_def demo_node_def zero_Node_def
        toleratesNodeTaints_def matchesAffinity_def isub_id in64_def Let_def)
  with select_node_no_overcommit [OF sel] show ?thesis
    by (simp add: demo_node_def zero_Node_def in64_def)
qed

text \<open>
  (C30) A node's taints are tolerated exactly when each taint is covered by some toleration: same
  key, effect equal or left open, and operator \<^verbatim>\<open>exists\<close>, value left open or equal.
\<close>

theorem tolerates_spec:
  "toleratesNodeTaints n tols = list_all (\<lambda>taint. list_ex (\<lambda>tol. toleration_covers tol taint) tols) (n_Taints n)"
  by (simp add: toleratesNodeTaints_iff list_all_iff list_ex_iff)

text \<open>
  Affinity: every label \<^verbatim>\<open>affinity.k=v\<close> requires the node label \<open>k\<close> to be \<open>v\<close> and every label
  \<^verbatim>\<open>anti-affinity.k=v\<close> requires it not to be \<open>v\<close>; other labels do not constrain the node.
\<close>

lemma affinity_spec:
  "matchesAffinity n labels = list_all (\<lambda>(k, v).
     (if HasPrefix k ''affinity.'' then node_label n (drop 9 k) = v else True) \<and>
     (if HasPrefix k ''anti-affinity.'' then node_label n (drop 14 k) \<noteq> v else True)) labels"
proof -
  have eq: "(\<forall>k v. (p @ k, v) \<in> set labels \<longrightarrow> P k v) \<longleftrightarrow>
      (\<forall>(k, v) \<in> set labels. if HasPrefix k p then P (drop (length p) k) v else True)"
    for p and P :: "string \<Rightarrow> string \<Rightarrow> bool"
    by (auto elim!: HasPrefixE)
  have len: "length ''affinity.'' = 9" "length ''anti-affinity.'' = 14" by simp_all
  show ?thesis
    unfolding matchesAffinity_iff list_all_iff eq [of "''affinity.''" "\<lambda>k v. node_label n k = v", unfolded len]
      eq [of "''anti-affinity.''" "\<lambda>k v. node_label n k \<noteq> v", unfolded len]
    by (auto simp del: append.simps)
qed

text \<open>The prefix is recognised in any letter case but only removed in lower case.\<close>

lemma external_prefix_case:
  "pl_externalPluginCmd (NewPlanner ''external: score'') = ''score''"
  "pl_externalPluginCmd (NewPlanner ''External: score'') = ''External: score''"
  by code_simp+

end
