(* ===== verification/Balancer.thy ===== *)
theory Balancer
  imports Go_Effects Model_Types
begin

text \<open>
  \<^verbatim>\<open>internal/loadbalancer/balancer.go\<close>: round-robin and least-connections selection among the ready
  endpoints of a service, with the in-flight counters. The two counter maps are only read with
  \<^verbatim>\<open>m[k]\<close> and written with \<^verbatim>\<open>m[k] = v\<close>, so each is a total function that is 0 where the key is absent.
  The mutex makes each operation atomic: an operation is one step on the state. The ready endpoints are
  sorted stably; \<^verbatim>\<open>sort.Slice\<close> may order endpoints of one identifier differently, which no stored
  service has.
\<close>

section \<open>Operations\<close>

record Balancer =
  b_rrIndex :: "string \<Rightarrow> int"
  b_inflight :: "string \<Rightarrow> int"

definition NewBalancer :: Balancer where
  "NewBalancer = \<lparr>b_rrIndex = (\<lambda>_. 0), b_inflight = (\<lambda>_. 0)\<rparr>"

definition StrategyRoundRobin :: string where
  "StrategyRoundRobin = ''round-robin''"

definition StrategyLeastConnections :: string where
  "StrategyLeastConnections = ''least-connections''"

fun least_loop :: "(string \<Rightarrow> int) \<Rightarrow> ServiceEndpoint \<Rightarrow> int \<Rightarrow> ServiceEndpoint list \<Rightarrow> ServiceEndpoint" where
  "least_loop inflight selected best [] = selected"
| "least_loop inflight selected best (ep # eps) =
     (if inflight (e_ID ep) < best then least_loop inflight ep (inflight (e_ID ep)) eps
      else least_loop inflight selected best eps)"

definition acquire :: "Balancer \<Rightarrow> ServiceEndpoint \<Rightarrow> Balancer" where
  "acquire b ep = b\<lparr>b_inflight := (b_inflight b)(e_ID ep := iadd (b_inflight b (e_ID ep)) 1)\<rparr>"

definition Select :: "Balancer \<Rightarrow> string \<Rightarrow> string \<Rightarrow> ServiceEndpoint list \<Rightarrow> (err + ServiceEndpoint) \<times> Balancer" where
  "Select b serviceID strategy endpoints = (let ready = filter e_Ready endpoints in
     if length ready = 0 then (Inl (ErrText ''no ready endpoints''), b)
     else let ready = SliceStable (\<lambda>x y. e_ID x < e_ID y) ready in
     if strategy = [] \<or> strategy = StrategyRoundRobin then
       (let idx = irem (b_rrIndex b serviceID) (int (length ready));
            b = b\<lparr>b_rrIndex := (b_rrIndex b)(serviceID := irem (iadd idx 1) (int (length ready)))\<rparr>;
            selected = ready ! nat idx
        in (Inr selected, acquire b selected))
     else if strategy = StrategyLeastConnections then
       (let selected = hd ready;
            selected = least_loop (b_inflight b) selected (b_inflight b (e_ID selected)) (tl ready)
        in (Inr selected, acquire b selected))
     else (Inl (ErrText ''unsupported balancing strategy''), b))"

definition Release :: "Balancer \<Rightarrow> string \<Rightarrow> Balancer" where
  "Release b endpointID =
     (if b_inflight b endpointID > 0
      then b\<lparr>b_inflight := (b_inflight b)(endpointID := isub (b_inflight b endpointID) 1)\<rparr> else b)"

section \<open>Invariant\<close>

text \<open>
  The calls of a balancer that was created empty, the latest first: what a selection returned and
  what a release named. A selection that fails leaves no trace. The length of a slice is an \<^verbatim>\<open>int\<close>.
\<close>

datatype bal_event = Selected string | Released string

inductive bal_run :: "bal_event list \<Rightarrow> Balancer \<Rightarrow> bool" where
  new: "bal_run [] NewBalancer"
| selected: "bal_run tr b \<Longrightarrow> length eps < 2 ^ 63 \<Longrightarrow> Select b sid strategy eps = (Inr x, b') \<Longrightarrow>
    bal_run (Selected (e_ID x) # tr) b'"
| refused: "bal_run tr b \<Longrightarrow> Select b sid strategy eps = (Inl e, b') \<Longrightarrow> bal_run tr b'"
| released: "bal_run tr b \<Longrightarrow> bal_run (Released ep # tr) (Release b ep)"

text \<open>The requests in flight to an endpoint after a trace; releasing an idle endpoint has no effect.\<close>

primrec in_flight :: "bal_event list \<Rightarrow> string \<Rightarrow> nat" where
  "in_flight [] k = 0"
| "in_flight (ev # tr) k = (case ev of
     Selected x \<Rightarrow> if x = k then Suc (in_flight tr k) else in_flight tr k
   | Released x \<Rightarrow> if x = k then in_flight tr k - 1 else in_flight tr k)"

text \<open>The counters are not negative and no counter exceeds the number of calls \<open>n\<close>.\<close>

definition bal_wf :: "nat \<Rightarrow> Balancer \<Rightarrow> bool" where
  "bal_wf n b \<longleftrightarrow> (\<forall>k. 0 \<le> b_rrIndex b k) \<and> (\<forall>k. 0 \<le> b_inflight b k \<and> b_inflight b k \<le> int n)"

interpretation epo_order: strict_weak "\<lambda>x y. e_ID x < e_ID y"
  by unfold_locales auto

definition ready_sorted :: "ServiceEndpoint list \<Rightarrow> ServiceEndpoint list" where
  "ready_sorted eps = SliceStable (\<lambda>x y. e_ID x < e_ID y) (filter e_Ready eps)"

lemma irem_nonneg: "0 \<le> a \<Longrightarrow> irem a b = a mod \<bar>b\<bar>"
  by (cases "a = 0") (simp_all add: irem_def)

lemma least_loop_in: "least_loop f x best xs \<in> insert x (set xs)"
  by (induction xs arbitrary: x best) auto

lemma least_loop_minimal:
  "best = f (e_ID x) \<Longrightarrow> f (e_ID (least_loop f x best xs)) \<le> best \<and>
     (\<forall>y \<in> set xs. f (e_ID (least_loop f x best xs)) \<le> f (e_ID y))"
proof (induction xs arbitrary: x best)
  case (Cons z zs)
  show ?case
  proof (cases "f (e_ID z) < best")
    case True
    then show ?thesis using Cons.IH [of "f (e_ID z)" z] by simp
  next
    case False
    then show ?thesis using Cons.IH [OF Cons.prems] by simp
  qed
qed simp

lemma Select_None: "filter e_Ready eps = [] \<Longrightarrow> Select b sid st eps = (Inl (ErrText ''no ready endpoints''), b)"
  by (simp add: Select_def)

lemma Select_rr:
  assumes "filter e_Ready eps \<noteq> []" and "0 \<le> b_rrIndex b sid" and "st = [] \<or> st = StrategyRoundRobin"
    and "length (ready_sorted eps) < 2 ^ 63"
  shows "Select b sid st eps = (let n = int (length (ready_sorted eps)); idx = b_rrIndex b sid mod n;
      x = ready_sorted eps ! nat idx in
      (Inr x, acquire (b\<lparr>b_rrIndex := (b_rrIndex b)(sid := (idx + 1) mod n)\<rparr>) x))"
proof -
  let ?n = "int (length (ready_sorted eps))"
  have n: "0 < ?n" using assms(1) by (simp add: ready_sorted_def)
  have idx: "0 \<le> b_rrIndex b sid mod ?n" "b_rrIndex b sid mod ?n < ?n" using n by simp_all
  then have "in64 (b_rrIndex b sid mod ?n + 1)" using assms(4) by (simp add: in64_def)
  then have "iadd (b_rrIndex b sid mod ?n) 1 = b_rrIndex b sid mod ?n + 1" by (rule iadd_id)
  then show ?thesis using assms(1-3) idx n
    by (simp add: Select_def Let_def irem_nonneg flip: ready_sorted_def)
qed

lemma Select_lc:
  assumes "filter e_Ready eps \<noteq> []"
  shows "Select b sid StrategyLeastConnections eps = (let x = hd (ready_sorted eps);
      y = least_loop (b_inflight b) x (b_inflight b (e_ID x)) (tl (ready_sorted eps)) in (Inr y, acquire b y))"
  using assms by (simp add: Select_def Let_def StrategyLeastConnections_def StrategyRoundRobin_def flip: ready_sorted_def)

lemma set_ready_sorted [simp]: "set (ready_sorted eps) = {ep \<in> set eps. e_Ready ep}"
  by (auto simp: ready_sorted_def)

lemma ready_sorted_Nil [simp]: "ready_sorted eps = [] \<longleftrightarrow> filter e_Ready eps = []"
  by (simp add: ready_sorted_def)

section \<open>Round robin\<close>

fun select_many :: "nat \<Rightarrow> Balancer \<Rightarrow> string \<Rightarrow> ServiceEndpoint list \<Rightarrow> (err + ServiceEndpoint) list" where
  "select_many 0 b sid eps = []"
| "select_many (Suc k) b sid eps = (case Select b sid StrategyRoundRobin eps of (r, b') \<Rightarrow> r # select_many k b' sid eps)"

lemma select_many_eq:
  assumes "filter e_Ready eps \<noteq> []" and "length (ready_sorted eps) < 2 ^ 63"
  shows "0 \<le> b_rrIndex b sid \<Longrightarrow> select_many k b sid eps =
    map (\<lambda>i. Inr (ready_sorted eps ! ((nat (b_rrIndex b sid) + i) mod length (ready_sorted eps)))) [0..<k]"
proof (induction k arbitrary: b)
  case (Suc k)
  let ?xs = "ready_sorted eps"
  let ?n = "length ?xs"
  have n: "0 < ?n" using assms(1) by simp
  define i where "i = nat (b_rrIndex b sid)"
  have i: "b_rrIndex b sid = int i" using Suc.prems by (simp add: i_def)
  let ?x = "?xs ! (i mod ?n)"
  let ?b = "acquire (b\<lparr>b_rrIndex := (b_rrIndex b)(sid := int ((i mod ?n + 1) mod ?n))\<rparr>) ?x"
  have sel: "Select b sid StrategyRoundRobin eps = (Inr ?x, ?b)"
    using Select_rr [OF assms(1) Suc.prems _ assms(2), of StrategyRoundRobin]
    by (simp add: Let_def i nat_mod_distrib flip: zmod_int of_nat_Suc) (simp add: zmod_int add.commute)
  have rr: "b_rrIndex ?b sid = int ((i mod ?n + 1) mod ?n)" by (simp add: acquire_def)
  have "select_many k ?b sid eps = map (\<lambda>j. Inr (?xs ! (((i mod ?n + 1) mod ?n + j) mod ?n))) [0..<k]"
    using Suc.IH [of ?b] unfolding rr by simp
  also have "\<dots> = map (\<lambda>j. Inr (?xs ! ((i + Suc j) mod ?n))) [0..<k]"
    by (simp add: mod_simps)
  finally have "select_many (Suc k) b sid eps = Inr ?x # map (\<lambda>j. Inr (?xs ! ((i + Suc j) mod ?n))) [0..<k]"
    by (simp add: sel)
  also have "\<dots> = map (\<lambda>j. Inr (?xs ! ((i + j) mod ?n))) (0 # map Suc [0..<k])"
    by (simp add: comp_def)
  also have "0 # map Suc [0..<k] = [0..<Suc k]"
    by (simp add: map_Suc_upt upt_rec [of 0 "Suc k"] del: upt_Suc)
  finally show ?case by (simp add: i del: upt_Suc)
qed simp

lemma round_robin_rotate:
  assumes "filter e_Ready eps \<noteq> []" and "length (ready_sorted eps) < 2 ^ 63" and "0 \<le> b_rrIndex b sid"
  shows "select_many (length (ready_sorted eps)) b sid eps = map Inr (rotate (nat (b_rrIndex b sid)) (ready_sorted eps))"
  unfolding select_many_eq [OF assms] by (rule nth_equalityI) (simp_all add: nth_rotate)

section \<open>Every call\<close>

lemma Select_cases:
  assumes "Select b sid strategy eps = (r, b')"
  obtains (none) "filter e_Ready eps = []" "r = Inl (ErrText ''no ready endpoints'')" "b' = b"
  | (unsupported) "filter e_Ready eps \<noteq> []" "strategy \<notin> {[], StrategyRoundRobin, StrategyLeastConnections}"
      "r = Inl (ErrText ''unsupported balancing strategy'')" "b' = b"
  | (rr) x where "filter e_Ready eps \<noteq> []" "strategy = [] \<or> strategy = StrategyRoundRobin" "r = Inr x"
      "x = ready_sorted eps ! nat (irem (b_rrIndex b sid) (int (length (ready_sorted eps))))"
      "b' = acquire (b\<lparr>b_rrIndex := (b_rrIndex b)(sid :=
         irem (iadd (irem (b_rrIndex b sid) (int (length (ready_sorted eps)))) 1) (int (length (ready_sorted eps))))\<rparr>) x"
  | (lc) x where "filter e_Ready eps \<noteq> []" "strategy = StrategyLeastConnections" "r = Inr x" "b' = acquire b x"
      "x = least_loop (b_inflight b) (hd (ready_sorted eps)) (b_inflight b (e_ID (hd (ready_sorted eps)))) (tl (ready_sorted eps))"
  using assms unfolding Select_def Let_def by (auto split: if_splits simp flip: ready_sorted_def)

lemma rr_in_ready:
  assumes "filter e_Ready eps \<noteq> []" and "0 \<le> i"
  shows "ready_sorted eps ! nat (irem i (int (length (ready_sorted eps)))) \<in> set (ready_sorted eps)"
proof -
  have "0 < int (length (ready_sorted eps))" using assms(1) by simp
  then show ?thesis using assms(2) by (intro nth_mem) (simp add: irem_nonneg nat_less_iff)
qed

lemma lc_in_ready:
  assumes "filter e_Ready eps \<noteq> []"
  shows "least_loop f (hd (ready_sorted eps)) best (tl (ready_sorted eps)) \<in> set (ready_sorted eps)"
  using least_loop_in [of f "hd (ready_sorted eps)" best "tl (ready_sorted eps)"] assms
  by (cases "ready_sorted eps") auto

lemma acquire_simps [simp]:
  "b_rrIndex (acquire b x) = b_rrIndex b"
  "b_inflight (acquire b x) = (b_inflight b)(e_ID x := iadd (b_inflight b (e_ID x)) 1)"
  by (simp_all add: acquire_def)

lemma bal_wf_acquire:
  assumes wf: "bal_wf n b" and n: "Suc n < 2 ^ 63"
  shows "bal_wf (Suc n) (acquire b x)"
proof -
  have n': "int n + 1 < 2 ^ 63" using n by simp
  have b: "0 \<le> b_inflight b k" "b_inflight b k \<le> int n" for k using wf by (simp_all add: bal_wf_def)
  have "in64 (b_inflight b (e_ID x) + 1)" unfolding in64_def using b [of "e_ID x"] n' by linarith
  then have "iadd (b_inflight b (e_ID x)) 1 = b_inflight b (e_ID x) + 1" by (rule iadd_id)
  moreover have "b_inflight b k \<le> 1 + int n" for k using b(2) [of k] by linarith
  ultimately show ?thesis using wf b by (simp add: bal_wf_def add_nonneg_nonneg)
qed

lemma bal_wf_Release:
  assumes wf: "bal_wf n b" and n: "n < 2 ^ 63"
  shows "bal_wf n (Release b ep)"
proof -
  have n': "int n < 2 ^ 63" using n by simp
  have b: "0 \<le> b_inflight b k" "b_inflight b k \<le> int n" for k using wf by (simp_all add: bal_wf_def)
  have "in64 (b_inflight b ep - 1)" unfolding in64_def using b [of ep] n' by linarith
  then have "isub (b_inflight b ep) 1 = b_inflight b ep - 1" by (rule isub_id)
  moreover have "b_inflight b ep - 1 \<le> int n" using b(2) [of ep] by linarith
  ultimately show ?thesis using wf by (simp add: bal_wf_def Release_def)
qed

lemma bal_wf_rr:
  assumes "bal_wf n b" and "filter e_Ready eps \<noteq> []" and "length eps < 2 ^ 63"
  shows "bal_wf n (b\<lparr>b_rrIndex := (b_rrIndex b)(sid :=
     irem (iadd (irem (b_rrIndex b sid) (int (length (ready_sorted eps)))) 1) (int (length (ready_sorted eps))))\<rparr>)"
proof -
  let ?l = "int (length (ready_sorted eps))"
  have l: "0 < ?l" "?l < 2 ^ 63"
    using assms(2) order.strict_trans1 [OF length_filter_le assms(3), of e_Ready] by (simp_all add: ready_sorted_def)
  have i: "irem (b_rrIndex b sid) ?l = b_rrIndex b sid mod ?l"
    using assms(1) l by (simp add: irem_nonneg bal_wf_def)
  have "0 \<le> b_rrIndex b sid mod ?l" "b_rrIndex b sid mod ?l < ?l" using l by simp_all
  then have "iadd (b_rrIndex b sid mod ?l) 1 = b_rrIndex b sid mod ?l + 1"
    using l by (intro iadd_id) (unfold in64_def, linarith)
  moreover have "0 \<le> b_rrIndex b sid mod ?l + 1" using \<open>0 \<le> b_rrIndex b sid mod ?l\<close> by simp
  ultimately show ?thesis using assms(1) l i by (auto simp: bal_wf_def irem_nonneg)
qed

lemma Release_inflight:
  assumes "bal_wf n b" and "n < 2 ^ 63"
  shows "b_inflight (Release b ep) k = (if k = ep then max 0 (b_inflight b k - 1) else b_inflight b k)"
proof -
  have "0 \<le> b_inflight b ep" "b_inflight b ep \<le> int n" "int n < 2 ^ 63" using assms by (simp_all add: bal_wf_def)
  then have "in64 (b_inflight b ep - 1)" unfolding in64_def by linarith
  then show ?thesis using \<open>0 \<le> b_inflight b ep\<close> by (auto simp: Release_def isub_id)
qed

lemma bal_wf_mono: "bal_wf n b \<Longrightarrow> bal_wf (Suc n) b"
  by (auto simp: bal_wf_def intro: order_trans)

lemma Select_refused: "Select b sid strategy eps = (Inl e, b') \<Longrightarrow> b' = b"
  by (erule Select_cases) simp_all

lemma Select_selected:
  assumes "Select b sid strategy eps = (Inr x, b')" and "bal_wf n b" and "length eps < 2 ^ 63"
  obtains c where "b' = acquire c x" "bal_wf n c" "b_inflight c = b_inflight b"
  using assms(1)
proof (cases rule: Select_cases)
  case (rr y)
  then show ?thesis using that bal_wf_rr [OF assms(2) rr(1) assms(3)] by simp
next
  case (lc y)
  then show ?thesis using that assms(2) by simp
qed simp_all

lemma bal_run_inv: "bal_run tr b \<Longrightarrow> length tr < 2 ^ 63 \<Longrightarrow> bal_wf (length tr) b \<and> (\<forall>k. b_inflight b k = int (in_flight tr k))"
proof (induction rule: bal_run.induct)
  case new
  then show ?case by (simp add: bal_wf_def NewBalancer_def)
next
  case (selected tr b eps sid strategy x b')
  then have wf: "bal_wf (length tr) b" and b: "\<And>k. b_inflight b k = int (in_flight tr k)" and len: "Suc (length tr) < 2 ^ 63" by simp_all
  obtain c where c: "b' = acquire c x" "bal_wf (length tr) c" "b_inflight c = b_inflight b"
    using Select_selected [OF selected(3) wf selected(2)] .
  have "int (in_flight tr (e_ID x)) \<le> int (length tr)" using wf unfolding bal_wf_def b by blast
  moreover have "int (length tr) + 1 < 2 ^ 63" using len by simp
  ultimately have "in64 (int (in_flight tr (e_ID x)) + 1)" unfolding in64_def by linarith
  then show ?case using bal_wf_acquire [OF c(2) len, of x] by (simp add: c b iadd_id)
next
  case (released tr b ep)
  then have wf: "bal_wf (length tr) b" and len: "length tr < 2 ^ 63" and b: "\<And>k. b_inflight b k = int (in_flight tr k)" by simp_all
  show ?case using bal_wf_mono [OF bal_wf_Release [OF wf len, of ep]] by (auto simp: Release_inflight [OF wf len] b)
qed (auto dest: Select_refused)

lemma in_flight_le: "in_flight tr k \<le> count_list tr (Selected k)"
  by (induction tr) (auto split: bal_event.split)

lemma in_flight_ge: "count_list tr (Selected k) \<le> in_flight tr k + count_list tr (Released k)"
  by (induction tr) (auto split: bal_event.split)

lemma mset_rotate_id: "mset (rotate k xs) = mset xs"
proof (induction k)
  case (Suc k)
  have "mset (rotate1 ys) = mset ys" for ys :: "'a list" by (cases ys) simp_all
  then show ?case using Suc by simp
qed simp

section \<open>Properties\<close>

text \<open>
  Every selection returns a ready endpoint of the service, counts exactly that endpoint as
  one more in flight, and under \<^verbatim>\<open>least-connections\<close> no other ready endpoint has fewer requests in
  flight; a failed call (no ready endpoint, or an unknown strategy) changes nothing.
\<close>

lemma select_ready_endpoint:
  assumes "Select b sid strategy eps = (r, b')" and "bal_wf n b"
  shows "case r of
      Inr x \<Rightarrow> x \<in> set eps \<and> e_Ready x \<and>
        b_inflight b' = (b_inflight b)(e_ID x := iadd (b_inflight b (e_ID x)) 1) \<and>
        (strategy = StrategyLeastConnections \<longrightarrow>
           (\<forall>y \<in> set eps. e_Ready y \<longrightarrow> b_inflight b (e_ID x) \<le> b_inflight b (e_ID y)))
    | Inl _ \<Rightarrow> b' = b \<and> (filter e_Ready eps = [] \<or>
        strategy \<notin> {[], StrategyRoundRobin, StrategyLeastConnections})"
  using assms(1)
proof (cases rule: Select_cases)
  case (rr x)
  have "x \<in> set (ready_sorted eps)" using rr(4) rr_in_ready [OF rr(1)] assms(2) by (simp add: bal_wf_def)
  then show ?thesis using rr by (auto simp: StrategyLeastConnections_def StrategyRoundRobin_def)
next
  case (lc x)
  let ?h = "hd (ready_sorted eps)"
  let ?t = "tl (ready_sorted eps)"
  have x: "x \<in> set (ready_sorted eps)" using lc(5) lc_in_ready [OF lc(1)] by simp
  have "set (ready_sorted eps) = insert ?h (set ?t)"
    using lc(1) by (metis list.collapse list.simps(15) ready_sorted_Nil)
  moreover have "b_inflight b (e_ID x) \<le> b_inflight b (e_ID ?h)" "\<forall>y \<in> set ?t. b_inflight b (e_ID x) \<le> b_inflight b (e_ID y)"
    using least_loop_minimal [of _ "b_inflight b" ?h ?t] lc(5) by simp_all
  ultimately have "\<forall>y \<in> set (ready_sorted eps). b_inflight b (e_ID x) \<le> b_inflight b (e_ID y)" by simp
  then show ?thesis using lc x by simp
qed auto

definition demo_endpoints :: "ServiceEndpoint list" where
  "demo_endpoints = [zero_ServiceEndpoint\<lparr>e_ID := ''b'', e_Ready := True\<rparr>,
     zero_ServiceEndpoint\<lparr>e_ID := ''c''\<rparr>, zero_ServiceEndpoint\<lparr>e_ID := ''a'', e_Ready := True\<rparr>]"

theorem select_ready_endpoint_witness:
  "\<exists>x. fst (Select NewBalancer ''svc'' ''least-connections'' demo_endpoints) = Inr x \<and> x \<in> set demo_endpoints \<and> e_Ready x"
proof -
  obtain r b' where sel: "Select NewBalancer ''svc'' ''least-connections'' demo_endpoints = (r, b')"
    by (cases "Select NewBalancer ''svc'' ''least-connections'' demo_endpoints")
  have "bal_wf 0 NewBalancer" by (simp add: bal_wf_def NewBalancer_def)
  from select_ready_endpoint [OF sel this] show ?thesis
    using sel by (cases r) (auto simp: demo_endpoints_def StrategyLeastConnections_def)
qed

text \<open>
  (C31) Round robin is fair: as many consecutive calls as there are ready endpoints serve every
  ready endpoint exactly once, from whatever position the service's index was left at.
\<close>

theorem round_robin_fair:
  assumes "filter e_Ready eps \<noteq> []" and "length eps < 2 ^ 63" and "bal_wf n b"
  shows "mset (select_many (length (filter e_Ready eps)) b sid eps) = mset (map Inr (filter e_Ready eps))"
proof -
  have len: "length (filter e_Ready eps) = length (ready_sorted eps)" by (simp add: ready_sorted_def)
  have "length (ready_sorted eps) < 2 ^ 63"
    using order.strict_trans1 [OF length_filter_le assms(2), of e_Ready] by (simp only: len)
  from round_robin_rotate [OF assms(1) this] assms(3) show ?thesis
    unfolding len by (simp add: bal_wf_def mset_rotate_id) (simp add: ready_sorted_def)
qed

theorem round_robin_fair_witness:
  "mset (select_many (length (filter e_Ready demo_endpoints)) NewBalancer ''svc'' demo_endpoints) =
   mset (map Inr (filter e_Ready demo_endpoints))"
  by (rule round_robin_fair [of _ 0]) (simp_all add: demo_endpoints_def bal_wf_def NewBalancer_def)

text \<open>
  (C32) Whatever calls of the balancer led to a state, the in-flight counter of an endpoint is the
  number of requests in flight to it: one more for every selection of the endpoint, one less for every
  release of it while there are any. So it is never negative, never more than the selections of the
  endpoint, and never less than its selections minus its releases. No round-robin index is negative.
\<close>

theorem balancer_counters_exact:
  assumes "bal_run tr b" and "length tr < 2 ^ 63"
  shows "b_inflight b k = int (in_flight tr k) \<and>
    int (count_list tr (Selected k)) - int (count_list tr (Released k)) \<le> b_inflight b k \<and>
    b_inflight b k \<le> int (count_list tr (Selected k)) \<and> 0 \<le> b_rrIndex b k"
  using bal_run_inv [OF assms] in_flight_le [of tr k] in_flight_ge [of tr k] by (auto simp: bal_wf_def)

theorem balancer_counters_exact_witness:
  "b_inflight (Release (snd (Select (snd (Select NewBalancer ''svc'' [] demo_endpoints)) ''svc'' [] demo_endpoints)) ''a'') ''b'' = 1 \<and>
   b_inflight (Release (snd (Select (snd (Select NewBalancer ''svc'' [] demo_endpoints)) ''svc'' [] demo_endpoints)) ''a'') ''a'' = 0"
proof -
  let ?one = "Select NewBalancer ''svc'' [] demo_endpoints"
  let ?two = "Select (snd ?one) ''svc'' [] demo_endpoints"
  have sel: "fst ?one = Inr (demo_endpoints ! 2)" "fst ?two = Inr (demo_endpoints ! 0)" by code_simp+
  have len: "length demo_endpoints < 2 ^ 63" by (simp add: demo_endpoints_def)
  have "bal_run [Selected ''a''] (snd ?one)"
    using bal_run.selected [OF bal_run.new len, of "''svc''" "[]" "demo_endpoints ! 2" "snd ?one"] sel(1)
    by (simp add: prod_eq_iff) (simp add: demo_endpoints_def)
  from bal_run.selected [OF this len, of "''svc''" "[]" "demo_endpoints ! 0" "snd ?two"] sel(2)
  have "bal_run [Selected ''b'', Selected ''a''] (snd ?two)" by (simp add: prod_eq_iff) (simp add: demo_endpoints_def)
  from balancer_counters_exact [OF bal_run.released [OF this, of "''a''"]] show ?thesis by simp
qed

end
