(* ===== verification/Orch_World.thy ===== *)
theory Orch_World
  imports Store_Props Scheduler Balancer
begin

text \<open>
  The state of \<^verbatim>\<open>Orchestrator\<close> (\<^verbatim>\<open>internal/service/orchestrator.go\<close>) and the helpers its handlers share:
  the mutex \<^verbatim>\<open>mu\<close>, events and their subscribers, conditions, finalizers, rollout defaults, namespaces
  and quotas, and the admission plugin.

  \<open>world\<close> extends the store's state by the orchestrator's own fields. Locking \<^verbatim>\<open>mu\<close> while it is
  held blocks the goroutine for ever; the ghost field \<open>o_stuck\<close> records that. The locks \<^verbatim>\<open>subsMu\<close>,
  \<^verbatim>\<open>healthMu\<close> and the balancer's guard single steps that call nothing else, so they are not fields.
  What runs outside the process (plugins, key sources, ciphers) is in the environment \<open>oenv\<close>.
\<close>

section \<open>Environment and state\<close>

datatype admission_payload = AdmDeployment DeploymentSpec | AdmService ServiceSpec

text \<open>The answer of the admission plugin: the process failed, its output is not the expected JSON,
  or a decision with a reason.\<close>

datatype admission_answer = AdmRunFailed err | AdmBadOutput err | AdmDecision bool string

record 'db oenv = "'db env" +
  oe_planner :: Planner
  oe_nodeTTL :: duration
  oe_score :: "nat \<Rightarrow> score_process"
  oe_getenv :: "string \<Rightarrow> string"
  oe_admission :: "nat \<Rightarrow> string list \<Rightarrow> string \<Rightarrow> admission_payload \<Rightarrow> admission_answer"
  oe_readFile :: "string \<Rightarrow> err + string"
  oe_httpGet :: "string \<Rightarrow> err + string"
  oe_b64decode :: "string \<Rightarrow> err + string"
  oe_b64encode :: "string \<Rightarrow> string"
  oe_sha256 :: "string \<Rightarrow> string"
  oe_nonce :: "nat \<Rightarrow> err + string"
  oe_gcmSeal :: "string \<Rightarrow> string \<Rightarrow> string \<Rightarrow> string"
  oe_gcmOpen :: "string \<Rightarrow> string \<Rightarrow> string \<Rightarrow> err + string"

text \<open>A subscriber: its channel's identity, capacity and buffered events.\<close>

record subscriber =
  sub_chan :: nat
  sub_cap :: nat
  sub_buf :: "Event list"

record 'db world = "'db store_state" +
  o_mu :: bool
  o_stuck :: bool
  o_subscribers :: "subscriber list"
  o_nextChan :: nat
  o_healthSamples :: "string \<Rightarrow> NodeHealthSample list"
  o_balance :: Balancer

type_synonym ('db, 'a) orch = "('db world, 'a) go"

text \<open>\<^verbatim>\<open>NewOrchestrator\<close> on a database.\<close>

definition NewOrchestrator :: "'db \<Rightarrow> 'db world" where
  "NewOrchestrator db = \<lparr>st_db = db, st_tick = 0, o_mu = False, o_stuck = False, o_subscribers = [],
     o_nextChan = 0, o_healthSamples = (\<lambda>_. []), o_balance = NewBalancer\<rparr>"

text \<open>\<^verbatim>\<open>o.mu.Lock(); defer o.mu.Unlock()\<close> around a body.\<close>

definition with_mu :: "('db, 'a) orch \<Rightarrow> ('db, 'a) orch" where
  "with_mu m s = (if o_mu s then (Inl ErrDeadlock, s\<lparr>o_stuck := True\<rparr>)
     else case m (s\<lparr>o_mu := True\<rparr>) of (r, t) \<Rightarrow> (r, t\<lparr>o_mu := False\<rparr>))"

text \<open>The number of the next outside answer.\<close>

definition next_tick :: "('db, nat) orch" where
  "next_tick s = (Inr (st_tick s), s\<lparr>st_tick := Suc (st_tick s)\<rparr>)"

section \<open>Events\<close>

definition deliver :: "Event \<Rightarrow> subscriber \<Rightarrow> subscriber" where
  "deliver ev sub = (if length (sub_buf sub) < sub_cap sub then sub\<lparr>sub_buf := sub_buf sub @ [ev]\<rparr> else sub)"

definition emitEvent :: "'db oenv \<Rightarrow> Event \<Rightarrow> ('db, unit) orch" where
  "emitEvent E event =
     bnd (time_now E) (\<lambda>now. let event = event\<lparr>ev_Timestamp := now\<rparr> in
     bnd (rand_intn E 9999) (\<lambda>r. let event = event\<lparr>ev_ID :=
       ''evt-'' @ show_int (ev_Timestamp event) @ ''-'' @ show_pad 4 r\<rparr> in
     seq (st_AppendEvent E event)
       (modify (\<lambda>s. s\<lparr>o_subscribers := map (deliver event) (o_subscribers s)\<rparr>))))"

definition event :: "EventLevel \<Rightarrow> string \<Rightarrow> string \<Rightarrow> string \<Rightarrow> string \<Rightarrow> string \<Rightarrow> string \<Rightarrow> Event" where
  "event level ty reason msg dep wk node = \<lparr>ev_ID = [], ev_Timestamp = zero_time, ev_Level = level, ev_Type = ty,
     ev_Reason = reason, ev_Message = msg, ev_DeploymentID = dep, ev_WorkloadID = wk, ev_NodeID = node\<rparr>"

definition SubscribeEvents :: "int \<Rightarrow> ('db, nat) orch" where
  "SubscribeEvents buffer s = (let buffer = (if buffer \<le> 0 then 32 else buffer); ch = o_nextChan s in
     (Inr ch, s\<lparr>o_subscribers := \<lparr>sub_chan = ch, sub_cap = nat buffer, sub_buf = []\<rparr> # o_subscribers s,
                o_nextChan := Suc ch\<rparr>))"

text \<open>The cleanup function that \<^verbatim>\<open>SubscribeEvents\<close> returns.\<close>

definition UnsubscribeEvents :: "nat \<Rightarrow> ('db, unit) orch" where
  "UnsubscribeEvents ch = modify (\<lambda>s. s\<lparr>o_subscribers := filter (\<lambda>sub. sub_chan sub \<noteq> ch) (o_subscribers s)\<rparr>)"

section \<open>Conditions, finalizers, arithmetic helpers\<close>

fun set_condition_loop :: "DeploymentCondition list \<Rightarrow> DeploymentCondition \<Rightarrow> bool \<Rightarrow> DeploymentCondition list \<times> bool" where
  "set_condition_loop [] nxt updated = ([], updated)"
| "set_condition_loop (c # cs) nxt updated =
     (if c_Type c = c_Type nxt
      then (case set_condition_loop cs nxt True of (out, u) \<Rightarrow> (nxt # out, u))
      else (case set_condition_loop cs nxt updated of (out, u) \<Rightarrow> (c # out, u)))"

definition setCondition :: "DeploymentCondition list \<Rightarrow> DeploymentCondition \<Rightarrow> DeploymentCondition list" where
  "setCondition existing nxt = (case set_condition_loop existing nxt False of (out, updated) \<Rightarrow>
     if \<not> updated then out @ [nxt] else out)"

definition condition :: "DeploymentConditionType \<Rightarrow> bool \<Rightarrow> string \<Rightarrow> string \<Rightarrow> gotime \<Rightarrow> DeploymentCondition" where
  "condition ty status reason msg t = \<lparr>c_Type = ty, c_Status = status, c_Reason = reason, c_Message = msg, c_LastTransitionTime = t\<rparr>"

definition removeFinalizer :: "string list \<Rightarrow> string \<Rightarrow> string list" where
  "removeFinalizer finalizers target = filter (\<lambda>f. f \<noteq> target) finalizers"

definition minInt :: "int \<Rightarrow> int \<Rightarrow> int" where
  "minInt a b = (if a < b then a else b)"

definition maxInt :: "int \<Rightarrow> int \<Rightarrow> int" where
  "maxInt a b = (if a > b then a else b)"

definition safeUtilization :: "int \<Rightarrow> int \<Rightarrow> float64" where
  "safeUtilization used alloc = (if alloc \<le> 0 then 0 else
     let v = fdiv (f_of_int used) (f_of_int alloc) in if v < 0 then 0 else if v > 1 then 1 else v)"

definition normalizeRolloutSpec :: "RolloutSpec \<Rightarrow> RolloutSpec" where
  "normalizeRolloutSpec ro = (let
     ro = (if ro_Strategy ro = StrategyUnset then ro\<lparr>ro_Strategy := RolloutStrategyRollingUpdate\<rparr> else ro);
     ro = (if ro_ProgressDeadlineSeconds ro < 0 then ro\<lparr>ro_ProgressDeadlineSeconds := 0\<rparr> else ro);
     ro = (if ro_MaxFailedWorkloads ro < 0 then ro\<lparr>ro_MaxFailedWorkloads := 0\<rparr> else ro);
     ro = (if ro_SLOErrorRateThreshold ro < 0 then ro\<lparr>ro_SLOErrorRateThreshold := 0\<rparr> else ro);
     ro = (if ro_SLOWindowSeconds ro < 0 then ro\<lparr>ro_SLOWindowSeconds := 0\<rparr> else ro);
     ro = (if MaxSurge (ro_RollingUpdate ro) < 0 then ro\<lparr>ro_RollingUpdate := (ro_RollingUpdate ro)\<lparr>MaxSurge := 0\<rparr>\<rparr> else ro);
     ro = (if MaxUnavailable (ro_RollingUpdate ro) < 0 then ro\<lparr>ro_RollingUpdate := (ro_RollingUpdate ro)\<lparr>MaxUnavailable := 0\<rparr>\<rparr> else ro)
   in if ro_Strategy ro = RolloutStrategyCanary then (let
       ro = (if ca_Percentage (ro_Canary ro) \<le> 0 then ro\<lparr>ro_Canary := (ro_Canary ro)\<lparr>ca_Percentage := 20\<rparr>\<rparr> else ro);
       ro = (if ca_Percentage (ro_Canary ro) > 100 then ro\<lparr>ro_Canary := (ro_Canary ro)\<lparr>ca_Percentage := 100\<rparr>\<rparr> else ro)
     in ro\<lparr>ro_Canary := (ro_Canary ro)\<lparr>ca_Enabled := True\<rparr>\<rparr>)
   else ro)"

definition normalize_spec :: "DeploymentSpec \<Rightarrow> DeploymentSpec" where
  "normalize_spec spec = spec\<lparr>sp_Rollout := normalizeRolloutSpec (sp_Rollout spec)\<rparr>"

definition isRolloutInProgress :: "string \<Rightarrow> bool" where
  "isRolloutInProgress phase \<longleftrightarrow>
     phase \<in> set [''Progressing'', ''Canary'', ''CanaryPromoting'', ''Autoscaling'', ''Rollback'']"

section \<open>Namespaces, quotas and admission\<close>

definition ensureNamespaceExists :: "'db oenv \<Rightarrow> string \<Rightarrow> ('db, unit) orch" where
  "ensureNamespaceExists E namespace = (let
     namespace = TrimSpace namespace;
     namespace = (if namespace = [] then ''default'' else namespace) in
     bnd (attempt (st_GetNamespace E namespace)) (\<lambda>r. case r of
       Inr _ \<Rightarrow> ret ()
     | Inl _ \<Rightarrow>
       bnd (time_now E) (\<lambda>t1. bnd (time_now E) (\<lambda>t2.
       bnd (attempt (st_CreateNamespace E
         \<lparr>ns_Name = namespace, ns_Tenant = ''default'', ns_CreatedAt = t1, ns_UpdatedAt = t2\<rparr>)) (\<lambda>c. case c of
         Inr _ \<Rightarrow> ret ()
       | Inl err \<Rightarrow> bnd (attempt (st_GetNamespace E namespace)) (\<lambda>g. case g of
           Inr _ \<Rightarrow> ret ()
         | Inl _ \<Rightarrow> throw err))))))"

text \<open>The loop that adds up the deployments of the namespace: their number, CPU and memory.\<close>

fun quota_usage :: "string \<Rightarrow> Deployment list \<Rightarrow> int \<times> int \<times> int \<Rightarrow> int \<times> int \<times> int" where
  "quota_usage ns [] acc = acc"
| "quota_usage ns (d # deps) (cnt, usedCPU, usedMem) =
     (if sp_Namespace (d_Spec d) \<noteq> ns then quota_usage ns deps (cnt, usedCPU, usedMem)
      else quota_usage ns deps (iadd cnt 1,
        iadd usedCPU (imul (sp_Replicas (d_Spec d)) (MilliCPU (sp_Resources (d_Spec d)))),
        iadd usedMem (imul (sp_Replicas (d_Spec d)) (MemoryMB (sp_Resources (d_Spec d))))))"

definition enforceNamespaceQuota :: "'db oenv \<Rightarrow> DeploymentSpec \<Rightarrow> ('db, unit) orch" where
  "enforceNamespaceQuota E spec =
     bnd (attempt (st_GetNamespaceQuota E (sp_Namespace spec))) (\<lambda>r. case r of
       Inl err \<Rightarrow> if err_is err ErrNotFound then ret () else throw err
     | Inr quota \<Rightarrow>
       if q_MaxDeployments quota = 0 \<and> q_MaxMilliCPU quota = 0 \<and> q_MaxMemoryMB quota = 0 then ret ()
       else bnd (st_ListDeployments E) (\<lambda>deps.
         case quota_usage (sp_Namespace spec) deps (0, 0, 0) of (cnt, usedCPU, usedMem) \<Rightarrow>
         let newCPU = iadd usedCPU (imul (sp_Replicas spec) (MilliCPU (sp_Resources spec)));
             newMem = iadd usedMem (imul (sp_Replicas spec) (MemoryMB (sp_Resources spec))) in
         if q_MaxDeployments quota > 0 \<and> iadd cnt 1 > q_MaxDeployments quota
         then throw (ErrText (''namespace quota exceeded: max deployments '' @ show_int (q_MaxDeployments quota)))
         else if q_MaxMilliCPU quota > 0 \<and> newCPU > q_MaxMilliCPU quota
         then throw (ErrText (''namespace quota exceeded: max milliCPU '' @ show_int (q_MaxMilliCPU quota)))
         else if q_MaxMemoryMB quota > 0 \<and> newMem > q_MaxMemoryMB quota
         then throw (ErrText (''namespace quota exceeded: max memoryMB '' @ show_int (q_MaxMemoryMB quota)))
         else ret ()))"

definition runAdmissionCheck :: "'db oenv \<Rightarrow> string \<Rightarrow> admission_payload \<Rightarrow> ('db, unit) orch" where
  "runAdmissionCheck E kind payload = (let cmdText = TrimSpace (oe_getenv E ''ORCH_ADMISSION_PLUGIN_CMD'') in
     if cmdText = [] then ret ()
     else let parts = Fields cmdText in
     if length parts = 0 then ret ()
     else bnd next_tick (\<lambda>n. case oe_admission E n parts kind payload of
       AdmRunFailed err \<Rightarrow> throw (ErrWrap ''admission plugin failed: '' err)
     | AdmBadOutput err \<Rightarrow> throw (ErrWrap ''admission plugin invalid response: '' err)
     | AdmDecision allowed reason \<Rightarrow>
         if \<not> allowed then throw (ErrText (if blank reason then ''admission denied by plugin'' else reason))
         else ret ()))"

section \<open>What the helpers write\<close>

lemma contents_world [simp]:
  "contents E (s\<lparr>o_mu := b\<rparr>) = contents E s" "contents E (s\<lparr>o_stuck := b\<rparr>) = contents E s"
  "contents E (s\<lparr>o_subscribers := subs\<rparr>) = contents E s" "contents E (s\<lparr>o_nextChan := n\<rparr>) = contents E s"
  "contents E (s\<lparr>o_healthSamples := h\<rparr>) = contents E s" "contents E (s\<lparr>o_balance := bal\<rparr>) = contents E s"
  "contents E (s\<lparr>st_tick := k\<rparr>) = contents E s"
  by (simp_all add: contents_def)

lemma ev_modify: "(\<And>s. contents E (f s) = contents E s) \<Longrightarrow> stays (evolves E W) (modify f)"
  by (auto simp: stays_def modify_def intro: evolves_same)

lemma ev_next_tick: "stays (evolves E W) next_tick"
  by (auto simp: stays_def next_tick_def intro: evolves_same)

lemma ev_with_mu: "stays (evolves E W) m \<Longrightarrow> stays (evolves E W) (with_mu m)"
  unfolding stays_def with_mu_def evolves_def
  by (auto split: prod.splits intro: writes.refl) (metis contents_world(1) snd_conv)

lemma ev_emitEvent:
  assumes E: "env_ok E" and W: "\<And>ev. W (keyEvent (ev_Timestamp ev) (ev_ID ev)) (Some (JEvent ev))"
  shows "stays (evolves E W) (emitEvent E e)"
  unfolding emitEvent_def Let_def
proof (intro ev.bnd ev_time ev_rand ev.seq ev_modify ev_AppendEvent E)
  fix x xa t i
  show "W (keyEvent t i) (Some (JEvent (e\<lparr>ev_Timestamp := x, ev_ID := ''evt-'' @ show_int (ev_Timestamp (e\<lparr>ev_Timestamp := x\<rparr>)) @
      ''-'' @ show_pad 4 xa, ev_ID := i, ev_Timestamp := t\<rparr>)))"
    using W [of "e\<lparr>ev_ID := i, ev_Timestamp := t\<rparr>"] by simp
qed simp

lemma ev_ensureNamespaceExists:
  assumes E: "env_ok E" and W: "\<And>ns. W (keyNamespace (ns_Name ns)) (Some (JNamespace ns))"
  shows "stays (evolves E W) (ensureNamespaceExists E n)"
  unfolding ensureNamespaceExists_def Let_def
  by (intro stays_intros ev.rules ev_reads ev_time ev_CreateNamespace E)
    (use W [of "\<lparr>ns_Name = _, ns_Tenant = _, ns_CreatedAt = _, ns_UpdatedAt = _\<rparr>"] in simp)

lemma ev_enforceNamespaceQuota: "env_ok E \<Longrightarrow> stays (evolves E W) (enforceNamespaceQuota E spec)"
  unfolding enforceNamespaceQuota_def Let_def
  by (intro stays_intros ev.rules ev_reads)

lemma stays_case_admission [stays_intros]:
  "(\<And>e. a = AdmRunFailed e \<Longrightarrow> stays R (f e)) \<Longrightarrow> (\<And>e. a = AdmBadOutput e \<Longrightarrow> stays R (g e)) \<Longrightarrow>
   (\<And>b r. a = AdmDecision b r \<Longrightarrow> stays R (h b r)) \<Longrightarrow>
   stays R (case a of AdmRunFailed e \<Rightarrow> f e | AdmBadOutput e \<Rightarrow> g e | AdmDecision b r \<Rightarrow> h b r)"
  by (cases a) auto

lemma ev_runAdmissionCheck: "stays (evolves E W) (runAdmissionCheck E kind payload)"
  unfolding runAdmissionCheck_def Let_def
  by (intro stays_intros ev.rules ev_next_tick)

section \<open>The mutex\<close>

text \<open>
  \<open>quiet\<close>: a call leaves the mutex as it found it and never blocks; \<open>free\<close>: started with the mutex
  free, it ends with the mutex free and never blocks. Code that runs under the lock is \<open>quiet\<close>, a
  public operation is \<open>free\<close>.
\<close>

definition quiet :: "'db world \<Rightarrow> 'db world \<Rightarrow> bool" where
  "quiet s t \<longleftrightarrow> o_mu t = o_mu s \<and> o_stuck t = o_stuck s"

definition free :: "'db world \<Rightarrow> 'db world \<Rightarrow> bool" where
  "free s t \<longleftrightarrow> (\<not> o_mu s \<and> \<not> o_stuck s \<longrightarrow> \<not> o_mu t \<and> \<not> o_stuck t)"

interpretation quiet: frame quiet
  by unfold_locales (auto simp: quiet_def)

interpretation free: frame free
  by unfold_locales (auto simp: free_def)

lemma same_rest_quiet: "same_rest s t \<Longrightarrow> quiet s t"
  by (cases s, cases t) (simp add: same_rest_def quiet_def store_state.defs world.defs)

lemma quiet_of_rest: "stays same_rest m \<Longrightarrow> stays quiet m"
  by (erule stays_mono) (rule same_rest_quiet)

lemma free_of_quiet: "stays quiet m \<Longrightarrow> stays free m"
  by (erule stays_mono) (auto simp: quiet_def free_def)

lemma free_with_mu:
  assumes "stays quiet m"
  shows "stays free (with_mu m)"
proof (intro staysI wpI)
  fix s r t assume w: "with_mu m s = (r, t)"
  obtain q u where m: "m (s\<lparr>o_mu := True\<rparr>) = (q, u)" by (cases "m (s\<lparr>o_mu := True\<rparr>)")
  from staysD [OF assms m] have "o_stuck u = o_stuck s" by (simp add: quiet_def)
  then show "free s t" using w m by (auto simp: with_mu_def free_def split: if_splits)
qed

lemma quiet_modify: "(\<And>s. o_mu (f s) = o_mu s \<and> o_stuck (f s) = o_stuck s) \<Longrightarrow> stays quiet (modify f)"
  by (simp add: stays_def modify_def quiet_def)

lemma quiet_next_tick: "stays quiet next_tick"
  by (simp add: stays_def next_tick_def quiet_def)

lemmas quiet_store = rest_prims [THEN quiet_of_rest] rest_ops [THEN quiet_of_rest]
  rest_reads [THEN quiet_of_rest] rest_writes [THEN quiet_of_rest]

lemma quiet_emitEvent: "stays quiet (emitEvent E e)"
  unfolding emitEvent_def Let_def
  by (intro quiet.bnd quiet.seq quiet_store quiet_modify) simp

lemma quiet_ensureNamespaceExists: "stays quiet (ensureNamespaceExists E n)"
  unfolding ensureNamespaceExists_def Let_def
  by (intro stays_intros quiet.rules quiet_store)

lemma quiet_enforceNamespaceQuota: "stays quiet (enforceNamespaceQuota E spec)"
  unfolding enforceNamespaceQuota_def Let_def
  by (intro stays_intros quiet.rules quiet_store)

lemma quiet_runAdmissionCheck: "stays quiet (runAdmissionCheck E kind payload)"
  unfolding runAdmissionCheck_def Let_def
  by (intro stays_intros quiet.rules quiet_next_tick)

lemmas quiet_rules = stays_intros quiet.rules quiet_store quiet_modify quiet_next_tick quiet_emitEvent
  quiet_ensureNamespaceExists quiet_enforceNamespaceQuota quiet_runAdmissionCheck

section \<open>Conditions\<close>

lemma set_condition_loop_eq:
  "set_condition_loop cs nxt u = (map (\<lambda>c. if c_Type c = c_Type nxt then nxt else c) cs, u \<or> c_Type nxt \<in> c_Type ` set cs)"
  by (induction cs arbitrary: u) auto

lemma setCondition_eq:
  "setCondition cs nxt = (if c_Type nxt \<in> c_Type ` set cs
     then map (\<lambda>c. if c_Type c = c_Type nxt then nxt else c) cs else cs @ [nxt])"
  by (auto simp: setCondition_def set_condition_loop_eq image_iff intro!: map_idI)

lemma types_setCondition:
  "map c_Type (setCondition cs nxt) = (if c_Type nxt \<in> c_Type ` set cs then map c_Type cs else map c_Type cs @ [c_Type nxt])"
  by (auto simp: setCondition_eq)

text \<open>
  Setting a condition keeps at most one condition per type: the condition of that type is
  the new one, and the conditions of the other types are unchanged and in the same order.
\<close>

lemma set_condition_unique:
  assumes "distinct (map c_Type cs)"
  shows "distinct (map c_Type (setCondition cs nxt)) \<and>
    filter (\<lambda>c. c_Type c = c_Type nxt) (setCondition cs nxt) = [nxt] \<and>
    filter (\<lambda>c. c_Type c \<noteq> c_Type nxt) (setCondition cs nxt) = filter (\<lambda>c. c_Type c \<noteq> c_Type nxt) cs"
  using assms
proof (induction cs)
  case Nil
  show ?case by (simp add: setCondition_def)
next
  case (Cons c cs)
  show ?case
  proof (cases "c_Type c = c_Type nxt")
    case True
    then have other: "c_Type nxt \<notin> c_Type ` set cs" using Cons.prems by auto
    then have "map (\<lambda>c. if c_Type c = c_Type nxt then nxt else c) cs = cs"
      by (auto simp: image_iff intro!: map_idI)
    moreover have "filter (\<lambda>c. c_Type c = c_Type nxt) cs = []" using other by (auto simp: filter_empty_conv image_iff)
    ultimately show ?thesis using Cons.prems True by (simp add: setCondition_eq)
  next
    case False
    then have "setCondition (c # cs) nxt = c # setCondition cs nxt" by (auto simp: setCondition_eq)
    moreover have "c_Type ` set (setCondition cs nxt) = insert (c_Type nxt) (c_Type ` set cs)"
      using types_setCondition [of cs nxt] by (metis (no_types, lifting) image_set list.set_map insert_absorb set_append list.simps(15) Un_insert_right list.set(1) sup_bot.right_neutral)
    ultimately show ?thesis using Cons False by auto
  qed
qed

theorem set_condition_unique_witness:
  "filter (\<lambda>c. c_Type c = ConditionAvailable) (setCondition [condition ConditionProgressing True [] [] 0,
     condition ConditionAvailable False [] [] 0] (condition ConditionAvailable True ''ok'' [] 7)) =
   [condition ConditionAvailable True ''ok'' [] 7]"
proof -
  have "distinct (map c_Type [condition ConditionProgressing True [] [] 0, condition ConditionAvailable False [] [] 0])"
    by (simp add: condition_def)
  from set_condition_unique [OF this, of "condition ConditionAvailable True ''ok'' [] 7"] show ?thesis
    by (simp add: condition_def)
qed

section \<open>Rollout defaults\<close>

definition rollout_wf :: "RolloutSpec \<Rightarrow> bool" where
  "rollout_wf ro \<longleftrightarrow> ro_Strategy ro \<noteq> StrategyUnset \<and> 0 \<le> ro_ProgressDeadlineSeconds ro \<and> 0 \<le> ro_MaxFailedWorkloads ro \<and>
     0 \<le> ro_SLOErrorRateThreshold ro \<and> 0 \<le> ro_SLOWindowSeconds ro \<and>
     0 \<le> MaxSurge (ro_RollingUpdate ro) \<and> 0 \<le> MaxUnavailable (ro_RollingUpdate ro) \<and>
     (if ro_Strategy ro = RolloutStrategyCanary
      then ca_Enabled (ro_Canary ro) \<and> 1 \<le> ca_Percentage (ro_Canary ro) \<and> ca_Percentage (ro_Canary ro) \<le> 100 else True)"

lemma norm_steps:
  "(if ro_ProgressDeadlineSeconds ro < 0 then ro\<lparr>ro_ProgressDeadlineSeconds := 0\<rparr> else ro) =
     ro\<lparr>ro_ProgressDeadlineSeconds := max 0 (ro_ProgressDeadlineSeconds ro)\<rparr>"
  "(if ro_MaxFailedWorkloads ro < 0 then ro\<lparr>ro_MaxFailedWorkloads := 0\<rparr> else ro) =
     ro\<lparr>ro_MaxFailedWorkloads := max 0 (ro_MaxFailedWorkloads ro)\<rparr>"
  "(if ro_SLOErrorRateThreshold ro < 0 then ro\<lparr>ro_SLOErrorRateThreshold := 0\<rparr> else ro) =
     ro\<lparr>ro_SLOErrorRateThreshold := max 0 (ro_SLOErrorRateThreshold ro)\<rparr>"
  "(if ro_SLOWindowSeconds ro < 0 then ro\<lparr>ro_SLOWindowSeconds := 0\<rparr> else ro) =
     ro\<lparr>ro_SLOWindowSeconds := max 0 (ro_SLOWindowSeconds ro)\<rparr>"
  "(if MaxSurge (ro_RollingUpdate ro) < 0 then ro\<lparr>ro_RollingUpdate := (ro_RollingUpdate ro)\<lparr>MaxSurge := 0\<rparr>\<rparr> else ro) =
     ro\<lparr>ro_RollingUpdate := (ro_RollingUpdate ro)\<lparr>MaxSurge := max 0 (MaxSurge (ro_RollingUpdate ro))\<rparr>\<rparr>"
  "(if MaxUnavailable (ro_RollingUpdate ro) < 0 then ro\<lparr>ro_RollingUpdate := (ro_RollingUpdate ro)\<lparr>MaxUnavailable := 0\<rparr>\<rparr> else ro) =
     ro\<lparr>ro_RollingUpdate := (ro_RollingUpdate ro)\<lparr>MaxUnavailable := max 0 (MaxUnavailable (ro_RollingUpdate ro))\<rparr>\<rparr>"
  "(if ro_Strategy ro = StrategyUnset then ro\<lparr>ro_Strategy := RolloutStrategyRollingUpdate\<rparr> else ro) =
     ro\<lparr>ro_Strategy := (if ro_Strategy ro = StrategyUnset then RolloutStrategyRollingUpdate else ro_Strategy ro)\<rparr>"
  by (simp_all add: max_def)

lemma norm_canary:
  "(let ro = (if ca_Percentage (ro_Canary ro) \<le> 0 then ro\<lparr>ro_Canary := (ro_Canary ro)\<lparr>ca_Percentage := 20\<rparr>\<rparr> else ro);
        ro = (if ca_Percentage (ro_Canary ro) > 100 then ro\<lparr>ro_Canary := (ro_Canary ro)\<lparr>ca_Percentage := 100\<rparr>\<rparr> else ro)
    in ro\<lparr>ro_Canary := (ro_Canary ro)\<lparr>ca_Enabled := True\<rparr>\<rparr>) =
   ro\<lparr>ro_Canary := \<lparr>ca_Enabled = True, ca_Percentage = (let p = ca_Percentage (ro_Canary ro) in
      if p \<le> 0 then 20 else if p > 100 then 100 else p)\<rparr>\<rparr>"
  by (cases "ro_Canary ro") (simp add: Let_def)

lemma normalize_eq:
  "normalizeRolloutSpec ro = (let st = (if ro_Strategy ro = StrategyUnset then RolloutStrategyRollingUpdate else ro_Strategy ro) in
     \<lparr>ro_Strategy = st,
      ro_RollingUpdate = \<lparr>MaxUnavailable = max 0 (MaxUnavailable (ro_RollingUpdate ro)), MaxSurge = max 0 (MaxSurge (ro_RollingUpdate ro))\<rparr>,
      ro_Canary = (if st = RolloutStrategyCanary then \<lparr>ca_Enabled = True, ca_Percentage = (let p = ca_Percentage (ro_Canary ro) in
         if p \<le> 0 then 20 else if p > 100 then 100 else p)\<rparr> else ro_Canary ro),
      ro_ProgressDeadlineSeconds = max 0 (ro_ProgressDeadlineSeconds ro),
      ro_AutoRollbackOnFailure = ro_AutoRollbackOnFailure ro,
      ro_MaxFailedWorkloads = max 0 (ro_MaxFailedWorkloads ro),
      ro_SLOErrorRateThreshold = max 0 (ro_SLOErrorRateThreshold ro),
      ro_SLOWindowSeconds = max 0 (ro_SLOWindowSeconds ro)\<rparr>)"
  unfolding normalizeRolloutSpec_def norm_steps norm_canary
  by (cases ro, cases "ro_RollingUpdate ro") (simp add: Let_def)

lemma normalize_wf: "rollout_wf (normalizeRolloutSpec ro)"
  by (simp add: normalize_eq Let_def rollout_wf_def)

lemma normalize_fix: "rollout_wf ro \<Longrightarrow> normalizeRolloutSpec ro = ro"
  by (cases ro, cases "ro_RollingUpdate ro", cases "ro_Canary ro") (auto simp: normalize_eq Let_def rollout_wf_def max_def)

lemma normalize_surge_unavailable:
  "MaxSurge (ro_RollingUpdate (normalizeRolloutSpec ro)) = max 0 (MaxSurge (ro_RollingUpdate ro))"
  "MaxUnavailable (ro_RollingUpdate (normalizeRolloutSpec ro)) = max 0 (MaxUnavailable (ro_RollingUpdate ro))"
  by (simp_all add: normalize_eq Let_def)


section \<open>Namespace quotas\<close>

definition spec_cpu :: "DeploymentSpec \<Rightarrow> int" where
  "spec_cpu spec = sp_Replicas spec * MilliCPU (sp_Resources spec)"

definition spec_mem :: "DeploymentSpec \<Rightarrow> int" where
  "spec_mem spec = sp_Replicas spec * MemoryMB (sp_Resources spec)"

text \<open>The deployments of a namespace in the database.\<close>

definition ns_deployments :: "(string \<Rightarrow> blob option) \<Rightarrow> string \<Rightarrow> Deployment set" where
  "ns_deployments m ns = {d \<in> ran (view un_Deployment ''deployment:'' m). sp_Namespace (d_Spec d) = ns}"

lemma quota_usage_sums:
  assumes "\<forall>d \<in> set (filter (\<lambda>d. sp_Namespace (d_Spec d) = ns) deps). 0 \<le> spec_cpu (d_Spec d) \<and> 0 \<le> spec_mem (d_Spec d)"
    and "0 \<le> c" "0 \<le> u" "0 \<le> v"
    and "c + int (length (filter (\<lambda>d. sp_Namespace (d_Spec d) = ns) deps)) < 2 ^ 63"
    and "u + (\<Sum>d \<leftarrow> filter (\<lambda>d. sp_Namespace (d_Spec d) = ns) deps. spec_cpu (d_Spec d)) < 2 ^ 63"
    and "v + (\<Sum>d \<leftarrow> filter (\<lambda>d. sp_Namespace (d_Spec d) = ns) deps. spec_mem (d_Spec d)) < 2 ^ 63"
  shows "quota_usage ns deps (c, u, v) =
    (c + int (length (filter (\<lambda>d. sp_Namespace (d_Spec d) = ns) deps)),
     u + (\<Sum>d \<leftarrow> filter (\<lambda>d. sp_Namespace (d_Spec d) = ns) deps. spec_cpu (d_Spec d)),
     v + (\<Sum>d \<leftarrow> filter (\<lambda>d. sp_Namespace (d_Spec d) = ns) deps. spec_mem (d_Spec d)))"
  using assms
proof (induction deps arbitrary: c u v)
  case (Cons d deps)
  let ?f = "filter (\<lambda>d. sp_Namespace (d_Spec d) = ns) deps"
  have pos: "0 \<le> (\<Sum>d \<leftarrow> ?f. spec_cpu (d_Spec d))" "0 \<le> (\<Sum>d \<leftarrow> ?f. spec_mem (d_Spec d))"
    using Cons.prems(1) by (auto intro!: sum_list_nonneg)
  show ?case
  proof (cases "sp_Namespace (d_Spec d) = ns")
    case True
    let ?cpu = "spec_cpu (d_Spec d)" and ?mem = "spec_mem (d_Spec d)"
    have b: "0 \<le> ?cpu" "0 \<le> ?mem" using Cons.prems(1) True by simp_all
    have le: "c + 1 < 2 ^ 63" "u + ?cpu < 2 ^ 63" "v + ?mem < 2 ^ 63"
      using Cons.prems(5-7) True pos by simp_all
    have "in64 (c + 1)" "in64 ?cpu" "in64 ?mem" "in64 (u + ?cpu)" "in64 (v + ?mem)"
      unfolding in64_def using b le Cons.prems(2-4) by linarith+
    then have "iadd c 1 = c + 1" "iadd u (imul (sp_Replicas (d_Spec d)) (MilliCPU (sp_Resources (d_Spec d)))) = u + ?cpu"
      "iadd v (imul (sp_Replicas (d_Spec d)) (MemoryMB (sp_Resources (d_Spec d)))) = v + ?mem"
      by (simp_all add: iadd_def imul_def i64_id spec_cpu_def spec_mem_def)
    moreover have "quota_usage ns deps (c + 1, u + ?cpu, v + ?mem) =
      (c + 1 + int (length ?f), u + ?cpu + (\<Sum>d \<leftarrow> ?f. spec_cpu (d_Spec d)), v + ?mem + (\<Sum>d \<leftarrow> ?f. spec_mem (d_Spec d)))"
      by (rule Cons.IH) (use Cons.prems b True in \<open>auto simp: algebra_simps\<close>)
    ultimately show ?thesis using True by (simp add: algebra_simps)
  next
    case False
    then show ?thesis using Cons by simp
  qed
qed simp

text \<open>The request fits into the quota next to what the namespace already has; 0 means no limit.\<close>

definition within_quota :: "NamespaceQuota \<Rightarrow> Deployment set \<Rightarrow> DeploymentSpec \<Rightarrow> bool" where
  "within_quota q D spec \<longleftrightarrow>
     (q_MaxDeployments q > 0 \<longrightarrow> int (card D) + 1 \<le> q_MaxDeployments q) \<and>
     (q_MaxMilliCPU q > 0 \<longrightarrow> (\<Sum>d \<in> D. spec_cpu (d_Spec d)) + spec_cpu spec \<le> q_MaxMilliCPU q) \<and>
     (q_MaxMemoryMB q > 0 \<longrightarrow> (\<Sum>d \<in> D. spec_mem (d_Spec d)) + spec_mem spec \<le> q_MaxMemoryMB q)"

definition quota_representable :: "Deployment set \<Rightarrow> DeploymentSpec \<Rightarrow> bool" where
  "quota_representable D spec \<longleftrightarrow> (\<forall>d \<in> D. 0 \<le> spec_cpu (d_Spec d) \<and> 0 \<le> spec_mem (d_Spec d)) \<and>
     0 \<le> spec_cpu spec \<and> 0 \<le> spec_mem spec \<and> int (card D) + 1 < 2 ^ 63 \<and>
     (\<Sum>d \<in> D. spec_cpu (d_Spec d)) + spec_cpu spec < 2 ^ 63 \<and>
     (\<Sum>d \<in> D. spec_mem (d_Spec d)) + spec_mem spec < 2 ^ 63"

lemma quota_usage_set:
  assumes "distinct deps" and "D = {d \<in> set deps. sp_Namespace (d_Spec d) = sp_Namespace spec}"
    and "quota_representable D spec"
  shows "quota_usage (sp_Namespace spec) deps (0, 0, 0) =
      (int (card D), \<Sum>d \<in> D. spec_cpu (d_Spec d), \<Sum>d \<in> D. spec_mem (d_Spec d))"
    and "iadd (int (card D)) 1 = int (card D) + 1"
    and "iadd (\<Sum>d \<in> D. spec_cpu (d_Spec d)) (imul (sp_Replicas spec) (MilliCPU (sp_Resources spec))) =
      (\<Sum>d \<in> D. spec_cpu (d_Spec d)) + spec_cpu spec"
    and "iadd (\<Sum>d \<in> D. spec_mem (d_Spec d)) (imul (sp_Replicas spec) (MemoryMB (sp_Resources spec))) =
      (\<Sum>d \<in> D. spec_mem (d_Spec d)) + spec_mem spec"
proof -
  let ?f = "filter (\<lambda>d. sp_Namespace (d_Spec d) = sp_Namespace spec) deps"
  have D: "set ?f = D" "distinct ?f" using assms(1,2) by auto
  have len: "length ?f = card D" using D distinct_card by metis
  have sum: "(\<Sum>d \<leftarrow> ?f. g d) = (\<Sum>d \<in> D. g d)" for g :: "Deployment \<Rightarrow> int"
    using D sum.distinct_set_conv_list [of ?f g] by simp
  note rep = assms(3) [unfolded quota_representable_def]
  have pos: "0 \<le> (\<Sum>d \<in> D. spec_cpu (d_Spec d))" "0 \<le> (\<Sum>d \<in> D. spec_mem (d_Spec d))"
    using rep by (auto intro: sum_nonneg)
  show "quota_usage (sp_Namespace spec) deps (0, 0, 0) =
      (int (card D), \<Sum>d \<in> D. spec_cpu (d_Spec d), \<Sum>d \<in> D. spec_mem (d_Spec d))"
    using quota_usage_sums [of "sp_Namespace spec" deps 0 0 0] rep pos unfolding D(1) len sum by simp
  have "in64 (int (card D) + 1)" unfolding in64_def using rep by linarith
  then show "iadd (int (card D)) 1 = int (card D) + 1" by (rule iadd_id)
  have "in64 (spec_cpu spec)" "in64 (spec_mem spec)"
    "in64 ((\<Sum>d \<in> D. spec_cpu (d_Spec d)) + spec_cpu spec)" "in64 ((\<Sum>d \<in> D. spec_mem (d_Spec d)) + spec_mem spec)"
    unfolding in64_def using rep pos by linarith+
  then show "iadd (\<Sum>d \<in> D. spec_cpu (d_Spec d)) (imul (sp_Replicas spec) (MilliCPU (sp_Resources spec))) =
      (\<Sum>d \<in> D. spec_cpu (d_Spec d)) + spec_cpu spec"
    "iadd (\<Sum>d \<in> D. spec_mem (d_Spec d)) (imul (sp_Replicas spec) (MemoryMB (sp_Resources spec))) =
      (\<Sum>d \<in> D. spec_mem (d_Spec d)) + spec_mem spec"
    by (simp_all add: iadd_def imul_def i64_id spec_cpu_def spec_mem_def)
qed

text \<open>
  (C34) The quota check lets a deployment through exactly when its namespace has no quota or the
  number of deployments and the requested CPU and memory of the namespace, the new deployment
  included, stay within the quota (for amounts that fit into 64 bits); it changes nothing.
\<close>

theorem quota_enforced:
  assumes "env_total E" and "store_wf (contents E s)"
    and "quota_representable (ns_deployments (contents E s) (sp_Namespace spec)) spec"
  shows "wp (enforceNamespaceQuota E spec) (\<lambda>r t. contents E t = contents E s \<and>
    (isl r \<longleftrightarrow> (\<exists>q. view un_NamespaceQuota ''quota:'' (contents E s) (sp_Namespace spec) = Some q \<and>
       \<not> within_quota q (ns_deployments (contents E s) (sp_Namespace spec)) spec))) s"
  unfolding enforceNamespaceQuota_def wp_simps
proof (rule wp_GetNamespaceQuota [OF env_total_ok [OF assms(1)] assms(2)], goal_cases found missing err)
  case (found q t)
  let ?D = "ns_deployments (contents E s) (sp_Namespace spec)"
  have wf: "store_wf (contents E t)" using assms(2) found(1) by simp
  show ?case
  proof (cases "q_MaxDeployments q = 0 \<and> q_MaxMilliCPU q = 0 \<and> q_MaxMemoryMB q = 0")
    case True
    then show ?thesis using found by (simp add: wp_simps within_quota_def)
  next
    case False
    show ?thesis
      unfolding sum.case if_not_P [OF False] wp_bnd
    proof (rule wp_ListDeployments [OF env_total_ok [OF assms(1)] wf], goal_cases ok err)
      case (ok deps u)
      have D: "?D = {d \<in> set deps. sp_Namespace (d_Spec d) = sp_Namespace spec}"
        using ok(5) found(1) by (simp add: ns_deployments_def)
      have "distinct deps" using ok(3) distinct_map by blast
      note u = quota_usage_set [OF this D assms(3)]
      have c: "contents E u = contents E s" using ok(1) found(1) by simp
      show ?case
        unfolding u(1) prod.case Let_def u(2-4) sum.case
        using found(3) c by (auto simp: wp_simps within_quota_def)
    qed (use assms(1) in simp)
  qed
qed (use assms(1) in \<open>auto simp: wp_simps\<close>)

section \<open>A concrete orchestrator\<close>

definition demo_oenv :: "memdb oenv" where
  "demo_oenv = \<lparr>env_badger = mem_badger, env_clock = (\<lambda>n. 1700000000000000000 + int n), env_rand = (\<lambda>n _. int n mod 9999),
     oe_planner = NewPlanner ''least-loaded'', oe_nodeTTL = 30 * Second,
     oe_score = (\<lambda>_ _ _ _. Inl (ErrText ''no plugin'')), oe_getenv = (\<lambda>_. []),
     oe_admission = (\<lambda>_ _ _ _. AdmDecision True []), oe_readFile = (\<lambda>_. Inl (ErrText ''no file'')),
     oe_httpGet = (\<lambda>_. Inl (ErrText ''no host'')), oe_b64decode = Inr, oe_b64encode = (\<lambda>x. x), oe_sha256 = take 32,
     oe_nonce = (\<lambda>_. Inr ''nonce''), oe_gcmSeal = (\<lambda>_ _ p. p), oe_gcmOpen = (\<lambda>_ _ c. Inr c)\<rparr>"

lemma demo_oenv_total: "env_total demo_oenv"
  by (simp add: env_total_def demo_oenv_def mem_badger_total)

lemma demo_oenv_ok: "env_ok demo_oenv"
  by (rule env_total_ok [OF demo_oenv_total])

lemma demo_oenv_contents [simp]: "contents demo_oenv (NewOrchestrator db) = map_of db"
  by (simp add: contents_def demo_oenv_def NewOrchestrator_def mem_badger_def)

definition stored :: "blob list \<Rightarrow> memdb" where
  "stored bs = map (\<lambda>b. (blob_key b, b)) bs"

lemma stored_wf: "store_wf (contents demo_oenv (NewOrchestrator (stored bs)))"
  unfolding demo_oenv_contents by (rule store_wf_map_of) (simp add: stored_def list_all_iff)

lemma stored_iff:
  assumes "distinct (map blob_key bs)"
  shows "contents demo_oenv (NewOrchestrator (stored bs)) k = Some b \<longleftrightarrow> b \<in> set bs \<and> blob_key b = k"
  using assms unfolding demo_oenv_contents by (subst map_of_eq_Some_iff) (auto simp: stored_def comp_def)

theorem quota_enforced_witness:
  "wp (enforceNamespaceQuota demo_oenv (zero_DeploymentSpec\<lparr>sp_Namespace := ''team'', sp_Replicas := 2,
       sp_Resources := \<lparr>MilliCPU = 250, MemoryMB = 64\<rparr>\<rparr>)) (\<lambda>r t. isl r)
     (NewOrchestrator (stored [JNamespaceQuota (zero_NamespaceQuota\<lparr>q_Namespace := ''team'', q_MaxMilliCPU := 400\<rparr>)]))"
proof -
  let ?spec = "zero_DeploymentSpec\<lparr>sp_Namespace := ''team'', sp_Replicas := 2, sp_Resources := \<lparr>MilliCPU = 250, MemoryMB = 64\<rparr>\<rparr>"
  let ?q = "zero_NamespaceQuota\<lparr>q_Namespace := ''team'', q_MaxMilliCPU := 400\<rparr>"
  let ?s = "NewOrchestrator (stored [JNamespaceQuota ?q])"
  have D: "ns_deployments (map_of (stored [JNamespaceQuota ?q])) ''team'' = {}"
    by (auto simp: ns_deployments_def ran_def view_def stored_def key_defs split: if_splits)
  have rep: "quota_representable (ns_deployments (contents demo_oenv ?s) (sp_Namespace ?spec)) ?spec"
    by (simp add: D quota_representable_def spec_cpu_def spec_mem_def)
  have q: "view un_NamespaceQuota ''quota:'' (contents demo_oenv ?s) (sp_Namespace ?spec) = Some ?q"
    by (simp add: view_def stored_def key_defs un_NamespaceQuota_def zero_NamespaceQuota_def)
  have over: "\<not> within_quota ?q (ns_deployments (contents demo_oenv ?s) (sp_Namespace ?spec)) ?spec"
    by (simp add: D within_quota_def spec_cpu_def)
  show ?thesis
    by (rule wp_conseq [OF quota_enforced [OF demo_oenv_total stored_wf rep]]) (use q over in blast)
qed

end
