(* ===== verification/Deployments.thy ===== *)
theory Deployments
  imports Orch_World
begin

text \<open>
  The handlers of \<^verbatim>\<open>orchestrator.go\<close> that change a deployment's specification: update, rollback (by a
  client and by the reconciler) and the mark for deletion, with the history of revisions they keep.
\<close>

section \<open>Handlers\<close>

text \<open>\<^verbatim>\<open>dep.Conditions = setCondition(dep.Conditions, ...)\<close> with the time of the call.\<close>

definition put_condition :: "DeploymentConditionType \<Rightarrow> bool \<Rightarrow> string \<Rightarrow> string \<Rightarrow> gotime \<Rightarrow> Deployment \<Rightarrow> Deployment" where
  "put_condition ty status reason msg t dep =
     dep\<lparr>d_Conditions := setCondition (d_Conditions dep) (condition ty status reason msg t)\<rparr>"

definition now_condition :: "'db oenv \<Rightarrow> DeploymentConditionType \<Rightarrow> bool \<Rightarrow> string \<Rightarrow> string \<Rightarrow> Deployment \<Rightarrow>
    ('db, Deployment) orch" where
  "now_condition E ty status reason msg dep =
     bnd (time_now E) (\<lambda>t. ret (put_condition ty status reason msg t dep))"

definition DeleteDeployment :: "'db oenv \<Rightarrow> string \<Rightarrow> ('db, unit) orch" where
  "DeleteDeployment E deploymentID = with_mu (
     bnd (st_GetDeployment E deploymentID) (\<lambda>dep.
     bnd (time_now E) (\<lambda>now. let
       dep = dep\<lparr>d_DeletionTimestamp := Some now, d_Status := DeploymentPending\<rparr>;
       dep = put_condition ConditionProgressing True ''DeletionInProgress'' ''Deployment marked for deletion'' now dep in
     seq (st_UpdateDeployment E dep)
       (ignore (emitEvent E (event EventInfo ''reconcile'' ''DeploymentMarkedForDeletion''
          ''Deployment marked for deletion'' (d_ID dep) [] []))))))"

definition merge_spec :: "DeploymentSpec \<Rightarrow> DeploymentSpec \<Rightarrow> DeploymentSpec" where
  "merge_spec old nextSpec = (let
     nextSpec = normalize_spec nextSpec;
     nextSpec = (if sp_Replicas nextSpec \<le> 0 then nextSpec\<lparr>sp_Replicas := sp_Replicas old\<rparr> else nextSpec);
     nextSpec = (if MilliCPU (sp_Resources nextSpec) = 0
       then nextSpec\<lparr>sp_Resources := (sp_Resources nextSpec)\<lparr>MilliCPU := MilliCPU (sp_Resources old)\<rparr>\<rparr> else nextSpec);
     nextSpec = (if MemoryMB (sp_Resources nextSpec) = 0
       then nextSpec\<lparr>sp_Resources := (sp_Resources nextSpec)\<lparr>MemoryMB := MemoryMB (sp_Resources old)\<rparr>\<rparr> else nextSpec);
     nextSpec = (if sp_Labels nextSpec = None then nextSpec\<lparr>sp_Labels := sp_Labels old\<rparr> else nextSpec)
   in if sp_Tolerations nextSpec = None then nextSpec\<lparr>sp_Tolerations := sp_Tolerations old\<rparr> else nextSpec)"

definition set_rollout :: "string \<Rightarrow> string \<Rightarrow> gotime \<Rightarrow> gotime \<Rightarrow> Deployment \<Rightarrow> Deployment" where
  "set_rollout phase msg started updated dep = dep\<lparr>d_RolloutStatus := (d_RolloutStatus dep)
     \<lparr>rs_Phase := phase, rs_Message := msg, rs_StartedAt := started, rs_LastUpdatedAt := updated\<rparr>\<rparr>"

definition append_revision :: "gotime \<Rightarrow> Deployment \<Rightarrow> Deployment" where
  "append_revision t dep = (let rev = iadd (d_CurrentRevision dep) 1 in
     dep\<lparr>d_CurrentRevision := rev,
        d_RevisionHistory := d_RevisionHistory dep @ [\<lparr>rv_Revision = rev, rv_Spec = d_Spec dep, rv_CreatedAt = t\<rparr>]\<rparr>)"

definition UpdateDeployment :: "'db oenv \<Rightarrow> string \<Rightarrow> DeploymentSpec \<Rightarrow> ('db, Deployment) orch" where
  "UpdateDeployment E deploymentID nextSpec = with_mu (
     bnd (st_GetDeployment E deploymentID) (\<lambda>dep. let
       nextSpec = merge_spec (d_Spec dep) nextSpec;
       specChanged = (d_Spec dep \<noteq> nextSpec);
       dep = dep\<lparr>d_Spec := nextSpec, d_Generation := iadd (d_Generation dep) 1, d_Status := DeploymentPending\<rparr> in
     bnd (time_now E) (\<lambda>t1. bnd (time_now E) (\<lambda>t2. let
       dep = set_rollout ''Progressing'' ''Deployment spec updated'' t1 t2 dep in
     bnd (now_condition E ConditionProgressing True ''RolloutStarted'' ''Deployment rollout started'' dep) (\<lambda>dep.
     bnd (if specChanged then bnd (time_now E) (\<lambda>t. ret (append_revision t dep)) else ret dep) (\<lambda>dep.
     bnd (time_now E) (\<lambda>t. let dep = dep\<lparr>d_UpdatedAt := t\<rparr> in
     seq (st_UpdateDeployment E dep)
     (seq (ignore (emitEvent E (event EventInfo ''rollout'' ''DeploymentUpdated''
          ''Deployment spec updated for rollout'' (d_ID dep) [] [])))
      (ret dep)))))))))"

fun find_revision :: "DeploymentRevision list \<Rightarrow> int \<Rightarrow> DeploymentRevision option" where
  "find_revision [] target = None"
| "find_revision (r # rs) target = (if rv_Revision r = target then Some r else find_revision rs target)"

definition RollbackDeployment :: "'db oenv \<Rightarrow> string \<Rightarrow> int \<Rightarrow> ('db, Deployment) orch" where
  "RollbackDeployment E deploymentID targetRevision = with_mu (
     bnd (st_GetDeployment E deploymentID) (\<lambda>dep.
     if length (d_RevisionHistory dep) = 0 then throw (ErrText ''no revision history available'')
     else let targetRevision = (if targetRevision \<le> 0 then isub (d_CurrentRevision dep) 1 else targetRevision) in
     case find_revision (d_RevisionHistory dep) targetRevision of
       None \<Rightarrow> throw (ErrText (''target revision '' @ show_int targetRevision @ '' not found''))
     | Some target \<Rightarrow> let
         dep = dep\<lparr>d_Spec := normalize_spec (rv_Spec target), d_Generation := iadd (d_Generation dep) 1\<rparr> in
       bnd (time_now E) (\<lambda>t. let
         dep = (append_revision t dep)\<lparr>d_Status := DeploymentPending\<rparr> in
       bnd (time_now E) (\<lambda>t1. bnd (time_now E) (\<lambda>t2. let
         dep = set_rollout ''Progressing'' (''Rollback to revision '' @ show_int targetRevision @ '' started'') t1 t2 dep in
       bnd (now_condition E ConditionProgressing True ''RollbackStarted''
              (''Rollback started from revision '' @ show_int targetRevision) dep) (\<lambda>dep.
       bnd (time_now E) (\<lambda>t. let dep = dep\<lparr>d_UpdatedAt := t\<rparr> in
       seq (st_UpdateDeployment E dep)
       (seq (ignore (emitEvent E (event EventWarn ''rollout'' ''RollbackStarted''
            (''Rollback to revision '' @ show_int targetRevision @ '' started'') (d_ID dep) [] [])))
        (ret dep)))))))))"

definition rollbackDeploymentLocked :: "'db oenv \<Rightarrow> Deployment \<Rightarrow> int \<Rightarrow> string \<Rightarrow> ('db, bool \<times> Deployment) orch" where
  "rollbackDeploymentLocked E dep targetRevision message =
     (case find_revision (d_RevisionHistory dep) targetRevision of
       None \<Rightarrow> ret (False, dep)
     | Some target \<Rightarrow> let
         dep = dep\<lparr>d_Spec := normalize_spec (rv_Spec target), d_Generation := iadd (d_Generation dep) 1\<rparr> in
       bnd (time_now E) (\<lambda>now. let
         dep = (append_revision now dep)\<lparr>d_Status := DeploymentPending\<rparr>;
         dep = set_rollout ''Rollback'' message now now dep in
       ret (True, put_condition ConditionProgressing True ''RollbackStarted'' message now dep)))"

section \<open>Frames\<close>

abbreviation event_write :: "string \<Rightarrow> blob option \<Rightarrow> bool" where
  "event_write k v \<equiv> (\<exists>ev. k = keyEvent (ev_Timestamp ev) (ev_ID ev) \<and> v = Some (JEvent ev))"

abbreviation deployment_write :: "string \<Rightarrow> string \<Rightarrow> blob option \<Rightarrow> bool" where
  "deployment_write i k v \<equiv> (k = keyDeployment i \<and> (\<exists>d. d_ID d = i \<and> v = Some (JDeployment d)))"

lemma ev_emit_events: "env_ok E \<Longrightarrow> (\<And>k v. event_write k v \<Longrightarrow> W k v) \<Longrightarrow> stays (evolves E W) (emitEvent E e)"
  by (rule ev_emitEvent) auto

lemma d_ID_put_condition [simp]: "d_ID (put_condition ty st re msg t dep) = d_ID dep"
  by (simp add: put_condition_def)

lemma d_ID_set_rollout [simp]: "d_ID (set_rollout ph msg a b dep) = d_ID dep"
  by (simp add: set_rollout_def)

lemma d_ID_append_revision [simp]: "d_ID (append_revision t dep) = d_ID dep"
  by (simp add: append_revision_def Let_def)

lemma quiet_now_condition: "stays quiet (now_condition E ty st re msg dep)"
  unfolding now_condition_def by (intro quiet.rules quiet_store)

lemma free_DeleteDeployment: "stays free (DeleteDeployment E i)"
  unfolding DeleteDeployment_def Let_def
  by (rule free_with_mu) (intro quiet_rules)

lemma free_UpdateDeployment: "stays free (UpdateDeployment E i spec)"
  unfolding UpdateDeployment_def Let_def
  by (rule free_with_mu) (intro quiet_rules quiet_now_condition)

lemma free_RollbackDeployment: "stays free (RollbackDeployment E i n)"
  unfolding RollbackDeployment_def Let_def
  by (rule free_with_mu) (intro quiet_rules quiet_now_condition)

lemma quiet_rollbackDeploymentLocked: "stays quiet (rollbackDeploymentLocked E dep n msg)"
  unfolding rollbackDeploymentLocked_def Let_def by (intro quiet_rules)

lemma ev_now_condition: "stays (evolves E W) (now_condition E ty st re msg dep)"
  unfolding now_condition_def by (intro ev.rules ev_time)

lemma ev_rollbackDeploymentLocked: "stays (evolves E W) (rollbackDeploymentLocked E dep n msg)"
  unfolding rollbackDeploymentLocked_def Let_def by (intro stays_intros ev.rules ev_time)

section \<open>The invariant of a stored deployment\<close>

text \<open>
  Revisions are numbered from 1 without gaps and the current revision is the last one (as long as
  the number fits into 64 bits), and there is at most one condition of each type.
\<close>

definition history_ok :: "Deployment \<Rightarrow> bool" where
  "history_ok d \<longleftrightarrow> d_RevisionHistory d \<noteq> [] \<and> (length (d_RevisionHistory d) < 2 ^ 63 \<longrightarrow>
     map rv_Revision (d_RevisionHistory d) = map (\<lambda>j. int j + 1) [0..<length (d_RevisionHistory d)] \<and>
     d_CurrentRevision d = int (length (d_RevisionHistory d)))"

definition dep_ok :: "Deployment \<Rightarrow> bool" where
  "dep_ok d \<longleftrightarrow> history_ok d \<and> distinct (map c_Type (d_Conditions d))"

definition orch_inv :: "(string \<Rightarrow> blob option) \<Rightarrow> bool" where
  "orch_inv m \<longleftrightarrow> store_wf m \<and> (\<forall>k d. m k = Some (JDeployment d) \<longrightarrow> dep_ok d)"

definition sound :: "'db oenv \<Rightarrow> 'db world \<Rightarrow> 'db world \<Rightarrow> bool" where
  "sound E s t \<longleftrightarrow> (orch_inv (contents E s) \<longrightarrow> orch_inv (contents E t))"

definition good_write :: "string \<Rightarrow> blob option \<Rightarrow> bool" where
  "good_write k v \<longleftrightarrow> own_key k v \<and> (\<forall>d. v = Some (JDeployment d) \<longrightarrow> dep_ok d)"

interpretation sound: frame "sound E"
  by unfold_locales (auto simp: sound_def)

lemma writes_good: "writes good_write m n \<Longrightarrow> orch_inv m \<Longrightarrow> orch_inv n"
proof (induction rule: writes.induct)
  case (step m n k v)
  then have n: "orch_inv n" by blast
  have "store_wf (n(k := v))"
    using n step.hyps(2) unfolding orch_inv_def good_write_def own_key_def store_wf_def by (metis fun_upd_apply)
  then show ?case using n step.hyps(2) unfolding orch_inv_def good_write_def by (metis fun_upd_apply)
qed

lemma sound_of_evolves: "stays (evolves E good_write) m \<Longrightarrow> stays (sound E) m"
  by (erule stays_mono) (auto simp: evolves_def sound_def intro: writes_good)

text \<open>Only deployments need care: every other kind of value is a good write at its own key.\<close>

lemma good_write_simps [simp]:
  "good_write k None"
  "good_write k (Some (JDeployment d)) \<longleftrightarrow> keyDeployment (d_ID d) = k \<and> dep_ok d"
  "(\<And>d. b \<noteq> JDeployment d) \<Longrightarrow> good_write k (Some b) \<longleftrightarrow> blob_key b = k"
  by (auto simp: good_write_def)

lemma dep_ok_json [simp]: "dep_ok (json_Deployment d) = dep_ok d"
  by (simp add: dep_ok_def history_ok_def json_Deployment_def comp_def)

lemma dep_ok_put_condition [simp]: "dep_ok d \<Longrightarrow> dep_ok (put_condition ty st re msg t d)"
  by (auto simp: dep_ok_def history_ok_def put_condition_def types_setCondition)

lemma dep_ok_set_rollout [simp]: "dep_ok (set_rollout ph msg a b d) = dep_ok d"
  by (simp add: dep_ok_def history_ok_def set_rollout_def)

lemma dep_ok_append_revision [simp]: "dep_ok d \<Longrightarrow> dep_ok (append_revision t d)"
proof -
  assume d: "dep_ok d"
  let ?h = "d_RevisionHistory d"
  have "iadd (d_CurrentRevision d) 1 = int (length ?h) + 1" if "Suc (length ?h) < 2 ^ 63"
  proof -
    have "d_CurrentRevision d = int (length ?h)" using d that by (simp add: dep_ok_def history_ok_def)
    moreover have "in64 (int (length ?h) + 1)" using that by (simp add: in64_def)
    ultimately show ?thesis by (simp add: iadd_id)
  qed
  then show "dep_ok (append_revision t d)"
    using d by (auto simp: dep_ok_def history_ok_def append_revision_def Let_def)
qed

lemma dep_ok_fields [simp]:
  "dep_ok (d\<lparr>d_Status := st\<rparr>) = dep_ok d" "dep_ok (d\<lparr>d_UpdatedAt := t\<rparr>) = dep_ok d"
  "dep_ok (d\<lparr>d_Spec := spec\<rparr>) = dep_ok d" "dep_ok (d\<lparr>d_Generation := g\<rparr>) = dep_ok d"
  "dep_ok (d\<lparr>d_ObservedGeneration := g\<rparr>) = dep_ok d" "dep_ok (d\<lparr>d_DeletionTimestamp := dt\<rparr>) = dep_ok d"
  "dep_ok (d\<lparr>d_RolloutStatus := rs\<rparr>) = dep_ok d" "dep_ok (d\<lparr>d_Finalizers := fs\<rparr>) = dep_ok d"
  by (simp_all add: dep_ok_def history_ok_def)

section \<open>Rules for soundness\<close>

lemma stored_dep_ok:
  assumes "orch_inv m" and "view un_Deployment ''deployment:'' m i = Some d"
  shows "dep_ok d" and "d_ID d = i"
proof -
  have wf: "store_wf m" using assms(1) by (simp add: orch_inv_def)
  show "d_ID d = i" by (rule dp.wf_view_key [OF wf assms(2)])
  from assms(2) have "m (''deployment:'' @ i) = Some (JDeployment d)" by (simp add: dp.wf_view [OF wf])
  with assms(1) show "dep_ok d" by (simp add: orch_inv_def)
qed

lemma sound_from: "contents E t = contents E s \<Longrightarrow> sound E t u \<Longrightarrow> sound E s u"
  by (simp add: sound_def)

text \<open>Reading a deployment: the rest of the block may use that the value is good.\<close>

lemma sound_attempt_get:
  assumes E: "env_ok E"
    and f: "\<And>r. (\<And>d. r = Inr d \<Longrightarrow> dep_ok d \<and> d_ID d = i) \<Longrightarrow> stays (sound E) (f r)"
  shows "stays (sound E) (bnd (attempt (st_GetDeployment E i)) f)"
proof (intro staysI)
  fix s
  show "wp (bnd (attempt (st_GetDeployment E i)) f) (\<lambda>r t. sound E s t) s"
  proof (cases "orch_inv (contents E s)")
    case True
    then have wf: "store_wf (contents E s)" by (simp add: orch_inv_def)
    show ?thesis
      unfolding wp_simps sum.case
    proof (rule wp_GetDeployment [OF E wf], goal_cases found missing err)
      case (found x t)
      then show ?case using stored_dep_ok [OF True] stays_wp [OF f [of "Inr x"], of t] sound_from [OF found(1)]
        by (auto elim: wp_conseq)
    next
      case (missing t)
      then show ?case using stays_wp [OF f [of "Inl ErrNotFound"], of t] sound_from [OF missing(1)]
        by (auto elim: wp_conseq)
    next
      case (err e t)
      then show ?case using stays_wp [OF f [of "Inl e"], of t] sound_from [OF err(1)] by (auto elim: wp_conseq)
    qed
  qed (simp add: wp_def sound_def case_prod_beta)
qed

lemma sound_get:
  assumes E: "env_ok E" and f: "\<And>d. dep_ok d \<Longrightarrow> d_ID d = i \<Longrightarrow> stays (sound E) (f d)"
  shows "stays (sound E) (bnd (st_GetDeployment E i) f)"
proof -
  have "bnd (st_GetDeployment E i) f =
      bnd (attempt (st_GetDeployment E i)) (\<lambda>r. case r of Inl e \<Rightarrow> throw e | Inr d \<Rightarrow> f d)"
    by (auto simp: fun_eq_iff bnd_def attempt_def throw_def split: prod.splits sum.splits)
  then show ?thesis
    by (simp add: sound_attempt_get [OF E] sound.throw f stays_case_sum)
qed

lemma sound_list:
  assumes E: "env_ok E" and f: "\<And>ds. (\<And>d. d \<in> set ds \<Longrightarrow> dep_ok d) \<Longrightarrow> stays (sound E) (f ds)"
  shows "stays (sound E) (bnd (st_ListDeployments E) f)"
proof (intro staysI)
  fix s
  show "wp (bnd (st_ListDeployments E) f) (\<lambda>r t. sound E s t) s"
  proof (cases "orch_inv (contents E s)")
    case True
    then have wf: "store_wf (contents E s)" by (simp add: orch_inv_def)
    show ?thesis
      unfolding wp_simps sum.case
    proof (rule wp_ListDeployments [OF E wf], goal_cases ok err)
      case (ok ds t)
      have good: "dep_ok d" if "d \<in> set ds" for d using that ok(5) stored_dep_ok [OF True] by (auto simp: ran_def)
      have "stays (sound E) (f ds)" by (rule f) (rule good)
      from stays_wp [OF this, of t] show ?case using sound_from [OF ok(1)] by (auto elim: wp_conseq)
    next
      case (err e t)
      then show ?case using sound_from [OF err(1) sound.refl] by simp
    qed
  qed (simp add: wp_def sound_def case_prod_beta)
qed

lemma sound_UpdateDeployment: "env_ok E \<Longrightarrow> dep_ok d \<Longrightarrow> stays (sound E) (st_UpdateDeployment E d)"
  by (rule sound_of_evolves, rule ev_UpdateDeployment) simp_all

lemma sound_emitEvent: "env_ok E \<Longrightarrow> stays (sound E) (emitEvent E e)"
  by (rule sound_of_evolves, rule ev_emitEvent) simp_all

lemma sound_with_mu: "stays (sound E) m \<Longrightarrow> stays (sound E) (with_mu m)"
  unfolding stays_def with_mu_def sound_def
  by (auto split: prod.splits) (metis contents_world(1) snd_conv)

lemma sound_time: "stays (sound E) (time_now E)"
  by (rule sound_of_evolves, rule ev_time)

lemma sound_rand: "stays (sound E) (rand_intn E n)"
  by (rule sound_of_evolves, rule ev_rand)

lemmas sound_reads = ev_reads [THEN sound_of_evolves]

lemma sound_now_condition:
  assumes "\<And>d'. dep_ok d' \<Longrightarrow> d_ID d' = d_ID d \<Longrightarrow> stays (sound E) (f d')" and "dep_ok d"
  shows "stays (sound E) (bnd (now_condition E ty st re msg d) f)"
  unfolding now_condition_def go_laws by (intro sound.bnd sound_time assms) (use assms(2) in simp_all)

lemma sound_DeleteDeployment: "env_ok E \<Longrightarrow> stays (sound E) (DeleteDeployment E i)"
  unfolding DeleteDeployment_def Let_def
  by (intro sound_with_mu sound_get sound.bnd sound_time sound.seq sound_UpdateDeployment sound.ignore sound_emitEvent) simp_all

lemma sound_UpdateDeployment_handler: "env_ok E \<Longrightarrow> stays (sound E) (UpdateDeployment E i spec)"
  unfolding UpdateDeployment_def Let_def go_laws
  by (intro sound_with_mu sound_get sound_now_condition sound.bnd sound_time sound.seq sound_UpdateDeployment
      sound.ignore sound_emitEvent sound.ret stays_if) simp_all

lemma sound_RollbackDeployment: "env_ok E \<Longrightarrow> stays (sound E) (RollbackDeployment E i n)"
  unfolding RollbackDeployment_def Let_def
  by (intro sound_with_mu sound_get sound_now_condition sound.bnd sound_time sound.seq sound_UpdateDeployment
      sound.ignore sound_emitEvent sound.ret sound.throw stays_if stays_case_option) simp_all

lemma sound_rollbackLocked:
  assumes "\<And>b d'. dep_ok d' \<Longrightarrow> d_ID d' = d_ID d \<Longrightarrow> stays (sound E) (f (b, d'))" and "dep_ok d"
  shows "stays (sound E) (bnd (rollbackDeploymentLocked E d n msg) f)"
proof (cases "find_revision (d_RevisionHistory d) n")
  case None
  then show ?thesis using assms by (simp add: rollbackDeploymentLocked_def)
next
  case (Some r)
  then show ?thesis unfolding rollbackDeploymentLocked_def Let_def option.case Some go_laws
    by (intro sound.bnd sound_time assms(1)) (use assms(2) in simp_all)
qed

section \<open>Running the handlers\<close>

lemma wp_with_mu:
  "wp (with_mu m) Q s = (if o_mu s then Q (Inl ErrDeadlock) (s\<lparr>o_stuck := True\<rparr>)
     else wp m (\<lambda>r t. Q r (t\<lparr>o_mu := False\<rparr>)) (s\<lparr>o_mu := True\<rparr>))"
  by (auto simp: wp_def with_mu_def split: prod.splits)

text \<open>Two databases that differ only in events.\<close>

definition upto_events :: "(string \<Rightarrow> blob option) \<Rightarrow> (string \<Rightarrow> blob option) \<Rightarrow> bool" where
  "upto_events m n \<longleftrightarrow> (\<forall>k. \<not> prefix ''event:'' k \<longrightarrow> n k = m k)"

lemma upto_events_refl [simp]: "upto_events m m"
  by (simp add: upto_events_def)

lemma upto_events_view [simp]:
  "upto_events m n \<Longrightarrow> \<not> prefix ''event:'' (p @ i) \<Longrightarrow> view un p n i = view un p m i"
  by (simp add: upto_events_def view_def)

lemma wp_emit:
  assumes "env_ok E" and "\<And>t. upto_events (contents E s) (contents E t) \<Longrightarrow> quiet s t \<Longrightarrow> Q (Inr ()) t"
  shows "wp (ignore (emitEvent E e)) Q s"
proof -
  have "wp (emitEvent E e) (\<lambda>r t. evolves E event_write s t \<and> quiet s t) s"
    by (intro wp_conj stays_wp ev_emit_events quiet_emitEvent assms(1))
  moreover have "upto_events (contents E s) (contents E t)" if "evolves E event_write s t" for t
    unfolding upto_events_def
    by (intro allI impI, rule evolves_outside [OF that]) (auto simp: keyEvent_def)
  ultimately show ?thesis unfolding wp_simps using assms(2) by (auto elim: wp_conseq)
qed

lemma wp_now:
  assumes "\<And>t. contents E t = contents E s \<Longrightarrow> quiet s t \<Longrightarrow> Q (Inr (env_clock E (st_tick s))) t"
  shows "wp (time_now E) Q s"
  by (rule wp_time) (use assms same_rest_quiet in blast)

lemma wp_bnd_now:
  assumes "\<And>now t. contents E t = contents E s \<Longrightarrow> quiet s t \<Longrightarrow> wp (f now) Q t"
  shows "wp (bnd (time_now E) f) Q s"
  unfolding wp_bnd by (rule wp_now) (simp add: assms)

lemma wp_UpdateDeployment_store:
  assumes "env_total E"
    and "\<And>t. contents E t = (contents E s)(keyDeployment (d_ID d) \<mapsto> JDeployment (json_Deployment d)) \<Longrightarrow> quiet s t \<Longrightarrow> Q (Inr ()) t"
  shows "wp (st_UpdateDeployment E d) Q s"
  unfolding st_UpdateDeployment_def
  by (rule wp_put [OF env_total_ok [OF assms(1)]]) (use assms same_rest_quiet in blast)+

definition stored_deployment :: "(string \<Rightarrow> blob option) \<Rightarrow> string \<Rightarrow> Deployment option" where
  "stored_deployment m i = view un_Deployment ''deployment:'' m i"

lemma stored_after_put:
  "stored_deployment (m(keyDeployment (d_ID d) \<mapsto> JDeployment (json_Deployment d))) (d_ID d) = Some (json_Deployment d)"
  using dp.view_put [of m "json_Deployment d"] by (simp add: stored_deployment_def keyDeployment_def)

lemma stored_upto_events [simp]:
  "upto_events m n \<Longrightarrow> stored_deployment n i = stored_deployment m i"
  by (simp add: stored_deployment_def)

lemma orch_inv_wf: "orch_inv m \<Longrightarrow> store_wf m"
  by (simp add: orch_inv_def)

lemma orch_inv_stored: "orch_inv m \<Longrightarrow> stored_deployment m i = Some d \<Longrightarrow> dep_ok d"
  using dp.wf_view [of m i d] by (auto simp: orch_inv_def stored_deployment_def)

lemma find_revision_nth:
  "map rv_Revision h = map (\<lambda>j. int j + c) [0..<length h] \<Longrightarrow>
   find_revision h n = (if c \<le> n \<and> n < c + int (length h) then Some (h ! nat (n - c)) else None)"
proof (induction h arbitrary: c)
  case (Cons r h)
  have r: "rv_Revision r = c" and h: "map rv_Revision h = map (\<lambda>j. int j + (c + 1)) [0..<length h]"
    using Cons.prems by (simp_all add: upt_conv_Cons map_Suc_upt [symmetric] comp_def add.assoc add.commute del: upt_Suc)
  show ?case
  proof (cases "n = c")
    case False
    then have "nat (n - c) = Suc (nat (n - (c + 1)))" if "c \<le> n" using that by simp
    then show ?thesis using Cons.IH [OF h] r False by auto
  qed (simp add: r)
qed simp

lemma find_revision_ok:
  assumes "history_ok d" and "length (d_RevisionHistory d) < 2 ^ 63"
  shows "find_revision (d_RevisionHistory d) n =
    (if 1 \<le> n \<and> n \<le> d_CurrentRevision d then Some (d_RevisionHistory d ! nat (n - 1)) else None)"
  using find_revision_nth [of "d_RevisionHistory d" 1 n] assms by (auto simp: history_ok_def)

lemma wp_store_and_emit:
  assumes E: "env_total E"
    and Q: "\<And>t. stored_deployment (contents E t) (d_ID d) = Some (json_Deployment d) \<Longrightarrow>
      (\<And>k. k \<noteq> keyDeployment (d_ID d) \<Longrightarrow> \<not> prefix ''event:'' k \<Longrightarrow> contents E t k = contents E s k) \<Longrightarrow>
      quiet s t \<Longrightarrow> Q (Inr x) t"
  shows "wp (seq (st_UpdateDeployment E d) (seq (ignore (emitEvent E e)) (ret x))) Q s"
  unfolding wp_seq wp_ret
proof (rule wp_UpdateDeployment_store [OF E], unfold sum.case, rule wp_emit [OF env_total_ok [OF E]], unfold sum.case)
  fix t u
  assume t: "contents E t = (contents E s)(keyDeployment (d_ID d) \<mapsto> JDeployment (json_Deployment d))" "quiet s t"
    and u: "upto_events (contents E t) (contents E u)" "quiet t u"
  show "Q (Inr x) u"
  proof (rule Q)
    show "stored_deployment (contents E u) (d_ID d) = Some (json_Deployment d)"
      using u(1) t(1) by (simp add: stored_after_put)
    show "contents E u k = contents E s k" if "k \<noteq> keyDeployment (d_ID d)" "\<not> prefix ''event:'' k" for k
      using that t(1) u(1) by (simp add: upto_events_def)
    show "quiet s u" using t(2) u(2) quiet.trans by blast
  qed
qed

lemma wp_stored:
  assumes "env_total E" and "store_wf (contents E s)" and "stored_deployment (contents E s) i = Some d"
    and "\<And>t. contents E t = contents E s \<Longrightarrow> quiet s t \<Longrightarrow> Q (Inr d) t"
  shows "wp (st_GetDeployment E i) Q s"
  by (rule wp_GetDeployment [OF env_total_ok [OF assms(1)] assms(2)])
    (use assms same_rest_quiet in \<open>auto simp: stored_deployment_def\<close>)

lemma wp_RollbackDeployment:
  assumes "env_total E" and "store_wf (contents E s)" and "\<not> o_mu s"
    and "stored_deployment (contents E s) i = Some dep" and "history_ok dep"
    and "length (d_RevisionHistory dep) < 2 ^ 63 - 1"
    and "target = (if n \<le> 0 then d_CurrentRevision dep - 1 else n)"
  shows "wp (RollbackDeployment E i n) (\<lambda>r t. \<not> o_mu t \<and>
    (if 1 \<le> target \<and> target \<le> d_CurrentRevision dep
     then \<exists>dep' now. r = Inr dep' \<and> stored_deployment (contents E t) i = Some (json_Deployment dep') \<and>
       d_Spec dep' = normalize_spec (rv_Spec (d_RevisionHistory dep ! nat (target - 1))) \<and>
       d_CurrentRevision dep' = d_CurrentRevision dep + 1 \<and>
       d_RevisionHistory dep' = d_RevisionHistory dep @
         [\<lparr>rv_Revision = d_CurrentRevision dep + 1, rv_Spec = d_Spec dep', rv_CreatedAt = now\<rparr>] \<and>
       d_Status dep' = DeploymentPending
     else r = Inl (ErrText (''target revision '' @ show_int target @ '' not found'')) \<and> contents E t = contents E s)) s"
proof -
  have cur: "d_CurrentRevision dep = int (length (d_RevisionHistory dep))" and ne: "d_RevisionHistory dep \<noteq> []"
    using assms(5,6) by (simp_all add: history_ok_def)
  have len: "length (d_RevisionHistory dep) < 2 ^ 63" using assms(6) by simp
  have "in64 (d_CurrentRevision dep - 1)" "in64 (d_CurrentRevision dep + 1)"
    using assms(6) by (simp_all add: cur in64_def)
  then have arith: "isub (d_CurrentRevision dep) 1 = d_CurrentRevision dep - 1"
    "iadd (d_CurrentRevision dep) 1 = d_CurrentRevision dep + 1" by (simp_all add: isub_id iadd_id)
  have id: "d_ID dep = i" using assms(2,4) dp.wf_view_key by (simp add: stored_deployment_def)
  have wf: "store_wf (contents E (s\<lparr>o_mu := True\<rparr>))" using assms(2) by simp
  have st: "stored_deployment (contents E (s\<lparr>o_mu := True\<rparr>)) i = Some dep" using assms(4) by simp
  show ?thesis
    unfolding RollbackDeployment_def wp_with_mu if_not_P [OF assms(3)] wp_bnd
  proof (rule wp_stored [OF assms(1) wf st], unfold sum.case Let_def arith assms(7) [symmetric], goal_cases)
    case (1 t)
    have c: "contents E t = contents E s" using 1(1) by simp
    show ?case
    proof (cases "1 \<le> target \<and> target \<le> d_CurrentRevision dep")
      case False
      then have "find_revision (d_RevisionHistory dep) target = None"
        using find_revision_ok [OF assms(5) len, of target] by auto
      then show ?thesis using False ne c by (simp add: wp_simps)
    next
      case True
      then have f: "find_revision (d_RevisionHistory dep) target = Some (d_RevisionHistory dep ! nat (target - 1))"
        using find_revision_ok [OF assms(5) len, of target] by simp
      show ?thesis
        using True ne unfolding f option.case now_condition_def go_laws
        by (simp, intro wp_bnd_now wp_store_and_emit [OF assms(1)])
          (simp add: id append_revision_def set_rollout_def put_condition_def arith quiet_def Let_def)
    qed
  qed
qed

lemma wp_UpdateDeployment:
  assumes "env_total E" and "store_wf (contents E s)" and "\<not> o_mu s"
    and "stored_deployment (contents E s) i = Some dep"
  shows "wp (UpdateDeployment E i spec) (\<lambda>r t. \<not> o_mu t \<and>
    (\<exists>dep' now. r = Inr dep' \<and> stored_deployment (contents E t) i = Some (json_Deployment dep') \<and>
       d_Spec dep' = merge_spec (d_Spec dep) spec \<and> d_Generation dep' = iadd (d_Generation dep) 1 \<and>
       (if d_Spec dep' = d_Spec dep
        then d_CurrentRevision dep' = d_CurrentRevision dep \<and> d_RevisionHistory dep' = d_RevisionHistory dep
        else d_CurrentRevision dep' = iadd (d_CurrentRevision dep) 1 \<and> d_RevisionHistory dep' = d_RevisionHistory dep @
          [\<lparr>rv_Revision = d_CurrentRevision dep', rv_Spec = d_Spec dep', rv_CreatedAt = now\<rparr>]))) s"
proof -
  have id: "d_ID dep = i" using assms(2,4) dp.wf_view_key by (simp add: stored_deployment_def)
  have wf: "store_wf (contents E (s\<lparr>o_mu := True\<rparr>))" using assms(2) by simp
  have st: "stored_deployment (contents E (s\<lparr>o_mu := True\<rparr>)) i = Some dep" using assms(4) by simp
  show ?thesis
    unfolding UpdateDeployment_def wp_with_mu if_not_P [OF assms(3)] wp_bnd
  proof (rule wp_stored [OF assms(1) wf st], unfold sum.case Let_def now_condition_def go_laws, goal_cases)
    case (1 t)
    show ?case
      by (intro wp_bnd_now, cases "d_Spec dep = merge_spec (d_Spec dep) spec"; simp add: go_laws;
          intro wp_bnd_now wp_store_and_emit [OF assms(1)];
          simp add: id append_revision_def set_rollout_def put_condition_def quiet_def Let_def)
  qed
qed

subsection \<open>A concrete deployment\<close>

definition demo_spec :: DeploymentSpec where
  "demo_spec = zero_DeploymentSpec\<lparr>sp_Name := ''web'', sp_Image := ''web:1'', sp_Replicas := 3,
     sp_Rollout := normalizeRolloutSpec zero_RolloutSpec\<rparr>"

definition demo_web :: Deployment where
  "demo_web = zero_Deployment\<lparr>d_ID := ''dep-1'', d_Spec := demo_spec, d_Generation := 1, d_CurrentRevision := 1,
     d_RevisionHistory := [\<lparr>rv_Revision = 1, rv_Spec = demo_spec, rv_CreatedAt = 0\<rparr>]\<rparr>"

definition demo_world :: "memdb world" where
  "demo_world = NewOrchestrator (stored [JDeployment demo_web])"

lemma demo_world_stored: "stored_deployment (contents demo_oenv demo_world) ''dep-1'' = Some demo_web"
  by (simp add: demo_world_def stored_deployment_def view_def stored_def key_defs demo_web_def
      un_Deployment_def zero_Deployment_def)

lemma demo_web_ok: "dep_ok demo_web"
  by (simp add: demo_web_def zero_Deployment_def dep_ok_def history_ok_def)

lemma demo_world_inv: "orch_inv (contents demo_oenv demo_world)"
  unfolding orch_inv_def
proof (intro conjI allI impI)
  show "store_wf (contents demo_oenv demo_world)" unfolding demo_world_def by (rule stored_wf)
  show "dep_ok d" if "contents demo_oenv demo_world k = Some (JDeployment d)" for k d
    using that demo_web_ok by (auto simp: demo_world_def stored_def split: if_splits)
qed

lemma demo_world_free: "\<not> o_mu demo_world"
  by (simp add: demo_world_def NewOrchestrator_def)

lemma demo_web_simps:
  "d_RevisionHistory demo_web = [\<lparr>rv_Revision = 1, rv_Spec = demo_spec, rv_CreatedAt = 0\<rparr>]"
  "d_Spec demo_web = demo_spec" "d_CurrentRevision demo_web = 1"
  by (simp_all add: demo_web_def)

section \<open>Properties\<close>

text \<open>
  (C26) Rolling back to a revision that exists makes its specification (with normalised rollout
  settings) the current one, under a new revision number appended to the history, so that the history
  is never rewritten; a revision that does not exist is refused and nothing changes. A target that is
  not positive means the revision before the current one.
\<close>

theorem rollback_restores:
  assumes "env_total E" and "store_wf (contents E s)" and "\<not> o_mu s"
    and "stored_deployment (contents E s) i = Some dep" and "history_ok dep"
    and "length (d_RevisionHistory dep) < 2 ^ 63 - 1"
    and "target = (if n \<le> 0 then d_CurrentRevision dep - 1 else n)"
  shows "wp (RollbackDeployment E i n) (\<lambda>r t. \<not> o_mu t \<and>
    (if 1 \<le> target \<and> target \<le> d_CurrentRevision dep
     then \<exists>dep' now. r = Inr dep' \<and> stored_deployment (contents E t) i = Some (json_Deployment dep') \<and>
       d_Spec dep' = normalize_spec (rv_Spec (d_RevisionHistory dep ! nat (target - 1))) \<and>
       d_CurrentRevision dep' = d_CurrentRevision dep + 1 \<and>
       d_RevisionHistory dep' = d_RevisionHistory dep @
         [\<lparr>rv_Revision = d_CurrentRevision dep + 1, rv_Spec = d_Spec dep', rv_CreatedAt = now\<rparr>] \<and>
       d_Status dep' = DeploymentPending
     else r = Inl (ErrText (''target revision '' @ show_int target @ '' not found'')) \<and> contents E t = contents E s)) s"
  using assms by (rule wp_RollbackDeployment)

theorem rollback_restores_witness:
  "wp (RollbackDeployment demo_oenv ''dep-1'' 1) (\<lambda>r t. \<exists>dep'. r = Inr dep' \<and> d_Spec dep' = normalize_spec demo_spec \<and>
     d_CurrentRevision dep' = 2) demo_world"
  by (rule wp_conseq [OF rollback_restores [OF demo_oenv_total orch_inv_wf [OF demo_world_inv] demo_world_free
        demo_world_stored, of "1" 1]])
    (use demo_web_ok in \<open>auto simp: dep_ok_def demo_web_simps\<close>)

lemma normalize_json: "normalize_spec (json_DeploymentSpec sp) = json_DeploymentSpec (normalize_spec sp)"
  "json_DeploymentSpec (json_DeploymentSpec sp) = json_DeploymentSpec sp"
  by (simp_all add: normalize_spec_def json_DeploymentSpec_def)

text \<open>
  (C27) With a database that does not fail, an update that changes the specification followed by a rollback
  to the previous revision (target 0) brings back the specification that is recorded for the revision
  that was current before, normalised, with two new entries in the history. This is the specification the
  deployment had, if it was recorded and well-formed. (It is not when the specification was changed without
  a revision, as the autoscaler changes the number of replicas.)
\<close>

theorem update_then_rollback:
  assumes "env_total E" and "orch_inv (contents E s)" and "\<not> o_mu s"
    and "stored_deployment (contents E s) i = Some dep"
    and "length (d_RevisionHistory dep) < 2 ^ 63 - 2"
    and "merge_spec (d_Spec dep) spec \<noteq> d_Spec dep"
  shows "wp (seq (UpdateDeployment E i spec) (RollbackDeployment E i 0)) (\<lambda>r t. \<not> o_mu t \<and>
    (\<exists>dep'. stored_deployment (contents E t) i = Some dep' \<and>
       d_Spec dep' = json_DeploymentSpec (normalize_spec (rv_Spec (last (d_RevisionHistory dep)))) \<and>
       (rv_Spec (last (d_RevisionHistory dep)) = d_Spec dep \<and> rollout_wf (sp_Rollout (d_Spec dep)) \<longrightarrow>
          d_Spec dep' = json_DeploymentSpec (d_Spec dep)) \<and>
       length (d_RevisionHistory dep') = length (d_RevisionHistory dep) + 2)) s"
proof -
  have ok: "history_ok dep" using assms(2,4) by (auto simp: dep_ok_def dest: orch_inv_stored)
  have cur: "d_CurrentRevision dep = int (length (d_RevisionHistory dep))" and ne: "d_RevisionHistory dep \<noteq> []"
    using ok assms(5) by (simp_all add: history_ok_def)
  have rev: "iadd (d_CurrentRevision dep) 1 = d_CurrentRevision dep + 1"
    using assms(5) by (intro iadd_id) (simp add: cur in64_def)
  have wf: "store_wf (contents E s)" using assms(2) by (simp add: orch_inv_def)
  have "wp (UpdateDeployment E i spec) (\<lambda>r t. (\<not> o_mu t \<and>
      (\<exists>dep' now. r = Inr dep' \<and> stored_deployment (contents E t) i = Some (json_Deployment dep') \<and>
       d_Spec dep' = merge_spec (d_Spec dep) spec \<and> d_CurrentRevision dep' = d_CurrentRevision dep + 1 \<and>
       d_RevisionHistory dep' = d_RevisionHistory dep @
          [\<lparr>rv_Revision = d_CurrentRevision dep', rv_Spec = d_Spec dep', rv_CreatedAt = now\<rparr>])) \<and>
      orch_inv (contents E t)) s"
    using wp_conj [OF wp_UpdateDeployment [OF assms(1) wf assms(3,4)]
        stays_wp [OF sound_UpdateDeployment_handler [OF env_total_ok [OF assms(1)]]]]
    by (rule wp_conseq) (use assms(2,6) rev in \<open>force simp: sound_def\<close>)
  then show ?thesis
    unfolding wp_seq
  proof (rule wp_conseq, elim conjE exE, goal_cases)
    case (1 r t d now)
    let ?d = "json_Deployment d" and ?h = "d_RevisionHistory dep"
    have h: "history_ok ?d" using orch_inv_stored [OF 1(2,5)] by (simp add: dep_ok_def)
    have n: "d_CurrentRevision ?d = int (length ?h) + 1" using 1(7) cur by simp
    have len: "length (d_RevisionHistory ?d) = length ?h + 1" using 1(8) by (simp add: json_Deployment_def)
    have prev: "rv_Spec (d_RevisionHistory ?d ! (length ?h - 1)) = json_DeploymentSpec (rv_Spec (last ?h))"
      using 1(8) ne by (simp add: json_Deployment_def nth_append last_conv_nth)
    have fix_spec: "rollout_wf (sp_Rollout (d_Spec dep)) \<Longrightarrow> normalize_spec (d_Spec dep) = d_Spec dep"
      by (simp add: normalize_spec_def normalize_fix)
    have small: "length (d_RevisionHistory ?d) < 2 ^ 63 - 1" using assms(5) len by simp
    have t: "(int (length ?h)) = (if (0::int) \<le> 0 then d_CurrentRevision ?d - 1 else 0)" using n by simp
    have "wp (RollbackDeployment E i 0) (\<lambda>r t. \<not> o_mu t \<and> (\<exists>dep'. stored_deployment (contents E t) i = Some dep' \<and>
        d_Spec dep' = json_DeploymentSpec (normalize_spec (rv_Spec (last ?h))) \<and> length (d_RevisionHistory dep') = length ?h + 2)) t"
    proof (rule wp_conseq [OF wp_RollbackDeployment [OF assms(1) orch_inv_wf [OF 1(2)] 1(3,5) h small t]], elim conjE, goal_cases)
      case (1 q u)
      have "1 \<le> int (length ?h) \<and> int (length ?h) \<le> d_CurrentRevision ?d" using n ne by (simp add: Suc_le_eq)
      then obtain d' now' where d': "stored_deployment (contents E u) i = Some (json_Deployment d')"
        "d_Spec d' = normalize_spec (rv_Spec (d_RevisionHistory ?d ! nat (int (length ?h) - 1)))"
        "d_RevisionHistory d' = d_RevisionHistory ?d @ [\<lparr>rv_Revision = d_CurrentRevision ?d + 1, rv_Spec = d_Spec d', rv_CreatedAt = now'\<rparr>]"
        using 1(2) by auto
      have "nat (int (length ?h) - 1) = length ?h - 1" by simp
      then have "d_Spec (json_Deployment d') = json_DeploymentSpec (normalize_spec (rv_Spec (last ?h)))"
        using d'(2) prev by (simp add: json_Deployment_def normalize_json)
      moreover have "length (d_RevisionHistory (json_Deployment d')) = length ?h + 2" using d'(3) len by (simp add: json_Deployment_def)
      ultimately show ?case using 1(1) d'(1) by blast
    qed
    then have "wp (RollbackDeployment E i 0) (\<lambda>r t. \<not> o_mu t \<and> (\<exists>dep'. stored_deployment (contents E t) i = Some dep' \<and>
        d_Spec dep' = json_DeploymentSpec (normalize_spec (rv_Spec (last ?h))) \<and>
        (rv_Spec (last ?h) = d_Spec dep \<and> rollout_wf (sp_Rollout (d_Spec dep)) \<longrightarrow> d_Spec dep' = json_DeploymentSpec (d_Spec dep)) \<and>
        length (d_RevisionHistory dep') = length ?h + 2)) t"
      by (rule wp_conseq) (use fix_spec in auto)
    then show ?case using 1(4) by simp
  qed
qed

theorem update_then_rollback_witness:
  "wp (seq (UpdateDeployment demo_oenv ''dep-1'' (demo_spec\<lparr>sp_Image := ''web:2''\<rparr>)) (RollbackDeployment demo_oenv ''dep-1'' 0))
     (\<lambda>r t. \<exists>dep'. stored_deployment (contents demo_oenv t) ''dep-1'' = Some dep' \<and>
        d_Spec dep' = json_DeploymentSpec demo_spec) demo_world"
proof -
  have "merge_spec demo_spec (demo_spec\<lparr>sp_Image := ''web:2''\<rparr>) \<noteq> demo_spec"
    by (simp add: merge_spec_def Let_def normalize_spec_def demo_spec_def zero_DeploymentSpec_def)
  then show ?thesis
    by (intro wp_conseq [OF update_then_rollback [OF demo_oenv_total demo_world_inv demo_world_free demo_world_stored,
            of "demo_spec\<lparr>sp_Image := ''web:2''\<rparr>"]])
      (auto simp: demo_web_simps demo_spec_def normalize_wf)
qed

end
