(* ===== verification/Network_Policy.thy ===== *)
theory Network_Policy
  imports Deployments
begin

text \<open>
  Network policies (\<^verbatim>\<open>internal/service/features.go\<close>) and the label selectors they share with the
  services (\<^verbatim>\<open>labelsMatchSelector\<close> in \<^verbatim>\<open>orchestrator.go\<close>). The nested loops of
  \<^verbatim>\<open>IsNetworkAccessAllowed\<close> are compared with the declarative meaning of a policy.
\<close>

section \<open>Selectors\<close>

fun selector_loop :: "string gomap \<Rightarrow> string gomap \<Rightarrow> bool" where
  "selector_loop labels [] = True"
| "selector_loop labels ((key, v) # rest) = (if map_get [] labels key \<noteq> v then False else selector_loop labels rest)"

definition labelsMatchSelector :: "string gomap \<Rightarrow> string gomap \<Rightarrow> bool" where
  "labelsMatchSelector labels selector = (if length selector = 0 then False else selector_loop labels selector)"

section \<open>Operations\<close>

definition UpsertNetworkPolicy :: "'db oenv \<Rightarrow> NetworkPolicy \<Rightarrow> ('db, NetworkPolicy) orch" where
  "UpsertNetworkPolicy E policy = (let
     policy = (if blank (np_Namespace policy) then policy\<lparr>np_Namespace := ''default''\<rparr> else policy) in
     if blank (np_Name policy) then throw (ErrText ''network policy name is required'')
     else if length (np_PodSelector policy) = 0 then throw (ErrText ''network policy podSelector is required'')
     else seq (ensureNamespaceExists E (np_Namespace policy))
     (seq (st_UpsertNetworkPolicy E policy)
     (st_GetNetworkPolicy E (np_Namespace policy) (np_Name policy))))"

definition ListNetworkPolicies :: "'db oenv \<Rightarrow> string \<Rightarrow> ('db, NetworkPolicy list) orch" where
  "ListNetworkPolicies E namespace = st_ListNetworkPolicies E (if blank namespace then ''default'' else namespace)"

fun peer_loop :: "NetworkPolicy \<Rightarrow> string \<Rightarrow> string gomap \<Rightarrow> NetworkPolicyPeer list \<Rightarrow> bool" where
  "peer_loop p ns labels [] = False"
| "peer_loop p ns labels (peer # rest) =
     (if \<not> blank (pe_Namespace peer) \<and> \<not> EqualFold (pe_Namespace peer) ns then peer_loop p ns labels rest
      else if length (pe_Labels peer) > 0 \<and> \<not> labelsMatchSelector labels (pe_Labels peer) then peer_loop p ns labels rest
      else if \<not> blank (np_Group p) \<and> map_get [] labels ''group'' \<noteq> np_Group p then peer_loop p ns labels rest
      else True)"

fun rule_loop :: "NetworkPolicy \<Rightarrow> string \<Rightarrow> string gomap \<Rightarrow> int \<Rightarrow> NetworkPolicyRule list \<Rightarrow> string option" where
  "rule_loop p ns labels port [] = None"
| "rule_loop p ns labels port (rule # rest) =
     (if ru_Port rule > 0 \<and> ru_Port rule \<noteq> port then rule_loop p ns labels port rest
      else if length (ru_From rule) = 0 then Some ''allow_empty_from''
      else if peer_loop p ns labels (ru_From rule) then Some ''allow_matched_rule''
      else rule_loop p ns labels port rest)"

fun policy_loop :: "string \<Rightarrow> string gomap \<Rightarrow> int \<Rightarrow> NetworkPolicy list \<Rightarrow> string option" where
  "policy_loop ns labels port [] = None"
| "policy_loop ns labels port (p # rest) = (case rule_loop p ns labels port (np_Ingress p) of
     Some reason \<Rightarrow> Some reason | None \<Rightarrow> policy_loop ns labels port rest)"

definition decide_access :: "NetworkPolicy list \<Rightarrow> string \<Rightarrow> string gomap \<Rightarrow> Service \<Rightarrow> int \<Rightarrow> bool \<times> string" where
  "decide_access policies ns labels svc port = (let
     applicable = filter (\<lambda>p. labelsMatchSelector (ss_Selector (sv_Spec svc)) (np_PodSelector p)) policies in
     if length applicable = 0 then (True, ''no_applicable_policy'')
     else case policy_loop ns labels port applicable of
       Some reason \<Rightarrow> (True, reason)
     | None \<Rightarrow> (False, ''denied_by_network_policy''))"

definition IsNetworkAccessAllowed ::
    "'db oenv \<Rightarrow> string \<Rightarrow> string gomap \<Rightarrow> Service \<Rightarrow> int \<Rightarrow> ('db, bool \<times> string) orch" where
  "IsNetworkAccessAllowed E sourceNamespace sourceLabels svc port = (let
     sourceNamespace = (if blank sourceNamespace then ''default'' else sourceNamespace) in
     bnd (st_ListNetworkPolicies E (ss_Namespace (sv_Spec svc))) (\<lambda>policies.
     ret (decide_access policies sourceNamespace sourceLabels svc port)))"

section \<open>Frames\<close>

lemma quiet_UpsertNetworkPolicy: "stays quiet (UpsertNetworkPolicy E p)"
  unfolding UpsertNetworkPolicy_def Let_def by (intro quiet_rules)

lemma good_UpsertNetworkPolicy: "env_ok E \<Longrightarrow> stays (evolves E good_write) (UpsertNetworkPolicy E p)"
  unfolding UpsertNetworkPolicy_def Let_def
  by (intro stays_intros ev.rules ev_reads ev_ensureNamespaceExists ev_UpsertNetworkPolicy) simp_all

section \<open>The meaning of a policy\<close>

definition selects :: "string gomap \<Rightarrow> string gomap \<Rightarrow> bool" where
  "selects selector labels \<longleftrightarrow> selector \<noteq> [] \<and> (\<forall>(k, v) \<in> set selector. map_get [] labels k = v)"

lemma selector_loop_iff: "selector_loop labels sel \<longleftrightarrow> (\<forall>(k, v) \<in> set sel. map_get [] labels k = v)"
  by (induction sel) (auto split: if_splits)

lemma labelsMatchSelector_iff: "labelsMatchSelector labels sel \<longleftrightarrow> selects sel labels"
  by (simp add: labelsMatchSelector_def selects_def selector_loop_iff)

definition peer_admits :: "NetworkPolicy \<Rightarrow> string \<Rightarrow> string gomap \<Rightarrow> NetworkPolicyPeer \<Rightarrow> bool" where
  "peer_admits p ns labels peer \<longleftrightarrow>
     (blank (pe_Namespace peer) \<or> EqualFold (pe_Namespace peer) ns) \<and>
     (pe_Labels peer = [] \<or> selects (pe_Labels peer) labels) \<and>
     (blank (np_Group p) \<or> map_get [] labels ''group'' = np_Group p)"

definition rule_admits :: "NetworkPolicy \<Rightarrow> string \<Rightarrow> string gomap \<Rightarrow> int \<Rightarrow> NetworkPolicyRule \<Rightarrow> bool" where
  "rule_admits p ns labels port rule \<longleftrightarrow> (ru_Port rule \<le> 0 \<or> ru_Port rule = port) \<and>
     (ru_From rule = [] \<or> (\<exists>peer \<in> set (ru_From rule). peer_admits p ns labels peer))"

lemma peer_loop_iff: "peer_loop p ns labels peers \<longleftrightarrow> (\<exists>peer \<in> set peers. peer_admits p ns labels peer)"
  by (induction peers) (auto simp: peer_admits_def labelsMatchSelector_iff)

lemma rule_loop_iff: "rule_loop p ns labels port rules \<noteq> None \<longleftrightarrow> (\<exists>rule \<in> set rules. rule_admits p ns labels port rule)"
  by (induction rules) (auto simp: rule_admits_def peer_loop_iff)

lemma policy_loop_iff:
  "policy_loop ns labels port ps \<noteq> None \<longleftrightarrow> (\<exists>p \<in> set ps. \<exists>rule \<in> set (np_Ingress p). rule_admits p ns labels port rule)"
proof (induction ps)
  case (Cons p ps)
  then show ?case using rule_loop_iff [of p ns labels port "np_Ingress p"] by (auto split: option.splits)
qed simp

text \<open>The policies a namespace has: those stored below its key prefix.\<close>

definition policies_of :: "(string \<Rightarrow> blob option) \<Rightarrow> string \<Rightarrow> NetworkPolicy set" where
  "policies_of m namespace = {p. \<exists>k. prefix (keyNetworkPolicyPrefix namespace) k \<and> m k = Some (JNetworkPolicy p)}"

definition access_granted :: "NetworkPolicy set \<Rightarrow> string \<Rightarrow> string gomap \<Rightarrow> string gomap \<Rightarrow> int \<Rightarrow> bool" where
  "access_granted ps ns labels target port \<longleftrightarrow> (let applicable = {p \<in> ps. selects (np_PodSelector p) target} in
     applicable = {} \<or> (\<exists>p \<in> applicable. \<exists>rule \<in> set (np_Ingress p). rule_admits p ns labels port rule))"

lemma wp_ListNetworkPolicies:
  assumes "env_ok E" and wf: "store_wf (contents E s)"
    and "\<And>ps t. contents E t = contents E s \<Longrightarrow> set ps = policies_of (contents E s) ns \<Longrightarrow> Q (Inr ps) t"
    and "\<And>e t. \<not> env_total E \<Longrightarrow> Q (Inl e) t"
  shows "wp (st_ListNetworkPolicies E ns) Q s"
  unfolding st_ListNetworkPolicies_def
proof (rule npol.wp_list_prefix [OF assms(1,2)], goal_cases pre ok err)
  case (ok ps t)
  have "k = ''netpol:'' @ np_Namespace p @ '':'' @ np_Name p" if "contents E s k = Some (JNetworkPolicy p)" for k p
    using that wf [unfolded store_wf_def, rule_format, OF that] by (simp add: blob_key_simps key_defs)
  then have "set ps = policies_of (contents E s) ns" unfolding ok(4) policies_of_def by blast
  then show ?case using assms(3) ok(1) by blast
qed (use assms(4) in \<open>simp_all add: key_defs\<close>)

lemma decide_access_iff:
  "fst (decide_access ps ns labels svc port) \<longleftrightarrow> access_granted (set ps) ns labels (ss_Selector (sv_Spec svc)) port"
  using policy_loop_iff [of ns labels port "filter (\<lambda>p. labelsMatchSelector (ss_Selector (sv_Spec svc)) (np_PodSelector p)) ps"]
  by (auto simp: decide_access_def access_granted_def labelsMatchSelector_iff Let_def filter_empty_conv split: option.splits)

lemma access_now:
  assumes "set ps = P"
  shows "\<exists>reason. decide_access ps ns labels svc port = (access_granted P ns labels (ss_Selector (sv_Spec svc)) port, reason)"
  using decide_access_iff [of ps ns labels svc port] assms by (cases "decide_access ps ns labels svc port") simp

text \<open>
  (C22) Access to a service is allowed exactly when no stored policy of its namespace selects the
  service, or when an ingress rule of one that does admits the source: the port is open and there is
  either no restriction on the source or a peer whose namespace, labels and group the source has.
  Otherwise it is denied. With a database that answers, the call returns a decision.
\<close>

theorem network_access_spec:
  fixes E :: "'db oenv" and s :: "'db world"
  assumes "env_total E" and "store_wf (contents E s)"
  shows "wp (IsNetworkAccessAllowed E source labels svc port) (\<lambda>r t. \<exists>reason. r =
    Inr (access_granted (policies_of (contents E s) (ss_Namespace (sv_Spec svc)))
      (if blank source then ''default'' else source) labels (ss_Selector (sv_Spec svc)) port, reason)) s"
  unfolding IsNetworkAccessAllowed_def Let_def wp_simps
  by (rule wp_ListNetworkPolicies [OF env_total_ok [OF assms(1)] assms(2)])
    (use assms(1) in \<open>auto simp: wp_simps access_now\<close>)

definition demo_policy :: NetworkPolicy where
  "demo_policy = zero_NetworkPolicy\<lparr>np_Namespace := ''default'', np_Name := ''db'', np_PodSelector := [(''app'', ''db'')],
     np_Ingress := [zero_NetworkPolicyRule\<lparr>ru_Port := 5432,
       ru_From := [zero_NetworkPolicyPeer\<lparr>pe_Labels := [(''app'', ''web'')]\<rparr>]\<rparr>]\<rparr>"

definition demo_target :: Service where
  "demo_target = zero_Service\<lparr>sv_Spec := zero_ServiceSpec\<lparr>ss_Namespace := ''default'', ss_Selector := [(''app'', ''db'')]\<rparr>\<rparr>"

theorem network_access_spec_witness:
  "wp (IsNetworkAccessAllowed demo_oenv [] [(''app'', ''web'')] demo_target 5432) (\<lambda>r t. \<exists>reason. r = Inr (True, reason))
     (NewOrchestrator (stored [JNetworkPolicy demo_policy])) \<and>
   wp (IsNetworkAccessAllowed demo_oenv [] [(''app'', ''cron'')] demo_target 5432) (\<lambda>r t. \<exists>reason. r = Inr (False, reason))
     (NewOrchestrator (stored [JNetworkPolicy demo_policy]))"
proof -
  let ?s = "NewOrchestrator (stored [JNetworkPolicy demo_policy])"
  have ps: "policies_of (contents demo_oenv ?s) (ss_Namespace (sv_Spec demo_target)) = {demo_policy}"
    by (auto simp: policies_of_def stored_def key_defs demo_policy_def demo_target_def split: if_splits)
  have "access_granted {demo_policy} ''default'' [(''app'', ''web'')] (ss_Selector (sv_Spec demo_target)) 5432"
    "\<not> access_granted {demo_policy} ''default'' [(''app'', ''cron'')] (ss_Selector (sv_Spec demo_target)) 5432"
    by (auto simp: access_granted_def demo_policy_def demo_target_def selects_def rule_admits_def peer_admits_def
        map_get_def zero_NetworkPolicyPeer_def zero_NetworkPolicy_def)
  then show ?thesis
    using network_access_spec [OF demo_oenv_total stored_wf [of "[JNetworkPolicy demo_policy]"], of "[]" "[(''app'', ''web'')]" demo_target 5432]
      network_access_spec [OF demo_oenv_total stored_wf [of "[JNetworkPolicy demo_policy]"], of "[]" "[(''app'', ''cron'')]" demo_target 5432]
    by (simp only: ps blank_Nil if_True simp_thms)
qed

end
