(* ===== verification/Secrets.thy ===== *)
theory Secrets
  imports Orch_World
begin

text \<open>
  Secrets (\<^verbatim>\<open>internal/service/features.go\<close> and the secret handlers of \<^verbatim>\<open>orchestrator.go\<close>): where the
  encryption key comes from, encryption at rest with AES-GCM, the handlers, and the files handed to a
  workload. The ciphers, base64, SHA-256, the random nonce and the key sources are parameters of the
  environment; \<open>crypto_ok\<close> states what their documentation promises.
\<close>

section \<open>Key and ciphers\<close>

text \<open>The raw key text: the variable, else the file, else the endpoint.\<close>

definition kms_raw :: "'db oenv \<Rightarrow> string" where
  "kms_raw E = (let
     raw = TrimSpace (oe_getenv E ''ORCH_KMS_KEY'');
     raw = (if raw = [] then
              (let fp = TrimSpace (oe_getenv E ''ORCH_KMS_KEY_FILE'') in
               if fp \<noteq> [] then (case oe_readFile E fp of Inr blob \<Rightarrow> TrimSpace blob | Inl _ \<Rightarrow> raw) else raw)
            else raw);
     raw = (if raw = [] then
              (let url = TrimSpace (oe_getenv E ''ORCH_KMS_KEY_ENDPOINT'') in
               if url \<noteq> [] then (case oe_httpGet E url of Inr blob \<Rightarrow> TrimSpace blob | Inl _ \<Rightarrow> raw) else raw)
            else raw)
   in raw)"

text \<open>\<^verbatim>\<open>kmsKeyOnce\<close> runs the body once; the value does not change afterwards.\<close>

definition getKMSKey :: "'db oenv \<Rightarrow> string" where
  "getKMSKey E = (let raw = kms_raw E in
     if raw = [] then []
     else (case oe_b64decode E raw of
          Inr decoded \<Rightarrow> if length decoded \<ge> 32 then take 32 decoded
            else if length decoded > 0 then oe_sha256 E decoded else oe_sha256 E raw
        | Inl _ \<Rightarrow> oe_sha256 E raw))"

definition nonceSize :: nat where
  "nonceSize = 12"

definition encryptStringAESGCM :: "'db oenv \<Rightarrow> string \<Rightarrow> string \<Rightarrow> ('db, string) orch" where
  "encryptStringAESGCM E key plain =
     (if length key < 32 then throw (ErrText ''kms key must be at least 32 bytes'')
      else bnd next_tick (\<lambda>n. case oe_nonce E n of
          Inl err \<Rightarrow> throw err
        | Inr nonce \<Rightarrow> let ciphertext = oe_gcmSeal E (take 32 key) nonce plain in
            ret (oe_b64encode E (nonce @ ciphertext))))"

definition decryptStringAESGCM :: "'db oenv \<Rightarrow> string \<Rightarrow> string \<Rightarrow> err + string" where
  "decryptStringAESGCM E key enc =
     (if length key < 32 then Inl (ErrText ''kms key must be at least 32 bytes'')
      else case oe_b64decode E enc of
          Inl err \<Rightarrow> Inl err
        | Inr blob \<Rightarrow>
            if length blob < nonceSize then Inl (ErrText ''ciphertext too short'')
            else oe_gcmOpen E (take 32 key) (take nonceSize blob) (drop nonceSize blob))"

fun encrypt_entries :: "'db oenv \<Rightarrow> string \<Rightarrow> string gomap \<Rightarrow> ('db, string gomap) orch" where
  "encrypt_entries E key [] = ret []"
| "encrypt_entries E key ((k, v) # kvs) =
     bnd (encryptStringAESGCM E key v) (\<lambda>enc.
     bnd (encrypt_entries E key kvs) (\<lambda>out. ret ((k, ''enc:v1:'' @ enc) # out)))"

definition encryptSecretData :: "'db oenv \<Rightarrow> string gomap option \<Rightarrow> ('db, string gomap option) orch" where
  "encryptSecretData E data = (let key = getKMSKey E in
     if length key = 0 then ret data
     else bnd (encrypt_entries E key (elems data)) (\<lambda>out. ret (Some out)))"

definition decrypt_entry :: "'db oenv \<Rightarrow> string \<Rightarrow> string \<times> string \<Rightarrow> string \<times> string" where
  "decrypt_entry E key kv = (case kv of (k, v) \<Rightarrow>
     if HasPrefix v ''enc:v1:'' then
       (case decryptStringAESGCM E key (TrimPrefix v ''enc:v1:'') of Inr raw \<Rightarrow> (k, raw) | Inl _ \<Rightarrow> (k, v))
     else (k, v))"

definition decryptSecretData :: "'db oenv \<Rightarrow> string gomap option \<Rightarrow> string gomap option" where
  "decryptSecretData E data = (let key = getKMSKey E in
     if length key = 0 then data else Some (map (decrypt_entry E key) (elems data)))"

section \<open>Handlers\<close>

definition UpsertSecret :: "'db oenv \<Rightarrow> Secret \<Rightarrow> ('db, Secret) orch" where
  "UpsertSecret E secret = (let
     secret = (if blank (se_Namespace secret) then secret\<lparr>se_Namespace := ''default''\<rparr> else secret) in
     if blank (se_Name secret) then throw (ErrText ''secret name is required'')
     else seq (ensureNamespaceExists E (se_Namespace secret)) (let
     secret = (if se_Data secret = None then secret\<lparr>se_Data := Some []\<rparr> else secret) in
     bnd (encryptSecretData E (se_Data secret)) (\<lambda>enc. let
     secret = secret\<lparr>se_Data := enc\<rparr> in
     seq (st_UpsertSecret E secret)
     (bnd (st_GetSecret E (se_Namespace secret) (se_Name secret)) (\<lambda>out.
      ret (out\<lparr>se_Data := decryptSecretData E (se_Data out)\<rparr>))))))"

definition ListSecrets :: "'db oenv \<Rightarrow> string \<Rightarrow> ('db, Secret list) orch" where
  "ListSecrets E namespace = (let
     namespace = (if blank namespace then ''default'' else namespace) in
     bnd (st_ListSecrets E namespace) (\<lambda>items.
     ret (map (\<lambda>s. s\<lparr>se_Data := decryptSecretData E (se_Data s)\<rparr>) items)))"

definition secret_file :: "SecretMountSpec \<Rightarrow> string \<times> string \<Rightarrow> SecretFile" where
  "secret_file sm kv = (let
     base = TrimRight (TrimSpace (sm_MountPath sm)) (CHR ''/'');
     base = (if base = [] then ''/etc/secrets'' else base)
   in \<lparr>sf_Path = base @ ''/'' @ fst kv, sf_Content = snd kv\<rparr>)"

fun secret_files :: "'db oenv \<Rightarrow> string \<Rightarrow> SecretMountSpec list \<Rightarrow> ('db, SecretFile list) orch" where
  "secret_files E ns [] = ret []"
| "secret_files E ns (sm # sms) =
     (if blank (sm_SecretName sm) then secret_files E ns sms
      else bnd (st_GetSecret E ns (sm_SecretName sm)) (\<lambda>secret.
        bnd (secret_files E ns sms) (\<lambda>rest.
        ret (map (secret_file sm) (elems (decryptSecretData E (se_Data secret))) @ rest))))"

definition resolveSecretFilesForDeployment :: "'db oenv \<Rightarrow> Deployment \<Rightarrow> ('db, SecretFile list) orch" where
  "resolveSecretFilesForDeployment E dep =
     bnd (secret_files E (sp_Namespace (d_Spec dep)) (elems (sp_SecretMounts (d_Spec dep)))) (\<lambda>files.
     ret (SliceStable (\<lambda>a b. sf_Path a < sf_Path b) files))"

section \<open>Frames\<close>

lemma ev_encrypt_entries: "stays (evolves E W) (encrypt_entries E key kvs)"
proof (induction kvs)
  case (Cons kv kvs)
  then show ?case by (cases kv) (auto simp: encryptStringAESGCM_def Let_def intro!: stays_intros ev.rules ev_next_tick)
qed (simp add: ev.ret)

lemma quiet_encrypt_entries: "stays quiet (encrypt_entries E key kvs)"
proof (induction kvs)
  case (Cons kv kvs)
  then show ?case by (cases kv) (auto simp: encryptStringAESGCM_def Let_def intro!: stays_intros quiet.rules quiet_next_tick)
qed (simp add: quiet.ret)

lemma ev_secret_files: "env_ok E \<Longrightarrow> stays (evolves E W) (secret_files E ns sms)"
  by (induction sms) (auto intro!: stays_intros ev.rules ev_reads)

lemma quiet_secret_files: "stays quiet (secret_files E ns sms)"
  by (induction sms) (auto intro!: stays_intros quiet.rules quiet_store)

lemma ev_resolveSecretFiles: "env_ok E \<Longrightarrow> stays (evolves E W) (resolveSecretFilesForDeployment E dep)"
  unfolding resolveSecretFilesForDeployment_def by (intro ev.rules ev_secret_files)

lemma quiet_resolveSecretFiles: "stays quiet (resolveSecretFilesForDeployment E dep)"
  unfolding resolveSecretFilesForDeployment_def by (intro quiet.rules quiet_secret_files)

lemma quiet_UpsertSecret: "stays quiet (UpsertSecret E secret)"
  unfolding UpsertSecret_def encryptSecretData_def Let_def
  by (intro quiet_rules quiet_encrypt_entries)

lemma quiet_ListSecrets: "stays quiet (ListSecrets E ns)"
  unfolding ListSecrets_def Let_def by (intro quiet_rules)

section \<open>Round trip\<close>

definition crypto_ok :: "'db oenv \<Rightarrow> bool" where
  "crypto_ok E \<longleftrightarrow>
     (\<forall>x. oe_b64decode E (oe_b64encode E x) = Inr x) \<and>
     (\<forall>n x. oe_nonce E n = Inr x \<longrightarrow> length x = nonceSize) \<and>
     (\<forall>k n p. oe_gcmOpen E k n (oe_gcmSeal E k n p) = Inr p) \<and>
     (\<forall>x. length (oe_sha256 E x) = 32)"

lemma key_length: "crypto_ok E \<Longrightarrow> getKMSKey E = [] \<or> length (getKMSKey E) = 32"
  by (auto simp: getKMSKey_def Let_def crypto_ok_def split: sum.splits)

lemma decrypt_encrypted:
  assumes "crypto_ok E" and "length key = 32" and "oe_nonce E n = Inr nonce"
  shows "decryptStringAESGCM E key (oe_b64encode E (nonce @ oe_gcmSeal E (take 32 key) nonce v)) = Inr v"
  using assms by (simp add: decryptStringAESGCM_def crypto_ok_def)

lemma wp_encrypt_entries:
  assumes ok: "crypto_ok E" and key: "length key = 32"
  shows "wp (encrypt_entries E key kvs) (\<lambda>r t. \<forall>out. r = Inr out \<longrightarrow>
     map (decrypt_entry E key) out = kvs \<and> map fst out = map fst kvs \<and>
     list_all (\<lambda>(k, v). HasPrefix v ''enc:v1:'') out) s"
proof (induction kvs arbitrary: s)
  case (Cons kv kvs)
  obtain k v where kv: "kv = (k, v)" by (cases kv)
  have dec: "decrypt_entry E key (k, ''enc:v1:'' @ oe_b64encode E (nonce @ oe_gcmSeal E (take 32 key) nonce v)) = (k, v)"
    if "oe_nonce E n = Inr nonce" for n nonce
    using decrypt_encrypted [OF ok key that, of v] HasPrefix_append TrimPrefix_append
    by (simp add: decrypt_entry_def del: append.simps)
  show ?case
    unfolding kv
  proof (rule wpI, intro allI impI)
    fix r t out assume run: "encrypt_entries E key ((k, v) # kvs) s = (r, t)" "r = Inr out"
    then obtain n nonce u rest where n: "oe_nonce E n = Inr nonce"
      and rest: "encrypt_entries E key kvs u = (Inr rest, t)"
      and out: "out = (k, ''enc:v1:'' @ oe_b64encode E (nonce @ oe_gcmSeal E (take 32 key) nonce v)) # rest"
      by (auto simp: bnd_def encryptStringAESGCM_def next_tick_def throw_def ret_def Let_def
          split: prod.splits sum.splits if_splits)
    from wpD [OF Cons.IH rest] show "map (decrypt_entry E key) out = (k, v) # kvs \<and> map fst out = map fst ((k, v) # kvs) \<and>
        list_all (\<lambda>(k, v). HasPrefix v ''enc:v1:'') out"
      unfolding out using dec [OF n] HasPrefix_append [of "''enc:v1:''"] by (simp del: append.simps)
  qed
qed (simp add: wp_simps)

lemma wp_encryptSecretData:
  assumes ok: "crypto_ok E"
  shows "wp (encryptSecretData E data) (\<lambda>r t. \<forall>enc. r = Inr enc \<longrightarrow>
     elems (decryptSecretData E enc) = elems data \<and>
     (getKMSKey E \<noteq> [] \<longrightarrow> list_all (\<lambda>(k, v). HasPrefix v ''enc:v1:'') (elems enc))) s"
proof (cases "getKMSKey E = []")
  case True
  then show ?thesis by (simp add: encryptSecretData_def decryptSecretData_def wp_simps)
next
  case False
  then have key: "length (getKMSKey E) = 32" using key_length [OF ok] by blast
  show ?thesis
    using False unfolding encryptSecretData_def Let_def
    by (simp add: wp_simps)
      (rule wp_conseq [OF wp_encrypt_entries [OF ok key]], auto simp: decryptSecretData_def wp_simps split: sum.splits)
qed

section \<open>Properties\<close>

text \<open>
  (C35) Encryption at rest is transparent: whatever \<^verbatim>\<open>encryptSecretData\<close> returns decrypts to the
  entries it was given, and when a key is configured every stored value carries the marker of an
  encrypted value, also if the plain text already looked like one.
\<close>

theorem secret_encryption_roundtrip:
  assumes "crypto_ok E" and "encryptSecretData E data s = (Inr enc, t)"
  shows "elems (decryptSecretData E enc) = elems data \<and>
    (if getKMSKey E = [] then enc = data else list_all (\<lambda>(k, v). HasPrefix v ''enc:v1:'') (elems enc))"
proof -
  have "getKMSKey E = [] \<Longrightarrow> enc = data"
    using assms(2) by (simp add: encryptSecretData_def ret_def)
  then show ?thesis using wpD [OF wp_encryptSecretData [OF assms(1)] assms(2)] by simp
qed

definition demo_crypto :: "memdb oenv" where
  "demo_crypto = demo_oenv\<lparr>oe_getenv := (\<lambda>v. if v = ''ORCH_KMS_KEY'' then ''k'' else []),
     oe_sha256 := (\<lambda>_. replicate 32 (CHR ''s'')), oe_nonce := (\<lambda>_. Inr (replicate 12 (CHR ''n''))),
     oe_b64decode := (\<lambda>s. if s = ''k'' then Inl (ErrText ''illegal base64'') else Inr (tl s)), oe_b64encode := (#) (CHR ''='')\<rparr>"

theorem secret_encryption_roundtrip_witness:
  "\<exists>enc t. encryptSecretData demo_crypto (Some [(''user'', ''enc:v1:me'')]) (NewOrchestrator []) = (Inr enc, t) \<and>
     enc \<noteq> Some [(''user'', ''enc:v1:me'')] \<and> elems (decryptSecretData demo_crypto enc) = [(''user'', ''enc:v1:me'')]"
proof -
  have ok: "crypto_ok demo_crypto"
    by (simp add: crypto_ok_def demo_crypto_def demo_oenv_def nonceSize_def)
  have raw: "kms_raw demo_crypto = ''k''" unfolding kms_raw_def demo_crypto_def by code_simp
  have key: "getKMSKey demo_crypto = replicate 32 (CHR ''s'')"
    unfolding getKMSKey_def raw by (simp add: demo_crypto_def demo_oenv_def)
  obtain enc t where run: "encryptSecretData demo_crypto (Some [(''user'', ''enc:v1:me'')]) (NewOrchestrator []) = (Inr enc, t)"
    and ne: "enc \<noteq> Some [(''user'', ''enc:v1:me'')]"
    unfolding encryptSecretData_def key Let_def
    by (simp add: encryptStringAESGCM_def bnd_def next_tick_def ret_def demo_crypto_def demo_oenv_def)
  from secret_encryption_roundtrip [OF ok run] show ?thesis using run ne by auto
qed

end
