(* ===== verification/Rollout.thy ===== *)
theory Rollout
  imports Deployments Secrets
begin

text \<open>
  Placement of the replicas of a deployment (\<^verbatim>\<open>internal/service/orchestrator.go\<close>): creating
  a workload on a node the scheduler selects, preempting workloads of lower priority, choosing the
  workloads to scale down, and the two reconciliation routines \<^verbatim>\<open>reconcileDeployment\<close> and
  \<^verbatim>\<open>reconcileDeletion\<close>. The long routine is split at its phases: the progress deadline, the targets of
  the strategy, the creation loop with its error branch, the two scale-down loops and the status.
\<close>

section \<open>Workloads of a deployment\<close>

definition is_active :: "Workload \<Rightarrow> bool" where
  "is_active w \<longleftrightarrow> w_Status w = WorkloadRunning \<or> w_Status w = WorkloadPending"

definition activeWorkloads :: "Workload list \<Rightarrow> Workload list" where
  "activeWorkloads ws = filter is_active ws"

definition runningCount :: "Workload list \<Rightarrow> int" where
  "runningCount ws = int (length (filter (\<lambda>w. w_Status w = WorkloadRunning) ws))"

definition runningCountFromSlice :: "Workload list \<Rightarrow> int" where
  "runningCountFromSlice ws = int (length (filter (\<lambda>w. w_Status w = WorkloadRunning) ws))"

definition runningOrPendingCount :: "Workload list \<Rightarrow> int" where
  "runningOrPendingCount ws = int (length (filter is_active ws))"

definition activeForRevision :: "Workload list \<Rightarrow> int \<Rightarrow> Workload list" where
  "activeForRevision ws revision = filter (\<lambda>w. w_Version w = revision) ws"

definition oldRevisionWorkloads :: "Workload list \<Rightarrow> int \<Rightarrow> Workload list" where
  "oldRevisionWorkloads ws revision = filter (\<lambda>w. w_Version w \<noteq> revision) ws"

definition activeWorkloadsAfterRefresh :: "'db oenv \<Rightarrow> string \<Rightarrow> ('db, Workload list) orch" where
  "activeWorkloadsAfterRefresh E deploymentID =
     bnd (attempt (st_ListWorkloadsByDeployment E deploymentID)) (\<lambda>r.
       ret (case r of Inl _ \<Rightarrow> [] | Inr items \<Rightarrow> activeWorkloads items))"

text \<open>Pending workloads go first, then the newer ones.\<close>

definition victim_before :: "Workload \<Rightarrow> Workload \<Rightarrow> bool" where
  "victim_before a b = (if w_Status a \<noteq> w_Status b then w_Status a = WorkloadPending
     else w_CreatedAt b < w_CreatedAt a)"

definition pickScaleDownVictims :: "Workload list \<Rightarrow> int \<Rightarrow> Workload list" where
  "pickScaleDownVictims ws cnt = (if cnt \<le> 0 then [] else let
     candidates = SliceStable victim_before (filter (\<lambda>w. w_Status w = WorkloadPending \<or> w_Status w = WorkloadRunning) ws)
   in if int (length candidates) > cnt then take (nat cnt) candidates else candidates)"

section \<open>Preemption\<close>

definition preempt_before :: "Workload \<Rightarrow> Workload \<Rightarrow> bool" where
  "preempt_before a b = (if w_Priority a \<noteq> w_Priority b then w_Priority a < w_Priority b
     else w_CreatedAt b < w_CreatedAt a)"

definition nodeByID :: "Node list \<Rightarrow> string \<Rightarrow> Node option" where
  "nodeByID nodes = map_of (rev (map (\<lambda>n. (n_ID n, n)) nodes))"

definition release_resources :: "Node \<Rightarrow> Resource \<Rightarrow> Node" where
  "release_resources node res = (let
     cpu = isub (MilliCPU (n_Used node)) (MilliCPU res);
     mem = isub (MemoryMB (n_Used node)) (MemoryMB res)
   in node\<lparr>n_Used := \<lparr>MilliCPU = (if cpu < 0 then 0 else cpu), MemoryMB = (if mem < 0 then 0 else mem)\<rparr>\<rparr>)"

definition preempt_fits :: "Node \<Rightarrow> Workload \<Rightarrow> Resource \<Rightarrow> bool" where
  "preempt_fits node victim req \<longleftrightarrow>
     \<not> (MilliCPU req > iadd (isub (MilliCPU (n_Allocatable node)) (MilliCPU (n_Used node))) (MilliCPU (w_Resources victim)) \<or>
        MemoryMB req > iadd (isub (MemoryMB (n_Allocatable node)) (MemoryMB (n_Used node))) (MemoryMB (w_Resources victim)))"

definition preempt_victim :: "'db oenv \<Rightarrow> Deployment \<Rightarrow> Node \<Rightarrow> Workload \<Rightarrow> ('db, bool) orch" where
  "preempt_victim E dep node victim =
     seq (st_UpsertNode E (release_resources node (w_Resources victim)))
     (seq (st_DeleteWorkload E (w_ID victim))
     (seq (ignore (emitEvent E (event EventWarn ''scheduler'' ''PreemptedLowerPriorityWorkload''
         ''Preempted lower priority workload to free resources'' (d_ID dep) (w_ID victim) (w_NodeID victim))))
     (ret True)))"

definition preempt_candidates :: "Deployment \<Rightarrow> Workload list \<Rightarrow> Workload list" where
  "preempt_candidates dep ws = SliceStable preempt_before
     (filter (\<lambda>w. w_Priority w < sp_Priority (d_Spec dep) \<and> w_DeploymentID w \<noteq> d_ID dep) ws)"

definition tryPreemptForPriority :: "'db oenv \<Rightarrow> Deployment \<Rightarrow> Resource \<Rightarrow> ('db, bool) orch" where
  "tryPreemptForPriority E dep req =
     bnd (st_ListWorkloads E) (\<lambda>workloads.
     bnd (st_ListNodes E) (\<lambda>nodes.
     until_true (preempt_candidates dep workloads) (\<lambda>victim.
       case nodeByID nodes (w_NodeID victim) of
         None \<Rightarrow> ret False
       | Some node \<Rightarrow>
         if n_Status node \<noteq> NodeReady then ret False
         else if \<not> preempt_fits node victim req then ret False
         else preempt_victim E dep node victim)))"

section \<open>Creating and deleting a workload\<close>

definition select_node :: "'db oenv \<Rightarrow> Deployment \<Rightarrow> ('db, err + Node) orch" where
  "select_node E dep = bnd (st_ListNodes E) (\<lambda>nodes. bnd next_tick (\<lambda>n.
     ret (SelectNode (oe_score E n) (oe_planner E) nodes (sp_Resources (d_Spec dep))
            (elems (sp_Labels (d_Spec dep))) (elems (sp_Tolerations (d_Spec dep))))))"

definition schedule_workload :: "'db oenv \<Rightarrow> Deployment \<Rightarrow> ('db, Node) orch" where
  "schedule_workload E dep = bnd (select_node E dep) (\<lambda>r. case r of
     Inr node \<Rightarrow> ret node
   | Inl err \<Rightarrow>
     bnd (if sp_Priority (d_Spec dep) > 0
       then bnd (attempt (tryPreemptForPriority E dep (sp_Resources (d_Spec dep)))) (\<lambda>r. ret (r = Inr True))
       else ret False) (\<lambda>preempted.
     if preempted then bnd (select_node E dep) (\<lambda>r. case r of Inl e \<Rightarrow> throw e | Inr node \<Rightarrow> ret node)
     else throw err))"

definition new_workload :: "'db oenv \<Rightarrow> Deployment \<Rightarrow> string \<Rightarrow> ('db, Workload) orch" where
  "new_workload E dep nodeID =
     bnd (time_now E) (\<lambda>t. bnd (rand_intn E 9999) (\<lambda>r. bnd (time_now E) (\<lambda>created. bnd (time_now E) (\<lambda>updated.
     ret \<lparr>w_ID = ''wk-'' @ show_int t @ ''-'' @ show_pad 4 r, w_DeploymentID = d_ID dep,
          w_Priority = sp_Priority (d_Spec dep), w_NodeID = nodeID, w_Image = sp_Image (d_Spec dep),
          w_Resources = sp_Resources (d_Spec dep), w_Status = WorkloadPending, w_ContainerID = [],
          w_RestartCount = 0, w_Version = d_CurrentRevision dep, w_CreatedAt = created, w_UpdatedAt = updated\<rparr>))))"

definition reserve :: "Node \<Rightarrow> Resource \<Rightarrow> Node" where
  "reserve node res = node\<lparr>n_Used := \<lparr>MilliCPU = iadd (MilliCPU (n_Used node)) (MilliCPU res),
     MemoryMB = iadd (MemoryMB (n_Used node)) (MemoryMB res)\<rparr>\<rparr>"

definition volume_mounts :: "Deployment \<Rightarrow> VolumeMount list" where
  "volume_mounts dep = map (\<lambda>claim. \<lparr>vm_ClaimName = claim, vm_MountPath = ''/mnt/pv/'' @ claim, vm_ReadOnly = False\<rparr>)
     (elems (sp_VolumeClaims (d_Spec dep)))"

definition createWorkloadForDeployment :: "'db oenv \<Rightarrow> Deployment \<Rightarrow> ('db, unit) orch" where
  "createWorkloadForDeployment E dep =
     bnd (schedule_workload E dep) (\<lambda>node.
     seq (ignore (emitEvent E (event EventInfo ''scheduler'' ''NodeSelected'' ''Scheduler selected node for workload''
         (d_ID dep) [] (n_ID node))))
     (bnd (new_workload E dep (n_ID node)) (\<lambda>workload.
     seq (st_UpsertWorkload E workload)
     (seq (st_UpsertNode E (reserve node (sp_Resources (d_Spec dep))))
     (bnd (resolveSecretFilesForDeployment E dep) (\<lambda>secretFiles.
     seq (st_EnqueueAssignment E \<lparr>a_Action = ''create'', a_ID = [], a_NodeID = n_ID node, a_WorkloadID = w_ID workload,
         a_Image = w_Image workload, a_ImagePullSecret = sp_ImagePullSecret (d_Spec dep), a_ContainerID = [],
         a_SecretFiles = secretFiles, a_VolumeMounts = volume_mounts dep, a_Resources = w_Resources workload\<rparr>)
     (ignore (emitEvent E (event EventInfo ''reconcile'' ''AssignmentEnqueued'' ''Workload assignment enqueued''
         (d_ID dep) (w_ID workload) (n_ID node))))))))))"

definition delete_assignment :: "Workload \<Rightarrow> Assignment" where
  "delete_assignment w = \<lparr>a_Action = ''delete'', a_ID = [], a_NodeID = w_NodeID w, a_WorkloadID = w_ID w, a_Image = [],
     a_ImagePullSecret = [], a_ContainerID = w_ContainerID w, a_SecretFiles = [], a_VolumeMounts = [],
     a_Resources = w_Resources w\<rparr>"

definition enqueueDeleteForWorkload :: "'db oenv \<Rightarrow> Deployment \<Rightarrow> Workload \<Rightarrow> ('db, unit) orch" where
  "enqueueDeleteForWorkload E dep victim = (let victim = victim\<lparr>w_Status := WorkloadTerminating\<rparr> in
     seq (st_UpsertWorkload E victim)
     (seq (st_EnqueueAssignment E (delete_assignment victim))
     (ignore (emitEvent E (event EventInfo ''rollout'' ''OldRevisionScaledDown'' ''Scaled down old revision workload''
         (d_ID dep) (w_ID victim) (w_NodeID victim))))))"

section \<open>Reconciling a deployment\<close>

definition rollout_phase :: "string \<Rightarrow> string \<Rightarrow> Deployment \<Rightarrow> Deployment" where
  "rollout_phase phase msg dep = dep\<lparr>d_RolloutStatus := (d_RolloutStatus dep)\<lparr>rs_Phase := phase, rs_Message := msg\<rparr>\<rparr>"

definition rollout_touched :: "gotime \<Rightarrow> Deployment \<Rightarrow> Deployment" where
  "rollout_touched t dep = dep\<lparr>d_RolloutStatus := (d_RolloutStatus dep)\<lparr>rs_LastUpdatedAt := t\<rparr>\<rparr>"

subsection \<open>The progress deadline\<close>

definition deadline_exceeded :: "'db oenv \<Rightarrow> Deployment \<Rightarrow> ('db, bool) orch" where
  "deadline_exceeded E dep = (let
     rs = d_RolloutStatus dep; secs = ro_ProgressDeadlineSeconds (sp_Rollout (d_Spec dep)) in
     if isRolloutInProgress (rs_Phase rs) \<and> secs > 0 \<and> \<not> IsZero (rs_StartedAt rs)
     then bnd (time_now E) (\<lambda>now. ret (rs_StartedAt rs + seconds secs < now))
     else ret False)"

definition fail_deadline :: "'db oenv \<Rightarrow> Deployment \<Rightarrow> ('db, unit) orch" where
  "fail_deadline E dep = (let
     dep = rollout_phase ''Failed'' ''rollout progress deadline exceeded'' (dep\<lparr>d_Status := DeploymentFailed\<rparr>) in
     bnd (time_now E) (\<lambda>t. let dep = rollout_touched t dep; msg = rs_Message (d_RolloutStatus dep) in
     bnd (now_condition E ConditionProgressing False ''ProgressDeadlineExceeded'' msg dep) (\<lambda>dep.
     bnd (now_condition E ConditionDegraded True ''ProgressDeadlineExceeded'' msg dep) (\<lambda>dep.
     bnd (if ro_AutoRollbackOnFailure (sp_Rollout (d_Spec dep)) \<and> d_CurrentRevision dep > 1
       then bnd (rollbackDeploymentLocked E dep (isub (d_CurrentRevision dep) 1)
              ''Automatic rollback after progress deadline exceeded'') (\<lambda>(ok, dep).
            seq (when_so ok (ignore (emitEvent E (event EventWarn ''rollout'' ''AutoRollbackTriggered''
              ''Automatic rollback triggered by progress deadline'' (d_ID dep) [] []))))
            (ret dep))
       else ret dep) (\<lambda>dep.
     bnd (time_now E) (\<lambda>t. let dep = dep\<lparr>d_UpdatedAt := t\<rparr> in
     seq (ignore (emitEvent E (event EventWarn ''rollout'' ''ProgressDeadlineExceeded''
            (rs_Message (d_RolloutStatus dep)) (d_ID dep) [] [])))
     (st_UpdateDeployment E dep)))))))"

subsection \<open>The targets of the strategy\<close>

definition rollout_target :: "Deployment \<Rightarrow> Workload list \<Rightarrow> int \<times> string" where
  "rollout_target dep workloads = (let
     active = activeWorkloads workloads;
     newActive = activeForRevision active (d_CurrentRevision dep);
     oldActive = isub (int (length active)) (int (length newActive));
     replicas = sp_Replicas (d_Spec dep);
     ro = sp_Rollout (d_Spec dep) in
     if ro_Strategy ro = RolloutStrategyCanary \<and> ca_Enabled (ro_Canary ro) \<and> oldActive > 0 then let
       canaryTarget = iquo (imul replicas (ca_Percentage (ro_Canary ro))) 100;
       canaryTarget = (if canaryTarget \<le> 0 then 1 else canaryTarget);
       canaryTarget = (if canaryTarget > replicas then replicas else canaryTarget) in
       if runningCount (activeForRevision workloads (d_CurrentRevision dep)) \<ge> canaryTarget
       then (replicas, ''CanaryPromoting'') else (canaryTarget, ''Canary'')
     else (replicas, ''Progressing''))"

definition max_total :: "Deployment \<Rightarrow> int" where
  "max_total dep = (let
     maxTotal = iadd (sp_Replicas (d_Spec dep)) (MaxSurge (ro_RollingUpdate (sp_Rollout (d_Spec dep)))) in
     if maxTotal < sp_Replicas (d_Spec dep) then sp_Replicas (d_Spec dep) else maxTotal)"

definition min_available :: "Deployment \<Rightarrow> int" where
  "min_available dep = (let
     minAvailable = isub (sp_Replicas (d_Spec dep)) (MaxUnavailable (ro_RollingUpdate (sp_Rollout (d_Spec dep)))) in
     if minAvailable < 0 then 0 else minAvailable)"

definition to_create :: "Deployment \<Rightarrow> Workload list \<Rightarrow> int" where
  "to_create dep workloads = (let
     active = activeWorkloads workloads;
     newActive = activeForRevision active (d_CurrentRevision dep);
     createNeeded = isub (fst (rollout_target dep workloads)) (int (length newActive));
     createNeeded = (if createNeeded < 0 then 0 else createNeeded);
     createBudget = isub (max_total dep) (int (length active));
     createBudget = (if createBudget < 0 then 0 else createBudget)
   in minInt createNeeded createBudget)"

subsection \<open>Creation that fails\<close>

definition create_failed :: "'db oenv \<Rightarrow> Deployment \<Rightarrow> string \<Rightarrow> err \<Rightarrow> ('db, unit) orch" where
  "create_failed E dep phase err = (let dep = dep\<lparr>d_Status := DeploymentPending\<rparr> in
     bnd (now_condition E ConditionProgressing True ''NoSchedulableNode'' (err_text err) dep) (\<lambda>dep.
     bnd (now_condition E ConditionDegraded True ''SchedulingFailed'' ''Scheduler could not place workload'' dep) (\<lambda>dep.
     bnd (time_now E) (\<lambda>t. bnd (time_now E) (\<lambda>u. let
       dep = (rollout_touched t (rollout_phase phase ''waiting for schedulable nodes'' dep))\<lparr>d_UpdatedAt := u\<rparr> in
     seq (ignore (st_UpdateDeployment E dep))
     (ignore (emitEvent E (event EventWarn ''scheduler'' ''NoSchedulableNode'' ''Scheduler could not place workload''
         (d_ID dep) [] []))))))))"

subsection \<open>Scaling down\<close>

definition scale_down_old :: "'db oenv \<Rightarrow> Deployment \<Rightarrow> Workload list \<Rightarrow> ('db, unit) orch" where
  "scale_down_old E dep workloads = (let
     active = activeWorkloads workloads;
     oldCandidates = oldRevisionWorkloads active (d_CurrentRevision dep);
     deleteBudget = isub (int (length active)) (min_available dep) in
     when_so (deleteBudget > 0)
       (for_each (pickScaleDownVictims oldCandidates (minInt (int (length oldCandidates)) deleteBudget))
          (enqueueDeleteForWorkload E dep)))"

definition scale_down_excess :: "'db oenv \<Rightarrow> Deployment \<Rightarrow> Workload list \<Rightarrow> ('db, unit) orch" where
  "scale_down_excess E dep workloads = (let
     activeNow = activeWorkloads workloads;
     excess = isub (int (length activeNow)) (sp_Replicas (d_Spec dep)) in
     when_so (excess > 0)
       (for_each (pickScaleDownVictims activeNow excess) (enqueueDeleteForWorkload E dep)))"

definition scale_down :: "'db oenv \<Rightarrow> string \<Rightarrow> Deployment \<Rightarrow> Workload list \<Rightarrow> ('db, unit) orch" where
  "scale_down E deploymentID dep workloads =
     seq (scale_down_old E dep workloads)
     (bnd (st_ListWorkloadsByDeployment E deploymentID) (scale_down_excess E dep))"

subsection \<open>The status\<close>

definition mark_stable :: "'db oenv \<Rightarrow> Deployment \<Rightarrow> ('db, Deployment) orch" where
  "mark_stable E dep =
     bnd (now_condition E ConditionAvailable True ''DesiredReplicasPlaced'' ''Desired replica count has been placed''
            (rollout_phase ''Stable'' ''rollout complete'' (dep\<lparr>d_Status := DeploymentRunning\<rparr>))) (\<lambda>dep.
     bnd (now_condition E ConditionProgressing False ''ReconciliationStable'' ''Reconciliation reached stable state'' dep) (\<lambda>dep.
     now_condition E ConditionDegraded False ''Healthy'' ''Deployment is healthy'' dep))"

definition mark_progress :: "'db oenv \<Rightarrow> Deployment \<Rightarrow> string \<Rightarrow> int \<Rightarrow> int \<Rightarrow> int \<Rightarrow> int \<Rightarrow> ('db, Deployment) orch" where
  "mark_progress E dep phase updatedReplicas readyReplicas unavailable remainingOld = (let
     msg = ''rollout in progress: updated='' @ show_int updatedReplicas @ '' ready='' @ show_int readyReplicas @
       '' unavailable='' @ show_int unavailable @ '' old='' @ show_int remainingOld;
     dep = rollout_phase phase msg (dep\<lparr>d_Status := DeploymentPending\<rparr>);
     availableNow = (readyReplicas \<ge> sp_Replicas (d_Spec dep) \<and> remainingOld = 0) in
     bnd (now_condition E ConditionProgressing True ''RolloutInProgress'' msg dep) (\<lambda>dep.
     bnd (now_condition E ConditionAvailable availableNow ''ReplicaReadiness'' ''Availability evaluated'' dep) (\<lambda>dep.
     if availableNow then
       bnd (now_condition E ConditionProgressing False ''ReconciliationStable'' ''Reconciliation reached stable state''
              (rollout_phase ''Stable'' ''rollout complete'' (dep\<lparr>d_Status := DeploymentRunning\<rparr>))) (\<lambda>dep.
       now_condition E ConditionDegraded False ''Healthy'' ''Deployment is healthy'' dep)
     else ret dep)))"

definition report_status :: "'db oenv \<Rightarrow> Deployment \<Rightarrow> string \<Rightarrow> ('db, unit) orch" where
  "report_status E dep phase =
     bnd (activeWorkloadsAfterRefresh E (d_ID dep)) (\<lambda>active. let
       updatedReplicas = int (length (activeForRevision active (d_CurrentRevision dep)));
       readyReplicas = runningCountFromSlice active;
       unavailable = isub (sp_Replicas (d_Spec dep)) readyReplicas;
       unavailable = (if unavailable < 0 then 0 else unavailable);
       remainingOld = int (length (oldRevisionWorkloads active (d_CurrentRevision dep)));
       stable = (remainingOld = 0 \<and> updatedReplicas \<ge> sp_Replicas (d_Spec dep) \<and> unavailable = 0) in
     bnd (if stable then mark_stable E dep
          else mark_progress E dep phase updatedReplicas readyReplicas unavailable remainingOld) (\<lambda>dep. let
       dep = dep\<lparr>d_ObservedGeneration := d_Generation dep,
         d_RolloutStatus := (d_RolloutStatus dep)\<lparr>rs_UpdatedReplicas := updatedReplicas,
           rs_ReadyReplicas := readyReplicas, rs_UnavailableReplicas := unavailable\<rparr>\<rparr> in
     bnd (time_now E) (\<lambda>t. bnd (time_now E) (\<lambda>u. let
       dep = (rollout_touched t dep)\<lparr>d_UpdatedAt := u\<rparr> in
     seq (ignore (emitEvent E (event EventInfo ''rollout'' ''RolloutProgress'' (rs_Message (d_RolloutStatus dep)) (d_ID dep) [] [])))
     (st_UpdateDeployment E dep)))))"

subsection \<open>The whole routine\<close>

definition place_replicas :: "'db oenv \<Rightarrow> string \<Rightarrow> Deployment \<Rightarrow> ('db, unit) orch" where
  "place_replicas E deploymentID dep =
     bnd (st_ListWorkloadsByDeployment E deploymentID) (\<lambda>workloads. let
       phase = snd (rollout_target dep workloads) in
     bnd (attempt (times (nat (to_create dep workloads)) (createWorkloadForDeployment E dep))) (\<lambda>created.
     case created of
       Inl err \<Rightarrow> create_failed E dep phase err
     | Inr _ \<Rightarrow>
       bnd (st_ListWorkloadsByDeployment E deploymentID) (\<lambda>workloads.
       seq (when_so (phase \<noteq> ''Canary'') (scale_down E deploymentID dep workloads))
       (report_status E dep phase))))"

definition prepare :: "Deployment \<Rightarrow> Deployment" where
  "prepare dep = (let dep = dep\<lparr>d_Spec := normalize_spec (d_Spec dep)\<rparr> in
     if d_CurrentRevision dep \<le> 0 then dep\<lparr>d_CurrentRevision := 1\<rparr> else dep)"

definition reconcileDeployment :: "'db oenv \<Rightarrow> string \<Rightarrow> ('db, unit) orch" where
  "reconcileDeployment E deploymentID = with_mu (
     bnd (st_GetDeployment E deploymentID) (\<lambda>dep. let dep = prepare dep in
     bnd (deadline_exceeded E dep) (\<lambda>late.
     if late then fail_deadline E dep else place_replicas E deploymentID dep)))"

section \<open>The mutex\<close>

lemmas rollout_defs = tryPreemptForPriority_def preempt_victim_def schedule_workload_def select_node_def new_workload_def

lemma quiet_createWorkload: "stays quiet (createWorkloadForDeployment E dep)"
  unfolding createWorkloadForDeployment_def rollout_defs
  by (intro quiet_rules quiet_resolveSecretFiles)

lemma quiet_enqueueDelete: "stays quiet (enqueueDeleteForWorkload E dep w)"
  unfolding enqueueDeleteForWorkload_def Let_def by (intro quiet_rules)

lemma quiet_fail_deadline: "stays quiet (fail_deadline E dep)"
  unfolding fail_deadline_def Let_def
  by (intro quiet_rules quiet_now_condition quiet_rollbackDeploymentLocked)

lemma quiet_create_failed: "stays quiet (create_failed E dep ph e)"
  unfolding create_failed_def Let_def by (intro quiet_rules quiet_now_condition)

lemma quiet_report_status: "stays quiet (report_status E dep ph)"
  unfolding report_status_def mark_stable_def mark_progress_def activeWorkloadsAfterRefresh_def Let_def
  by (intro quiet_rules quiet_now_condition)

lemma quiet_scale_down: "stays quiet (scale_down E i dep ws)"
  unfolding scale_down_def scale_down_old_def scale_down_excess_def Let_def
  by (intro quiet_rules quiet_enqueueDelete)

lemma quiet_place_replicas: "stays quiet (place_replicas E i dep)"
  unfolding place_replicas_def Let_def
  by (intro quiet_rules quiet_createWorkload quiet_create_failed quiet_scale_down quiet_report_status)

lemma free_reconcileDeployment: "stays free (reconcileDeployment E i)"
  unfolding reconcileDeployment_def deadline_exceeded_def Let_def
  by (rule free_with_mu) (intro quiet_rules quiet_fail_deadline quiet_place_replicas)

section \<open>The invariant\<close>

lemma dep_ok_rollout [simp]:
  "dep_ok (rollout_phase ph msg d) = dep_ok d" "dep_ok (rollout_touched t d) = dep_ok d"
  "dep_ok d \<Longrightarrow> dep_ok (prepare d)"
  by (auto simp: rollout_phase_def rollout_touched_def prepare_def Let_def dep_ok_def history_ok_def split: if_splits)

lemma d_ID_rollout [simp]:
  "d_ID (rollout_phase ph msg d) = d_ID d" "d_ID (rollout_touched t d) = d_ID d" "d_ID (prepare d) = d_ID d"
  by (simp_all add: rollout_phase_def rollout_touched_def prepare_def Let_def)

text \<open>The operations that place and remove workloads never write a deployment.\<close>

lemmas ev_all = stays_intros ev.rules ev_reads ev_time ev_rand ev_next_tick ev_emitEvent ev_writes ev_now_condition

lemma good_createWorkload: "env_ok E \<Longrightarrow> stays (evolves E good_write) (createWorkloadForDeployment E dep)"
  unfolding createWorkloadForDeployment_def rollout_defs
  by (intro ev_all ev_resolveSecretFiles) simp_all

lemma good_enqueueDelete: "env_ok E \<Longrightarrow> stays (evolves E good_write) (enqueueDeleteForWorkload E dep w)"
  unfolding enqueueDeleteForWorkload_def Let_def by (intro ev_all) simp_all

definition same_ok :: "Deployment \<Rightarrow> Deployment \<Rightarrow> bool" where
  "same_ok d d' \<longleftrightarrow> (dep_ok d \<longrightarrow> dep_ok d') \<and> d_ID d' = d_ID d"

lemma gives_same_ok: "same_ok d0 d \<Longrightarrow> gives (same_ok d0) (now_condition E ty st re msg d)"
  unfolding now_condition_def by (intro gives_bnd [OF gives_any] gives_ret) (auto simp: same_ok_def)

lemma gives_bnd_same_ok:
  "(\<And>d'. same_ok d0 d' \<Longrightarrow> gives (same_ok d0) (f d')) \<Longrightarrow> same_ok d0 d \<Longrightarrow>
   gives (same_ok d0) (bnd (now_condition E ty st re msg d) f)"
  by (rule gives_bnd [OF gives_same_ok])

lemma gives_mark_stable: "gives (same_ok d) (mark_stable E d)"
  unfolding mark_stable_def by (intro gives_bnd_same_ok gives_same_ok) (auto simp: same_ok_def)

lemma gives_mark_progress: "gives (same_ok d) (mark_progress E d ph a b c e)"
  unfolding mark_progress_def Let_def
  by (intro gives_bnd_same_ok gives_if gives_same_ok gives_ret) (auto simp: same_ok_def)

lemmas sound_bnds = sound_with_mu sound_get sound_list sound_now_condition sound_rollbackLocked

lemmas sound_rules = stays_intros sound.rules sound_reads sound_time sound_rand sound_UpdateDeployment sound_emitEvent
  ev_now_condition [THEN sound_of_evolves]

lemma sound_fail_deadline: "env_ok E \<Longrightarrow> dep_ok d \<Longrightarrow> stays (sound E) (fail_deadline E d)"
  unfolding fail_deadline_def Let_def go_laws split_beta bnd_seq
  by (intro sound_bnds sound_rules) simp_all

lemma sound_create_failed: "env_ok E \<Longrightarrow> dep_ok d \<Longrightarrow> stays (sound E) (create_failed E d ph e)"
  unfolding create_failed_def Let_def by (intro sound_bnds sound_rules) simp_all

lemma sound_scale_down: "env_ok E \<Longrightarrow> stays (sound E) (scale_down E i d ws)"
  unfolding scale_down_def scale_down_old_def scale_down_excess_def Let_def
  by (intro sound_rules sound_of_evolves good_enqueueDelete)

lemma sound_mark_stable: "dep_ok d \<Longrightarrow> stays (sound E) (mark_stable E d)"
  unfolding mark_stable_def by (intro sound_bnds sound_rules) simp_all

lemma sound_mark_progress: "dep_ok d \<Longrightarrow> stays (sound E) (mark_progress E d ph a b c e)"
  unfolding mark_progress_def Let_def by (intro sound_bnds sound_rules) simp_all

lemma sound_bnd_mark:
  assumes "\<And>d'. dep_ok d' \<Longrightarrow> stays (sound E) (f d')" and "dep_ok d"
  shows "stays (sound E) (bnd (if st then mark_stable E d else mark_progress E d ph a b c e) f)"
  by (rule sound.bnd_gives [where P = "same_ok d"])
    (use assms gives_mark_stable gives_mark_progress in
      \<open>auto simp: same_ok_def sound_mark_stable sound_mark_progress intro!: stays_if gives_if\<close>)

lemma sound_report_status: "env_ok E \<Longrightarrow> dep_ok d \<Longrightarrow> stays (sound E) (report_status E d ph)"
  unfolding report_status_def activeWorkloadsAfterRefresh_def bnd_assoc bnd_ret Let_def
  by (intro sound_bnd_mark sound_rules) simp_all

lemma sound_place_replicas:
  "env_ok E \<Longrightarrow> dep_ok d \<Longrightarrow> stays (sound E) (place_replicas E i d)"
  unfolding place_replicas_def Let_def
  by (intro sound_rules sound_create_failed sound_scale_down sound_report_status)
    (simp_all add: good_createWorkload sound_of_evolves)

lemma sound_reconcileDeployment: "env_ok E \<Longrightarrow> stays (sound E) (reconcileDeployment E i)"
  unfolding reconcileDeployment_def deadline_exceeded_def Let_def go_laws
  by (intro sound_with_mu sound_get stays_intros sound.bnd sound_time sound.ret sound_fail_deadline sound_place_replicas)
    simp_all

end
