(* ===== verification/Services.thy ===== *)
theory Services
  imports Network_Policy Rollout Balancer
begin

text \<open>
  Namespaces, services and their endpoints (\<^verbatim>\<open>internal/service/orchestrator.go\<close>): creation of
  services and namespaces, the reconciliation that rebuilds the endpoints of a service from the
  workloads its selector matches, name resolution, and the choice of an endpoint for traffic.
\<close>

section \<open>Namespaces and quotas\<close>

definition CreateNamespace :: "'db oenv \<Rightarrow> Namespace \<Rightarrow> ('db, Namespace) orch" where
  "CreateNamespace E ns =
     (if blank (ns_Name ns) then throw (ErrText ''namespace name is required'')
      else let ns = ns\<lparr>ns_Name := TrimSpace (ns_Name ns)\<rparr>;
        ns = (if blank (ns_Tenant ns) then ns\<lparr>ns_Tenant := ''default''\<rparr> else ns) in
      bnd (time_now E) (\<lambda>now. let
        ns = (if IsZero (ns_CreatedAt ns) then ns\<lparr>ns_CreatedAt := now\<rparr> else ns);
        ns = ns\<lparr>ns_UpdatedAt := now\<rparr> in
      seq (st_CreateNamespace E ns)
      (seq (ignore (emitEvent E (event EventInfo ''namespace'' ''NamespaceCreated'' ''Namespace created'' (ns_Name ns) [] [])))
      (ret ns))))"

definition ListNamespaces :: "'db oenv \<Rightarrow> ('db, Namespace list) orch" where
  "ListNamespaces E = st_ListNamespaces E"

definition UpsertNamespaceQuota :: "'db oenv \<Rightarrow> NamespaceQuota \<Rightarrow> ('db, NamespaceQuota) orch" where
  "UpsertNamespaceQuota E quota =
     (if blank (q_Namespace quota) then throw (ErrText ''quota namespace is required'')
      else seq (ensureNamespaceExists E (q_Namespace quota))
        (if q_MaxDeployments quota < 0 \<or> q_MaxMilliCPU quota < 0 \<or> q_MaxMemoryMB quota < 0
         then throw (ErrText ''quota values cannot be negative'')
         else seq (st_UpsertNamespaceQuota E quota) (st_GetNamespaceQuota E (q_Namespace quota))))"

definition ListNamespaceQuotas :: "'db oenv \<Rightarrow> ('db, NamespaceQuota list) orch" where
  "ListNamespaceQuotas E = st_ListNamespaceQuotas E"

section \<open>Endpoints\<close>

definition endpoint_ready :: "'db oenv \<Rightarrow> Deployment \<Rightarrow> Workload \<Rightarrow> ('db, bool) orch" where
  "endpoint_ready E dep w = (let ready = (w_Status w = WorkloadRunning) in
     if pr_Enabled (sp_ReadinessProbe (d_Spec dep)) then
       let delay = seconds (pr_InitialDelaySeconds (sp_ReadinessProbe (d_Spec dep))) in
       if ready then bnd (time_now E) (\<lambda>t. ret (time_sub t (w_CreatedAt w) \<ge> delay)) else ret False
     else ret ready)"

definition endpoint_id :: "Service \<Rightarrow> Workload \<Rightarrow> ServicePort \<Rightarrow> string" where
  "endpoint_id svc w p = sv_ID svc @ ''-'' @ w_ID w @ ''-'' @ show_int (po_TargetPort p)"

definition endpoint_address :: "Node list \<Rightarrow> Workload \<Rightarrow> string" where
  "endpoint_address nodes w = (let
     nodeAddress = rev (map (\<lambda>n. (n_ID n, n_Address n)) nodes);
     addr = map_get [] nodeAddress (w_NodeID w) in
     if blank addr then w_NodeID w else addr)"

fun port_endpoints :: "'db oenv \<Rightarrow> Node list \<Rightarrow> gotime \<Rightarrow> Service \<Rightarrow> Deployment \<Rightarrow> Workload \<Rightarrow> ServicePort list \<Rightarrow>
    ('db, ServiceEndpoint list) orch" where
  "port_endpoints E nodes now svc dep w [] = ret []"
| "port_endpoints E nodes now svc dep w (p # ps) =
     bnd (endpoint_ready E dep w) (\<lambda>ready.
     bnd (port_endpoints E nodes now svc dep w ps) (\<lambda>eps.
     ret (\<lparr>e_ID = endpoint_id svc w p, e_ServiceID = sv_ID svc, e_WorkloadID = w_ID w, e_NodeID = w_NodeID w,
       e_Address = endpoint_address nodes w, e_Port = po_TargetPort p, e_Protocol = po_Protocol p,
       e_Ready = ready, e_UpdatedAt = now\<rparr> # eps)))"

definition depByID :: "Deployment list \<Rightarrow> string \<Rightarrow> Deployment option" where
  "depByID deployments = map_of (rev (map (\<lambda>d. (d_ID d, d)) deployments))"

definition workload_endpoints :: "'db oenv \<Rightarrow> Deployment list \<Rightarrow> Node list \<Rightarrow> gotime \<Rightarrow> Service \<Rightarrow> Workload \<Rightarrow>
    ('db, ServiceEndpoint list) orch" where
  "workload_endpoints E deployments nodes now svc w =
     (if w_Status w \<noteq> WorkloadRunning \<and> w_Status w \<noteq> WorkloadPending then ret []
      else case depByID deployments (w_DeploymentID w) of
        None \<Rightarrow> ret []
      | Some dep \<Rightarrow>
          if TrimSpace (sp_Namespace (d_Spec dep)) \<noteq> TrimSpace (ss_Namespace (sv_Spec svc)) then ret []
          else if \<not> labelsMatchSelector (elems (sp_Labels (d_Spec dep))) (ss_Selector (sv_Spec svc)) then ret []
          else port_endpoints E nodes now svc dep w (ss_Ports (sv_Spec svc)))"

fun all_endpoints :: "'db oenv \<Rightarrow> Deployment list \<Rightarrow> Node list \<Rightarrow> gotime \<Rightarrow> Service \<Rightarrow> Workload list \<Rightarrow>
    ('db, ServiceEndpoint list) orch" where
  "all_endpoints E deployments nodes now svc [] = ret []"
| "all_endpoints E deployments nodes now svc (w # ws) =
     bnd (workload_endpoints E deployments nodes now svc w) (\<lambda>eps.
     bnd (all_endpoints E deployments nodes now svc ws) (\<lambda>rest. ret (eps @ rest)))"

definition reconcileServiceEndpoints :: "'db oenv \<Rightarrow> string \<Rightarrow> ('db, unit) orch" where
  "reconcileServiceEndpoints E serviceID =
     bnd (st_GetService E serviceID) (\<lambda>svc.
     bnd (st_ListDeployments E) (\<lambda>deployments.
     bnd (st_ListWorkloads E) (\<lambda>workloads.
     bnd (st_ListNodes E) (\<lambda>nodes.
     bnd (time_now E) (\<lambda>now.
     bnd (all_endpoints E deployments nodes now svc workloads) (\<lambda>endpoints.
     seq (st_ReplaceServiceEndpoints E (sv_ID svc) endpoints)
     (ignore (emitEvent E (event EventInfo ''service'' ''EndpointsUpdated'' ''Service endpoints updated'' [] (sv_ID svc) [])))))))))"

definition reconcileAllServiceEndpoints :: "'db oenv \<Rightarrow> ('db, unit) orch" where
  "reconcileAllServiceEndpoints E = bnd (st_ListServices E) (\<lambda>services.
     for_each services (\<lambda>svc. reconcileServiceEndpoints E (sv_ID svc)))"

section \<open>Services\<close>

definition allocateClusterIP :: "int \<Rightarrow> string" where
  "allocateClusterIP seed = (let
     v = irem seed 65534;
     octet3 = irem (iquo v 254) 254;
     octet4 = iadd (irem v 254) 1 in
     ''10.96.'' @ show_int (iadd octet3 1) @ ''.'' @ show_int octet4)"

definition new_service :: "ServiceSpec \<Rightarrow> gotime \<Rightarrow> int \<Rightarrow> Service" where
  "new_service spec now r = \<lparr>sv_ID = ''svc-'' @ show_int now @ ''-'' @ show_pad 4 r, sv_Spec = spec,
     sv_ClusterIP = allocateClusterIP now, sv_DNSRecordTTLSeconds = 30, sv_CreatedAt = now, sv_UpdatedAt = now\<rparr>"

definition CreateService :: "'db oenv \<Rightarrow> ServiceSpec \<Rightarrow> ('db, Service) orch" where
  "CreateService E spec =
     (if blank (ss_Name spec) then throw (ErrText ''service name is required'')
      else if length (ss_Selector spec) = 0 then throw (ErrText ''service selector is required'')
      else if length (ss_Ports spec) = 0 then throw (ErrText ''service ports are required'')
      else let
        spec = (if ss_Type spec = ServiceTypeUnset then spec\<lparr>ss_Type := ServiceTypeClusterIP\<rparr> else spec);
        spec = (if blank (ss_Namespace spec) then spec\<lparr>ss_Namespace := ''default''\<rparr> else spec) in
      seq (runAdmissionCheck E ''Service'' (AdmService spec))
      (seq (ensureNamespaceExists E (ss_Namespace spec))
      (bnd (time_now E) (\<lambda>now. bnd (rand_intn E 9999) (\<lambda>r. let svc = new_service spec now r in
      seq (st_CreateService E svc)
      (seq (reconcileServiceEndpoints E (sv_ID svc))
      (seq (ignore (emitEvent E (event EventInfo ''service'' ''ServiceCreated'' ''Service created'' (sv_ID svc) [] [])))
      (ret svc))))))))"

definition ListServices :: "'db oenv \<Rightarrow> ('db, Service list) orch" where
  "ListServices E = st_ListServices E"

definition ListServiceEndpoints :: "'db oenv \<Rightarrow> string \<Rightarrow> ('db, ServiceEndpoint list) orch" where
  "ListServiceEndpoints E serviceID = bnd (st_GetService E serviceID) (\<lambda>_. st_ListServiceEndpoints E serviceID)"

definition named_like :: "string \<Rightarrow> Service \<Rightarrow> bool" where
  "named_like name svc \<longleftrightarrow> EqualFold (TrimSpace (ss_Name (sv_Spec svc))) (TrimSpace name)"

definition findServiceByName :: "'db oenv \<Rightarrow> string \<Rightarrow> ('db, Service) orch" where
  "findServiceByName E name = bnd (st_ListServices E) (\<lambda>services.
     case find (named_like name) services of Some svc \<Rightarrow> ret svc | None \<Rightarrow> throw ErrNotFound)"

definition ResolveServiceDNS :: "'db oenv \<Rightarrow> string \<Rightarrow> ('db, string \<times> ServiceEndpoint list \<times> int) orch" where
  "ResolveServiceDNS E name = bnd (st_ListServices E) (\<lambda>services.
     case find (named_like name) services of
       None \<Rightarrow> throw ErrNotFound
     | Some svc \<Rightarrow> bnd (st_ListServiceEndpoints E (sv_ID svc)) (\<lambda>endpoints. let
         dnsName = ss_Name (sv_Spec svc) @ ''.default.svc.cluster.local'';
         ttl = sv_DNSRecordTTLSeconds svc;
         ttl = (if ttl \<le> 0 then 30 else ttl) in
         ret (dnsName, endpoints, ttl)))"

definition ResolveServiceName :: "'db oenv \<Rightarrow> string \<Rightarrow> ('db, string \<times> ServiceEndpoint list) orch" where
  "ResolveServiceName E name = bnd (ResolveServiceDNS E name) (\<lambda>(dnsName, endpoints, ttl). ret (dnsName, endpoints))"

section \<open>Traffic\<close>

definition balance_select :: "string \<Rightarrow> string \<Rightarrow> ServiceEndpoint list \<Rightarrow> ('db, ServiceEndpoint) orch" where
  "balance_select serviceID strategy endpoints s =
     (case Select (o_balance s) serviceID strategy endpoints of (r, b) \<Rightarrow> (r, s\<lparr>o_balance := b\<rparr>))"

definition healthyNodes :: "Node list \<Rightarrow> string \<Rightarrow> bool" where
  "healthyNodes nodes = map_get False (rev (map (\<lambda>n. (n_ID n, n_Status n = NodeReady)) nodes))"

definition SelectServiceEndpoint :: "'db oenv \<Rightarrow> string \<Rightarrow> string \<Rightarrow> ('db, ServiceEndpoint) orch" where
  "SelectServiceEndpoint E serviceID strategy =
     bnd (st_GetService E serviceID) (\<lambda>_.
     bnd (st_ListServiceEndpoints E serviceID) (\<lambda>endpoints.
     bnd (st_ListNodes E) (\<lambda>nodes.
     balance_select serviceID strategy (filter (\<lambda>ep. healthyNodes nodes (e_NodeID ep)) endpoints))))"

definition ReleaseServiceEndpoint :: "string \<Rightarrow> ('db, unit) orch" where
  "ReleaseServiceEndpoint endpointID = modify (\<lambda>s. s\<lparr>o_balance := Release (o_balance s) endpointID\<rparr>)"

definition RouteServiceTraffic :: "'db oenv \<Rightarrow> string \<Rightarrow> string \<Rightarrow>
    ('db, Service \<times> ServiceEndpoint \<times> string \<times> int) orch" where
  "RouteServiceTraffic E serviceName strategy =
     bnd (findServiceByName E serviceName) (\<lambda>svc.
     bnd (SelectServiceEndpoint E (sv_ID svc) strategy) (\<lambda>target.
     case ss_Ports (sv_Spec svc) of
       [] \<Rightarrow> throw (ErrText ''service has no ports'')
     | servicePort # _ \<Rightarrow>
       if ss_Type (sv_Spec svc) = ServiceTypeNodePort then
         if po_NodePort servicePort = 0 then throw (ErrText ''nodeport service missing nodePort'')
         else ret (svc, target, e_Address target, po_NodePort servicePort)
       else ret (svc, target, sv_ClusterIP svc, po_Port servicePort)))"

section \<open>Frames\<close>

lemma quiet_endpoint_ready: "stays quiet (endpoint_ready E dep w)"
  unfolding endpoint_ready_def Let_def by (intro quiet_rules)

lemma quiet_port_endpoints: "stays quiet (port_endpoints E nodes now svc dep w ps)"
  by (induction ps) (auto intro!: quiet_rules quiet_endpoint_ready)

lemma quiet_all_endpoints: "stays quiet (all_endpoints E ds nodes now svc ws)"
  by (induction ws) (auto simp: workload_endpoints_def split: option.split intro!: quiet_rules quiet_port_endpoints)

lemma quiet_reconcileServiceEndpoints: "stays quiet (reconcileServiceEndpoints E i)"
  unfolding reconcileServiceEndpoints_def by (intro quiet_rules quiet_all_endpoints)

lemma quiet_balance_select: "stays quiet (balance_select i st eps)"
  by (auto simp: balance_select_def stays_def quiet_def split: prod.splits)

lemma quiet_services:
  "stays quiet (CreateNamespace E ns)"
  "stays quiet (UpsertNamespaceQuota E q)"
  "stays quiet (reconcileAllServiceEndpoints E)"
  "stays quiet (CreateService E spec)"
  "stays quiet (SelectServiceEndpoint E i st)"
  "stays quiet (ReleaseServiceEndpoint ep)"
  unfolding CreateNamespace_def UpsertNamespaceQuota_def reconcileAllServiceEndpoints_def CreateService_def
    SelectServiceEndpoint_def ReleaseServiceEndpoint_def Let_def
  by (intro quiet_rules quiet_reconcileServiceEndpoints quiet_balance_select; simp)+

lemma quiet_RouteServiceTraffic: "stays quiet (RouteServiceTraffic E name st)"
  unfolding RouteServiceTraffic_def findServiceByName_def by (intro quiet_rules quiet_services)

lemma ev_endpoint_ready: "env_ok E \<Longrightarrow> stays (evolves E W) (endpoint_ready E dep w)"
  unfolding endpoint_ready_def Let_def by (intro ev_all)

lemma ev_port_endpoints: "env_ok E \<Longrightarrow> stays (evolves E W) (port_endpoints E nodes now svc dep w ps)"
  by (induction ps) (auto intro!: stays_intros ev.rules ev_endpoint_ready)

lemma ev_all_endpoints: "env_ok E \<Longrightarrow> stays (evolves E W) (all_endpoints E ds nodes now svc ws)"
  by (induction ws) (auto simp: workload_endpoints_def split: option.split intro!: stays_intros ev.rules ev_port_endpoints)

lemma good_reconcileServiceEndpoints: "env_ok E \<Longrightarrow> stays (evolves E good_write) (reconcileServiceEndpoints E i)"
  unfolding reconcileServiceEndpoints_def
  by (intro ev_all ev_all_endpoints) (simp_all add: blob_key_simps)

lemma ev_balance_select: "stays (evolves E W) (balance_select i st eps)"
  by (auto simp: balance_select_def stays_def contents_def split: prod.splits intro!: evolves_same)

lemma good_services:
  assumes "env_ok E"
  shows "stays (evolves E good_write) (CreateNamespace E ns)"
    and "stays (evolves E good_write) (UpsertNamespaceQuota E q)"
    and "stays (evolves E good_write) (reconcileAllServiceEndpoints E)"
    and "stays (evolves E good_write) (CreateService E spec)"
    and "stays (evolves E good_write) (SelectServiceEndpoint E i st)"
    and "stays (evolves E good_write) (RouteServiceTraffic E name st)"
  using assms
  unfolding CreateNamespace_def UpsertNamespaceQuota_def reconcileAllServiceEndpoints_def CreateService_def
    SelectServiceEndpoint_def RouteServiceTraffic_def findServiceByName_def Let_def
  by (intro ev_all good_reconcileServiceEndpoints ev_balance_select ev_ensureNamespaceExists ev_runAdmissionCheck;
      simp add: blob_key_simps)+

section \<open>The endpoints of a service\<close>

text \<open>A workload backs a service when it is active and its deployment lies in the namespace of the service
  and carries the labels of the selector.\<close>

definition backs :: "(string \<Rightarrow> blob option) \<Rightarrow> Service \<Rightarrow> Workload \<Rightarrow> bool" where
  "backs m svc w \<longleftrightarrow> m (keyWorkload (w_ID w)) = Some (JWorkload w) \<and> w_Status w \<in> {WorkloadRunning, WorkloadPending} \<and>
     (\<exists>dep. m (keyDeployment (w_DeploymentID w)) = Some (JDeployment dep) \<and>
       TrimSpace (sp_Namespace (d_Spec dep)) = TrimSpace (ss_Namespace (sv_Spec svc)) \<and>
       selects (ss_Selector (sv_Spec svc)) (elems (sp_Labels (d_Spec dep))))"

definition endpoint_for :: "Service \<Rightarrow> Workload \<Rightarrow> ServicePort \<Rightarrow> ServiceEndpoint \<Rightarrow> bool" where
  "endpoint_for svc w p ep \<longleftrightarrow> e_ID ep = endpoint_id svc w p \<and> e_ServiceID ep = sv_ID svc \<and> e_WorkloadID ep = w_ID w \<and>
     e_NodeID ep = w_NodeID w \<and> e_Port ep = po_TargetPort p \<and> e_Protocol ep = po_Protocol p \<and>
     (e_Ready ep \<longrightarrow> w_Status w = WorkloadRunning)"

lemma endpoint_for_stamp [simp]: "endpoint_for svc w p (ep\<lparr>e_UpdatedAt := u\<rparr>) = endpoint_for svc w p ep"
  by (simp add: endpoint_for_def)

definition covers :: "Service \<Rightarrow> (Workload \<times> ServicePort) set \<Rightarrow> ServiceEndpoint list \<Rightarrow> bool" where
  "covers svc P eps \<longleftrightarrow> (\<forall>ep \<in> set eps. \<exists>(w, p) \<in> P. endpoint_for svc w p ep) \<and>
     (\<forall>(w, p) \<in> P. endpoint_id svc w p \<in> e_ID ` set eps)"

lemma covers_Nil [simp]: "covers svc {} []"
  by (simp add: covers_def)

lemma covers_append: "covers svc P xs \<Longrightarrow> covers svc R ys \<Longrightarrow> covers svc (P \<union> R) (xs @ ys)"
  by (fastforce simp: covers_def)

lemma wp_endpoint_ready:
  assumes "\<And>rd t. contents E t = contents E s \<Longrightarrow> (rd \<longrightarrow> w_Status w = WorkloadRunning) \<Longrightarrow> wp (f rd) Q t"
  shows "wp (bnd (endpoint_ready E dep w) f) Q s"
  unfolding endpoint_ready_def Let_def go_laws
  by (intro wp_ifI wp_bnd_now assms) auto

lemma wp_port_endpoints:
  "wp (port_endpoints E nodes now svc dep w ps) (\<lambda>r t. contents E t = contents E s \<and>
     (\<exists>eps. r = Inr eps \<and> covers svc ({w} \<times> set ps) eps)) s"
proof (induction ps arbitrary: s)
  case (Cons p ps)
  show ?case
    unfolding port_endpoints.simps
  proof (rule wp_endpoint_ready, subst wp_bnd, rule wp_conseq [OF Cons.IH], elim conjE exE, simp only: sum.case wp_ret, goal_cases)
    case (1 rd t r u eps)
    have "covers svc {(w, p)} [\<lparr>e_ID = endpoint_id svc w p, e_ServiceID = sv_ID svc, e_WorkloadID = w_ID w, e_NodeID = w_NodeID w,
       e_Address = endpoint_address nodes w, e_Port = po_TargetPort p, e_Protocol = po_Protocol p,
       e_Ready = rd, e_UpdatedAt = now\<rparr>]"
      using 1(2) by (simp add: covers_def endpoint_for_def)
    from covers_append [OF this 1(5)] show ?case using 1(1,3) by simp
  qed
qed (simp add: wp_ret)

text \<open>What the loop over the workloads looks at.\<close>

definition chosen :: "Deployment list \<Rightarrow> Service \<Rightarrow> Workload \<Rightarrow> bool" where
  "chosen ds svc w \<longleftrightarrow> w_Status w \<in> {WorkloadRunning, WorkloadPending} \<and>
     (\<exists>dep. depByID ds (w_DeploymentID w) = Some dep \<and>
       TrimSpace (sp_Namespace (d_Spec dep)) = TrimSpace (ss_Namespace (sv_Spec svc)) \<and>
       selects (ss_Selector (sv_Spec svc)) (elems (sp_Labels (d_Spec dep))))"

lemma wp_workload_endpoints:
  "wp (workload_endpoints E ds nodes now svc w) (\<lambda>r t. contents E t = contents E s \<and>
     (\<exists>eps. r = Inr eps \<and> covers svc (if chosen ds svc w then {w} \<times> set (ss_Ports (sv_Spec svc)) else {}) eps)) s"
  using wp_port_endpoints [of E nodes now svc _ w "ss_Ports (sv_Spec svc)" s]
  by (auto simp: workload_endpoints_def chosen_def labelsMatchSelector_iff wp_ret split: option.split)

lemma wp_all_endpoints:
  "wp (all_endpoints E ds nodes now svc ws) (\<lambda>r t. contents E t = contents E s \<and>
     (\<exists>eps. r = Inr eps \<and> covers svc ({w \<in> set ws. chosen ds svc w} \<times> set (ss_Ports (sv_Spec svc))) eps)) s"
proof (induction ws arbitrary: s)
  case (Cons w ws)
  show ?case
    unfolding all_endpoints.simps wp_bnd
  proof (rule wp_conseq [OF wp_workload_endpoints], elim conjE exE, simp only: sum.case,
      rule wp_conseq [OF Cons.IH], elim conjE exE, simp only: sum.case wp_ret, goal_cases)
    case (1 r t eps r' u eps')
    have "(if chosen ds svc w then {w} \<times> set (ss_Ports (sv_Spec svc)) else {}) \<union> {w \<in> set ws. chosen ds svc w} \<times> set (ss_Ports (sv_Spec svc)) =
        {v \<in> set (w # ws). chosen ds svc v} \<times> set (ss_Ports (sv_Spec svc))" by auto
    with covers_append [OF 1(3,6)] show ?case using 1(1,4) by auto
  qed
qed (simp add: wp_ret)

lemma depByID_stored:
  assumes "distinct (map d_ID ds)" and "\<And>d. d \<in> set ds \<longleftrightarrow> m (keyDeployment (d_ID d)) = Some (JDeployment d)" and "store_wf m"
  shows "depByID ds i = Some d \<longleftrightarrow> m (keyDeployment i) = Some (JDeployment d)"
proof -
  have "d_ID d = i" if "m (keyDeployment i) = Some (JDeployment d)"
    using assms(3) that by (force simp: store_wf_def blob_key_simps keyDeployment_def)
  moreover have "depByID ds i = Some d \<longleftrightarrow> d \<in> set ds \<and> d_ID d = i"
    using assms(1) by (auto simp: depByID_def map_of_eq_Some_iff comp_def rev_map [symmetric] distinct_rev)
  ultimately show ?thesis using assms(2) by auto
qed

lemma chosen_backs:
  assumes "distinct (map d_ID ds)" and "\<And>d. d \<in> set ds \<longleftrightarrow> m (keyDeployment (d_ID d)) = Some (JDeployment d)"
    and "\<And>w. w \<in> set ws \<longleftrightarrow> m (keyWorkload (w_ID w)) = Some (JWorkload w)" and "store_wf m"
  shows "{w \<in> set ws. chosen ds svc w} = {w. backs m svc w}"
  by (auto simp: chosen_def backs_def assms(3) depByID_stored [OF assms(1,2,4)])

lemma not_event_endpoint [simp]: "prefix (keyServiceEndpointPrefix i) k \<Longrightarrow> \<not> prefix ''event:'' k"
  by (auto simp: keyServiceEndpointPrefix_def prefix_def)

text \<open>
  (C17) Reconciling a service leaves exactly the endpoints its workloads give: there is an endpoint under
  the key of a workload and a target port if and only if the workload backs the service and the port is
  one of its ports, the stored endpoint names that workload, its node and that port, and it is
  ready only if the workload runs. Endpoints of workloads that are gone are removed.
\<close>

theorem endpoints_exact:
  fixes E :: "'db oenv" and s :: "'db world"
  assumes E: "env_total E" and wf: "store_wf (contents E s)" and svc: "contents E s (keyService i) = Some (JService svc)"
  shows "wp (reconcileServiceEndpoints E i) (\<lambda>r t. r = Inr () \<and>
    (\<forall>k. prefix (keyServiceEndpointPrefix i) k \<longrightarrow>
      (contents E t k \<noteq> None \<longleftrightarrow> (\<exists>w p. backs (contents E s) svc w \<and> p \<in> set (ss_Ports (sv_Spec svc)) \<and>
         k = keyServiceEndpoint i (endpoint_id svc w p))) \<and>
      (\<forall>ep. contents E t k = Some (JServiceEndpoint ep) \<longrightarrow>
         (\<exists>w p. backs (contents E s) svc w \<and> p \<in> set (ss_Ports (sv_Spec svc)) \<and> endpoint_for svc w p ep)))) s"
    (is "wp _ ?Q s")
proof -
  let ?m = "contents E s" and ?P = "{w. backs (contents E s) svc w} \<times> set (ss_Ports (sv_Spec svc))"
  have id: "sv_ID svc = i" using wf svc by (force simp: store_wf_def blob_key_simps keyService_def)
  have replace: "wp (seq (st_ReplaceServiceEndpoints E (sv_ID svc) eps) (ignore (emitEvent E ev))) ?Q t"
    if t: "contents E t = ?m" and eps: "covers svc ?P eps" for t :: "'db world" and eps ev
    unfolding wp_seq id
  proof (rule wp_ReplaceServiceEndpoints [OF E], goal_cases own fin)
    case (own ep)
    with eps obtain w p where "endpoint_for svc w p ep" unfolding covers_def by blast
    then show ?case by (simp add: endpoint_for_def id endpoint_id_def)
  next
    case (fin u)
    have keys: "(\<exists>ep\<in>set eps. k = keyServiceEndpoint i (e_ID ep)) \<longleftrightarrow>
        (\<exists>w p. backs ?m svc w \<and> p \<in> set (ss_Ports (sv_Spec svc)) \<and> k = keyServiceEndpoint i (endpoint_id svc w p))" for k
      using eps unfolding covers_def endpoint_for_def by fastforce
    show ?case
      unfolding sum.case
    proof (rule wp_emit [OF env_total_ok [OF E]], intro conjI allI impI, goal_cases)
      case (2 v k)
      then show ?case using fin(3) [of k] keys [of k] by (simp add: upto_events_def)
    next
      case (3 v k ep)
      then have "contents E u k = Some (JServiceEndpoint ep)" by (simp add: upto_events_def)
      from fin(4) [OF 3(3) this] obtain ep' x where "ep' \<in> set eps" "ep = ep'\<lparr>e_UpdatedAt := x\<rparr>" by auto
      then show ?case using eps unfolding covers_def by fastforce
    qed simp
  qed
  show ?thesis
    unfolding reconcileServiceEndpoints_def
  proof (rule wp_bnd_GetService [OF E wf], goal_cases got missing)
    case (got svc' t1)
    with svc have [simp]: "svc' = svc" by simp
    show ?case
    proof (rule wp_bnd_ListDeployments [OF E], goal_cases wf deps)
      case (deps ds t2)
      show ?case
      proof (rule wp_bnd_ListWorkloads [OF E], goal_cases wf loads)
        case (loads ws t3)
        have P: "{w \<in> set ws. chosen ds svc w} = {w. backs ?m svc w}"
          by (rule chosen_backs) (use deps loads got wf in simp_all)
        show ?case
        proof (rule wp_bnd_ListNodes [OF E], goal_cases wf nodes)
          case (nodes ns t4)
          show ?case
            by (rule wp_bnd_now, subst wp_bnd, rule wp_conseq [OF wp_all_endpoints])
              (use nodes loads deps got replace P in auto)
        qed (use loads deps got wf in simp)
      qed (use deps got wf in simp)
    qed (use got wf in simp)
  qed (use svc in simp)
qed

definition demo_service :: Service where
  "demo_service = zero_Service\<lparr>sv_ID := ''svc-1'', sv_ClusterIP := ''10.96.1.1'', sv_Spec := zero_ServiceSpec\<lparr>ss_Namespace := ''default'', ss_Name := ''web'',
     ss_Selector := [(''app'', ''web'')], ss_Ports := [zero_ServicePort\<lparr>po_Port := 80, po_TargetPort := 8080\<rparr>]\<rparr>\<rparr>"

definition demo_backend :: Deployment where
  "demo_backend = zero_Deployment\<lparr>d_ID := ''dep-1'', d_Spec := zero_DeploymentSpec\<lparr>sp_Namespace := ''default'',
     sp_Labels := Some [(''app'', ''web'')]\<rparr>\<rparr>"

definition demo_backing :: Workload where
  "demo_backing = zero_Workload\<lparr>w_ID := ''wl-1'', w_DeploymentID := ''dep-1'', w_NodeID := ''n1'', w_Status := WorkloadRunning\<rparr>"

definition demo_cluster :: "blob list" where
  "demo_cluster = [JService demo_service, JDeployment demo_backend, JWorkload demo_backing]"

lemma demo_cluster_contents:
  "contents demo_oenv (NewOrchestrator (stored demo_cluster)) (keyService ''svc-1'') = Some (JService demo_service)"
  "contents demo_oenv (NewOrchestrator (stored demo_cluster)) (keyDeployment ''dep-1'') = Some (JDeployment demo_backend)"
  "contents demo_oenv (NewOrchestrator (stored demo_cluster)) (keyWorkload ''wl-1'') = Some (JWorkload demo_backing)"
  by (simp_all add: stored_def demo_cluster_def demo_service_def demo_backend_def demo_backing_def key_defs)

theorem endpoints_exact_witness:
  "wp (reconcileServiceEndpoints demo_oenv ''svc-1'') (\<lambda>r t. r = Inr () \<and>
     contents demo_oenv t (keyServiceEndpoint ''svc-1'' ''svc-1-wl-1-8080'') \<noteq> None) (NewOrchestrator (stored demo_cluster))"
proof (rule wp_conseq [OF endpoints_exact [OF demo_oenv_total stored_wf demo_cluster_contents(1)]])
  fix r t
  let ?m = "contents demo_oenv (NewOrchestrator (stored demo_cluster))"
  let ?k = "keyServiceEndpoint ''svc-1'' ''svc-1-wl-1-8080''"
  let ?port = "zero_ServicePort\<lparr>po_Port := 80, po_TargetPort := 8080\<rparr>"
  assume a: "r = Inr () \<and> (\<forall>k. prefix (keyServiceEndpointPrefix ''svc-1'') k \<longrightarrow>
      (contents demo_oenv t k \<noteq> None \<longleftrightarrow> (\<exists>w p. backs ?m demo_service w \<and> p \<in> set (ss_Ports (sv_Spec demo_service)) \<and>
         k = keyServiceEndpoint ''svc-1'' (endpoint_id demo_service w p))) \<and>
      (\<forall>ep. contents demo_oenv t k = Some (JServiceEndpoint ep) \<longrightarrow>
         (\<exists>w p. backs ?m demo_service w \<and> p \<in> set (ss_Ports (sv_Spec demo_service)) \<and> endpoint_for demo_service w p ep)))"
  have "?m (keyWorkload (w_ID demo_backing)) = Some (JWorkload demo_backing)"
    "?m (keyDeployment (w_DeploymentID demo_backing)) = Some (JDeployment demo_backend)"
    using demo_cluster_contents by (simp_all add: demo_backing_def)
  then have "backs ?m demo_service demo_backing"
    by (simp add: backs_def selects_def demo_service_def demo_backend_def demo_backing_def map_get_def elems_def)
  moreover have "?port \<in> set (ss_Ports (sv_Spec demo_service))" by (simp add: demo_service_def)
  moreover have "?k = keyServiceEndpoint ''svc-1'' (endpoint_id demo_service demo_backing ?port)"
    by (simp add: endpoint_id_def demo_service_def demo_backing_def show_int_def show_nat.simps digit_def char_of_def bit_Suc_0_iff)
  ultimately have ex: "\<exists>w p. backs ?m demo_service w \<and> p \<in> set (ss_Ports (sv_Spec demo_service)) \<and>
      ?k = keyServiceEndpoint ''svc-1'' (endpoint_id demo_service w p)" by blast
  have "prefix (keyServiceEndpointPrefix ''svc-1'') ?k" by (simp add: keyServiceEndpoint_def)
  from a [THEN conjunct2, THEN spec, THEN mp, OF this, THEN conjunct1, THEN iffD2, OF ex] a [THEN conjunct1]
  show "r = Inr () \<and> contents demo_oenv t ?k \<noteq> None" by (intro conjI)
qed

section \<open>Routing\<close>

definition routable :: "(string \<Rightarrow> blob option) \<Rightarrow> string \<Rightarrow> ServiceEndpoint \<Rightarrow> bool" where
  "routable m i ep \<longleftrightarrow> e_Ready ep \<and> (\<exists>k. prefix (keyServiceEndpointPrefix i) k \<and> m k = Some (JServiceEndpoint ep)) \<and>
     (\<exists>n. m (keyNode (e_NodeID ep)) = Some (JNode n) \<and> n_Status n = NodeReady)"

lemma healthyNodes_iff:
  assumes "distinct (map n_ID ns)" and "\<And>n. n \<in> set ns \<longleftrightarrow> m (keyNode (n_ID n)) = Some (JNode n)" and "store_wf m"
  shows "healthyNodes ns i \<longleftrightarrow> (\<exists>n. m (keyNode i) = Some (JNode n) \<and> n_Status n = NodeReady)"
proof -
  have id: "n_ID n = i" if "m (keyNode i) = Some (JNode n)" for n
    using assms(3) that by (force simp: store_wf_def blob_key_simps keyNode_def)
  have "healthyNodes ns i \<longleftrightarrow> map_of (rev (map (\<lambda>n. (n_ID n, n_Status n = NodeReady)) ns)) i = Some True"
    by (auto simp: healthyNodes_def map_get_def split: option.splits)
  also have "\<dots> \<longleftrightarrow> (\<exists>n \<in> set ns. n_ID n = i \<and> n_Status n = NodeReady)"
    using assms(1) by (auto simp: map_of_eq_Some_iff comp_def rev_map [symmetric])
  finally show ?thesis using assms(2) id by blast
qed

lemma wp_ListServiceEndpoints:
  assumes "env_total E" and wf: "store_wf (contents E s)"
    and "\<And>eps t. contents E t = contents E s \<Longrightarrow> same_rest s t \<Longrightarrow>
      set eps = {ep. \<exists>k. prefix (keyServiceEndpointPrefix i) k \<and> contents E s k = Some (JServiceEndpoint ep)} \<Longrightarrow> wp (f eps) Q t"
  shows "wp (bnd (st_ListServiceEndpoints E i) f) Q s"
  unfolding st_ListServiceEndpoints_def wp_bnd
proof (rule epo.wp_list_prefix [OF env_total_ok [OF assms(1)] wf], goal_cases pre ok err)
  case (ok eps t)
  have "k = ''service-endpoint:'' @ e_ServiceID ep @ '':'' @ e_ID ep" if "contents E s k = Some (JServiceEndpoint ep)" for k ep
    using that wf [unfolded store_wf_def, rule_format, OF that] by (simp add: blob_key_simps key_defs)
  then have "set eps = {ep. \<exists>k. prefix (keyServiceEndpointPrefix i) k \<and> contents E s k = Some (JServiceEndpoint ep)}"
    unfolding ok(4) by blast
  then show ?case using assms(3) ok(1,2) by simp
qed (use assms(1) in \<open>simp_all add: key_defs\<close>)

lemma wp_balance_select:
  assumes "bal_wf n (o_balance s)" and "\<And>ep t. ep \<in> set eps \<Longrightarrow> e_Ready ep \<Longrightarrow> Q (Inr ep) t"
    and "\<And>e t. filter e_Ready eps = [] \<or> st \<notin> {[], StrategyRoundRobin, StrategyLeastConnections} \<Longrightarrow> Q (Inl e) t"
  shows "wp (balance_select i st eps) Q s"
proof (intro wpI)
  fix r t assume a: "balance_select i st eps s = (r, t)"
  obtain b where "Select (o_balance s) i st eps = (r, b)"
    using a by (auto simp: balance_select_def split: prod.splits)
  then show "Q r t"
  proof (cases rule: Select_cases)
    case (rr x)
    have "x \<in> set (ready_sorted eps)" using rr(4) rr_in_ready [OF rr(1)] assms(1) by (simp add: bal_wf_def)
    then show ?thesis using rr(3) assms(2) by auto
  next
    case (lc x)
    then have "x \<in> set (ready_sorted eps)" using lc_in_ready [OF lc(1)] by metis
    then show ?thesis using lc(3) assms(2) by auto
  qed (use assms(3) in auto)
qed

lemma wp_SelectServiceEndpoint:
  fixes E :: "'db oenv" and s :: "'db world"
  assumes E: "env_total E" and wf: "store_wf (contents E s)" and b: "bal_wf n (o_balance s)"
    and svc: "contents E s (keyService i) = Some (JService svc)"
    and ok: "\<And>ep t. routable (contents E s) i ep \<Longrightarrow> Q (Inr ep) t"
    and err: "\<And>e t. (\<nexists>ep. routable (contents E s) i ep) \<or> st \<notin> {[], StrategyRoundRobin, StrategyLeastConnections} \<Longrightarrow> Q (Inl e) t"
  shows "wp (SelectServiceEndpoint E i st) Q s"
  unfolding SelectServiceEndpoint_def
proof (rule wp_bnd_GetService [OF E wf], goal_cases got missing)
  case (got _ t1)
  show ?case
  proof (rule wp_ListServiceEndpoints [OF E], goal_cases wf eps)
    case (eps eps t2)
    show ?case
    proof (rule wp_bnd_ListNodes [OF E], goal_cases wf nodes)
      case (nodes ns t3)
      have h: "healthyNodes ns j \<longleftrightarrow> (\<exists>n. contents E s (keyNode j) = Some (JNode n) \<and> n_Status n = NodeReady)" for j
        by (rule healthyNodes_iff) (use nodes eps got wf in simp_all)
      have "o_balance t3 = o_balance s" using got(2) eps(2) nodes(2)
        by (cases s, cases t1, cases t2, cases t3) (simp add: same_rest_def store_state.defs world.defs)
      then have b3: "bal_wf n (o_balance t3)" using b by simp
      have el: "routable (contents E s) i ep \<longleftrightarrow> ep \<in> set (filter (\<lambda>ep. healthyNodes ns (e_NodeID ep)) eps) \<and> e_Ready ep" for ep
        using eps(3) got(1) by (auto simp: h routable_def)
      show ?case
        by (rule wp_balance_select [OF b3]) (use ok err in \<open>auto simp: el filter_empty_conv\<close>)
    qed (use eps got wf in simp)
  qed (use got wf in simp)
qed (use svc in simp)

text \<open>
  (C18) Traffic for a service name is sent to a ready endpoint of a stored service of that name
  whose node is ready, and the address and port are the node port of a \<^verbatim>\<open>NodePort\<close> service or else the cluster address.
  The call fails only if no service has the name, no such endpoint exists, the strategy is
  unknown, or the service declares no (node) port.
\<close>

theorem traffic_reaches_ready:
  fixes E :: "'db oenv" and s :: "'db world"
  assumes E: "env_total E" and wf: "store_wf (contents E s)" and b: "bal_wf n (o_balance s)"
  shows "wp (RouteServiceTraffic E name st) (\<lambda>r t. case r of
      Inr (svc, target, address, port) \<Rightarrow>
        contents E s (keyService (sv_ID svc)) = Some (JService svc) \<and> named_like name svc \<and>
        routable (contents E s) (sv_ID svc) target \<and>
        (address, port) = (if ss_Type (sv_Spec svc) = ServiceTypeNodePort
          then (e_Address target, po_NodePort (hd (ss_Ports (sv_Spec svc))))
          else (sv_ClusterIP svc, po_Port (hd (ss_Ports (sv_Spec svc)))))
    | Inl e \<Rightarrow> (\<nexists>svc. contents E s (keyService (sv_ID svc)) = Some (JService svc) \<and> named_like name svc) \<or>
        (\<exists>svc. contents E s (keyService (sv_ID svc)) = Some (JService svc) \<and> named_like name svc \<and>
          ((\<nexists>ep. routable (contents E s) (sv_ID svc) ep) \<or> st \<notin> {[], StrategyRoundRobin, StrategyLeastConnections} \<or>
           ss_Ports (sv_Spec svc) = [] \<or>
           ss_Type (sv_Spec svc) = ServiceTypeNodePort \<and> po_NodePort (hd (ss_Ports (sv_Spec svc))) = 0))) s" (is "wp _ ?Q s")
  unfolding RouteServiceTraffic_def findServiceByName_def bnd_assoc
proof (rule wp_bnd_ListServices [OF E wf])
  fix xs and t :: "'db world"
  assume t: "contents E t = contents E s" "same_rest s t"
    and xs: "\<And>x. x \<in> set xs \<longleftrightarrow> contents E s (keyService (sv_ID x)) = Some (JService x)"
  have bt: "bal_wf n (o_balance t)" using t(2) b by (cases s, cases t) (simp add: same_rest_def store_state.defs world.defs)
  have wt: "store_wf (contents E t)" using wf t(1) by simp
  show "wp (bnd (case find (named_like name) xs of None \<Rightarrow> throw ErrNotFound | Some svc \<Rightarrow> ret svc) (\<lambda>svc.
      bnd (SelectServiceEndpoint E (sv_ID svc) st) (\<lambda>target. case ss_Ports (sv_Spec svc) of
        [] \<Rightarrow> throw (ErrText ''service has no ports'')
      | servicePort # _ \<Rightarrow>
        if ss_Type (sv_Spec svc) = ServiceTypeNodePort then
          if po_NodePort servicePort = 0 then throw (ErrText ''nodeport service missing nodePort'')
          else ret (svc, target, e_Address target, po_NodePort servicePort)
        else ret (svc, target, sv_ClusterIP svc, po_Port servicePort)))) ?Q t"
  proof (cases "find (named_like name) xs")
    case None
    then have "\<nexists>svc. contents E s (keyService (sv_ID svc)) = Some (JService svc) \<and> named_like name svc"
      using xs by (auto simp: find_None_iff)
    with None show ?thesis by (simp add: bnd_throw wp_throw)
  next
    case (Some svc)
    then have svc: "contents E s (keyService (sv_ID svc)) = Some (JService svc)" "named_like name svc"
      using xs [of svc] by (auto simp: find_Some_iff)
    show ?thesis
      unfolding Some option.case bnd_ret wp_bnd
      by (rule wp_SelectServiceEndpoint [OF E wt bt]) (use svc t(1) in \<open>auto simp: wp_ret wp_throw split: list.split\<close>)
  qed
qed

definition demo_ready_node :: Node where
  "demo_ready_node = zero_Node\<lparr>n_ID := ''n1'', n_Status := NodeReady\<rparr>"

definition demo_endpoint :: ServiceEndpoint where
  "demo_endpoint = zero_ServiceEndpoint\<lparr>e_ID := ''ep'', e_ServiceID := ''svc-1'', e_NodeID := ''n1'', e_Ready := True\<rparr>"

definition demo_routes :: "blob list" where
  "demo_routes = [JService demo_service, JNode demo_ready_node, JServiceEndpoint demo_endpoint]"

theorem traffic_reaches_ready_witness:
  "wp (RouteServiceTraffic demo_oenv ''web'' []) (\<lambda>r t. \<exists>svc target. r = Inr (svc, target, ''10.96.1.1'', 80))
     (NewOrchestrator (stored demo_routes))"
proof -
  let ?s = "NewOrchestrator (stored demo_routes)" and ?m = "contents demo_oenv (NewOrchestrator (stored demo_routes))"
  have svc: "?m (keyService (sv_ID svc)) = Some (JService svc) \<longleftrightarrow> svc = demo_service" for svc
    by (auto simp: stored_def demo_routes_def key_defs demo_service_def demo_ready_node_def demo_endpoint_def split: if_splits)
  have m: "?m (keyServiceEndpoint ''svc-1'' ''ep'') = Some (JServiceEndpoint demo_endpoint)"
    "?m (keyNode ''n1'') = Some (JNode demo_ready_node)"
    by (simp_all add: stored_def demo_routes_def key_defs demo_service_def demo_ready_node_def demo_endpoint_def)
  have "\<exists>k. prefix (keyServiceEndpointPrefix ''svc-1'') k \<and> ?m k = Some (JServiceEndpoint demo_endpoint)"
    by (rule exI [of _ "keyServiceEndpoint ''svc-1'' ''ep''"]) (simp only: m, simp add: keyServiceEndpoint_def)
  moreover have "sv_ID demo_service = ''svc-1''" "e_NodeID demo_endpoint = ''n1''" "e_Ready demo_endpoint"
    "n_Status demo_ready_node = NodeReady" by (simp_all add: demo_service_def demo_endpoint_def demo_ready_node_def)
  ultimately have r: "routable ?m (sv_ID demo_service) demo_endpoint" unfolding routable_def by (simp add: m del: demo_oenv_contents)
  have n: "named_like ''web'' demo_service" by (simp add: named_like_def demo_service_def EqualFold_def)
  have p: "ss_Ports (sv_Spec demo_service) = [zero_ServicePort\<lparr>po_Port := 80, po_TargetPort := 8080\<rparr>]"
    "ss_Type (sv_Spec demo_service) \<noteq> ServiceTypeNodePort" "sv_ClusterIP demo_service = ''10.96.1.1''"
    by (simp_all add: demo_service_def zero_ServiceSpec_def)
  have b: "bal_wf 0 (o_balance ?s)" by (simp add: NewOrchestrator_def bal_wf_def NewBalancer_def)
  show ?thesis
    by (rule wp_conseq [OF traffic_reaches_ready [OF demo_oenv_total stored_wf b]])
      (use r n p in \<open>auto simp: svc simp del: demo_oenv_contents split: sum.splits prod.splits\<close>)
qed

text \<open>A route that fails after the endpoint was selected leaves the request counted as in flight.\<close>

lemma failed_route_stays_counted:
  assumes "findServiceByName E name s = (Inr svc, u)" and "SelectServiceEndpoint E (sv_ID svc) st u = (Inr ep, t)"
    and "ss_Ports (sv_Spec svc) = p # ps" and "ss_Type (sv_Spec svc) = ServiceTypeNodePort" and "po_NodePort p = 0"
  shows "RouteServiceTraffic E name st s = (Inl (ErrText ''nodeport service missing nodePort''), t)"
  using assms by (simp add: RouteServiceTraffic_def bnd_def throw_def)

text \<open>The name a service resolves to always carries the namespace \<^verbatim>\<open>default\<close>.\<close>

lemma dns_name_ignores_namespace:
  "gives (\<lambda>(dnsName, eps, ttl). \<exists>base. dnsName = base @ ''.default.svc.cluster.local'') (ResolveServiceDNS E name)"
  unfolding ResolveServiceDNS_def Let_def
  by (auto simp: gives_def bnd_def ret_def throw_def split: prod.splits sum.splits option.splits)

section \<open>Cluster addresses\<close>

text \<open>
  The cluster address made from a creation time lies in \<^verbatim>\<open>10.96.1.1\<close> to \<^verbatim>\<open>10.96.254.254\<close>:
  both variable octets are between 1 and 254.
\<close>

lemma cluster_ip_in_range:
  assumes "0 \<le> seed"
  shows "\<exists>a b. allocateClusterIP seed = ''10.96.'' @ show_int a @ ''.'' @ show_int b \<and>
    1 \<le> a \<and> a \<le> 254 \<and> 1 \<le> b \<and> b \<le> 254"
proof -
  have v: "0 \<le> irem seed 65534" "irem seed 65534 < 65534" using assms irem_nonneg [of seed 65534] by simp_all
  then have d: "0 \<le> irem seed 65534 div 254" "irem seed 65534 div 254 < 65534" by presburger+
  then have "in64 (irem seed 65534 div 254)" by (simp add: in64_def)
  then have "iquo (irem seed 65534) 254 = irem seed 65534 div 254"
    using v(1) by (auto simp: iquo_def sgn_if i64_id)
  then have "0 \<le> iquo (irem seed 65534) 254" using d by simp
  with v show ?thesis
    unfolding allocateClusterIP_def Let_def
    by (intro exI conjI) (auto simp: irem_nonneg iadd_id in64_def)
qed

theorem cluster_ip_in_range_witness:
  "\<exists>a b. allocateClusterIP 1700000000000000000 = ''10.96.'' @ show_int a @ ''.'' @ show_int b \<and>
    1 \<le> a \<and> a \<le> 254 \<and> 1 \<le> b \<and> b \<le> 254"
  by (rule cluster_ip_in_range) simp

text \<open>Nothing keeps two services from getting one address: creation times 65534 nanoseconds apart collide.\<close>

lemma cluster_ip_collides: "0 \<le> seed \<Longrightarrow> allocateClusterIP (seed + 65534) = allocateClusterIP seed"
  by (simp add: allocateClusterIP_def irem_nonneg)

text \<open>Two ports of a service with one target port share an endpoint identifier.\<close>

lemma endpoint_ids_collide: "po_TargetPort p = po_TargetPort q \<Longrightarrow> endpoint_id svc w p = endpoint_id svc w q"
  by (simp add: endpoint_id_def)

end
