(* ===== verification/Rollout_Safety.thy ===== *)
theory Rollout_Safety
  imports Rollout
begin

text \<open>
  How many replicas a deployment has while it is reconciled. \<open>active_ids m d\<close> are the identifiers of
  the running or pending workloads of deployment \<open>d\<close> in the database \<open>m\<close>; \<open>shifts E d a b\<close> relates two
  states between which the deployment lost at most \<open>a\<close> and gained at most \<open>b\<close> of them. Every phase of
  the reconciliation is bounded this way, and the bounds add up to the rolling-update guarantee.
\<close>

section \<open>Counting replicas\<close>

definition active_ids :: "(string \<Rightarrow> blob option) \<Rightarrow> string \<Rightarrow> string set" where
  "active_ids m d = {i. \<exists>w. m (keyWorkload i) = Some (JWorkload w) \<and> w_DeploymentID w = d \<and> is_active w}"

abbreviation replicas :: "'db oenv \<Rightarrow> string \<Rightarrow> 'db world \<Rightarrow> nat" where
  "replicas E d s \<equiv> card (active_ids (contents E s) d)"

definition counted :: "'db oenv \<Rightarrow> string \<Rightarrow> 'db world \<Rightarrow> bool" where
  "counted E d s \<longleftrightarrow> store_wf (contents E s) \<and> finite (active_ids (contents E s) d)"

definition shifts :: "'db oenv \<Rightarrow> string \<Rightarrow> nat \<Rightarrow> nat \<Rightarrow> 'db world \<Rightarrow> 'db world \<Rightarrow> bool" where
  "shifts E d a b s t \<longleftrightarrow> (counted E d s \<longrightarrow>
     counted E d t \<and> replicas E d s \<le> replicas E d t + a \<and> replicas E d t \<le> replicas E d s + b)"

lemma shifts_refl: "shifts E d a b s s"
  by (simp add: shifts_def)

lemma shifts_trans: "shifts E d a b s t \<Longrightarrow> shifts E d a' b' t u \<Longrightarrow> shifts E d (a + a') (b + b') s u"
  by (auto simp: shifts_def)

lemma shifts_mono: "shifts E d a b s t \<Longrightarrow> a \<le> a' \<Longrightarrow> b \<le> b' \<Longrightarrow> shifts E d a' b' s t"
  by (auto simp: shifts_def)

lemma shifts_from: "contents E t = contents E s \<Longrightarrow> shifts E d a b t u = shifts E d a b s u"
  by (simp add: shifts_def counted_def)

interpretation steady: frame "shifts E d 0 0"
  by unfold_locales (auto simp: shifts_refl dest: shifts_trans)

lemma shifts_same_workloads:
  assumes "\<And>i. contents E t (keyWorkload i) = contents E s (keyWorkload i)"
    and "store_wf (contents E s) \<Longrightarrow> store_wf (contents E t)"
  shows "shifts E d 0 0 s t"
proof -
  have "active_ids (contents E t) d = active_ids (contents E s) d" by (simp add: active_ids_def assms(1))
  then show ?thesis using assms(2) by (simp add: shifts_def counted_def)
qed

text \<open>Writes that are not to a workload.\<close>

definition other_write :: "string \<Rightarrow> blob option \<Rightarrow> bool" where
  "other_write k v \<longleftrightarrow> own_key k v \<and> \<not> prefix ''workload:'' k"

lemma other_write_simps [simp]:
  "other_write (keyNode i) (Some (JNode n)) \<longleftrightarrow> n_ID n = i"
  "other_write (keyDeployment i) (Some (JDeployment d)) \<longleftrightarrow> d_ID d = i"
  "other_write (keyAssignment a b) (Some (JAssignment x)) \<longleftrightarrow> keyAssignment (a_NodeID x) (a_ID x) = keyAssignment a b"
  "other_write (keyEvent t i) (Some (JEvent ev)) \<longleftrightarrow> keyEvent (ev_Timestamp ev) (ev_ID ev) = keyEvent t i"
  by (auto simp: other_write_def keyNode_def keyDeployment_def keyAssignment_def keyEvent_def keyAssignmentPrefix_def)

lemma active_ids_evolves: "evolves E other_write s t \<Longrightarrow> active_ids (contents E t) d = active_ids (contents E s) d"
  using evolves_outside [of E other_write s t] by (simp add: active_ids_def other_write_def keyWorkload_def)

lemma steady_of_evolves: "stays (evolves E other_write) m \<Longrightarrow> stays (shifts E d 0 0) m"
  by (erule stays_mono, rule shifts_same_workloads)
    (auto simp: other_write_def keyWorkload_def elim!: evolves_outside evolves_wf)

section \<open>Composition\<close>

lemma shifts_bnd:
  assumes "stays (shifts E d a b) m" and "\<And>x. stays (shifts E d a' b') (f x)"
  shows "stays (shifts E d (a + a') (b + b')) (bnd m f)"
proof (intro staysI)
  fix s
  show "wp (bnd m f) (\<lambda>r t. shifts E d (a + a') (b + b') s t) s"
    unfolding wp_bnd
  proof (rule wp_conseq [OF stays_wp [OF assms(1)]])
    fix r t assume t: "shifts E d a b s t"
    show "case r of Inl e \<Rightarrow> shifts E d (a + a') (b + b') s t
        | Inr x \<Rightarrow> wp (f x) (\<lambda>r u. shifts E d (a + a') (b + b') s u) t"
    proof (cases r)
      case (Inl e)
      then show ?thesis using shifts_mono [OF t] by simp
    next
      case (Inr x)
      then show ?thesis using stays_wp [OF assms(2) [of x], of t] shifts_trans [OF t] by (auto elim: wp_conseq)
    qed
  qed
qed

lemma shifts_steady_bnd:
  "stays (shifts E d 0 0) m \<Longrightarrow> (\<And>x. stays (shifts E d a b) (f x)) \<Longrightarrow> stays (shifts E d a b) (bnd m f)"
  using shifts_bnd [of E d 0 0 m a b f] by simp

lemma shifts_steady_bnd_gives:
  assumes "stays (shifts E d 0 0) m" and "gives P m" and "\<And>x. P x \<Longrightarrow> stays (shifts E d a b) (f x)"
  shows "stays (shifts E d a b) (bnd m f)"
proof -
  have "bnd m f = bnd m (\<lambda>x. if P x then f x else throw ErrNotFound)"
    using assms(2) by (auto simp: fun_eq_iff bnd_def gives_def split: prod.splits sum.splits)
  moreover have "stays (shifts E d a b) (throw ErrNotFound :: ('a, 'c) orch)"
    by (simp add: stays_def throw_def shifts_refl)
  ultimately show ?thesis
    using assms(3) by (simp, intro shifts_steady_bnd [OF assms(1)] stays_if)
qed

lemma shifts_steady_seq:
  "stays (shifts E d 0 0) m \<Longrightarrow> stays (shifts E d a b) k \<Longrightarrow> stays (shifts E d a b) (seq m k)"
  by (simp add: seq_def shifts_steady_bnd)

lemma shifts_seq_steady:
  "stays (shifts E d a b) m \<Longrightarrow> stays (shifts E d 0 0) k \<Longrightarrow> stays (shifts E d a b) (seq m k)"
  using shifts_bnd [of E d a b m 0 0 "\<lambda>_. k"] by (simp add: seq_def)

lemma shifts_times: "stays (shifts E d a b) m \<Longrightarrow> stays (shifts E d (n * a) (n * b)) (times n m)"
proof (induction n)
  case (Suc n)
  then show ?case using shifts_bnd [of E d a b m "n * a" "n * b" "\<lambda>_. times n m"] by (simp add: seq_def)
qed (simp add: steady.ret)

lemma shifts_for_each:
  "(\<And>x. stays (shifts E d a b) (f x)) \<Longrightarrow> stays (shifts E d (length xs * a) (length xs * b)) (for_each xs f)"
proof (induction xs)
  case (Cons x xs)
  then show ?case using shifts_bnd [of E d a b "f x" "length xs * a" "length xs * b" "\<lambda>_. for_each xs f"]
    by (simp add: seq_def)
qed (simp add: steady.ret)

lemma shifts_attempt: "stays (shifts E d a b) m \<Longrightarrow> stays (shifts E d a b) (attempt m)"
  by (auto simp: stays_def attempt_def split: prod.splits) (metis snd_conv)

section \<open>Writing a workload\<close>

lemma active_ids_put:
  "active_ids (m(keyWorkload (w_ID w) \<mapsto> JWorkload w)) d =
     (if w_DeploymentID w = d \<and> is_active w then insert (w_ID w) (active_ids m d) else active_ids m d - {w_ID w})"
  by (auto simp: active_ids_def keyWorkload_def split: if_splits)

lemma active_ids_delete: "active_ids (m(keyWorkload i := None)) d = active_ids m d - {i}"
  by (auto simp: active_ids_def keyWorkload_def split: if_splits)

lemma is_active_touched [simp]: "is_active (w\<lparr>w_UpdatedAt := t\<rparr>) = is_active w"
  by (simp add: is_active_def)

lemma shifts_insert:
  assumes "active_ids (contents E t) d = insert i (active_ids (contents E s) d)"
    and "store_wf (contents E s) \<Longrightarrow> store_wf (contents E t)"
  shows "shifts E d 0 1 s t"
  using assms by (simp add: shifts_def counted_def card_insert_if)

lemma shifts_remove:
  assumes "active_ids (contents E t) d = active_ids (contents E s) d - {i}"
    and "store_wf (contents E s) \<Longrightarrow> store_wf (contents E t)"
  shows "shifts E d 1 0 s t"
proof -
  have "card A \<le> card (A - {i}) + 1" if "finite A" for A :: "string set"
    using that by (cases "i \<in> A") (simp_all add: card_Suc_Diff1)
  then show ?thesis using assms by (auto simp: shifts_def counted_def intro: card_Diff1_le)
qed

lemma shifts_put_active:
  assumes "env_ok E" and "w_DeploymentID w = d" and "is_active w"
  shows "stays (shifts E d 0 1) (st_UpsertWorkload E w)"
proof (intro staysI, rule wp_UpsertWorkload [OF assms(1)])
  fix s t :: "'a world" and now
  assume t: "contents E t = (contents E s)(keyWorkload (w_ID w) \<mapsto> JWorkload (w\<lparr>w_UpdatedAt := now\<rparr>))"
  have "active_ids (contents E t) d = insert (w_ID w) (active_ids (contents E s) d)"
    using active_ids_put [of "contents E s" "w\<lparr>w_UpdatedAt := now\<rparr>" d] assms(2,3) by (simp add: t)
  moreover have "store_wf (contents E t)" if "store_wf (contents E s)"
    using store_wf_put [OF that, of "JWorkload (w\<lparr>w_UpdatedAt := now\<rparr>)"] by (simp add: t)
  ultimately show "shifts E d 0 1 s t" by (rule shifts_insert)
next
  fix s t :: "'a world" assume "contents E t = contents E s"
  then show "shifts E d 0 1 s t" using shifts_from shifts_refl by blast
qed

lemma shifts_put_inactive:
  assumes "env_ok E" and "\<not> is_active w"
  shows "stays (shifts E d 1 0) (st_UpsertWorkload E w)"
proof (intro staysI, rule wp_UpsertWorkload [OF assms(1)])
  fix s t :: "'a world" and now
  assume t: "contents E t = (contents E s)(keyWorkload (w_ID w) \<mapsto> JWorkload (w\<lparr>w_UpdatedAt := now\<rparr>))"
  have "active_ids (contents E t) d = active_ids (contents E s) d - {w_ID w}"
    using active_ids_put [of "contents E s" "w\<lparr>w_UpdatedAt := now\<rparr>" d] assms(2) by (simp add: t)
  moreover have "store_wf (contents E t)" if "store_wf (contents E s)"
    using store_wf_put [OF that, of "JWorkload (w\<lparr>w_UpdatedAt := now\<rparr>)"] by (simp add: t)
  ultimately show "shifts E d 1 0 s t" by (rule shifts_remove)
next
  fix s t :: "'a world" assume "contents E t = contents E s"
  then show "shifts E d 1 0 s t" using shifts_from shifts_refl by blast
qed

lemma steady_enqueue: "env_ok E \<Longrightarrow> stays (shifts E d 0 0) (st_EnqueueAssignment E a)"
  by (rule steady_of_evolves, rule ev_EnqueueAssignment) simp_all

lemma steady_emit: "env_ok E \<Longrightarrow> stays (shifts E d 0 0) (emitEvent E e)"
  by (rule steady_of_evolves, rule ev_emitEvent) simp_all

lemma steady_node: "env_ok E \<Longrightarrow> stays (shifts E d 0 0) (st_UpsertNode E n)"
  by (rule steady_of_evolves, rule ev_UpsertNode) simp_all

lemma steady_deployment: "env_ok E \<Longrightarrow> stays (shifts E d 0 0) (st_UpdateDeployment E x)"
  by (rule steady_of_evolves, rule ev_UpdateDeployment) simp_all

lemma steady_now_condition: "stays (shifts E d 0 0) (now_condition E ty st re msg dep)"
  by (rule steady_of_evolves, rule ev_now_condition)

lemma steady_rollbackLocked: "stays (shifts E d 0 0) (rollbackDeploymentLocked E dep n msg)"
  by (rule steady_of_evolves, rule ev_rollbackDeploymentLocked)

lemmas steady_reads = ev_reads [THEN steady_of_evolves] ev_time [THEN steady_of_evolves] ev_rand [THEN steady_of_evolves]
  ev_next_tick [THEN steady_of_evolves]

lemmas steady_rules = stays_intros steady.rules steady_reads steady_enqueue steady_emit steady_node steady_deployment
  steady_now_condition steady_rollbackLocked

lemma shifts_enqueueDelete: "env_ok E \<Longrightarrow> stays (shifts E d 1 0) (enqueueDeleteForWorkload E dep w)"
  unfolding enqueueDeleteForWorkload_def Let_def
  by (intro shifts_seq_steady shifts_put_inactive steady_rules) (simp_all add: is_active_def)

section \<open>Preemption takes nothing from the deployment itself\<close>

lemma steady_delete_other:
  assumes "env_ok E" and "\<And>w. contents E s (keyWorkload i) = Some (JWorkload w) \<Longrightarrow> w_DeploymentID w \<noteq> d"
  shows "wp (st_DeleteWorkload E i) (\<lambda>r t. shifts E d 0 0 s t) s"
  unfolding st_DeleteWorkload_def
proof (rule wp_delete [OF assms(1)])
  fix t :: "'a world" assume t: "contents E t = (contents E s)(keyWorkload i := None)"
  have "i \<notin> active_ids (contents E s) d" using assms(2) by (auto simp: active_ids_def)
  then have "active_ids (contents E t) d = active_ids (contents E s) d" by (simp add: t active_ids_delete)
  moreover have "store_wf (contents E s) \<Longrightarrow> store_wf (contents E t)" by (simp add: t store_wf_def)
  ultimately show "shifts E d 0 0 s t" by (simp add: shifts_def counted_def)
next
  fix t :: "'a world" assume "contents E t = contents E s"
  then show "shifts E d 0 0 s t" using shifts_from shifts_refl by blast
qed

lemma steady_preempt_victim:
  assumes E: "env_ok E" and w: "\<And>w. contents E s (keyWorkload (w_ID v)) = Some (JWorkload w) \<Longrightarrow> w_DeploymentID w \<noteq> d"
  shows "wp (preempt_victim E dep n v) (\<lambda>r t. r \<noteq> Inr False \<and> shifts E d 0 0 s t) s"
proof -
  have n: "stays (evolves E other_write) (st_UpsertNode E m)" for m by (rule ev_UpsertNode [OF E]) simp
  have k: "contents E t (keyWorkload i) = contents E s (keyWorkload i)" if "evolves E other_write s t" for t i
    by (rule evolves_outside [OF that]) (simp add: other_write_def keyWorkload_def)
  have node: "wp (st_UpsertNode E m) (\<lambda>r t. evolves E other_write s t \<and> shifts E d 0 0 s t) s" for m
    by (intro wp_conj stays_wp n steady_of_evolves [OF n])
  show ?thesis
    unfolding preempt_victim_def wp_seq
  proof (rule wp_conseq [OF node], elim conjE, goal_cases)
    case (1 r t)
    have "wp (st_DeleteWorkload E (w_ID v)) (\<lambda>r u. shifts E d 0 0 t u) t"
      by (rule steady_delete_other [OF E]) (use w k [OF 1(1)] in simp)
    then show ?case using 1(2)
      by (auto simp: wp_ret split: sum.splits elim!: wp_conseq
          intro!: wp_conseq [OF stays_wp [OF steady.ignore [OF steady_emit [OF E]]]] dest: steady.trans)
  qed
qed

lemma steady_tryPreempt:
  assumes E: "env_ok E"
  shows "stays (shifts E (d_ID dep) 0 0) (tryPreemptForPriority E dep req)"
proof (intro staysI)
  fix s
  show "wp (tryPreemptForPriority E dep req) (\<lambda>r t. shifts E (d_ID dep) 0 0 s t) s"
  proof (cases "store_wf (contents E s)")
    case wf: True
    let ?Q = "\<lambda>r t. shifts E (d_ID dep) 0 0 s t"
    let ?I = "\<lambda>t. contents E t = contents E s"
    have I: "?I t \<Longrightarrow> ?Q r t" for r t using shifts_from [of E t s] shifts_refl [of E "d_ID dep" 0 0 t] by blast
    show ?thesis
      unfolding tryPreemptForPriority_def wp_bnd
    proof (rule wp_ListWorkloads [OF E wf], goal_cases ok err)
      case (ok ws t)
      have wt: "store_wf (contents E t)" using ok(1) wf by simp
      have v: "w_DeploymentID x \<noteq> d_ID dep"
        if "v \<in> set (preempt_candidates dep ws)" "contents E s (keyWorkload (w_ID v)) = Some (JWorkload x)" for v x
      proof -
        have "contents E s (keyWorkload (w_ID v)) = Some (JWorkload v)"
          using that(1) ok(5) wl.wf_view [OF wf] wl.wf_view_key [OF wf]
          by (fastforce simp: preempt_candidates_def ran_def keyWorkload_def)
        then show ?thesis using that by (simp add: preempt_candidates_def)
      qed
      show ?case
        unfolding sum.case
      proof (rule wp_ListNodes [OF E wt], unfold sum.case, goal_cases ok2 err2)
        case (ok2 ns u)
        show ?case
        proof (rule wp_until_true [where I = ?I], goal_cases body finish start)
          case (body x y)
          define P where "P = (\<lambda>r :: err + bool. \<lambda>z. if r = Inr False then ?I z else ?Q r z)"
          have "wp (preempt_victim E dep n x) P y" for n
            by (rule wp_conseq [OF steady_preempt_victim [OF E, of _ _ "d_ID dep"]])
              (use body v shifts_from [OF body(2)] in \<open>auto simp: P_def split: if_splits\<close>)
          moreover have "P (Inr False) y" using body(2) by (simp add: P_def)
          ultimately show ?case unfolding P_def [symmetric] by (auto simp: wp_ret split: option.splits)
        qed (use I ok(1) ok2(1) in auto)
      qed (use I ok(1) in auto)
    qed (use I in auto)
  qed (simp add: wp_def shifts_def counted_def case_prod_beta)
qed

lemma gives_new_workload: "gives (\<lambda>w. w_DeploymentID w = d_ID dep \<and> is_active w) (new_workload E dep n)"
  unfolding new_workload_def by (intro gives_bnd [OF gives_any] gives_ret) (simp add: is_active_def)

lemma steady_new_workload: "stays (shifts E d 0 0) (new_workload E dep n)"
  unfolding new_workload_def by (intro steady_rules)

lemma steady_schedule_workload: "env_ok E \<Longrightarrow> stays (shifts E (d_ID dep) 0 0) (schedule_workload E dep)"
  unfolding schedule_workload_def select_node_def by (intro steady_rules steady_tryPreempt)

lemma shifts_put_then:
  "env_ok E \<Longrightarrow> w_DeploymentID w = d \<and> is_active w \<Longrightarrow> stays (shifts E d 0 0) k \<Longrightarrow>
   stays (shifts E d 0 1) (seq (st_UpsertWorkload E w) k)"
  by (intro shifts_seq_steady shifts_put_active) auto

lemma shifts_createWorkload:
  assumes E: "env_ok E"
  shows "stays (shifts E (d_ID dep) 0 1) (createWorkloadForDeployment E dep)"
  unfolding createWorkloadForDeployment_def
  by (rule shifts_steady_bnd [OF steady_schedule_workload [OF E]],
      rule shifts_steady_seq [OF steady.ignore [OF steady_emit [OF E]]],
      rule shifts_steady_bnd_gives [OF steady_new_workload gives_new_workload], erule shifts_put_then [OF E])
    (intro steady_rules ev_resolveSecretFiles [THEN steady_of_evolves] E)

section \<open>Reading the replicas\<close>

lemma wp_ListWorkloadsByDeployment:
  assumes E: "env_ok E" and wf: "store_wf (contents E s)"
    and ok: "\<And>ws t. contents E t = contents E s \<Longrightarrow> quiet s t \<Longrightarrow> distinct (map w_ID ws) \<Longrightarrow>
      set ws = {w. contents E s (keyWorkload (w_ID w)) = Some (JWorkload w) \<and> w_DeploymentID w = d} \<Longrightarrow> Q (Inr ws) t"
    and err: "\<And>e t. contents E t = contents E s \<Longrightarrow> quiet s t \<Longrightarrow> \<not> env_total E \<Longrightarrow> Q (Inl e) t"
  shows "wp (st_ListWorkloadsByDeployment E d) Q s"
  unfolding st_ListWorkloadsByDeployment_def wp_bnd wp_ret
proof (rule wp_ListWorkloads [OF E wf], unfold sum.case, goal_cases)
  case (1 xs t)
  show ?case
  proof (rule ok [OF 1(1) same_rest_quiet [OF 1(2)]])
    show "distinct (map w_ID (filter (\<lambda>w. w_DeploymentID w = d) xs))" using 1(3) by (simp add: distinct_map_filter)
    show "set (filter (\<lambda>w. w_DeploymentID w = d) xs) =
        {w. contents E s (keyWorkload (w_ID w)) = Some (JWorkload w) \<and> w_DeploymentID w = d}"
      using 1(5) wl.wf_view [OF wf] wl.wf_view_key [OF wf] by (fastforce simp: ran_def keyWorkload_def)
  qed
qed (use err same_rest_quiet in blast)

lemma listed_active:
  assumes wf: "store_wf (contents E s)" and ws: "distinct (map w_ID ws)"
    "set ws = {w. contents E s (keyWorkload (w_ID w)) = Some (JWorkload w) \<and> w_DeploymentID w = d}"
  shows "finite (active_ids (contents E s) d)" and "length (activeWorkloads ws) = replicas E d s"
proof -
  have "active_ids (contents E s) d = w_ID ` set (activeWorkloads ws)"
    using wl.wf_view [OF wf] wl.wf_view_key [OF wf] ws(2)
    by (fastforce simp: active_ids_def activeWorkloads_def keyWorkload_def)
  moreover have "distinct (map w_ID (activeWorkloads ws))" using ws(1) by (simp add: activeWorkloads_def distinct_map_filter)
  ultimately show "finite (active_ids (contents E s) d)" "length (activeWorkloads ws) = replicas E d s"
    by (simp_all add: card_image distinct_map distinct_card)
qed

lemma wp_list_replicas:
  assumes E: "env_ok E" and wf: "store_wf (contents E s)"
    and ok: "\<And>ws t. contents E t = contents E s \<Longrightarrow> counted E d s \<Longrightarrow> length (activeWorkloads ws) = replicas E d s \<Longrightarrow> Q (Inr ws) t"
    and err: "\<And>e t. contents E t = contents E s \<Longrightarrow> Q (Inl e) t"
  shows "wp (st_ListWorkloadsByDeployment E d) Q s"
  by (rule wp_ListWorkloadsByDeployment [OF E wf])
    (use ok err listed_active [OF wf] in \<open>auto simp: counted_def wf\<close>)

section \<open>The bounds of each phase\<close>

lemma length_victims: "length (pickScaleDownVictims ws n) \<le> nat n"
  by (auto simp: pickScaleDownVictims_def Let_def)

lemma shifts_victims:
  assumes "env_ok E" and "nat n \<le> k"
  shows "stays (shifts E d k 0) (for_each (pickScaleDownVictims ws n) (enqueueDeleteForWorkload E dep))"
  using shifts_for_each [where f = "enqueueDeleteForWorkload E dep", OF shifts_enqueueDelete [OF assms(1)]]
  by (rule stays_mono) (use assms(2) length_victims [of ws n] in \<open>auto elim!: shifts_mono\<close>)

lemma shifts_weaken: "stays (shifts E d 0 0) m \<Longrightarrow> stays (shifts E d a b) m"
  by (erule stays_mono) (erule shifts_mono; simp)

lemma shifts_scale_down_old:
  assumes "env_ok E" and "int (length (activeWorkloads ws)) < 2 ^ 63" and "0 \<le> min_available dep" "min_available dep < 2 ^ 63"
  shows "stays (shifts E d (nat (int (length (activeWorkloads ws)) - min_available dep)) 0) (scale_down_old E dep ws)"
proof -
  have "isub (int (length (activeWorkloads ws))) (min_available dep) = int (length (activeWorkloads ws)) - min_available dep"
    using assms by (intro isub_id) (simp add: in64_def)
  then show ?thesis
    unfolding scale_down_old_def Let_def when_so_def
    by (intro stays_if shifts_victims assms(1) shifts_weaken [OF steady.ret]) (simp add: minInt_def, linarith)
qed

lemma shifts_scale_down_excess:
  assumes "env_ok E" and "int (length (activeWorkloads ws)) < 2 ^ 63" and "0 \<le> sp_Replicas (d_Spec dep)" "sp_Replicas (d_Spec dep) < 2 ^ 63"
  shows "stays (shifts E d (nat (int (length (activeWorkloads ws)) - sp_Replicas (d_Spec dep))) 0) (scale_down_excess E dep ws)"
proof -
  have "isub (int (length (activeWorkloads ws))) (sp_Replicas (d_Spec dep)) = int (length (activeWorkloads ws)) - sp_Replicas (d_Spec dep)"
    using assms by (intro isub_id) (simp add: in64_def)
  then show ?thesis
    unfolding scale_down_excess_def Let_def when_so_def
    by (intro stays_if shifts_victims assms(1) shifts_weaken [OF steady.ret]) simp
qed

lemma to_create_bound:
  assumes "int (length (activeWorkloads ws)) < 2 ^ 63" and "0 \<le> max_total dep" "max_total dep < 2 ^ 63"
  shows "to_create dep ws \<le> max 0 (max_total dep - int (length (activeWorkloads ws)))"
proof -
  have "isub (max_total dep) (int (length (activeWorkloads ws))) = max_total dep - int (length (activeWorkloads ws))"
    using assms by (intro isub_id) (simp add: in64_def)
  then show ?thesis by (simp add: to_create_def Let_def minInt_def)
qed

lemma shifts_create_all:
  assumes "env_ok E" and "nat n \<le> k"
  shows "stays (shifts E (d_ID dep) 0 k) (attempt (times (nat n) (createWorkloadForDeployment E dep)))"
  using shifts_times [OF shifts_createWorkload [OF assms(1)], of dep "nat n"]
  by (rule shifts_attempt [OF stays_mono]) (use assms(2) in \<open>auto elim!: shifts_mono\<close>)

lemma ev_fail_deadline: "env_ok E \<Longrightarrow> stays (evolves E other_write) (fail_deadline E dep)"
  unfolding fail_deadline_def Let_def by (intro ev_all ev_rollbackDeploymentLocked) simp_all

lemma steady_create_failed: "env_ok E \<Longrightarrow> stays (shifts E d 0 0) (create_failed E dep ph e)"
  unfolding create_failed_def Let_def by (intro steady_rules)

lemma steady_report_status: "env_ok E \<Longrightarrow> stays (shifts E d 0 0) (report_status E dep ph)"
  unfolding report_status_def mark_stable_def mark_progress_def activeWorkloadsAfterRefresh_def Let_def
  by (intro steady_rules)

section \<open>The whole routine\<close>

lemma wp_scale_down:
  assumes E: "env_ok E" and s: "counted E d s" and ws: "length (activeWorkloads ws) = replicas E d s"
    and n: "int (replicas E d s) < 2 ^ 63"
    and lo: "0 \<le> min_available dep" "min_available dep \<le> sp_Replicas (d_Spec dep)" and R: "sp_Replicas (d_Spec dep) < 2 ^ 63"
  shows "wp (scale_down E d dep ws) (\<lambda>r t. counted E d t \<and>
    min (int (replicas E d s)) (min_available dep) \<le> int (replicas E d t) \<and> replicas E d t \<le> replicas E d s) s"
    (is "wp _ ?Q s")
proof -
  have old: "stays (shifts E d (nat (int (replicas E d s) - min_available dep)) 0) (scale_down_old E dep ws)"
    using shifts_scale_down_old [OF E, of ws dep d] ws n lo R by simp
  show ?thesis
    unfolding scale_down_def wp_simps
  proof (rule wp_conseq [OF stays_wp [OF old]])
    fix r t assume t: "shifts E d (nat (int (replicas E d s) - min_available dep)) 0 s t"
    have Qt: "?Q r' u" if "contents E u = contents E t" for r' u using t s that lo(1) by (auto simp: shifts_def counted_def)
    have ct: "counted E d t" and wt: "store_wf (contents E t)" using t s by (auto simp: shifts_def counted_def)
    have nt: "int (replicas E d t) < 2 ^ 63" using t s n by (simp add: shifts_def)
    show "case r of Inl e \<Rightarrow> ?Q (Inl e) t | Inr x \<Rightarrow> wp (st_ListWorkloadsByDeployment E d)
        (\<lambda>r u. case r of Inl e \<Rightarrow> ?Q (Inl e) u | Inr x \<Rightarrow> wp (scale_down_excess E dep x) ?Q u) t"
    proof (cases r)
      case (Inr x)
      have "wp (st_ListWorkloadsByDeployment E d)
        (\<lambda>r u. case r of Inl e \<Rightarrow> ?Q (Inl e) u | Inr x \<Rightarrow> wp (scale_down_excess E dep x) ?Q u) t"
      proof (rule wp_list_replicas [OF E wt], goal_cases)
        case (1 xs u)
        have len: "length (activeWorkloads xs) = replicas E d t" using 1(3) .
        have cu: "counted E d u" and ru: "replicas E d u = replicas E d t" using ct 1(1) by (simp_all add: counted_def)
        have "stays (shifts E d (nat (int (replicas E d t) - sp_Replicas (d_Spec dep))) 0) (scale_down_excess E dep xs)"
          using shifts_scale_down_excess [OF E, of xs dep d] len nt lo R by simp
        from stays_wp [OF this, of u] show ?case
          unfolding sum.case by (rule wp_conseq) (use t s cu ru lo in \<open>auto simp: shifts_def\<close>)
      qed (use Qt in simp)
      then show ?thesis by (simp add: Inr)
    qed (use Qt in simp)
  qed
qed

definition rollout_bounds :: "Deployment \<Rightarrow> int \<Rightarrow> int \<Rightarrow> bool" where
  "rollout_bounds dep n n' \<longleftrightarrow> min n (min_available dep) \<le> n' \<and> n' \<le> max n (max_total dep)"

lemma wp_place_finish:
  assumes E: "env_ok E" and s: "counted E d s" and n: "int (replicas E d s) < 2 ^ 63"
    and lo: "0 \<le> min_available dep" "min_available dep \<le> sp_Replicas (d_Spec dep)" and R: "sp_Replicas (d_Spec dep) < 2 ^ 63"
    and Q: "\<And>r t. min (int (replicas E d s)) (min_available dep) \<le> int (replicas E d t) \<Longrightarrow> replicas E d t \<le> replicas E d s \<Longrightarrow> Q r t"
  shows "wp (bnd (st_ListWorkloadsByDeployment E d) (\<lambda>ws. seq (when_so b (scale_down E d dep ws)) (report_status E dep ph))) Q s"
  unfolding wp_bnd
proof (rule wp_list_replicas [OF E], goal_cases)
  case 1
  then show ?case using s by (simp add: counted_def)
next
  case (2 ws t)
  have ct: "counted E d t" and rt: "replicas E d t = replicas E d s" using s 2(1) by (simp_all add: counted_def)
  have "wp (when_so b (scale_down E d dep ws)) (\<lambda>r t. counted E d t \<and>
      min (int (replicas E d s)) (min_available dep) \<le> int (replicas E d t) \<and> replicas E d t \<le> replicas E d s) t"
    using wp_scale_down [OF E ct, of ws dep] 2 n lo R rt ct by (simp add: when_so_def wp_ret)
  then show ?case
    unfolding sum.case wp_seq
  proof (rule wp_conseq, goal_cases)
    case (1 r u)
    then show ?case using Q
      by (cases r) (auto intro!: wp_conseq [OF stays_wp [OF steady_report_status [OF E, of d]]] simp: shifts_def)
  qed
next
  case (3 e t)
  then show ?case using Q by simp
qed

lemma wp_place_replicas:
  assumes E: "env_ok E" and wf: "store_wf (contents E s)" and d: "d_ID dep = d" and n: "int (replicas E d s) < 2 ^ 63"
    and lo: "0 \<le> min_available dep" "min_available dep \<le> sp_Replicas (d_Spec dep)"
    and hi: "sp_Replicas (d_Spec dep) \<le> max_total dep" "max_total dep < 2 ^ 63"
  shows "wp (place_replicas E d dep) (\<lambda>r t. rollout_bounds dep (int (replicas E d s)) (int (replicas E d t))) s"
    (is "wp _ ?Q s")
  unfolding place_replicas_def Let_def wp_bnd
proof (rule wp_list_replicas [OF E wf], goal_cases)
  case (1 ws t)
  have s: "counted E d t" and rt: "replicas E d t = replicas E d s" using 1(1,2) by (simp_all add: counted_def)
  define k where "k = nat (max 0 (max_total dep - int (replicas E d s)))"
  have "nat (to_create dep ws) \<le> k"
    using to_create_bound [of ws dep] 1(3) n lo hi unfolding k_def by (intro nat_mono) simp
  then have create: "stays (shifts E d 0 k) (attempt (times (nat (to_create dep ws)) (createWorkloadForDeployment E dep)))"
    using shifts_create_all [OF E, of "to_create dep ws" k dep] d by simp
  show ?case
    unfolding sum.case
  proof (rule wp_conseq [OF stays_wp [OF create]], goal_cases)
    case (1 r u)
    then have u: "counted E d u" "replicas E d s \<le> replicas E d u" "replicas E d u \<le> replicas E d s + k"
      using s rt by (auto simp: shifts_def)
    have k: "int (replicas E d s + k) \<le> max (int (replicas E d s)) (max_total dep)" by (simp add: k_def)
    have Qu: "?Q r u" for r using u k by (auto simp: rollout_bounds_def)
    have nu: "int (replicas E d u) < 2 ^ 63" using u k n hi by linarith
    have "wp (create_failed E dep ph e) ?Q u" for ph e
      by (rule wp_conseq [OF stays_wp [OF steady_create_failed [OF E, of d]]]) (use u Qu in \<open>auto simp: shifts_def\<close>)
    moreover have "wp (bnd (st_ListWorkloadsByDeployment E d) (\<lambda>ws. seq (when_so b (scale_down E d dep ws)) (report_status E dep ph))) ?Q u" for b ph
      by (rule wp_place_finish [OF E u(1) nu lo]) (use u k lo hi in \<open>auto simp: rollout_bounds_def\<close>)
    ultimately show ?case using Qu by (auto split: sum.splits)
  qed
next
  case (2 e t)
  then show ?case by (simp add: rollout_bounds_def)
qed

lemma iadd_wrap:
  assumes "0 \<le> a" "a < 2 ^ 63" "0 \<le> b" "b < 2 ^ 63"
  shows "iadd a b = (if a + b < 2 ^ 63 then a + b else a + b - 2 ^ 64)"
proof (cases "a + b < 2 ^ 63")
  case False
  have "(a + b + 2 ^ 63) mod 2 ^ 64 = (a + b + 2 ^ 63 - 2 ^ 64) mod 2 ^ 64" by (rule minus_mod_self2 [symmetric])
  also have "\<dots> = a + b + 2 ^ 63 - 2 ^ 64" using assms False by (intro mod_pos_pos_trivial) simp_all
  finally show ?thesis using False by (simp add: iadd_def i64_def)
qed (use assms in \<open>simp add: iadd_id in64_def\<close>)

lemma prepare_spec:
  "sp_Replicas (d_Spec (prepare dep)) = sp_Replicas (d_Spec dep)"
  "sp_Rollout (d_Spec (prepare dep)) = normalizeRolloutSpec (sp_Rollout (d_Spec dep))"
  by (simp_all add: prepare_def normalize_spec_def Let_def)

lemma prepared_bounds:
  assumes "0 \<le> sp_Replicas (d_Spec dep)" and "sp_Replicas (d_Spec dep) < 2 ^ 63"
    and "ru = ro_RollingUpdate (normalizeRolloutSpec (sp_Rollout (d_Spec dep)))"
    and "MaxSurge ru < 2 ^ 63" and "MaxUnavailable ru < 2 ^ 63"
  shows "0 \<le> min_available (prepare dep)" and "min_available (prepare dep) \<le> sp_Replicas (d_Spec (prepare dep))"
    and "sp_Replicas (d_Spec dep) - MaxUnavailable ru \<le> min_available (prepare dep)"
    and "sp_Replicas (d_Spec (prepare dep)) \<le> max_total (prepare dep)" and "max_total (prepare dep) < 2 ^ 63"
    and "max_total (prepare dep) \<le> sp_Replicas (d_Spec dep) + MaxSurge ru"
proof -
  have nonneg: "0 \<le> MaxSurge ru" "0 \<le> MaxUnavailable ru"
    using normalize_wf [of "sp_Rollout (d_Spec dep)"] assms(3) by (simp_all add: rollout_wf_def)
  have sub: "isub (sp_Replicas (d_Spec dep)) (MaxUnavailable ru) = sp_Replicas (d_Spec dep) - MaxUnavailable ru"
    using assms nonneg by (intro isub_id) (simp add: in64_def)
  show "0 \<le> min_available (prepare dep)" "min_available (prepare dep) \<le> sp_Replicas (d_Spec (prepare dep))"
    "sp_Replicas (d_Spec dep) - MaxUnavailable ru \<le> min_available (prepare dep)"
    using assms(1) nonneg by (simp_all add: min_available_def prepare_spec assms(3) [symmetric] sub Let_def)
  have add: "iadd (sp_Replicas (d_Spec dep)) (MaxSurge ru) =
      (if sp_Replicas (d_Spec dep) + MaxSurge ru < 2 ^ 63 then sp_Replicas (d_Spec dep) + MaxSurge ru
       else sp_Replicas (d_Spec dep) + MaxSurge ru - 2 ^ 64)"
    using assms nonneg by (intro iadd_wrap) simp_all
  show "sp_Replicas (d_Spec (prepare dep)) \<le> max_total (prepare dep)" "max_total (prepare dep) < 2 ^ 63"
    "max_total (prepare dep) \<le> sp_Replicas (d_Spec dep) + MaxSurge ru"
    using assms nonneg by (auto simp: max_total_def prepare_spec assms(3) [symmetric] add Let_def)
qed

lemma wp_reconcileDeployment:
  assumes E: "env_ok E" and wf: "store_wf (contents E s)" and st: "stored_deployment (contents E s) d = Some dep"
    and P: "\<And>r t u. contents E t = contents E u \<Longrightarrow> P r t \<Longrightarrow> P r u"
    and err: "\<And>e t. contents E t = contents E s \<Longrightarrow> P (Inl e) t"
    and late: "\<And>t. contents E t = contents E s \<Longrightarrow> wp (fail_deadline E (prepare dep)) P t"
    and place: "\<And>t. contents E t = contents E s \<Longrightarrow> wp (place_replicas E d (prepare dep)) P t"
  shows "wp (reconcileDeployment E d) P s"
proof (cases "o_mu s")
  case True
  then show ?thesis by (simp add: reconcileDeployment_def wp_with_mu err)
next
  case False
  let ?P = "\<lambda>r t. P r (t\<lparr>o_mu := False\<rparr>)"
  have PP: "wp m ?P t" if "wp m P t" for m :: "('a, unit) orch" and t
    by (rule wp_conseq [OF that]) (rule P, simp_all)
  have check: "wp (bnd (deadline_exceeded E (prepare dep)) (\<lambda>l. if l then fail_deadline E (prepare dep)
      else place_replicas E d (prepare dep))) ?P t" if "contents E t = contents E s" for t
    unfolding deadline_exceeded_def Let_def go_laws
    by (intro wp_ifI wp_bnd_now PP late place) (simp_all add: that)
  show ?thesis
    unfolding reconcileDeployment_def wp_with_mu if_not_P [OF False] Let_def wp_bnd
  proof (rule wp_GetDeployment [OF E], goal_cases wf found missing err)
    case (found x t)
    have "x = dep" and "contents E t = contents E s" using found st by (simp_all add: stored_deployment_def)
    then show ?case using check [unfolded wp_bnd] by simp
  qed (use wf err in auto)
qed

text \<open>
  (C1) Rolling update: one reconciliation of a deployment, whatever it returns and whichever database
  operations fail in the middle of it, never leaves fewer running or pending replicas than the
  configured replicas minus \<^verbatim>\<open>maxUnavailable\<close> (or than there were, if there were fewer), and never more
  than the replicas plus \<^verbatim>\<open>maxSurge\<close> (or than there were, if there were more). Pending replicas count
  here as they do in the source; nothing is said of the running ones alone.
\<close>

theorem rolling_update_safe:
  assumes "env_ok E" and "store_wf (contents E s)" and "stored_deployment (contents E s) d = Some dep"
    and "0 \<le> sp_Replicas (d_Spec dep)" and "sp_Replicas (d_Spec dep) < 2 ^ 63"
    and "ru = ro_RollingUpdate (normalizeRolloutSpec (sp_Rollout (d_Spec dep)))"
    and "MaxSurge ru < 2 ^ 63" and "MaxUnavailable ru < 2 ^ 63" and "int (replicas E d s) < 2 ^ 63"
  shows "wp (reconcileDeployment E d) (\<lambda>r t.
    min (int (replicas E d s)) (sp_Replicas (d_Spec dep) - MaxUnavailable ru) \<le> int (replicas E d t) \<and>
    int (replicas E d t) \<le> max (int (replicas E d s)) (sp_Replicas (d_Spec dep) + MaxSurge ru)) s"
    (is "wp _ ?Q s")
proof (rule wp_reconcileDeployment [OF assms(1-3)])
  have id: "d_ID (prepare dep) = d" using assms(2,3) dp.wf_view_key by (simp add: stored_deployment_def)
  note b = prepared_bounds [OF assms(4-8)]
  show "wp (fail_deadline E (prepare dep)) ?Q t" if "contents E t = contents E s" for t
    using stays_wp [OF ev_fail_deadline [OF assms(1), of "prepare dep"], of t] that
    by (auto elim!: wp_conseq dest!: active_ids_evolves [where d = d])
  show "wp (place_replicas E d (prepare dep)) ?Q t" if "contents E t = contents E s" for t
    by (rule wp_conseq [OF wp_place_replicas [OF assms(1) _ id _ b(1,2,4,5)]])
      (use that assms(2,9) b(3,6) in \<open>auto simp: rollout_bounds_def\<close>)
qed simp_all

definition demo_replica :: Workload where
  "demo_replica = zero_Workload\<lparr>w_ID := ''wk-1'', w_DeploymentID := ''dep-1'', w_Status := WorkloadRunning\<rparr>"

definition demo_rollout :: "memdb world" where
  "demo_rollout = NewOrchestrator (stored [JDeployment demo_web, JWorkload demo_replica])"

lemma demo_rollout_stored: "stored_deployment (contents demo_oenv demo_rollout) ''dep-1'' = Some demo_web"
  by (simp add: demo_rollout_def stored_deployment_def view_def stored_def key_defs demo_web_def
      un_Deployment_def zero_Deployment_def)

lemma demo_rollout_replicas: "active_ids (contents demo_oenv demo_rollout) ''dep-1'' = {''wk-1''}"
  by (auto simp: active_ids_def demo_rollout_def stored_def key_defs demo_replica_def is_active_def
      zero_Workload_def split: if_splits)

theorem rolling_update_safe_witness:
  "wp (reconcileDeployment demo_oenv ''dep-1'') (\<lambda>r t. 1 \<le> replicas demo_oenv ''dep-1'' t \<and>
     replicas demo_oenv ''dep-1'' t \<le> 3) demo_rollout"
proof -
  have wf: "store_wf (contents demo_oenv demo_rollout)" unfolding demo_rollout_def by (rule stored_wf)
  have ru: "\<lparr>MaxUnavailable = 0, MaxSurge = 0\<rparr> = ro_RollingUpdate (normalizeRolloutSpec (sp_Rollout (d_Spec demo_web)))"
    by (simp add: demo_web_simps demo_spec_def normalize_fix [OF normalize_wf])
      (simp add: normalizeRolloutSpec_def Let_def zero_RolloutSpec_def zero_RollingUpdateSpec_def)
  have R: "sp_Replicas (d_Spec demo_web) = 3" by (simp add: demo_web_simps demo_spec_def)
  from rolling_update_safe [OF demo_oenv_ok wf demo_rollout_stored _ _ ru] show ?thesis
    by (rule wp_conseq) (auto simp: R demo_rollout_replicas)
qed

text \<open>
  Because pending replicas count as available, a rolling update with \<^verbatim>\<open>maxUnavailable = 0\<close> stops the only
  running replica while its replacement is still pending.
\<close>

definition demo_surge :: Deployment where
  "demo_surge = demo_web\<lparr>d_CurrentRevision := 2, d_Spec := demo_spec\<lparr>sp_Replicas := 1,
     sp_Rollout := (sp_Rollout demo_spec)\<lparr>ro_RollingUpdate := \<lparr>MaxUnavailable = 0, MaxSurge = 1\<rparr>\<rparr>\<rparr>\<rparr>"

definition demo_old :: Workload where
  "demo_old = demo_replica\<lparr>w_ID := ''old'', w_Version := 1\<rparr>"

definition demo_new :: Workload where
  "demo_new = demo_replica\<lparr>w_ID := ''new'', w_Version := 2, w_Status := WorkloadPending\<rparr>"

lemma pending_counts_as_available: "scale_down_old E demo_surge [demo_old, demo_new] = for_each [demo_old] (enqueueDeleteForWorkload E demo_surge)"
proof -
  have old: "oldRevisionWorkloads (activeWorkloads [demo_old, demo_new]) (d_CurrentRevision demo_surge) = [demo_old]" by code_simp
  have budget: "isub (int (length (activeWorkloads [demo_old, demo_new]))) (min_available demo_surge) = 1" by code_simp
  have victims: "pickScaleDownVictims [demo_old] (minInt (int (length [demo_old])) 1) = [demo_old]" by code_simp
  show ?thesis unfolding scale_down_old_def Let_def old budget victims by (simp add: when_so_def)
qed

section \<open>When nothing is created or deleted\<close>

definition status_write :: "string \<Rightarrow> blob option \<Rightarrow> bool" where
  "status_write k v \<longleftrightarrow> own_key k v \<and> \<not> prefix ''workload:'' k \<and> \<not> prefix ''assignment:'' k"

lemma status_write_simps [simp]:
  "status_write (keyDeployment i) (Some (JDeployment d)) \<longleftrightarrow> d_ID d = i"
  "status_write (keyEvent t i) (Some (JEvent ev)) \<longleftrightarrow> keyEvent (ev_Timestamp ev) (ev_ID ev) = keyEvent t i"
  by (auto simp: status_write_def keyDeployment_def keyEvent_def)

definition placement_kept :: "(string \<Rightarrow> blob option) \<Rightarrow> (string \<Rightarrow> blob option) \<Rightarrow> bool" where
  "placement_kept m n \<longleftrightarrow> (\<forall>k. prefix ''workload:'' k \<or> prefix ''assignment:'' k \<longrightarrow> n k = m k)"

lemma placement_kept_evolves: "evolves E status_write s t \<Longrightarrow> placement_kept (contents E s) (contents E t)"
  unfolding placement_kept_def by (intro allI impI, erule evolves_outside) (auto simp: status_write_def)

lemma ev_report_status: "env_ok E \<Longrightarrow> stays (evolves E status_write) (report_status E dep ph)"
  unfolding report_status_def mark_stable_def mark_progress_def activeWorkloadsAfterRefresh_def Let_def
  by (intro ev_all) simp_all

lemma ev_fail_deadline_status: "env_ok E \<Longrightarrow> stays (evolves E status_write) (fail_deadline E dep)"
  unfolding fail_deadline_def Let_def by (intro ev_all ev_rollbackDeploymentLocked) simp_all

text \<open>The list of workloads leaves nothing to create and nothing to delete.\<close>

definition settled :: "Deployment \<Rightarrow> Workload list \<Rightarrow> bool" where
  "settled dep ws \<longleftrightarrow> int (length (activeWorkloads ws)) = sp_Replicas (d_Spec dep) \<and>
     ((\<forall>w \<in> set (activeWorkloads ws). w_Version w = d_CurrentRevision dep) \<or>
      MaxSurge (ro_RollingUpdate (sp_Rollout (d_Spec dep))) = 0 \<and>
      MaxUnavailable (ro_RollingUpdate (sp_Rollout (d_Spec dep))) = 0)"

lemma settled_old: "\<forall>w \<in> set ws. w_Version w = v \<Longrightarrow> oldRevisionWorkloads ws v = [] \<and> activeForRevision ws v = ws"
  by (simp add: oldRevisionWorkloads_def activeForRevision_def filter_empty_conv)

lemma isub_self [simp]: "isub x x = 0"
  by (simp add: isub_id in64_def)

lemma settled_create:
  assumes "settled dep ws" and "sp_Replicas (d_Spec dep) < 2 ^ 63"
  shows "to_create dep ws \<le> 0"
proof -
  have n: "int (length (activeWorkloads ws)) = sp_Replicas (d_Spec dep)" using assms(1) by (simp add: settled_def)
  then have "iadd (sp_Replicas (d_Spec dep)) 0 = sp_Replicas (d_Spec dep)"
    using assms(2) by (simp add: iadd_id in64_def n [symmetric])
  then show ?thesis
    using assms(1) settled_old [of "activeWorkloads ws" "d_CurrentRevision dep"]
    by (auto simp: settled_def to_create_def rollout_target_def max_total_def n minInt_def Let_def)
qed

lemma settled_delete:
  assumes "settled dep ws" and "sp_Replicas (d_Spec dep) < 2 ^ 63"
  shows "scale_down_old E dep ws = ret ()" and "scale_down_excess E dep ws = ret ()"
proof -
  have n: "int (length (activeWorkloads ws)) = sp_Replicas (d_Spec dep)" using assms(1) by (simp add: settled_def)
  then have "isub (sp_Replicas (d_Spec dep)) 0 = sp_Replicas (d_Spec dep)"
    using assms(2) by (simp add: isub_id in64_def n [symmetric])
  then show "scale_down_old E dep ws = ret ()"
    using assms(1) settled_old [of "activeWorkloads ws" "d_CurrentRevision dep"]
    by (auto simp: settled_def scale_down_old_def min_available_def n minInt_def pickScaleDownVictims_def when_so_def Let_def)
  show "scale_down_excess E dep ws = ret ()"
    by (simp add: scale_down_excess_def n when_so_def Let_def)
qed

lemma wp_place_settled:
  assumes E: "env_ok E" and wf: "store_wf (contents E s)" and R: "sp_Replicas (d_Spec dep) < 2 ^ 63"
    and settled: "\<And>ws. distinct (map w_ID ws) \<Longrightarrow>
      set ws = {w. contents E s (keyWorkload (w_ID w)) = Some (JWorkload w) \<and> w_DeploymentID w = d} \<Longrightarrow> settled dep ws"
  shows "wp (place_replicas E d dep) (\<lambda>r t. placement_kept (contents E s) (contents E t)) s" (is "wp _ ?Q s")
proof -
  have Q: "?Q r t" if "contents E t = contents E s" for r t using that by (simp add: placement_kept_def)
  have list: "wp (bnd (st_ListWorkloadsByDeployment E d) f) ?Q t"
    if t: "contents E t = contents E s" and f: "\<And>ws u. settled dep ws \<Longrightarrow> contents E u = contents E s \<Longrightarrow> wp (f ws) ?Q u"
    for f :: "_ \<Rightarrow> ('a, unit) orch" and t
    unfolding wp_bnd
    by (rule wp_ListWorkloadsByDeployment [OF E]) (use t wf Q f settled in auto)
  have report: "wp (report_status E dep ph) ?Q t" if "contents E t = contents E s" for ph t
    by (rule wp_conseq [OF stays_wp [OF ev_report_status [OF E]]]) (use that in \<open>auto dest: placement_kept_evolves\<close>)
  show ?thesis
    unfolding place_replicas_def Let_def
  proof (rule list [OF HOL.refl], goal_cases)
    case (1 ws u)
    have "attempt (times (nat (to_create dep ws)) (createWorkloadForDeployment E dep)) = ret (Inr ())"
      using settled_create [OF 1(1) R] by (simp add: attempt_def ret_def fun_eq_iff)
    then show ?case
      using 1(2) by (auto simp: scale_down_def settled_delete [OF _ R] when_so_def seq_def bnd_assoc intro!: list report)
  qed
qed

text \<open>
  (C10) A deployment whose active replicas are as many as configured and all of the current revision
  is left alone: its reconciliation touches no workload and enqueues no assignment, for every strategy
  and whichever database operations fail.
\<close>

theorem reconcile_settled:
  assumes "env_ok E" and "store_wf (contents E s)" and "stored_deployment (contents E s) d = Some dep"
    and "0 < d_CurrentRevision dep" and "sp_Replicas (d_Spec dep) < 2 ^ 63"
    and "int (replicas E d s) = sp_Replicas (d_Spec dep)"
    and "\<And>w. contents E s (keyWorkload (w_ID w)) = Some (JWorkload w) \<Longrightarrow> w_DeploymentID w = d \<Longrightarrow> is_active w \<Longrightarrow>
      w_Version w = d_CurrentRevision dep"
  shows "wp (reconcileDeployment E d) (\<lambda>r t. placement_kept (contents E s) (contents E t)) s"
    (is "wp _ ?Q s")
proof (rule wp_reconcileDeployment [OF assms(1-3)])
  show "wp (fail_deadline E (prepare dep)) ?Q t" if "contents E t = contents E s" for t
    using stays_wp [OF ev_fail_deadline_status [OF assms(1), of "prepare dep"], of t] that
    by (auto elim!: wp_conseq dest!: placement_kept_evolves)
  show "wp (place_replicas E d (prepare dep)) ?Q t" if t: "contents E t = contents E s" for t
    unfolding t [symmetric]
  proof (rule wp_place_settled [OF assms(1)], goal_cases)
    case (3 ws)
    then show ?case using listed_active(2) [of E t ws d] assms(2,4,6,7) t
      by (auto simp: settled_def prepare_spec activeWorkloads_def prepare_def normalize_spec_def Let_def)
  qed (use t assms in \<open>simp_all add: prepare_spec\<close>)
qed (simp_all add: placement_kept_def)

definition demo_settled :: "memdb world" where
  "demo_settled = NewOrchestrator (stored [JDeployment (demo_web\<lparr>d_Spec := demo_spec\<lparr>sp_Replicas := 1\<rparr>\<rparr>),
     JWorkload (demo_replica\<lparr>w_Version := 1\<rparr>)])"

lemma demo_settled_replica:
  "contents demo_oenv demo_settled (keyWorkload i) = Some (JWorkload w) \<longleftrightarrow> i = ''wk-1'' \<and> w = demo_replica\<lparr>w_Version := 1\<rparr>"
  by (auto simp: demo_settled_def stored_def key_defs demo_replica_def)

theorem reconcile_settled_witness:
  "wp (reconcileDeployment demo_oenv ''dep-1'')
     (\<lambda>r t. contents demo_oenv t (keyWorkload ''wk-1'') = Some (JWorkload (demo_replica\<lparr>w_Version := 1\<rparr>))) demo_settled"
proof -
  have wf: "store_wf (contents demo_oenv demo_settled)" unfolding demo_settled_def by (rule stored_wf)
  have st: "stored_deployment (contents demo_oenv demo_settled) ''dep-1'' =
      Some (demo_web\<lparr>d_Spec := demo_spec\<lparr>sp_Replicas := 1\<rparr>\<rparr>)"
    by (simp add: demo_settled_def stored_deployment_def view_def stored_def key_defs demo_web_def
        un_Deployment_def zero_Deployment_def)
  have "active_ids (contents demo_oenv demo_settled) ''dep-1'' = {''wk-1''}"
    by (auto simp: active_ids_def demo_settled_replica demo_replica_def is_active_def)
  then have "wp (reconcileDeployment demo_oenv ''dep-1'')
      (\<lambda>r t. placement_kept (contents demo_oenv demo_settled) (contents demo_oenv t)) demo_settled"
    by (intro reconcile_settled [OF demo_oenv_ok wf st])
      (auto simp: demo_settled_replica demo_web_simps demo_replica_def)
  then show ?thesis
    by (rule wp_conseq) (use demo_settled_replica [of "''wk-1''"] in \<open>simp add: placement_kept_def keyWorkload_def\<close>)
qed

text \<open>
  With the default settings (no surge and nothing unavailable) the replicas of an old revision are
  never replaced: the reconciliation after an update touches no workload, so the update never takes
  effect.
\<close>

lemma rollout_without_slack_stuck:
  assumes "env_ok E" and "store_wf (contents E s)" and "stored_deployment (contents E s) d = Some dep"
    and "sp_Replicas (d_Spec dep) < 2 ^ 63" and "int (replicas E d s) = sp_Replicas (d_Spec dep)"
    and "ro_RollingUpdate (sp_Rollout (d_Spec dep)) = zero_RollingUpdateSpec"
  shows "wp (reconcileDeployment E d) (\<lambda>r t. placement_kept (contents E s) (contents E t)) s"
    (is "wp _ ?Q s")
proof (rule wp_reconcileDeployment [OF assms(1-3)])
  show "wp (fail_deadline E (prepare dep)) ?Q t" if "contents E t = contents E s" for t
    using stays_wp [OF ev_fail_deadline_status [OF assms(1), of "prepare dep"], of t] that
    by (auto elim!: wp_conseq dest!: placement_kept_evolves)
  show "wp (place_replicas E d (prepare dep)) ?Q t" if t: "contents E t = contents E s" for t
    unfolding t [symmetric]
  proof (rule wp_place_settled [OF assms(1)], goal_cases)
    case (3 ws)
    then show ?case using listed_active(2) [of E t ws d] assms(2,5,6) t
      by (simp add: settled_def prepare_spec normalize_surge_unavailable zero_RollingUpdateSpec_def)
  qed (use t assms in \<open>simp_all add: prepare_spec\<close>)
qed (simp_all add: placement_kept_def)

end
