(* ===== verification/Rollout_Status.thy ===== *)
theory Rollout_Status
  imports Rollout_Safety
begin

text \<open>
  What the status that \<^verbatim>\<open>reconcileDeployment\<close> writes says about the workloads: the phase
  \<^verbatim>\<open>Stable\<close> is reported only when every active replica is of the current revision and enough of
  them run.
\<close>

section \<open>Readiness\<close>

definition running_ids :: "(string \<Rightarrow> blob option) \<Rightarrow> string \<Rightarrow> string set" where
  "running_ids m d = {i. \<exists>w. m (keyWorkload i) = Some (JWorkload w) \<and> w_DeploymentID w = d \<and> w_Status w = WorkloadRunning}"

definition rolled_out :: "(string \<Rightarrow> blob option) \<Rightarrow> Deployment \<Rightarrow> bool" where
  "rolled_out m dep \<longleftrightarrow>
     (\<forall>i w. m (keyWorkload i) = Some (JWorkload w) \<and> w_DeploymentID w = d_ID dep \<and> is_active w \<longrightarrow>
        w_Version w = d_CurrentRevision dep) \<and>
     sp_Replicas (d_Spec dep) \<le> int (card (running_ids m (d_ID dep)))"

lemma listed_running:
  assumes wf: "store_wf m" and ws: "distinct (map w_ID ws)"
    "set ws = {w. m (keyWorkload (w_ID w)) = Some (JWorkload w) \<and> w_DeploymentID w = d}"
  shows "runningCountFromSlice (activeWorkloads ws) = int (card (running_ids m d))"
proof -
  let ?r = "filter (\<lambda>w. w_Status w = WorkloadRunning) ws"
  have "filter (\<lambda>w. w_Status w = WorkloadRunning) (activeWorkloads ws) = ?r"
    by (auto simp: activeWorkloads_def is_active_def intro: filter_cong)
  moreover have "running_ids m d = w_ID ` set ?r"
    using wl.wf_view [OF wf] wl.wf_view_key [OF wf] ws(2) by (fastforce simp: running_ids_def keyWorkload_def)
  moreover have "distinct (map w_ID ?r)" using ws(1) by (simp add: distinct_map_filter)
  ultimately show ?thesis by (simp add: runningCountFromSlice_def card_image distinct_map distinct_card del: set_filter)
qed

lemma listed_current:
  assumes wf: "store_wf m" and ws: "set ws = {w. m (keyWorkload (w_ID w)) = Some (JWorkload w) \<and> w_DeploymentID w = d}"
    and old: "oldRevisionWorkloads (activeWorkloads ws) v = []"
    and w: "m (keyWorkload i) = Some (JWorkload w)" "w_DeploymentID w = d" "is_active w"
  shows "w_Version w = v"
proof -
  have "w_ID w = i" using wl.wf_view [OF wf, of i w] wl.wf_view_key [OF wf] w(1) by (simp add: keyWorkload_def)
  then have "w \<in> set ws" using ws w by simp
  then show ?thesis using old w(3) by (auto simp: oldRevisionWorkloads_def activeWorkloads_def filter_empty_conv)
qed

section \<open>The reported phase\<close>

definition reports :: "Deployment \<Rightarrow> (string \<Rightarrow> bool) \<Rightarrow> Deployment \<Rightarrow> bool" where
  "reports dep P d \<longleftrightarrow> d_ID d = d_ID dep \<and> d_Spec d = d_Spec dep \<and> d_CurrentRevision d = d_CurrentRevision dep \<and>
     P (rs_Phase (d_RolloutStatus d))"

lemma reports_simps [simp]:
  "reports dep P (put_condition ty st re msg t d) = reports dep P d"
  "reports dep P (rollout_touched t d) = reports dep P d"
  "reports dep P (d\<lparr>d_UpdatedAt := t\<rparr>) = reports dep P d"
  "reports dep P (d\<lparr>d_Status := ds\<rparr>) = reports dep P d"
  "reports dep P (rollout_phase ph msg d) \<longleftrightarrow> d_ID d = d_ID dep \<and> d_Spec d = d_Spec dep \<and> d_CurrentRevision d = d_CurrentRevision dep \<and> P ph"
  by (simp_all add: reports_def put_condition_def rollout_touched_def rollout_phase_def)

lemma gives_condition: "reports dep P d \<Longrightarrow> gives (reports dep P) (now_condition E ty st re msg d)"
  unfolding now_condition_def by (intro gives_bnd [OF gives_any] gives_ret) simp

lemma gives_bnd_condition:
  "(\<And>d'. reports dep P d' \<Longrightarrow> gives R (f d')) \<Longrightarrow> reports dep P d \<Longrightarrow> gives R (bnd (now_condition E ty st re msg d) f)"
  by (rule gives_bnd [OF gives_condition])

lemma put_condition_rollout [simp]:
  "d_RolloutStatus (put_condition ty st re msg t d) = d_RolloutStatus d"
  "d_CurrentRevision (put_condition ty st re msg t d) = d_CurrentRevision d"
  by (simp_all add: put_condition_def)

lemma reports_mark_stable: "P ''Stable'' \<Longrightarrow> gives (reports dep P) (mark_stable E dep)"
  unfolding mark_stable_def
  by (intro gives_bnd_condition gives_condition) (assumption | simp)+

lemma reports_mark_progress:
  assumes "P ph" and "r \<ge> sp_Replicas (d_Spec dep) \<Longrightarrow> old = 0 \<Longrightarrow> P ''Stable''"
  shows "gives (reports dep P) (mark_progress E dep ph u r un old)"
proof (cases "r \<ge> sp_Replicas (d_Spec dep) \<and> old = 0")
  case True
  then show ?thesis using assms
    unfolding mark_progress_def Let_def
    by (intro gives_bnd_condition [where P = "\<lambda>_. True"]) (auto simp: reports_def rollout_phase_def intro!: gives_bnd_condition gives_condition)
next
  case False
  then show ?thesis using assms(1)
    unfolding mark_progress_def Let_def
    by (intro gives_bnd_condition [where P = P]) (auto simp: rollout_phase_def reports_def intro!: gives_ret)
qed

section \<open>What is stored\<close>

lemma wp_emit_store:
  assumes E: "env_total E"
    and Q: "\<And>t. stored_deployment (contents E t) (d_ID d) = Some (json_Deployment d) \<Longrightarrow>
      (\<And>k. k \<noteq> keyDeployment (d_ID d) \<Longrightarrow> \<not> prefix ''event:'' k \<Longrightarrow> contents E t k = contents E s k) \<Longrightarrow> Q (Inr ()) t"
  shows "wp (seq (ignore (emitEvent E e)) (st_UpdateDeployment E d)) Q s"
  unfolding wp_seq
proof (rule wp_emit [OF env_total_ok [OF E]], unfold sum.case, rule wp_UpdateDeployment_store [OF E])
  fix t u :: "'a world"
  assume t: "upto_events (contents E s) (contents E t)"
    and u: "contents E u = (contents E t)(keyDeployment (d_ID d) \<mapsto> JDeployment (json_Deployment d))"
  show "Q (Inr ()) u" by (rule Q) (use t u in \<open>simp_all add: stored_after_put upto_events_def\<close>)
qed

lemma wp_try_store_emit:
  assumes E: "env_total E"
    and Q: "\<And>t. stored_deployment (contents E t) (d_ID d) = Some (json_Deployment d) \<Longrightarrow>
      (\<And>k. k \<noteq> keyDeployment (d_ID d) \<Longrightarrow> \<not> prefix ''event:'' k \<Longrightarrow> contents E t k = contents E s k) \<Longrightarrow> Q (Inr ()) t"
  shows "wp (seq (ignore (st_UpdateDeployment E d)) (ignore (emitEvent E e))) Q s"
  unfolding wp_seq wp_ignore [where m = "st_UpdateDeployment E d"]
proof (rule wp_UpdateDeployment_store [OF E], unfold sum.case, rule wp_emit [OF env_total_ok [OF E]])
  fix t u :: "'a world"
  assume t: "contents E t = (contents E s)(keyDeployment (d_ID d) \<mapsto> JDeployment (json_Deployment d))"
    and u: "upto_events (contents E t) (contents E u)"
  show "Q (Inr ()) u" by (rule Q) (use t u in \<open>simp_all add: stored_after_put upto_events_def stored_upto_events [OF u]\<close>)
qed

definition status_ok :: "'db oenv \<Rightarrow> string \<Rightarrow> 'db world \<Rightarrow> bool" where
  "status_ok E i t \<longleftrightarrow> (\<exists>d. stored_deployment (contents E t) i = Some d \<and>
     (rs_Phase (d_RolloutStatus d) = ''Stable'' \<longrightarrow> rolled_out (contents E t) d))"

lemma rolled_out_cong:
  "(\<And>k. prefix ''workload:'' k \<Longrightarrow> n k = m k) \<Longrightarrow> d_ID d' = d_ID d \<Longrightarrow> d_CurrentRevision d' = d_CurrentRevision d \<Longrightarrow>
   sp_Replicas (d_Spec d') = sp_Replicas (d_Spec d) \<Longrightarrow> rolled_out n d' = rolled_out m d"
  by (simp add: rolled_out_def running_ids_def keyWorkload_def)

text \<open>The end of every branch: a deployment with a known phase is stored.\<close>

lemma status_ok_after:
  assumes "stored_deployment (contents E t) (d_ID d) = Some (json_Deployment d)"
    and "\<And>k. k \<noteq> keyDeployment (d_ID d) \<Longrightarrow> \<not> prefix ''event:'' k \<Longrightarrow> contents E t k = contents E s k"
    and "reports dep P d" and "P ''Stable'' \<Longrightarrow> rolled_out (contents E s) dep"
  shows "status_ok E (d_ID dep) t"
proof -
  have "contents E t k = contents E s k" if "prefix ''workload:'' k" for k
    by (rule assms(2)) (use that in \<open>auto simp: keyDeployment_def prefix_def\<close>)
  then have "rolled_out (contents E t) (json_Deployment d) = rolled_out (contents E s) dep"
    using assms(3) by (intro rolled_out_cong) (simp_all add: reports_def)
  then show ?thesis using assms(1,3,4) by (auto simp: status_ok_def reports_def)
qed

lemma wp_conditions:
  assumes "\<And>t. contents E t = contents E s \<Longrightarrow> (\<And>d. wp (f d) Q t)"
  shows "wp (bnd (now_condition E ty st re msg d) f) Q s"
  unfolding now_condition_def go_laws by (rule wp_bnd_now) (rule assms)

lemma wp_condition:
  assumes "\<And>t d. contents E t = contents E s \<Longrightarrow> Q (Inr d) t"
  shows "wp (now_condition E ty st re msg d) Q s"
  unfolding now_condition_def by (rule wp_bnd_now) (simp add: wp_ret assms)

lemma wp_mark:
  "wp (if st then mark_stable E d else mark_progress E d ph a b c e)
     (\<lambda>r t. (\<exists>x. r = Inr x) \<and> contents E t = contents E s) s"
  unfolding mark_stable_def mark_progress_def Let_def
  by (intro wp_ifI wp_conditions wp_condition) (simp_all add: wp_ret)

section \<open>Every branch\<close>

lemma wp_report_status:
  assumes E: "env_total E" and wf: "store_wf (contents E s)" and ph: "ph \<noteq> ''Stable''"
    and R: "0 \<le> sp_Replicas (d_Spec dep)" "sp_Replicas (d_Spec dep) < 2 ^ 63"
  shows "wp (report_status E dep ph) (\<lambda>r t. status_ok E (d_ID dep) t) s"
  unfolding report_status_def activeWorkloadsAfterRefresh_def bnd_assoc bnd_ret Let_def
proof (subst wp_bnd, subst wp_attempt, rule wp_ListWorkloadsByDeployment [OF env_total_ok [OF E] wf], goal_cases)
  case (1 ws t)
  let ?P = "\<lambda>p. p = ''Stable'' \<longrightarrow> rolled_out (contents E s) dep"
  let ?a = "activeWorkloads ws"
  have run: "runningCountFromSlice ?a = int (card (running_ids (contents E s) (d_ID dep)))"
    by (rule listed_running [OF wf 1(3,4)])
  have sub: "sp_Replicas (d_Spec dep) \<le> runningCountFromSlice ?a"
    if "isub (sp_Replicas (d_Spec dep)) (runningCountFromSlice ?a) \<le> 0"
    using isub_id [of "sp_Replicas (d_Spec dep)" "runningCountFromSlice ?a"] that R run
    by (cases "runningCountFromSlice ?a < sp_Replicas (d_Spec dep)") (auto simp: in64_def)
  have good: "rolled_out (contents E s) dep"
    if "length (oldRevisionWorkloads ?a (d_CurrentRevision dep)) = 0" "sp_Replicas (d_Spec dep) \<le> runningCountFromSlice ?a"
    using that listed_current [OF wf 1(4)] by (auto simp: rolled_out_def run)
  show ?case
    unfolding sum.case
  proof (rule wp_bnd_gives [where P = "reports dep ?P" and R = "\<lambda>u. contents E u = contents E s"], goal_cases given run rest)
    case given
    show ?case
      by (intro gives_if reports_mark_stable reports_mark_progress) (use good ph sub in \<open>auto split: if_splits\<close>)
  next
    case run
    show ?case by (rule wp_conseq [OF wp_mark]) (use 1(1) in auto)
  next
    case (rest d u)
    show ?case
      by (intro wp_bnd_now wp_emit_store [OF E], erule status_ok_after [where P = ?P and s = s])
        (use rest in \<open>simp_all add: reports_def rollout_touched_def\<close>)
  qed
qed (use E in simp)

lemma wp_create_failed:
  assumes E: "env_total E" and ph: "ph \<noteq> ''Stable''"
  shows "wp (create_failed E dep ph e) (\<lambda>r t. status_ok E (d_ID dep) t) s"
  unfolding create_failed_def Let_def
proof (rule wp_bnd_gives [where P = "reports dep (\<lambda>_. True)" and R = "\<lambda>_. True"], goal_cases)
  case (3 d t)
  show ?case
  proof (rule wp_bnd_gives [where P = "reports dep (\<lambda>_. True)" and R = "\<lambda>_. True"], goal_cases)
    case (3 d' t')
    show ?case
      by (intro wp_bnd_now wp_try_store_emit [OF E], erule status_ok_after [where P = "\<lambda>p. p \<noteq> ''Stable''" and s = t'])
        (use 3(1) ph in \<open>simp_all add: reports_def rollout_touched_def rollout_phase_def\<close>)
  qed (use 3 in \<open>auto intro!: gives_condition wp_condition\<close>)
qed (auto simp: reports_def intro!: gives_condition wp_condition)

lemma status_ok_not_stable:
  "stored_deployment (contents E t) (d_ID d) = Some (json_Deployment d) \<Longrightarrow> d_ID d = i \<Longrightarrow>
   rs_Phase (d_RolloutStatus d) \<noteq> ''Stable'' \<Longrightarrow> status_ok E i t"
  by (auto simp: status_ok_def)

definition failing :: "string \<Rightarrow> Deployment \<Rightarrow> bool" where
  "failing i d \<longleftrightarrow> d_ID d = i \<and> rs_Phase (d_RolloutStatus d) \<noteq> ''Stable''"

lemma gives_failing: "failing i d \<Longrightarrow> gives (failing i) (now_condition E ty st re msg d)"
  unfolding now_condition_def by (intro gives_bnd [OF gives_any] gives_ret) (simp add: failing_def)

lemma gives_rollback_failing:
  "failing i d \<Longrightarrow> gives (\<lambda>(ok, d). failing i d) (rollbackDeploymentLocked E d n msg)"
  unfolding rollbackDeploymentLocked_def Let_def
  by (cases "find_revision (d_RevisionHistory d) n")
    (auto simp: failing_def set_rollout_def append_revision_def Let_def intro!: gives_bnd [OF gives_any] gives_ret)

lemma wp_rollbackLocked: "wp (rollbackDeploymentLocked E d n msg) (\<lambda>r t. (\<exists>x. r = Inr x) \<and> True) s"
  unfolding rollbackDeploymentLocked_def Let_def
  by (cases "find_revision (d_RevisionHistory d) n") (auto simp: wp_ret intro!: wp_bnd_now)

lemma wp_fail_deadline:
  assumes E: "env_total E"
  shows "wp (fail_deadline E dep) (\<lambda>r t. status_ok E (d_ID dep) t) s"
  unfolding fail_deadline_def Let_def
proof (rule wp_bnd_now, rule wp_bnd_gives [where P = "failing (d_ID dep)" and R = "\<lambda>_. True"], goal_cases)
  case (3 now t0 d t)
  show ?case
  proof (rule wp_bnd_gives [where P = "failing (d_ID dep)" and R = "\<lambda>_. True"], goal_cases)
    case (3 d' t')
    have last: "wp (bnd (time_now E) (\<lambda>t. seq (ignore (emitEvent E (e t))) (st_UpdateDeployment E (x\<lparr>d_UpdatedAt := t\<rparr>))))
        (\<lambda>r t. status_ok E (d_ID dep) t) u" if "failing (d_ID dep) x" for x e u
      by (intro wp_bnd_now wp_emit_store [OF E], erule status_ok_not_stable) (use that in \<open>simp_all add: failing_def\<close>)
    have emit: "wp (bnd (seq (when_so ok (ignore (emitEvent E e))) (ret x)) k) Q u"
      if "\<And>u. wp (k x) Q u" for ok e x Q u and k :: "Deployment \<Rightarrow> ('a, unit) orch"
      using that by (auto simp: bnd_seq wp_seq when_so_def wp_ret intro!: wp_emit [OF env_total_ok [OF E]])
    show ?case
      unfolding go_laws
      by (intro wp_ifI last 3(1) wp_bnd_gives [OF gives_rollback_failing [OF 3(1)] wp_rollbackLocked])
        (auto intro!: emit last)
  qed (use 3 in \<open>auto intro!: gives_failing wp_condition\<close>)
qed (auto simp: failing_def rollout_phase_def rollout_touched_def intro!: gives_failing wp_condition)

lemma target_phase: "snd (rollout_target dep ws) \<noteq> ''Stable''"
  by (simp add: rollout_target_def Let_def)

definition wf_kept :: "'db oenv \<Rightarrow> 'db world \<Rightarrow> 'db world \<Rightarrow> bool" where
  "wf_kept E s t \<longleftrightarrow> (store_wf (contents E s) \<longrightarrow> store_wf (contents E t))"

lemma wf_of_good: "stays (evolves E good_write) m \<Longrightarrow> stays (wf_kept E) m"
  by (erule stays_mono) (auto simp: wf_kept_def good_write_def elim: evolves_wf)

interpretation wf_kept: frame "wf_kept E"
  by unfold_locales (auto simp: wf_kept_def)

lemma wf_scale_down: "env_ok E \<Longrightarrow> stays (wf_kept E) (scale_down E i d ws)"
  unfolding scale_down_def scale_down_old_def scale_down_excess_def Let_def
  by (intro stays_intros wf_kept.rules ev_reads [THEN wf_of_good] wf_of_good good_enqueueDelete)

lemma wp_bnd_wf:
  assumes "store_wf (contents E s)" and "stays (wf_kept E) m" and "\<And>e t. Q (Inl e) t"
    and "\<And>x t. store_wf (contents E t) \<Longrightarrow> wp (f x) Q t"
  shows "wp (bnd m f) Q s"
  unfolding wp_bnd by (rule wp_conseq [OF stays_wp [OF assms(2)]]) (use assms in \<open>auto simp: wf_kept_def split: sum.splits\<close>)

lemma wp_place_status:
  assumes E: "env_total E" and wf: "store_wf (contents E s)" and d: "d_ID dep = d"
    and R: "0 \<le> sp_Replicas (d_Spec dep)" "sp_Replicas (d_Spec dep) < 2 ^ 63"
  shows "wp (place_replicas E d dep) (\<lambda>r t. r = Inr () \<longrightarrow> status_ok E d t) s"
  unfolding place_replicas_def Let_def seq_def
proof (intro wp_bnd_wf wp_case_sumI)
  note ok = env_total_ok [OF E]
  show "stays (wf_kept E) (st_ListWorkloadsByDeployment E d)" by (intro wf_of_good ev_reads ok)
  show "stays (wf_kept E) (attempt (times n (createWorkloadForDeployment E dep)))" for n
    by (intro wf_kept.rules wf_of_good good_createWorkload ok)
  show "stays (wf_kept E) (when_so b (scale_down E d dep ws))" for b ws
    by (intro wf_kept.when_so wf_scale_down ok)
  show "wp (create_failed E dep (snd (rollout_target dep ws)) e) (\<lambda>r t. r = Inr () \<longrightarrow> status_ok E d t) t" for ws e t
    by (rule wp_conseq [OF wp_create_failed [OF E target_phase]]) (simp add: d)
  show "wp (report_status E dep (snd (rollout_target dep ws))) (\<lambda>r t. r = Inr () \<longrightarrow> status_ok E d t) t"
    if "store_wf (contents E t)" for ws t
    by (rule wp_conseq [OF wp_report_status [OF E that target_phase R]]) (simp add: d)
qed (use wf ev_reads [OF env_total_ok [OF E], THEN wf_of_good] in auto)

text \<open>
  (C9) With a database that does not fail, a reconciliation of a deployment never reports the phase \<^verbatim>\<open>Stable\<close>
  early: in the state right after a reconciliation that returns no error, a deployment whose stored
  phase is \<^verbatim>\<open>Stable\<close> has only active replicas of its current revision and at least as many running
  replicas as its specification asks for. (Other operations do report it early: the report of a terminated
  workload does, see \<open>last_replica_reported_stable\<close> in theory \<^verbatim>\<open>Lifecycle\<close>.)
\<close>

theorem stable_means_rolled_out:
  assumes "env_total E" and "store_wf (contents E s)" and "stored_deployment (contents E s) d = Some dep"
    and "0 \<le> sp_Replicas (d_Spec dep)" and "sp_Replicas (d_Spec dep) < 2 ^ 63"
  shows "wp (reconcileDeployment E d) (\<lambda>r t. r = Inr () \<longrightarrow>
    (\<exists>dep'. stored_deployment (contents E t) d = Some dep' \<and>
      (rs_Phase (d_RolloutStatus dep') = ''Stable'' \<longrightarrow> rolled_out (contents E t) dep'))) s"
  unfolding status_ok_def [symmetric]
proof (rule wp_reconcileDeployment [OF env_total_ok [OF assms(1)] assms(2,3)])
  have id: "d_ID (prepare dep) = d" using assms(2,3) dp.wf_view_key by (simp add: stored_deployment_def)
  show "wp (fail_deadline E (prepare dep)) (\<lambda>r t. r = Inr () \<longrightarrow> status_ok E d t) t" for t
    by (rule wp_conseq [OF wp_fail_deadline [OF assms(1), of "prepare dep", unfolded id]]) simp
  show "wp (place_replicas E d (prepare dep)) (\<lambda>r t. r = Inr () \<longrightarrow> status_ok E d t) t"
    if "contents E t = contents E s" for t
    by (rule wp_place_status [OF assms(1) _ id]) (use that assms in \<open>simp_all add: prepare_spec\<close>)
qed (simp_all add: status_ok_def)

theorem stable_means_rolled_out_witness:
  "wp (reconcileDeployment demo_oenv ''dep-1'') (\<lambda>r t. r = Inr () \<longrightarrow>
     (\<exists>dep'. stored_deployment (contents demo_oenv t) ''dep-1'' = Some dep' \<and>
        (rs_Phase (d_RolloutStatus dep') = ''Stable'' \<longrightarrow> rolled_out (contents demo_oenv t) dep'))) demo_rollout"
proof -
  have wf: "store_wf (contents demo_oenv demo_rollout)" unfolding demo_rollout_def by (rule stored_wf)
  show ?thesis
    by (rule stable_means_rolled_out [OF demo_oenv_total wf demo_rollout_stored])
      (simp_all add: demo_web_simps demo_spec_def)
qed

end
