(* ===== verification/Lifecycle.thy ===== *)
theory Lifecycle
  imports Rollout_Status
begin

text \<open>
  The life of a deployment and of its workloads outside a rollout
  (\<^verbatim>\<open>internal/service/orchestrator.go\<close>): admission and creation of a deployment, the removal of one
  that is marked for deletion, the reports of the workers and the assignments they poll.
\<close>

section \<open>Creating a deployment\<close>

definition default_spec :: "DeploymentSpec \<Rightarrow> DeploymentSpec" where
  "default_spec spec = (let
     spec = (if sp_Replicas spec \<le> 0 then spec\<lparr>sp_Replicas := 1\<rparr> else spec);
     spec = (if MilliCPU (sp_Resources spec) = 0 then spec\<lparr>sp_Resources := (sp_Resources spec)\<lparr>MilliCPU := 250\<rparr>\<rparr> else spec);
     spec = (if MemoryMB (sp_Resources spec) = 0 then spec\<lparr>sp_Resources := (sp_Resources spec)\<lparr>MemoryMB := 256\<rparr>\<rparr> else spec)
   in if blank (sp_Namespace spec) then spec\<lparr>sp_Namespace := ''default''\<rparr> else spec)"

definition complete_spec :: "DeploymentSpec \<Rightarrow> DeploymentSpec" where
  "complete_spec spec = (let
     spec = (if sp_Labels spec = None then spec\<lparr>sp_Labels := Some []\<rparr> else spec);
     spec = (if sp_Tolerations spec = None then spec\<lparr>sp_Tolerations := Some []\<rparr> else spec)
   in normalize_spec spec)"

definition check_claim :: "'db oenv \<Rightarrow> string \<Rightarrow> string \<Rightarrow> ('db, unit) orch" where
  "check_claim E namespace claim =
     bnd (attempt (st_GetPersistentVolumeClaim E namespace claim)) (\<lambda>r. case r of
       Inl err \<Rightarrow> throw (ErrWrap (''volume claim '' @ claim @ '' lookup failed: '') err)
     | Inr pvc \<Rightarrow> if pvc_Phase pvc \<noteq> PersistentVolumeClaimBound
         then throw (ErrText (''volume claim '' @ claim @ '' is not bound'')) else ret ())"

definition new_deployment :: "DeploymentSpec \<Rightarrow> gotime \<Rightarrow> int \<Rightarrow> Deployment" where
  "new_deployment spec now r = \<lparr>d_ID = ''dep-'' @ show_int now @ ''-'' @ show_pad 4 r, d_Spec = spec,
     d_Generation = 1, d_ObservedGeneration = 1, d_CurrentRevision = 1,
     d_RevisionHistory = [\<lparr>rv_Revision = 1, rv_Spec = spec, rv_CreatedAt = now\<rparr>],
     d_RolloutStatus = zero_DeploymentRolloutStatus\<lparr>rs_Phase := ''Stable'', rs_LastUpdatedAt := now\<rparr>,
     d_Owner = ''orchestrator/controller-manager'', d_Finalizers = [''workloads.cleanup''], d_DeletionTimestamp = None,
     d_Status = DeploymentPending, d_Conditions = [condition ConditionProgressing True ''DeploymentAccepted''
       ''Deployment accepted and awaiting reconciliation'' now], d_CreatedAt = now, d_UpdatedAt = now\<rparr>"

definition CreateDeployment :: "'db oenv \<Rightarrow> DeploymentSpec \<Rightarrow> ('db, Deployment) orch" where
  "CreateDeployment E spec =
     (if blank (sp_Name spec) then throw (ErrText ''name is required'')
      else if blank (sp_Image spec) then throw (ErrText ''image is required'')
      else let spec = default_spec spec in
     seq (runAdmissionCheck E ''Deployment'' (AdmDeployment spec))
     (seq (ensureNamespaceExists E (sp_Namespace spec))
     (seq (for_each (elems (sp_VolumeClaims spec)) (check_claim E (sp_Namespace spec)))
     (seq (enforceNamespaceQuota E spec)
     (bnd (time_now E) (\<lambda>now. bnd (rand_intn E 9999) (\<lambda>r. let
       dep = new_deployment (complete_spec spec) now r in
     seq (st_CreateDeployment E dep)
     (seq (reconcileDeployment E (d_ID dep))
     (seq (ignore (emitEvent E (event EventInfo ''reconcile'' ''DeploymentCreated''
         ''Deployment reconciled after creation'' (d_ID dep) [] [])))
     (bnd (now_condition E ConditionAvailable True ''ReplicasScheduled'' ''Deployment has scheduled replicas''
         (dep\<lparr>d_Status := DeploymentRunning\<rparr>)) (\<lambda>dep.
     bnd (now_condition E ConditionProgressing False ''ReconciliationComplete'' ''Initial reconciliation completed'' dep) (\<lambda>dep.
     bnd (time_now E) (\<lambda>t. let dep = dep\<lparr>d_UpdatedAt := t\<rparr> in
     seq (ignore (st_UpdateDeployment E dep))
     (ret dep))))))))))))))"

section \<open>Removing a deployment\<close>

definition terminate_workload :: "'db oenv \<Rightarrow> Deployment \<Rightarrow> Workload \<Rightarrow> ('db, unit) orch" where
  "terminate_workload E dep w =
     (if w_Status w = WorkloadTerminating \<or> w_Status w = WorkloadTerminated then ret ()
      else let w = w\<lparr>w_Status := WorkloadTerminating\<rparr> in
     seq (st_UpsertWorkload E w)
     (seq (st_EnqueueAssignment E (delete_assignment w))
     (ignore (emitEvent E (event EventInfo ''reconcile'' ''CleanupAssignmentEnqueued'' ''Enqueued workload cleanup assignment''
         (d_ID dep) (w_ID w) (w_NodeID w))))))"

definition finish_deletion :: "'db oenv \<Rightarrow> Deployment \<Rightarrow> Workload list \<Rightarrow> ('db, unit) orch" where
  "finish_deletion E dep workloads =
     (if length (filter (\<lambda>w. w_Status w \<noteq> WorkloadTerminated) workloads) > 0 then ret ()
      else let dep = dep\<lparr>d_Finalizers := removeFinalizer (d_Finalizers dep) ''workloads.cleanup''\<rparr> in
        if length (d_Finalizers dep) > 0 then st_UpdateDeployment E dep
        else seq (st_DeleteDeployment E (d_ID dep))
          (ignore (emitEvent E (event EventInfo ''reconcile'' ''DeploymentDeleted''
             ''Deployment fully deleted after finalizers completed'' (d_ID dep) [] []))))"

definition reconcileDeletion :: "'db oenv \<Rightarrow> string \<Rightarrow> ('db, unit) orch" where
  "reconcileDeletion E deploymentID = with_mu (
     bnd (st_GetDeployment E deploymentID) (\<lambda>dep.
     bnd (st_ListWorkloadsByDeployment E deploymentID) (\<lambda>workloads.
     seq (for_each workloads (terminate_workload E dep))
     (finish_deletion E dep workloads))))"

section \<open>Reports and assignments of the workers\<close>

definition PollAssignments :: "'db oenv \<Rightarrow> string \<Rightarrow> int \<Rightarrow> ('db, Assignment list) orch" where
  "PollAssignments E nodeID mx = st_PopAssignments E nodeID (if mx \<le> 0 then 10 else mx)"

definition release_node :: "'db oenv \<Rightarrow> Workload \<Rightarrow> ('db, unit) orch" where
  "release_node E w = bnd (attempt (st_GetNode E (w_NodeID w))) (\<lambda>r. case r of
     Inl _ \<Rightarrow> ret ()
   | Inr node \<Rightarrow> ignore (st_UpsertNode E (release_resources node (w_Resources w))))"

definition settle_deployment :: "'db oenv \<Rightarrow> Deployment \<Rightarrow> Workload list \<Rightarrow> ('db, unit) orch" where
  "settle_deployment E dep workloads = (let
     ready = runningCount workloads; active = runningOrPendingCount workloads in
     if active \<le> sp_Replicas (d_Spec dep) then let
       dep = rollout_phase ''Stable'' ''rollout complete'' (dep\<lparr>d_Status := DeploymentRunning\<rparr>);
       dep = dep\<lparr>d_RolloutStatus := (d_RolloutStatus dep)\<lparr>rs_ReadyReplicas := ready, rs_UpdatedReplicas := active,
         rs_UnavailableReplicas := maxInt 0 (isub (sp_Replicas (d_Spec dep)) ready)\<rparr>\<rparr> in
       bnd (time_now E) (\<lambda>t.
       bnd (now_condition E ConditionAvailable True ''DesiredReplicasPlaced'' ''Desired replica count has been placed''
              (rollout_touched t dep)) (\<lambda>dep.
       bnd (now_condition E ConditionProgressing False ''ReconciliationStable'' ''Reconciliation reached stable state'' dep) (\<lambda>dep.
       bnd (now_condition E ConditionDegraded False ''Healthy'' ''Deployment is healthy'' dep) (\<lambda>dep.
       bnd (time_now E) (\<lambda>u.
       ignore (st_UpdateDeployment E (dep\<lparr>d_ObservedGeneration := d_Generation dep, d_UpdatedAt := u\<rparr>)))))))
     else ret ())"

text \<open>The part of a report of termination that follows the removal of the record.\<close>

definition report_removed :: "'db oenv \<Rightarrow> Workload \<Rightarrow> ('db, unit) orch" where
  "report_removed E w = seq (bnd (attempt (st_GetDeployment E (w_DeploymentID w))) (\<lambda>r. case r of
       Inl _ \<Rightarrow> ret ()
     | Inr dep \<Rightarrow> bnd (attempt (st_ListWorkloadsByDeployment E (d_ID dep))) (\<lambda>r. case r of
         Inl _ \<Rightarrow> ret ()
       | Inr workloads \<Rightarrow> settle_deployment E dep workloads)))
     (ignore (emitEvent E (event EventInfo ''workload'' ''WorkloadTerminated'' ''Workload terminated and resources released''
       (w_DeploymentID w) (w_ID w) (w_NodeID w))))"

definition ReportWorkloadStatus :: "'db oenv \<Rightarrow> string \<Rightarrow> WorkloadStatus \<Rightarrow> string \<Rightarrow> ('db, unit) orch" where
  "ReportWorkloadStatus E workloadID status containerID =
     bnd (attempt (st_GetWorkload E workloadID)) (\<lambda>r. case r of
       Inl err \<Rightarrow> if err_is err ErrNotFound then ret () else throw err
     | Inr w \<Rightarrow>
       if status = WorkloadTerminated then
         seq (release_node E w)
         (seq (st_DeleteWorkload E (w_ID w))
         (report_removed E w))
       else
         st_UpsertWorkload E (w\<lparr>w_Status := status, w_ContainerID := containerID,
           w_RestartCount := (if status = WorkloadFailed then iadd (w_RestartCount w) 1 else w_RestartCount w)\<rparr>))"

definition ListNodeWorkloads :: "'db oenv \<Rightarrow> string \<Rightarrow> ('db, Workload list) orch" where
  "ListNodeWorkloads E nodeID = bnd (st_ListWorkloads E) (\<lambda>all.
     ret (filter (\<lambda>w. w_NodeID w = nodeID \<and> (w_Status w = WorkloadPending \<or> w_Status w = WorkloadRunning \<or>
       w_Status w = WorkloadTerminating)) all))"

section \<open>The mutex\<close>

lemma quiet_settle: "stays quiet (settle_deployment E dep ws)"
  unfolding settle_deployment_def Let_def by (intro quiet_rules quiet_now_condition)

lemma quiet_ReportWorkloadStatus: "stays quiet (ReportWorkloadStatus E i st c)"
  unfolding ReportWorkloadStatus_def report_removed_def release_node_def by (intro quiet_rules quiet_settle)

lemma quiet_PollAssignments: "stays quiet (PollAssignments E n mx)"
  unfolding PollAssignments_def by (intro quiet_rules)

lemma quiet_check_claim: "stays quiet (check_claim E ns c)"
  unfolding check_claim_def by (intro quiet_rules)

lemma free_CreateDeployment: "stays free (CreateDeployment E spec)"
  unfolding CreateDeployment_def Let_def
  by (intro stays_intros free.rules free_reconcileDeployment
      free_of_quiet [OF quiet_runAdmissionCheck] free_of_quiet [OF quiet_ensureNamespaceExists]
      free_of_quiet [OF quiet_check_claim] free_of_quiet [OF quiet_enforceNamespaceQuota]
      free_of_quiet [OF quiet_emitEvent] free_of_quiet [OF quiet_now_condition] quiet_store [THEN free_of_quiet])

lemma free_reconcileDeletion: "stays free (reconcileDeletion E i)"
  unfolding reconcileDeletion_def terminate_workload_def finish_deletion_def Let_def
  by (rule free_with_mu) (intro quiet_rules)

section \<open>The invariant\<close>

lemma dep_ok_new [simp]: "dep_ok (new_deployment spec now r)"
  by (simp add: dep_ok_def history_ok_def new_deployment_def)

lemmas sound_ev = sound_of_evolves [OF ev_CreateDeployment] sound_of_evolves [OF ev_UpsertWorkload]
  sound_of_evolves [OF ev_EnqueueAssignment] sound_of_evolves [OF ev_UpsertNode]
  sound_of_evolves [OF ev_PopAssignments] sound_of_evolves [OF ev_DeleteDeployment]
  sound_of_evolves [OF ev_runAdmissionCheck] sound_of_evolves [OF ev_ensureNamespaceExists]
  sound_of_evolves [OF ev_enforceNamespaceQuota] ev_deletes [THEN sound_of_evolves]

lemma sound_CreateDeployment: "env_ok E \<Longrightarrow> stays (sound E) (CreateDeployment E spec)"
  unfolding CreateDeployment_def check_claim_def Let_def
  by (intro sound_bnds sound_ev sound_rules sound_reconcileDeployment) simp_all

lemma sound_reconcileDeletion: "env_ok E \<Longrightarrow> stays (sound E) (reconcileDeletion E i)"
  unfolding reconcileDeletion_def terminate_workload_def finish_deletion_def Let_def
  by (intro sound_bnds sound_ev sound_rules) simp_all

lemma sound_settle: "env_ok E \<Longrightarrow> dep_ok d \<Longrightarrow> stays (sound E) (settle_deployment E d ws)"
  unfolding settle_deployment_def Let_def by (intro sound_bnds sound_rules) simp_all

lemma sound_PollAssignments: "env_ok E \<Longrightarrow> stays (sound E) (PollAssignments E n mx)"
  unfolding PollAssignments_def by (intro sound_ev) simp_all

lemma sound_ReportWorkloadStatus: "env_ok E \<Longrightarrow> stays (sound E) (ReportWorkloadStatus E i st c)"
  unfolding ReportWorkloadStatus_def report_removed_def release_node_def
  by (intro sound_attempt_get sound_ev sound_rules sound_settle) auto

section \<open>Removal waits for the workloads\<close>

text \<open>Writes that leave every deployment record in place.\<close>

definition keeps_deployments :: "string \<Rightarrow> blob option \<Rightarrow> bool" where
  "keeps_deployments k v \<longleftrightarrow> own_key k v \<and> (prefix ''deployment:'' k \<longrightarrow> v \<noteq> None)"

lemma keeps_deployments_simps [simp]:
  "keeps_deployments (keyWorkload i) (Some (JWorkload w)) \<longleftrightarrow> w_ID w = i"
  "keeps_deployments (keyDeployment i) (Some (JDeployment d)) \<longleftrightarrow> d_ID d = i"
  "keeps_deployments (keyAssignment a b) (Some (JAssignment x)) \<longleftrightarrow> keyAssignment (a_NodeID x) (a_ID x) = keyAssignment a b"
  "keeps_deployments (keyEvent t j) (Some (JEvent ev)) \<longleftrightarrow> keyEvent (ev_Timestamp ev) (ev_ID ev) = keyEvent t j"
  by (auto simp: keeps_deployments_def keyWorkload_def keyDeployment_def)

lemma writes_keep:
  assumes "writes keeps_deployments m n" and "prefix ''deployment:'' k" and "m k \<noteq> None"
  shows "n k \<noteq> None"
  using assms(1,3)
proof induction
  case (step m n j v)
  then have "n k \<noteq> None" by simp
  then show ?case using step.hyps(2) assms(2) by (simp add: keeps_deployments_def)
qed simp

lemma stored_kept:
  assumes "evolves E keeps_deployments s t" and "store_wf (contents E s)" and "stored_deployment (contents E s) d \<noteq> None"
  shows "stored_deployment (contents E t) d \<noteq> None"
proof -
  have wf: "store_wf (contents E t)" by (rule evolves_wf [OF assms(1) _ assms(2)]) (simp add: keeps_deployments_def)
  have "contents E s (''deployment:'' @ d) \<noteq> None"
    using assms(3) dp.wf_view_None [OF assms(2)] by (simp add: stored_deployment_def)
  then have "contents E t (''deployment:'' @ d) \<noteq> None"
    using writes_keep [of "contents E s" "contents E t"] assms(1) by (simp add: evolves_def)
  then show ?thesis using dp.wf_view_None [OF wf] by (simp add: stored_deployment_def)
qed

lemma ev_terminate: "env_ok E \<Longrightarrow> stays (evolves E keeps_deployments) (terminate_workload E dep w)"
  unfolding terminate_workload_def Let_def by (intro ev_all) simp_all

lemma removeFinalizer_Nil: "removeFinalizer fs f = [] \<longleftrightarrow> set fs \<subseteq> {f}"
  by (auto simp: removeFinalizer_def filter_empty_conv)

lemma wp_reconcileDeletion:
  assumes E: "env_ok E" and wf: "store_wf (contents E s)" and st: "stored_deployment (contents E s) d = Some dep"
    and P: "\<And>r t u. contents E t = contents E u \<Longrightarrow> P r t \<Longrightarrow> P r u"
    and err: "\<And>e t. contents E t = contents E s \<Longrightarrow> P (Inl e) t"
    and body: "\<And>ws t. contents E t = contents E s \<Longrightarrow> distinct (map w_ID ws) \<Longrightarrow>
      set ws = {w. contents E s (keyWorkload (w_ID w)) = Some (JWorkload w) \<and> w_DeploymentID w = d} \<Longrightarrow>
      wp (seq (for_each ws (terminate_workload E dep)) (finish_deletion E dep ws)) P t"
  shows "wp (reconcileDeletion E d) P s"
proof (cases "o_mu s")
  case True
  then show ?thesis by (simp add: reconcileDeletion_def wp_with_mu err)
next
  case False
  let ?P = "\<lambda>r t. P r (t\<lparr>o_mu := False\<rparr>)"
  have PP: "wp m ?P t" if "wp m P t" for m :: "('a, unit) orch" and t
    by (rule wp_conseq [OF that]) (rule P, simp_all)
  show ?thesis
    unfolding reconcileDeletion_def wp_with_mu if_not_P [OF False] wp_bnd
  proof (rule wp_GetDeployment [OF E], goal_cases wf found missing err)
    case (found x t)
    have x: "x = dep" and t: "contents E t = contents E s" using found st by (simp_all add: stored_deployment_def)
    show ?case
      unfolding sum.case x
      by (rule wp_ListWorkloadsByDeployment [OF E], unfold sum.case, goal_cases)
        (use t wf err in \<open>auto intro!: PP body\<close>)
  qed (use wf err in auto)
qed

lemma ev_finish_kept:
  "env_ok E \<Longrightarrow> filter (\<lambda>w. w_Status w \<noteq> WorkloadTerminated) ws \<noteq> [] \<or> \<not> set (d_Finalizers dep) \<subseteq> {''workloads.cleanup''} \<Longrightarrow>
   stays (evolves E keeps_deployments) (finish_deletion E dep ws)"
  unfolding finish_deletion_def Let_def
  by (intro stays_intros ev.ret ev_UpdateDeployment) (auto simp: removeFinalizer_Nil)

text \<open>
  (C11) A deployment that is being deleted disappears only after every one of its workloads has
  terminated and no finalizer other than the workload cleanup is left; until then its record stays.
\<close>

theorem deletion_waits:
  assumes "env_ok E" and "store_wf (contents E s)" and "stored_deployment (contents E s) d = Some dep"
  shows "wp (reconcileDeletion E d) (\<lambda>r t. stored_deployment (contents E t) d = None \<longrightarrow>
    (\<forall>i w. contents E s (keyWorkload i) = Some (JWorkload w) \<and> w_DeploymentID w = d \<longrightarrow> w_Status w = WorkloadTerminated) \<and>
    set (d_Finalizers dep) \<subseteq> {''workloads.cleanup''}) s" (is "wp _ ?Q s")
proof (rule wp_reconcileDeletion [OF assms])
  fix ws and t :: "'a world" assume t: "contents E t = contents E s"
    and ws: "set ws = {w. contents E s (keyWorkload (w_ID w)) = Some (JWorkload w) \<and> w_DeploymentID w = d}"
  let ?body = "seq (for_each ws (terminate_workload E dep)) (finish_deletion E dep ws)"
  show "wp ?body ?Q t"
  proof (cases "filter (\<lambda>w. w_Status w \<noteq> WorkloadTerminated) ws \<noteq> [] \<or> \<not> set (d_Finalizers dep) \<subseteq> {''workloads.cleanup''}")
    case True
    have "stays (evolves E keeps_deployments) ?body"
      by (intro ev.seq ev.for_each ev_terminate ev_finish_kept True assms(1))
    from stays_wp [OF this, of t] show ?thesis
      by (rule wp_conseq) (use t assms(2,3) in \<open>auto dest!: stored_kept [where d = d]\<close>)
  next
    case False
    then show ?thesis using ws wl.wf_view [OF assms(2)] wl.wf_view_key [OF assms(2)]
      by (intro wp_any) (fastforce simp: filter_empty_conv keyWorkload_def)
  qed
qed (use assms(3) in auto)

theorem deletion_waits_witness:
  "wp (reconcileDeletion demo_oenv ''dep-1'') (\<lambda>r t. stored_deployment (contents demo_oenv t) ''dep-1'' \<noteq> None) demo_rollout"
proof -
  have wf: "store_wf (contents demo_oenv demo_rollout)" unfolding demo_rollout_def by (rule stored_wf)
  have "contents demo_oenv demo_rollout (keyWorkload ''wk-1'') = Some (JWorkload demo_replica)"
    and "w_DeploymentID demo_replica = ''dep-1'' \<and> w_Status demo_replica = WorkloadRunning"
    by (simp_all add: demo_rollout_def stored_def key_defs demo_replica_def)
  then show ?thesis
    by (intro wp_conseq [OF deletion_waits [OF demo_oenv_ok wf demo_rollout_stored]]) fastforce
qed

section \<open>Removal stops every workload\<close>

lemma active_terminate:
  assumes E: "env_ok E" and w: "\<not> is_active w \<Longrightarrow> w_ID w \<notin> active_ids (contents E s) d"
  shows "wp (terminate_workload E dep w) (\<lambda>r t. r = Inr () \<longrightarrow> active_ids (contents E t) d \<subseteq> active_ids (contents E s) d - {w_ID w}) s"
proof (cases "w_Status w = WorkloadTerminating \<or> w_Status w = WorkloadTerminated")
  case True
  then have "\<not> is_active w" by (auto simp: is_active_def)
  then show ?thesis using True w by (auto simp: terminate_workload_def wp_ret)
next
  case False
  let ?w = "w\<lparr>w_Status := WorkloadTerminating\<rparr>"
  let ?rest = "seq (st_EnqueueAssignment E (delete_assignment ?w)) (ignore (emitEvent E
    (event EventInfo ''reconcile'' ''CleanupAssignmentEnqueued'' ''Enqueued workload cleanup assignment'' (d_ID dep) (w_ID ?w) (w_NodeID ?w))))"
  have rest: "stays (evolves E other_write) ?rest" by (intro ev_all E) simp_all
  have "wp (seq (st_UpsertWorkload E ?w) ?rest)
      (\<lambda>r t. r = Inr () \<longrightarrow> active_ids (contents E t) d \<subseteq> active_ids (contents E s) d - {w_ID w}) s"
    unfolding wp_seq [where m = "st_UpsertWorkload E ?w"]
  proof (rule wp_UpsertWorkload [OF E], unfold sum.case, goal_cases)
    case (1 now t)
    have "active_ids (contents E t) d = active_ids (contents E s) d - {w_ID w}"
      using active_ids_put [of "contents E s" "?w\<lparr>w_UpdatedAt := now\<rparr>" d] 1(1) by (simp add: is_active_def)
    then show ?case
      by (intro wp_conseq [OF stays_wp [OF rest, of t]]) (simp add: active_ids_evolves)
  qed simp
  then show ?thesis using False by (simp add: terminate_workload_def Let_def)
qed

lemma active_terminate_all:
  assumes E: "env_ok E" and ws: "\<And>w. w \<in> set ws \<Longrightarrow> \<not> is_active w \<Longrightarrow> w_ID w \<notin> A"
    and s: "active_ids (contents E s) d \<subseteq> A"
  shows "wp (for_each ws (terminate_workload E dep)) (\<lambda>r t. r = Inr () \<longrightarrow> active_ids (contents E t) d \<subseteq> A - w_ID ` set ws) s"
  using ws s
proof (induction ws arbitrary: s A)
  case (Cons w ws)
  have w: "wp (terminate_workload E dep w)
      (\<lambda>r t. r = Inr () \<longrightarrow> active_ids (contents E t) d \<subseteq> active_ids (contents E s) d - {w_ID w}) s"
    by (rule active_terminate [OF E]) (use Cons.prems in auto)
  show ?case
    unfolding for_each.simps wp_seq
  proof (rule wp_conseq [OF w], goal_cases)
    case (1 r t)
    show ?case
    proof (cases r)
      case (Inr x)
      have "wp (for_each ws (terminate_workload E dep))
          (\<lambda>r u. r = Inr () \<longrightarrow> active_ids (contents E u) d \<subseteq> (A - {w_ID w}) - w_ID ` set ws) t"
        by (rule Cons.IH) (use Cons.prems 1 Inr in auto)
      then show ?thesis by (simp add: Inr) (erule wp_conseq, auto)
    qed simp
  qed
qed (simp add: wp_ret)

lemma active_finish:
  assumes E: "env_ok E"
  shows "wp (finish_deletion E dep ws) (\<lambda>r t. active_ids (contents E t) d \<subseteq> active_ids (contents E s) d) s"
proof -
  define W where "W k v \<longleftrightarrow> own_key k v \<and> (prefix ''workload:'' k \<longrightarrow> v = None)" for k and v :: "blob option"
  have W: "writes W m n \<Longrightarrow> active_ids n d \<subseteq> active_ids m d" for m n
    by (induction rule: writes.induct) (auto simp: active_ids_def W_def keyWorkload_def split: if_splits)
  have "stays (evolves E W) (finish_deletion E dep ws)"
    unfolding finish_deletion_def Let_def
    by (intro ev_all ev_emit_events E) (auto simp: W_def keyDeployment_def keyEvent_def)
  from stays_wp [OF this, of s] show ?thesis by (rule wp_conseq) (auto simp: evolves_def dest: W)
qed

text \<open>
  (C12) A reconciliation of a deletion that returns no error leaves no running and no pending workload
  of the deployment: every one of them is marked as terminating (or its record is gone).
\<close>

theorem deletion_drains:
  assumes "env_ok E" and "store_wf (contents E s)" and "stored_deployment (contents E s) d = Some dep"
  shows "wp (reconcileDeletion E d) (\<lambda>r t. r = Inr () \<longrightarrow> active_ids (contents E t) d = {}) s"
proof (rule wp_reconcileDeletion [OF assms])
  fix ws and t :: "'a world"
  assume t: "contents E t = contents E s" and d: "distinct (map w_ID ws)"
    and ws: "set ws = {w. contents E s (keyWorkload (w_ID w)) = Some (JWorkload w) \<and> w_DeploymentID w = d}"
  have A: "active_ids (contents E t) d = w_ID ` {w \<in> set ws. is_active w}"
    using wl.wf_view [OF assms(2)] wl.wf_view_key [OF assms(2)] ws t by (fastforce simp: active_ids_def keyWorkload_def)
  have out: "w_ID w \<notin> active_ids (contents E t) d" if "w \<in> set ws" "\<not> is_active w" for w
    using that d unfolding A by (auto simp: distinct_map dest: inj_onD)
  have loop: "wp (for_each ws (terminate_workload E dep))
      (\<lambda>r u. r = Inr () \<longrightarrow> active_ids (contents E u) d \<subseteq> active_ids (contents E t) d - w_ID ` set ws) t"
    by (rule active_terminate_all [OF assms(1)]) (use out in auto)
  show "wp (seq (for_each ws (terminate_workload E dep)) (finish_deletion E dep ws))
      (\<lambda>r t. r = Inr () \<longrightarrow> active_ids (contents E t) d = {}) t"
    unfolding wp_seq
  proof (rule wp_conseq [OF loop], goal_cases)
    case (1 r u)
    show ?case
    proof (cases r)
      case (Inr x)
      then have "active_ids (contents E u) d = {}" using 1 A by auto
      then show ?thesis using active_finish [OF assms(1), of dep ws d u] by (simp add: Inr) (erule wp_conseq, simp)
    qed simp
  qed
qed auto

theorem deletion_drains_witness:
  "wp (reconcileDeletion demo_oenv ''dep-1'') (\<lambda>r t. r = Inr () \<longrightarrow> active_ids (contents demo_oenv t) ''dep-1'' = {}) demo_rollout"
proof -
  have wf: "store_wf (contents demo_oenv demo_rollout)" unfolding demo_rollout_def by (rule stored_wf)
  show ?thesis by (rule deletion_drains [OF demo_oenv_ok wf demo_rollout_stored])
qed

section \<open>Where the reported status is wrong\<close>

definition available :: "Deployment \<Rightarrow> bool" where
  "available dep \<longleftrightarrow> (\<exists>c \<in> set (d_Conditions dep). c_Type c = ConditionAvailable \<and> c_Status c)"

lemma setCondition_mem: "nxt \<in> set (setCondition cs nxt)"
  by (auto simp: setCondition_eq image_iff)

lemma setCondition_other: "c \<in> set cs \<Longrightarrow> c_Type c \<noteq> c_Type nxt \<Longrightarrow> c \<in> set (setCondition cs nxt)"
  by (auto simp: setCondition_eq image_iff)

lemma available_put [simp]:
  "available (put_condition ConditionAvailable True re msg t d)"
  "ty \<noteq> ConditionAvailable \<Longrightarrow> available d \<Longrightarrow> available (put_condition ty st re msg t d)"
proof -
  have "condition ConditionAvailable True re msg t \<in> set (setCondition (d_Conditions d) (condition ConditionAvailable True re msg t))"
    by (rule setCondition_mem)
  then show "available (put_condition ConditionAvailable True re msg t d)"
    unfolding available_def put_condition_def by (intro bexI) (simp_all add: condition_def)
  show "ty \<noteq> ConditionAvailable \<Longrightarrow> available d \<Longrightarrow> available (put_condition ty st re msg t d)"
    using setCondition_other by (fastforce simp: available_def put_condition_def condition_def)
qed

lemma available_fields [simp]:
  "available (d\<lparr>d_UpdatedAt := t\<rparr>) = available d" "available (d\<lparr>d_Status := ds\<rparr>) = available d"
  "available (d\<lparr>d_ObservedGeneration := g\<rparr>) = available d" "available (json_Deployment d) = available d"
  by (simp_all add: available_def)

text \<open>
  A created deployment is returned as running and available whatever its first reconciliation did,
  also when no replica could be placed.
\<close>

lemma create_always_running:
  "gives (\<lambda>dep. d_Status dep = DeploymentRunning \<and> available dep) (CreateDeployment E spec)"
proof -
  have "d_Status (put_condition ty st re msg t d) = d_Status d" for ty st re msg t d by (simp add: put_condition_def)
  then show ?thesis
    unfolding CreateDeployment_def now_condition_def Let_def go_laws
    by (intro gives_if gives_throw gives_seq gives_bnd [OF gives_any] gives_ret) simp
qed

lemma wp_settle:
  assumes "env_total E" and "runningOrPendingCount ws \<le> sp_Replicas (d_Spec dep)"
    and Q: "\<And>d' t. contents E t = (contents E s)(keyDeployment (d_ID d') \<mapsto> JDeployment (json_Deployment d')) \<Longrightarrow>
      d_ID d' = d_ID dep \<Longrightarrow> rs_Phase (d_RolloutStatus d') = ''Stable'' \<Longrightarrow> available d' \<Longrightarrow> Q (Inr ()) t"
  shows "wp (settle_deployment E dep ws) Q s"
  unfolding settle_deployment_def Let_def if_P [OF assms(2)] now_condition_def go_laws
proof (intro wp_bnd_now, unfold wp_ignore, rule wp_UpdateDeployment_store [OF assms(1)], goal_cases)
  case (1 a t b u c v d w e x y)
  have "contents E x = contents E s" using 1(1,3,5,7,9) by simp
  then show ?case
    by (intro Q [OF 1(11) [unfolded \<open>contents E x = contents E s\<close>]]) (simp_all add: rollout_touched_def rollout_phase_def)
qed

lemma active_list_empty:
  assumes "set ws = {w. m (keyWorkload (w_ID w)) = Some (JWorkload w) \<and> w_DeploymentID w = d}" and "active_ids m d = {}"
  shows "runningOrPendingCount ws = 0"
  using assms by (fastforce simp: runningOrPendingCount_def filter_empty_conv active_ids_def)

section \<open>A workload that has terminated\<close>

lemma wp_UpsertNode:
  fixes E :: "'db oenv" and s :: "'db world"
  assumes "env_total E" and "\<And>ls t. contents E t = (contents E s)(keyNode (n_ID n) \<mapsto> JNode (n\<lparr>n_LastSeen := ls\<rparr>)) \<Longrightarrow>
      (\<not> IsZero (n_LastSeen n) \<Longrightarrow> ls = n_LastSeen n) \<Longrightarrow> Q (Inr ()) t"
  shows "wp (st_UpsertNode E n) Q s"
proof -
  have put: "wp (st_put E (keyNode (n_ID n)) (JNode (n\<lparr>n_LastSeen := ls\<rparr>))) Q t"
    if "contents E t = contents E s" "\<not> IsZero (n_LastSeen n) \<Longrightarrow> ls = n_LastSeen n" for ls t
    by (rule wp_put [OF env_total_ok [OF assms(1)]]) (use assms that in auto)
  show ?thesis
    using put [of s "n_LastSeen n"] unfolding st_UpsertNode_def go_laws
    by (auto intro!: wp_bnd_now put)
qed

text \<open>
  What the node of a workload has in use after the workload is gone: what it had in use minus what the
  workload held, computed in 64 bits, and zero where this is negative. Nothing else of the node changes
  but a time of its last heartbeat that was never set.
\<close>

definition node_released :: "(string \<Rightarrow> blob option) \<Rightarrow> (string \<Rightarrow> blob option) \<Rightarrow> Workload \<Rightarrow> bool" where
  "node_released m n w \<longleftrightarrow> (\<forall>node. m (keyNode (w_NodeID w)) = Some (JNode node) \<longrightarrow>
     (\<exists>ls. n (keyNode (w_NodeID w)) = Some (JNode (node\<lparr>n_Used := \<lparr>
          MilliCPU = max 0 (i64 (MilliCPU (n_Used node) - MilliCPU (w_Resources w))),
          MemoryMB = max 0 (i64 (MemoryMB (n_Used node) - MemoryMB (w_Resources w)))\<rparr>, n_LastSeen := ls\<rparr>)) \<and>
        (\<not> IsZero (n_LastSeen node) \<longrightarrow> ls = n_LastSeen node)))"

lemma wp_release_node:
  assumes E: "env_total E" and wf: "store_wf (contents E s)"
    and Q: "\<And>t. (\<And>k. k \<noteq> keyNode (w_NodeID w) \<Longrightarrow> contents E t k = contents E s k) \<Longrightarrow> store_wf (contents E t) \<Longrightarrow>
      node_released (contents E s) (contents E t) w \<Longrightarrow> Q (Inr ()) t"
  shows "wp (release_node E w) Q s"
  unfolding release_node_def wp_bnd wp_attempt
proof (rule wp_GetNode [OF env_total_ok [OF E] wf], unfold sum.case, goal_cases)
  case (1 n t)
  have n: "contents E s (keyNode (w_NodeID w)) = Some (JNode n)" and id: "n_ID n = w_NodeID w"
    using 1(3) nd.wf_view [OF wf] nd.wf_view_key [OF wf] by (simp_all add: keyNode_def)
  show ?case
    unfolding wp_ignore
  proof (rule wp_UpsertNode [OF E], rule Q, goal_cases)
    case (1 ls u)
    then show ?case using \<open>contents E t = contents E s\<close> id by (simp add: release_resources_def Let_def)
  next
    case (2 ls u)
    then show ?case using \<open>contents E t = contents E s\<close> store_wf_put [OF wf, of "JNode ((release_resources n (w_Resources w))\<lparr>n_LastSeen := ls\<rparr>)"]
      by simp
  next
    case (3 ls u)
    then show ?case using n id \<open>contents E t = contents E s\<close> by (auto simp: node_released_def release_resources_def Let_def isub_def max_def)
  qed
next
  case (2 t)
  then show ?case using Q [of t] wf nd.wf_view_None [OF wf] by (simp add: wp_ret node_released_def keyNode_def)
next
  case (3 e t)
  then show ?case using E by simp
qed

lemma stored_put_at: "d_ID d = i \<Longrightarrow> stored_deployment (m(keyDeployment i \<mapsto> JDeployment (json_Deployment d))) i = Some (json_Deployment d)"
  using stored_after_put [of m d] by simp

definition report_write :: "string \<Rightarrow> blob option \<Rightarrow> bool" where
  "report_write k v \<longleftrightarrow> own_key k v \<and> (prefix ''deployment:'' k \<or> prefix ''event:'' k)"

lemma report_write_simps [simp]:
  "report_write (keyDeployment i) (Some (JDeployment d)) \<longleftrightarrow> d_ID d = i"
  "report_write (keyEvent t i) (Some (JEvent ev)) \<longleftrightarrow> keyEvent (ev_Timestamp ev) (ev_ID ev) = keyEvent t i"
  by (auto simp: report_write_def keyDeployment_def keyEvent_def)

lemma ev_report_removed: "env_ok E \<Longrightarrow> stays (evolves E report_write) (report_removed E w)"
  unfolding report_removed_def settle_deployment_def Let_def
  by (intro ev_all) (simp_all add: rollout_phase_def rollout_touched_def)

lemma wp_report_terminated:
  assumes E: "env_total E" and wf: "store_wf (contents E s)" and w: "contents E s (keyWorkload i) = Some (JWorkload w)"
    and Q: "\<And>t. store_wf (contents E t) \<Longrightarrow> contents E t (keyWorkload i) = None \<Longrightarrow>
      (\<And>k. k \<noteq> keyWorkload i \<Longrightarrow> k \<noteq> keyNode (w_NodeID w) \<Longrightarrow> contents E t k = contents E s k) \<Longrightarrow>
      node_released (contents E s) (contents E t) w \<Longrightarrow> wp (report_removed E w) Q t"
  shows "wp (ReportWorkloadStatus E i WorkloadTerminated c) Q s"
  unfolding ReportWorkloadStatus_def wp_bnd wp_attempt
proof (rule wp_GetWorkload [OF env_total_ok [OF E] wf], unfold sum.case, goal_cases found missing err)
  case (found x t)
  have x: "x = w" and id: "w_ID w = i"
    using found(3) w wl.wf_view [OF wf] wl.wf_view_key [OF wf] by (simp_all add: keyWorkload_def)
  have wt: "store_wf (contents E t)" using found(1) wf by simp
  show ?case
    unfolding x simp_thms if_True wp_seq
  proof (rule wp_release_node [OF E wt], unfold sum.case st_DeleteWorkload_def,
      rule wp_delete [OF env_total_ok [OF E]], unfold sum.case, rule Q, goal_cases wf gone same node)
    case (node u v)
    then show ?case using found(1) id by (auto simp: node_released_def keyNode_def keyWorkload_def)
  next
    case (same u v k)
    then show ?case using found(1) id by simp
  qed (use id in \<open>auto simp: store_wf_def E\<close>)
qed (use w wl.wf_view_None [OF wf] E in \<open>auto simp: keyWorkload_def\<close>)

lemma wp_report_releases:
  assumes "env_total E" and "store_wf (contents E s)" and "contents E s (keyWorkload i) = Some (JWorkload w)"
  shows "wp (ReportWorkloadStatus E i WorkloadTerminated c) (\<lambda>r t. contents E t (keyWorkload i) = None \<and>
    node_released (contents E s) (contents E t) w \<and>
    (\<forall>k. k \<noteq> keyWorkload i \<and> (prefix ''workload:'' k \<or> prefix ''assignment:'' k) \<longrightarrow> contents E t k = contents E s k)) s"
proof (rule wp_report_terminated [OF assms], rule wp_conseq [OF stays_wp [OF ev_report_removed [OF env_total_ok [OF assms(1)]]]], goal_cases)
  case (1 t r u)
  have u: "contents E u k = contents E t k" if "\<not> prefix ''deployment:'' k" "\<not> prefix ''event:'' k" for k
    by (rule evolves_outside [OF 1(5)]) (use that in \<open>auto simp: report_write_def\<close>)
  have own: "contents E u (keyWorkload i) = contents E t (keyWorkload i)"
    "contents E u (keyNode (w_NodeID w)) = contents E t (keyNode (w_NodeID w))"
    by (rule u; simp add: keyWorkload_def keyNode_def)+
  have other: "contents E u k = contents E s k"
    if "k \<noteq> keyWorkload i" "prefix ''workload:'' k \<or> prefix ''assignment:'' k" for k
  proof -
    have "contents E u k = contents E t k" by (rule u) (use that(2) in \<open>auto simp: prefix_def\<close>)
    moreover have "k \<noteq> keyNode (w_NodeID w)" using that(2) by (auto simp: keyNode_def prefix_def)
    ultimately show ?thesis using 1(3) that(1) by simp
  qed
  show ?case using 1(2,4) own other by (simp add: node_released_def)
qed

text \<open>
  (C13) With a database that does not fail, a report that a workload has terminated removes its record
  and gives the resources it held back to its node: what the node has in use becomes less by what the
  workload held, and zero where this would be negative. Every other workload and assignment is unchanged.
\<close>

theorem report_terminated_releases:
  assumes "env_total E" and "store_wf (contents E s)" and "contents E s (keyWorkload i) = Some (JWorkload w)"
  shows "wp (ReportWorkloadStatus E i WorkloadTerminated c) (\<lambda>r t. contents E t (keyWorkload i) = None \<and>
    node_released (contents E s) (contents E t) w \<and>
    (\<forall>k. k \<noteq> keyWorkload i \<and> (prefix ''workload:'' k \<or> prefix ''assignment:'' k) \<longrightarrow> contents E t k = contents E s k)) s"
  by (rule wp_report_releases [OF assms])

definition demo_hosted :: Workload where
  "demo_hosted = demo_replica\<lparr>w_NodeID := ''n1'', w_Resources := \<lparr>MilliCPU = 200, MemoryMB = 900\<rparr>\<rparr>"

definition demo_host :: Node where
  "demo_host = zero_Node\<lparr>n_ID := ''n1'', n_Used := \<lparr>MilliCPU = 500, MemoryMB = 800\<rparr>, n_LastSeen := 7\<rparr>"

definition demo_hosting :: "memdb world" where
  "demo_hosting = NewOrchestrator (stored [JDeployment demo_web, JWorkload demo_hosted, JNode demo_host])"

lemma demo_hosting_stored:
  "store_wf (contents demo_oenv demo_hosting)"
  "contents demo_oenv demo_hosting (keyWorkload ''wk-1'') = Some (JWorkload demo_hosted)"
  "contents demo_oenv demo_hosting (keyNode ''n1'') = Some (JNode demo_host)"
  unfolding demo_hosting_def by (rule stored_wf) (simp_all add: stored_def key_defs demo_hosted_def demo_replica_def demo_host_def)

lemma demo_hosting_released:
  "node_released (contents demo_oenv demo_hosting) m demo_hosted \<Longrightarrow>
   m (keyNode ''n1'') = Some (JNode (demo_host\<lparr>n_Used := \<lparr>MilliCPU = 300, MemoryMB = 0\<rparr>\<rparr>))"
  using demo_hosting_stored(3)
  by (auto simp: node_released_def demo_hosted_def demo_host_def i64_id in64_def IsZero_def zero_time_def)

theorem report_terminated_releases_witness:
  "wp (ReportWorkloadStatus demo_oenv ''wk-1'' WorkloadTerminated []) (\<lambda>r t. contents demo_oenv t (keyWorkload ''wk-1'') = None \<and>
     contents demo_oenv t (keyNode ''n1'') = Some (JNode (demo_host\<lparr>n_Used := \<lparr>MilliCPU = 300, MemoryMB = 0\<rparr>\<rparr>))) demo_hosting"
  by (rule wp_conseq [OF report_terminated_releases [OF demo_oenv_total demo_hosting_stored(1,2)]])
    (use demo_hosting_released in blast)

text \<open>
  When the last replica terminates, the report stores a deployment that is stable and available although
  none of its replicas is left.
\<close>

lemma wp_settled_report:
  assumes E: "env_total E" and wf: "store_wf (contents E s)" and st: "stored_deployment (contents E s) (w_DeploymentID w) = Some dep"
    and none: "active_ids (contents E s) (w_DeploymentID w) = {}" and R: "0 \<le> sp_Replicas (d_Spec dep)"
  shows "wp (report_removed E w) (\<lambda>r t. \<exists>d'. stored_deployment (contents E t) (w_DeploymentID w) = Some d' \<and>
    rs_Phase (d_RolloutStatus d') = ''Stable'' \<and> available d') s"
  unfolding report_removed_def wp_seq
proof (subst wp_bnd, subst wp_attempt, rule wp_stored [OF E wf st], unfold sum.case, goal_cases)
  case (1 t)
  have id: "d_ID dep = w_DeploymentID w" using st wf dp.wf_view_key by (simp add: stored_deployment_def)
  have wt: "store_wf (contents E t)" using 1(1) wf by simp
  show ?case
  proof (subst wp_bnd, subst wp_attempt, rule wp_ListWorkloadsByDeployment [OF env_total_ok [OF E] wt], unfold sum.case, goal_cases ok err)
    case (ok ws u)
    have "runningOrPendingCount ws = 0" by (rule active_list_empty [OF ok(4)]) (use none id 1(1) in simp)
    then show ?case
      using R by (intro wp_settle [OF E], simp, unfold sum.case, intro wp_emit [OF env_total_ok [OF E]])
        (use id in \<open>auto simp: stored_put_at\<close>)
  qed (use E in simp)
qed

lemma last_replica_reported_stable:
  assumes "env_total E" and "store_wf (contents E s)" and "contents E s (keyWorkload i) = Some (JWorkload w)"
    and "stored_deployment (contents E s) (w_DeploymentID w) = Some dep"
    and "active_ids (contents E s) (w_DeploymentID w) \<subseteq> {i}" and "0 \<le> sp_Replicas (d_Spec dep)"
  shows "wp (ReportWorkloadStatus E i WorkloadTerminated c) (\<lambda>r t. \<exists>d'. stored_deployment (contents E t) (w_DeploymentID w) = Some d' \<and>
    rs_Phase (d_RolloutStatus d') = ''Stable'' \<and> available d') s"
proof (rule wp_report_terminated [OF assms(1-3)], rule wp_settled_report [OF assms(1) _ _ _ assms(6)])
  fix t :: "'a world"
  assume t: "contents E t (keyWorkload i) = None" "\<And>k. k \<noteq> keyWorkload i \<Longrightarrow> k \<noteq> keyNode (w_NodeID w) \<Longrightarrow> contents E t k = contents E s k"
  have "contents E t (keyWorkload j) = (if j = i then None else contents E s (keyWorkload j))" for j
    using t by (simp add: keyWorkload_def keyNode_def)
  then show "active_ids (contents E t) (w_DeploymentID w) = {}"
    using assms(5) by (auto simp: active_ids_def split: if_splits)
  have "contents E t (''deployment:'' @ j) = contents E s (''deployment:'' @ j)" for j
    by (rule t(2)) (simp_all add: keyWorkload_def keyNode_def)
  then show "stored_deployment (contents E t) (w_DeploymentID w) = Some dep"
    using assms(4) by (simp add: stored_deployment_def view_def)
qed

end
