(* ===== verification/Nodes.thy ===== *)
theory Nodes
  imports Services Lifecycle
begin

text \<open>
  The nodes of the cluster (\<^verbatim>\<open>internal/service/orchestrator.go\<close> and \<^verbatim>\<open>features.go\<close>): registration and
  heartbeats, the periodic evaluation of node health with the remediation of failed nodes, draining
  and rebalancing, the liveness probes of workloads with the automatic rollback, and the health trends.
\<close>

section \<open>Remediation and rebalancing\<close>

definition remediate_workload :: "'db oenv \<Rightarrow> string \<Rightarrow> string \<Rightarrow> Workload \<Rightarrow> ('db, unit) orch" where
  "remediate_workload E nodeID reason w =
     (if w_NodeID w \<noteq> nodeID then ret ()
      else if w_Status w \<noteq> WorkloadRunning \<and> w_Status w \<noteq> WorkloadPending then ret ()
      else let w = w\<lparr>w_Status := WorkloadTerminating\<rparr> in
      seq (st_UpsertWorkload E w)
      (seq (st_EnqueueAssignment E (delete_assignment w))
      (ignore (emitEvent E (event EventWarn ''health'' ''NodeRemediationTriggered''
         (''Workload marked terminating due to node remediation: '' @ reason) (w_DeploymentID w) (w_ID w) (w_NodeID w))))))"

definition remediateUnhealthyNode :: "'db oenv \<Rightarrow> string \<Rightarrow> string \<Rightarrow> ('db, unit) orch" where
  "remediateUnhealthyNode E nodeID reason = bnd (st_ListWorkloads E) (\<lambda>workloads.
     for_each workloads (remediate_workload E nodeID reason))"

definition node_load :: "Node \<Rightarrow> float64" where
  "node_load n = safeUtilization (iadd (MilliCPU (n_Used n)) (MemoryMB (n_Used n)))
     (iadd (MilliCPU (n_Allocatable n)) (MemoryMB (n_Allocatable n)))"

definition evict_workload :: "'db oenv \<Rightarrow> Workload \<Rightarrow> ('db, unit) orch" where
  "evict_workload E w = (let w = w\<lparr>w_Status := WorkloadTerminating\<rparr> in
     seq (st_UpsertWorkload E w)
     (seq (st_EnqueueAssignment E (delete_assignment w))
     (ignore (emitEvent E (event EventInfo ''rebalance'' ''WorkloadEvicted'' ''Workload evicted for node rebalance''
        (w_DeploymentID w) (w_ID w) (w_NodeID w))))))"

definition rebalanceWorkloads :: "'db oenv \<Rightarrow> ('db, unit) orch" where
  "rebalanceWorkloads E = bnd (st_ListNodes E) (\<lambda>nodes.
     if length nodes < 2 then ret ()
     else let
       nodes = SliceStable (\<lambda>x y. node_load x > node_load y) nodes;
       heavy = hd nodes;
       light = last nodes in
     if fsub (node_load heavy) (node_load light) < 1 / 4 then ret ()
     else bnd (st_ListWorkloads E) (\<lambda>workloads.
       case find (\<lambda>w. w_NodeID w = n_ID heavy \<and> w_Status w = WorkloadRunning) workloads of
         None \<Rightarrow> ret ()
       | Some w \<Rightarrow> evict_workload E w))"

section \<open>Registration, heartbeats and removal\<close>

definition default_node :: "Node \<Rightarrow> Node" where
  "default_node node = (let
     node = (if MilliCPU (n_Capacity node) = 0 then node\<lparr>n_Capacity := (n_Capacity node)\<lparr>MilliCPU := 2000\<rparr>\<rparr> else node);
     node = (if MemoryMB (n_Capacity node) = 0 then node\<lparr>n_Capacity := (n_Capacity node)\<lparr>MemoryMB := 4096\<rparr>\<rparr> else node);
     node = (if MilliCPU (n_Allocatable node) = 0
             then node\<lparr>n_Allocatable := (n_Allocatable node)\<lparr>MilliCPU := MilliCPU (n_Capacity node)\<rparr>\<rparr> else node);
     node = (if MemoryMB (n_Allocatable node) = 0
             then node\<lparr>n_Allocatable := (n_Allocatable node)\<lparr>MemoryMB := MemoryMB (n_Capacity node)\<rparr>\<rparr> else node)
   in if n_Labels node = None then node\<lparr>n_Labels := Some []\<rparr> else node)"

definition RegisterNode :: "'db oenv \<Rightarrow> Node \<Rightarrow> ('db, unit) orch" where
  "RegisterNode E node =
     (if blank (n_ID node) then throw (ErrText ''node id is required'')
      else let node = (default_node node)\<lparr>n_Status := NodeReady\<rparr> in
      bnd (time_now E) (\<lambda>t1. let
        node = node\<lparr>n_Health := zero_NodeHealth\<lparr>h_FailureClass := NodeFailureHealthy, h_LastEvaluatedAt := t1\<rparr>\<rparr> in
      bnd (time_now E) (\<lambda>t2. let node = node\<lparr>n_LastSeen := t2\<rparr> in
      seq (st_UpsertNode E node)
      (ignore (rebalanceWorkloads E)))))"

definition heartbeat :: "Resource \<Rightarrow> gotime \<Rightarrow> gotime \<Rightarrow> Node \<Rightarrow> Node" where
  "heartbeat used t1 t2 node = node\<lparr>n_Used := used, n_Status := NodeReady, n_LastSeen := t1,
     n_Health := (n_Health node)\<lparr>h_LastHeartbeatAgeSec := 0, h_ConsecutiveMissedTTL := 0, h_Isolated := False,
       h_Draining := False, h_FailureClass := NodeFailureHealthy, h_Reason := [], h_LastEvaluatedAt := t2\<rparr>\<rparr>"

definition HeartbeatNode :: "'db oenv \<Rightarrow> string \<Rightarrow> Resource \<Rightarrow> ('db, unit) orch" where
  "HeartbeatNode E nodeID used = bnd (st_GetNode E nodeID) (\<lambda>node.
     bnd (time_now E) (\<lambda>t1. bnd (time_now E) (\<lambda>t2.
     st_UpsertNode E (heartbeat used t1 t2 node))))"

definition DrainNode :: "'db oenv \<Rightarrow> string \<Rightarrow> ('db, unit) orch" where
  "DrainNode E nodeID = bnd (st_GetNode E nodeID) (\<lambda>node. let
     node = node\<lparr>n_Health := (n_Health node)\<lparr>h_Draining := True, h_Isolated := True\<rparr>, n_Status := NodeUnknown\<rparr> in
     seq (st_UpsertNode E node)
     (remediateUnhealthyNode E nodeID ''manual drain''))"

definition RemoveNode :: "'db oenv \<Rightarrow> string \<Rightarrow> ('db, unit) orch" where
  "RemoveNode E nodeID = seq (DrainNode E nodeID) (bnd (st_GetNode E nodeID) (\<lambda>node.
     st_UpsertNode E (node\<lparr>n_Status := NodeDown, n_Health := (n_Health node)\<lparr>h_Reason := ''node removed''\<rparr>\<rparr>)))"

section \<open>Health of the nodes\<close>

text \<open>\<^verbatim>\<open>age.Seconds()\<close> and the threshold \<^verbatim>\<open>0.90\<close>.\<close>

definition Seconds :: "duration \<Rightarrow> float64" where
  "Seconds d = fadd (f_of_int (iquo d Second)) (fdiv (f_of_int (irem d Second)) 1000000000)"

definition pressure :: float64 where
  "pressure = fl (9 / 10)"

definition assess_node :: "duration \<Rightarrow> gotime \<Rightarrow> Node \<Rightarrow> Node" where
  "assess_node nodeTTL now n = (let
     age = time_sub now (n_LastSeen n);
     missed = iquo age nodeTTL;
     cpuUtil = safeUtilization (MilliCPU (n_Used n)) (MilliCPU (n_Allocatable n));
     memUtil = safeUtilization (MemoryMB (n_Used n)) (MemoryMB (n_Allocatable n));
     n = n\<lparr>n_Health := (n_Health n)\<lparr>h_CPUUtilization := cpuUtil, h_MemoryUtilization := memUtil,
       h_LastHeartbeatAgeSec := float_int (Seconds age), h_ConsecutiveMissedTTL := missed, h_LastEvaluatedAt := now\<rparr>\<rparr> in
     if missed \<ge> 2 then
       n\<lparr>n_Health := (n_Health n)\<lparr>h_FailureClass := NodeFailureCritical,
         h_Reason := ''heartbeat missed for multiple TTL intervals'', h_Isolated := True, h_Draining := True\<rparr>, n_Status := NodeDown\<rparr>
     else if missed \<ge> 1 \<or> cpuUtil > pressure \<or> memUtil > pressure then
       if missed \<ge> 1 then
         n\<lparr>n_Health := (n_Health n)\<lparr>h_FailureClass := NodeFailureWarning, h_Reason := ''heartbeat delay exceeds TTL''\<rparr>,
           n_Status := NodeUnknown\<rparr>
       else
         n\<lparr>n_Health := (n_Health n)\<lparr>h_FailureClass := NodeFailureWarning,
             h_Reason := ''node resource pressure above threshold''\<rparr>, n_Status := NodeReady\<rparr>
     else
       n\<lparr>n_Health := (n_Health n)\<lparr>h_FailureClass := NodeFailureHealthy, h_Reason := [], h_Isolated := False, h_Draining := False\<rparr>,
         n_Status := NodeReady\<rparr>)"

definition recordNodeHealthSample :: "Node \<Rightarrow> ('db, unit) orch" where
  "recordNodeHealthSample node = modify (\<lambda>s. let
     samples = o_healthSamples s (n_ID node) @ [\<lparr>hs_NodeID = n_ID node, hs_Timestamp = h_LastEvaluatedAt (n_Health node),
       hs_CPUUtilization = h_CPUUtilization (n_Health node), hs_MemoryUtilization = h_MemoryUtilization (n_Health node),
       hs_FailureClass = h_FailureClass (n_Health node)\<rparr>];
     samples = (if length samples > 256 then drop (length samples - 256) samples else samples) in
     s\<lparr>o_healthSamples := (o_healthSamples s)(n_ID node := samples)\<rparr>)"

definition check_node :: "'db oenv \<Rightarrow> gotime \<Rightarrow> Node \<Rightarrow> ('db, unit) orch" where
  "check_node E now n =
     (if oe_nodeTTL E = 0 then throw (ErrPanic ''integer divide by zero'')
      else let prevClass = h_FailureClass (n_Health n); n = assess_node (oe_nodeTTL E) now n in
      seq (st_UpsertNode E n)
      (seq (recordNodeHealthSample n)
      (if h_FailureClass (n_Health n) = NodeFailureCritical \<and> prevClass \<noteq> NodeFailureCritical then
         seq (remediateUnhealthyNode E (n_ID n) (h_Reason (n_Health n)))
         (ignore (emitEvent E (event EventWarn ''node'' ''NodeIsolatedAndDraining'' ''Node isolated and draining started'' [] [] (n_ID n))))
       else if h_FailureClass (n_Health n) = NodeFailureWarning then
         ignore (emitEvent E (event EventWarn ''node'' ''NodeWarning'' (h_Reason (n_Health n)) [] [] (n_ID n)))
       else ret ())))"

definition updateNodeHealth :: "'db oenv \<Rightarrow> ('db, unit) orch" where
  "updateNodeHealth E = bnd (st_ListNodes E) (\<lambda>nodes.
     bnd (time_now E) (\<lambda>now. for_each nodes (check_node E now)))"

section \<open>Health of the workloads\<close>

definition maybeAutoRollbackForFailures :: "'db oenv \<Rightarrow> Deployment \<Rightarrow> ('db, unit) orch" where
  "maybeAutoRollbackForFailures E dep =
     (if \<not> ro_AutoRollbackOnFailure (sp_Rollout (d_Spec dep)) \<or> d_CurrentRevision dep \<le> 1 then ret ()
      else let threshold = ro_MaxFailedWorkloads (sp_Rollout (d_Spec dep));
        threshold = (if threshold \<le> 0 then 1 else threshold) in
      bnd (attempt (st_ListWorkloadsByDeployment E (d_ID dep))) (\<lambda>r. case r of
        Inl _ \<Rightarrow> ret ()
      | Inr workloads \<Rightarrow> let
          failed = int (length (filter (\<lambda>w. w_Version w = d_CurrentRevision dep \<and> w_Status w = WorkloadFailed) workloads)) in
        if failed < threshold then ret ()
        else bnd (attempt (RollbackDeployment E (d_ID dep) (isub (d_CurrentRevision dep) 1))) (\<lambda>r. case r of
          Inl _ \<Rightarrow> ret ()
        | Inr _ \<Rightarrow> ignore (emitEvent E (event EventWarn ''rollout'' ''AutoRollbackTriggered''
            (''Automatic rollback triggered after '' @ show_int failed @ '' failed workload(s)'') (d_ID dep) [] [])))))"

definition probe_failed :: "gotime \<Rightarrow> Deployment \<Rightarrow> Workload \<Rightarrow> bool" where
  "probe_failed now dep w \<longleftrightarrow> pr_Enabled (sp_LivenessProbe (d_Spec dep)) \<and> w_Status w = WorkloadRunning \<and>
     time_sub now (w_CreatedAt w) \<ge> seconds (pr_InitialDelaySeconds (sp_LivenessProbe (d_Spec dep))) \<and>
     blank (w_ContainerID w)"

definition probe_workload :: "'db oenv \<Rightarrow> Deployment list \<Rightarrow> gotime \<Rightarrow> Workload \<Rightarrow> ('db, unit) orch" where
  "probe_workload E deployments now w = (case depByID deployments (w_DeploymentID w) of
     None \<Rightarrow> ret ()
   | Some dep \<Rightarrow>
     if \<not> probe_failed now dep w then ret ()
     else let w = w\<lparr>w_Status := WorkloadFailed, w_RestartCount := iadd (w_RestartCount w) 1\<rparr> in
     seq (st_UpsertWorkload E w)
     (seq (ignore (emitEvent E (event EventWarn ''health'' ''LivenessProbeFailed'' ''Workload failed liveness probe''
        (w_DeploymentID w) (w_ID w) (w_NodeID w))))
     (maybeAutoRollbackForFailures E dep)))"

definition evaluateWorkloadHealth :: "'db oenv \<Rightarrow> ('db, unit) orch" where
  "evaluateWorkloadHealth E = bnd (st_ListWorkloads E) (\<lambda>workloads.
     bnd (st_ListDeployments E) (\<lambda>deployments.
     bnd (time_now E) (\<lambda>now. for_each workloads (probe_workload E deployments now))))"

section \<open>Trends\<close>

definition spike :: float64 where
  "spike = fl (135 / 100)"

definition raise_max :: "float64 \<Rightarrow> float64 \<Rightarrow> float64" where
  "raise_max m v = (if v > m then v else m)"

definition node_trend :: "(string \<Rightarrow> NodeHealthSample list) \<Rightarrow> int \<Rightarrow> Node \<Rightarrow> NodeHealthTrend" where
  "node_trend healthSamples window n = (let
     history = healthSamples (n_ID n);
     history = (if int (length history) > window then drop (length history - nat window) history else history);
     trend = zero_NodeHealthTrend\<lparr>ht_NodeID := n_ID n, ht_CurrentFailureClass := h_FailureClass (n_Health n),
       ht_LastEvaluatedAt := h_LastEvaluatedAt (n_Health n)\<rparr> in
     if history = [] then trend
     else let
       count = f_of_int (int (length history));
       avgCPU = fdiv (foldl (\<lambda>a s. fadd a (hs_CPUUtilization s)) 0 history) count;
       avgMem = fdiv (foldl (\<lambda>a s. fadd a (hs_MemoryUtilization s)) 0 history) count;
       latest = last history;
       trend = trend\<lparr>ht_SampleCount := int (length history),
         ht_MaxCPUUtilization := foldl (\<lambda>m s. raise_max m (hs_CPUUtilization s)) 0 history,
         ht_MaxMemoryUtilization := foldl (\<lambda>m s. raise_max m (hs_MemoryUtilization s)) 0 history,
         ht_AvgCPUUtilization := avgCPU, ht_AvgMemoryUtilization := avgMem\<rparr> in
     if h_FailureClass (n_Health n) = NodeFailureCritical then
       trend\<lparr>ht_AnomalyDetected := True, ht_AnomalyReason := ''critical node health state''\<rparr>
     else if hs_CPUUtilization latest > pressure \<and> hs_CPUUtilization latest > fmul avgCPU spike \<or>
             hs_MemoryUtilization latest > pressure \<and> hs_MemoryUtilization latest > fmul avgMem spike then
       trend\<lparr>ht_AnomalyDetected := True, ht_AnomalyReason := ''resource utilization spike detected''\<rparr>
     else trend)"

definition ListNodeHealthTrends :: "'db oenv \<Rightarrow> int \<Rightarrow> ('db, NodeHealthTrend list) orch" where
  "ListNodeHealthTrends E window = (let window = (if window \<le> 0 then 20 else window) in
     bnd (st_ListNodes E) (\<lambda>nodes. bnd (gets o_healthSamples) (\<lambda>healthSamples.
     ret (map (node_trend healthSamples window) nodes))))"

section \<open>Frames\<close>

lemma quiet_record: "stays quiet (recordNodeHealthSample n)"
  unfolding recordNodeHealthSample_def Let_def by (rule quiet_modify) simp

lemmas quiet_node_rules = quiet_rules quiet_record

lemma quiet_nodes:
  "stays quiet (remediateUnhealthyNode E i reason)"
  "stays quiet (rebalanceWorkloads E)"
  unfolding remediateUnhealthyNode_def remediate_workload_def rebalanceWorkloads_def evict_workload_def Let_def
  by (intro quiet_node_rules)+

lemma quiet_node_ops:
  "stays quiet (RegisterNode E node)"
  "stays quiet (HeartbeatNode E i used)"
  "stays quiet (DrainNode E i)"
  "stays quiet (updateNodeHealth E)"
  unfolding RegisterNode_def HeartbeatNode_def DrainNode_def updateNodeHealth_def check_node_def Let_def
  by (intro quiet_node_rules quiet_nodes)+

lemma quiet_RemoveNode: "stays quiet (RemoveNode E i)"
  unfolding RemoveNode_def by (intro quiet_node_rules quiet_node_ops)

lemma free_maybeAutoRollback: "stays free (maybeAutoRollbackForFailures E dep)"
  unfolding maybeAutoRollbackForFailures_def Let_def
  by (intro stays_intros free.rules free_RollbackDeployment quiet_store [THEN free_of_quiet] quiet_emitEvent [THEN free_of_quiet])

lemma free_evaluateWorkloadHealth: "stays free (evaluateWorkloadHealth E)"
  unfolding evaluateWorkloadHealth_def probe_workload_def Let_def
  by (intro stays_intros free.rules free_maybeAutoRollback quiet_store [THEN free_of_quiet] quiet_emitEvent [THEN free_of_quiet])

lemma ev_record: "stays (evolves E W) (recordNodeHealthSample n)"
  by (auto simp: recordNodeHealthSample_def modify_def stays_def contents_def Let_def intro!: evolves_same)

lemma good_nodes:
  assumes "env_ok E"
  shows "stays (evolves E good_write) (remediateUnhealthyNode E i reason)"
    and "stays (evolves E good_write) (rebalanceWorkloads E)"
  using assms unfolding remediateUnhealthyNode_def remediate_workload_def rebalanceWorkloads_def evict_workload_def Let_def
  by (intro ev_all; simp)+

lemma n_ID_assess [simp]: "n_ID (assess_node ttl now n) = n_ID n"
  by (simp add: assess_node_def Let_def)

lemma n_ID_default [simp]: "n_ID (default_node n) = n_ID n"
  by (simp add: default_node_def Let_def)

lemma n_ID_heartbeat [simp]: "n_ID (heartbeat u a b n) = n_ID n"
  by (simp add: heartbeat_def)

lemma good_node_ops:
  assumes "env_ok E"
  shows "stays (evolves E good_write) (RegisterNode E node)"
    and "stays (evolves E good_write) (HeartbeatNode E i used)"
    and "stays (evolves E good_write) (DrainNode E i)"
    and "stays (evolves E good_write) (updateNodeHealth E)"
  using assms unfolding RegisterNode_def HeartbeatNode_def DrainNode_def updateNodeHealth_def check_node_def Let_def
  by (intro ev_all good_nodes ev_record; simp)+

lemma good_RemoveNode: "env_ok E \<Longrightarrow> stays (evolves E good_write) (RemoveNode E i)"
  unfolding RemoveNode_def by (intro ev_all good_node_ops) simp_all

lemma sound_maybeAutoRollback: "env_ok E \<Longrightarrow> stays (sound E) (maybeAutoRollbackForFailures E dep)"
  unfolding maybeAutoRollbackForFailures_def Let_def
  by (intro sound_rules sound_RollbackDeployment) simp_all

lemma sound_evaluateWorkloadHealth: "env_ok E \<Longrightarrow> stays (sound E) (evaluateWorkloadHealth E)"
  unfolding evaluateWorkloadHealth_def probe_workload_def Let_def
  by (intro sound_ev sound_rules sound_maybeAutoRollback) simp_all

section \<open>A failed node is evacuated\<close>

text \<open>The active workloads placed on a node, and writes that activate no workload and change no node.\<close>

definition on_node :: "(string \<Rightarrow> blob option) \<Rightarrow> string \<Rightarrow> Workload set" where
  "on_node m i = {w. m (keyWorkload (w_ID w)) = Some (JWorkload w) \<and> w_NodeID w = i \<and> is_active w}"

definition retire_write :: "string \<Rightarrow> blob option \<Rightarrow> bool" where
  "retire_write k v \<longleftrightarrow> own_key k v \<and> \<not> prefix ''node:'' k \<and> (\<forall>w. v = Some (JWorkload w) \<longrightarrow> \<not> is_active w)"

lemma retire_write_simps [simp]:
  "retire_write (keyWorkload i) (Some (JWorkload w)) \<longleftrightarrow> w_ID w = i \<and> \<not> is_active w"
  "retire_write (keyAssignment a b) (Some (JAssignment x)) \<longleftrightarrow> keyAssignment (a_NodeID x) (a_ID x) = keyAssignment a b"
  "retire_write (keyEvent t j) (Some (JEvent ev)) \<longleftrightarrow> keyEvent (ev_Timestamp ev) (ev_ID ev) = keyEvent t j"
  by (auto simp: retire_write_def key_defs)

lemma writes_retire:
  assumes "writes W m n" and "\<And>k w. W k (Some (JWorkload w)) \<Longrightarrow> \<not> is_active w"
  shows "on_node n i \<subseteq> on_node m i"
  using assms(1)
proof (induction rule: writes.induct)
  case (step m n k v)
  show ?case
  proof
    fix w assume w: "w \<in> on_node (n(k := v)) i"
    then have "k \<noteq> keyWorkload (w_ID w)" using assms(2) [of k w] step.hyps(2) by (auto simp: on_node_def)
    then have "w \<in> on_node n i" using w by (auto simp: on_node_def)
    then show "w \<in> on_node m i" using step.IH by blast
  qed
qed simp

lemma evolves_retire: "evolves E retire_write s t \<Longrightarrow> on_node (contents E t) i \<subseteq> on_node (contents E s) i"
  by (auto simp: evolves_def retire_write_def elim!: writes_retire [THEN subsetD, rotated -1])

lemma evolves_retire_node: "evolves E retire_write s t \<Longrightarrow> contents E t (keyNode i) = contents E s (keyNode i)"
  by (erule evolves_outside) (simp add: retire_write_def keyNode_def)

lemma wp_Enqueue_total:
  fixes s :: "'db world"
  assumes "env_total E"
  shows "wp (st_EnqueueAssignment E a) (\<lambda>r t. r = Inr ()) s"
proof -
  have put: "wp (st_put E k b) (\<lambda>r t. r = Inr ()) u" for k b and u :: "'db world"
    by (rule wp_put [OF env_total_ok [OF assms]]) (use assms in auto)
  show ?thesis unfolding st_EnqueueAssignment_def go_laws by (intro wp_ifI wp_bnd_now put)
qed

lemma wp_retire_workload:
  fixes s :: "'db world"
  assumes E: "env_total E"
  shows "wp (remediate_workload E i reason w) (\<lambda>r t. r = Inr () \<and> evolves E retire_write s t \<and> w \<notin> on_node (contents E t) i) s"
proof (cases "w_NodeID w = i \<and> is_active w")
  case False
  then have "remediate_workload E i reason w = ret ()" by (auto simp: remediate_workload_def is_active_def)
  then show ?thesis using False by (auto simp: wp_ret on_node_def evolves_same)
next
  case True
  let ?w = "w\<lparr>w_Status := WorkloadTerminating\<rparr>"
  let ?ev = "event EventWarn ''health'' ''NodeRemediationTriggered''
         (''Workload marked terminating due to node remediation: '' @ reason) (w_DeploymentID ?w) (w_ID ?w) (w_NodeID ?w)"
  have def: "remediate_workload E i reason w = seq (st_UpsertWorkload E ?w)
      (seq (st_EnqueueAssignment E (delete_assignment ?w)) (ignore (emitEvent E ?ev)))"
    using True by (auto simp: remediate_workload_def is_active_def Let_def)
  have changed: "w\<lparr>w_Status := WorkloadTerminating, w_UpdatedAt := now\<rparr> \<noteq> w" for now
    by (rule notI, drule arg_cong [where f = w_Status]) (use True in \<open>auto simp: is_active_def\<close>)
  have stays: "stays (evolves E retire_write) (remediate_workload E i reason w)"
    unfolding def by (intro ev_all env_total_ok [OF E]) (simp_all add: is_active_def)
  have "wp (remediate_workload E i reason w) (\<lambda>r t. r = Inr () \<and> w \<notin> on_node (contents E t) i) s"
    unfolding def wp_seq [where m = "st_UpsertWorkload E ?w"]
  proof (rule wp_UpsertWorkload [OF env_total_ok [OF E]], unfold sum.case, goal_cases ok err)
    case (ok now t)
    have "stays (evolves E other_write) (seq (st_EnqueueAssignment E (delete_assignment ?w)) (ignore (emitEvent E ?ev)))"
      by (intro ev_all env_total_ok [OF E]) simp_all
    moreover have "wp (seq (st_EnqueueAssignment E (delete_assignment ?w)) (ignore (emitEvent E ?ev))) (\<lambda>r t. r = Inr ()) t"
      unfolding wp_seq by (rule wp_conseq [OF wp_Enqueue_total [OF E]]) (simp add: wp_simps wp_any)
    ultimately have "wp (seq (st_EnqueueAssignment E (delete_assignment ?w)) (ignore (emitEvent E ?ev)))
        (\<lambda>r u. evolves E other_write t u \<and> r = Inr ()) t" by (intro wp_conj stays_wp)
    then show ?case
    proof (rule wp_conseq, elim conjE)
      fix r u assume "evolves E other_write t u" "r = Inr ()"
      then have "contents E u (keyWorkload (w_ID w)) = contents E t (keyWorkload (w_ID w))"
        by (intro evolves_outside) (auto simp: other_write_def keyWorkload_def)
      then show "r = Inr () \<and> w \<notin> on_node (contents E u) i"
        using ok(1) changed \<open>r = Inr ()\<close> by (simp add: on_node_def)
    qed
  qed (use E in simp)
  from wp_conj [OF stays_wp [OF stays] this] show ?thesis by (rule wp_conseq) auto
qed

lemma wp_remediate:
  fixes s :: "'db world"
  assumes E: "env_total E" and wf: "store_wf (contents E s)"
  shows "wp (remediateUnhealthyNode E i reason) (\<lambda>r t. r = Inr () \<and> evolves E retire_write s t \<and> on_node (contents E t) i = {}) s"
  unfolding remediateUnhealthyNode_def
proof (rule wp_bnd_ListWorkloads [OF E wf], goal_cases list)
  case (list ws t)
  show ?case
  proof (rule wp_for_each [where I = "\<lambda>pre u. evolves E retire_write s u \<and> on_node (contents E u) i \<subseteq> set ws - set pre"], goal_cases)
    case 1
    show ?case using list by (auto simp: on_node_def evolves_same)
  next
    case (2 pre w post u)
    show ?case
      by (rule wp_conseq [OF wp_retire_workload [OF E]])
        (use 2 in \<open>auto dest: ev.trans evolves_retire [THEN subsetD]\<close>)
  qed auto
qed

text \<open>One node is checked: only its own record is written among the nodes.\<close>

definition node_write :: "string \<Rightarrow> string \<Rightarrow> blob option \<Rightarrow> bool" where
  "node_write i k v \<longleftrightarrow> own_key k v \<and> (prefix ''node:'' k \<longrightarrow> k = keyNode i) \<and> (\<forall>w. v = Some (JWorkload w) \<longrightarrow> \<not> is_active w)"

lemma retire_node_write: "retire_write k v \<Longrightarrow> node_write i k v"
  by (simp add: retire_write_def node_write_def)

lemma node_write_self: "n_ID n = i \<Longrightarrow> node_write i (keyNode i) (Some (JNode n))"
  by (simp add: node_write_def)

lemma evolves_node_write: "evolves E (node_write i) s t \<Longrightarrow> on_node (contents E t) j \<subseteq> on_node (contents E s) j"
  by (auto simp: evolves_def node_write_def elim!: writes_retire [THEN subsetD, rotated -1])

lemma evolves_other_node: "evolves E (node_write i) s t \<Longrightarrow> j \<noteq> i \<Longrightarrow> contents E t (keyNode j) = contents E s (keyNode j)"
  by (erule evolves_outside) (auto simp: node_write_def keyNode_def)

definition assessed :: "'db oenv \<Rightarrow> gotime \<Rightarrow> (string \<Rightarrow> blob option) \<Rightarrow> Node \<Rightarrow> bool" where
  "assessed E now m n \<longleftrightarrow> (\<exists>ls. m (keyNode (n_ID n)) = Some (JNode ((assess_node (oe_nodeTTL E) now n)\<lparr>n_LastSeen := ls\<rparr>))) \<and>
     (h_FailureClass (n_Health (assess_node (oe_nodeTTL E) now n)) = NodeFailureCritical \<and>
      h_FailureClass (n_Health n) \<noteq> NodeFailureCritical \<longrightarrow> on_node m (n_ID n) = {})"

lemma wp_record:
  assumes "\<And>t. contents E t = contents E s \<Longrightarrow> Q (Inr ()) t"
  shows "wp (recordNodeHealthSample n) Q s"
  using assms by (simp add: wp_def recordNodeHealthSample_def modify_def contents_def Let_def)

lemma wp_emit_retire:
  fixes s :: "'db world"
  assumes "env_ok E" and "\<And>t. evolves E retire_write s t \<Longrightarrow> Q (Inr ()) t"
  shows "wp (ignore (emitEvent E e)) Q s"
proof -
  have "stays (evolves E retire_write) (emitEvent E e)" by (intro ev_all assms(1)) simp
  from stays_wp [OF this, of s] show ?thesis unfolding wp_ignore by (rule wp_conseq) (use assms(2) in auto)
qed

lemma assessedI:
  assumes "evolves E retire_write t u" and "evolves E (node_write (n_ID n)) s t"
    and "contents E t (keyNode (n_ID n)) = Some (JNode ((assess_node (oe_nodeTTL E) now n)\<lparr>n_LastSeen := ls\<rparr>))"
    and "h_FailureClass (n_Health (assess_node (oe_nodeTTL E) now n)) = NodeFailureCritical \<Longrightarrow>
      h_FailureClass (n_Health n) \<noteq> NodeFailureCritical \<Longrightarrow> on_node (contents E u) (n_ID n) = {}"
  shows "evolves E (node_write (n_ID n)) s u \<and> assessed E now (contents E u) n"
  using ev.trans [OF assms(2) evolves_mono [OF assms(1) retire_node_write]] assms(3,4) evolves_retire_node [OF assms(1)]
  by (auto simp: assessed_def)

lemma wp_check_node:
  fixes E :: "'db oenv" and s :: "'db world"
  assumes E: "env_total E" and ttl: "oe_nodeTTL E \<noteq> 0" and wf: "store_wf (contents E s)"
  shows "wp (check_node E now n) (\<lambda>r t. r = Inr () \<and> evolves E (node_write (n_ID n)) s t \<and> assessed E now (contents E t) n) s"
    (is "wp _ ?Q s")
proof -
  let ?n = "assess_node (oe_nodeTTL E) now n"
  let ?new = "h_FailureClass (n_Health ?n) = NodeFailureCritical \<and> h_FailureClass (n_Health n) \<noteq> NodeFailureCritical"
  have tail: "wp (if ?new then seq (remediateUnhealthyNode E (n_ID n) (h_Reason (n_Health ?n))) (ignore (emitEvent E e1))
       else if h_FailureClass (n_Health ?n) = NodeFailureWarning then ignore (emitEvent E e2) else ret ()) ?Q t"
    if t: "contents E t = (contents E s)(keyNode (n_ID n) \<mapsto> JNode (?n\<lparr>n_LastSeen := ls\<rparr>))" for t ls e1 e2
  proof -
    have ev: "evolves E (node_write (n_ID n)) s t"
      unfolding evolves_def t by (intro writes.step writes.refl node_write_self) simp
    have wft: "store_wf (contents E t)" using store_wf_put [OF wf, of "JNode (?n\<lparr>n_LastSeen := ls\<rparr>)"] by (simp add: t)
    note step = assessedI [where now = now and ls = ls, OF _ ev]
    have quiet_end: "?Q (Inr ()) u" if "evolves E retire_write t u" "\<not> ?new" for u
      using step [OF that(1)] that(2) t by auto
    show ?thesis
    proof (intro wp_ifI, goal_cases)
      case 1
      show ?case
        unfolding wp_seq
      proof (rule wp_conseq [OF wp_remediate [OF E wft]], elim conjE, simp only: sum.case, rule wp_emit_retire [OF env_total_ok [OF E]])
        fix u v assume u: "evolves E retire_write t u" "on_node (contents E u) (n_ID n) = {}" and v: "evolves E retire_write u v"
        show "?Q (Inr ()) v" using step [OF ev.trans [OF u(1) v]] evolves_retire [OF v, of "n_ID n"] u(2) t by auto
      qed
    next
      case 2
      show ?case by (rule wp_emit_retire [OF env_total_ok [OF E]], rule quiet_end) (use 2 in simp_all)
    next
      case 3
      then show ?case unfolding wp_ret by (intro quiet_end evolves_same) simp_all
    qed
  qed
  show ?thesis
    unfolding check_node_def Let_def n_ID_assess if_not_P [OF ttl] wp_seq [where m = "st_UpsertNode E _"]
      wp_seq [where m = "recordNodeHealthSample _"]
  proof (rule wp_UpsertNode [OF E], unfold sum.case, rule wp_record [where E = E], unfold sum.case, goal_cases)
    case (1 ls t u)
    show ?case by (rule tail [where ls = ls]) (use 1 in simp)
  qed
qed

lemma iquo_ge_2:
  assumes "0 < ttl" and "in64 (2 * ttl)" and "2 * ttl \<le> now - seen"
  shows "2 \<le> iquo (time_sub now seen) ttl"
proof -
  have age: "2 * ttl \<le> time_sub now seen" "time_sub now seen < 2 ^ 63"
    using assms by (auto simp: time_sub_def in64_def)
  then have "2 \<le> time_sub now seen div ttl" using assms(1) zdiv_mono1 [OF age(1) assms(1)] by simp
  moreover have "time_sub now seen div ttl \<le> time_sub now seen"
    using zdiv_mono2 [of "time_sub now seen" 1 ttl] assms(1) age(1) by simp
  ultimately show ?thesis using age assms(1) by (simp add: iquo_def sgn_if i64_id in64_def)
qed

lemma assess_failed:
  assumes "2 \<le> iquo (time_sub now (n_LastSeen n)) ttl"
  shows "n_Status (assess_node ttl now n) = NodeDown" "h_Isolated (n_Health (assess_node ttl now n))"
    "h_FailureClass (n_Health (assess_node ttl now n)) = NodeFailureCritical"
  using assms by (simp_all add: assess_node_def Let_def)

lemma wp_updateNodeHealth:
  fixes E :: "'db oenv" and s :: "'db world"
  assumes E: "env_total E" and ttl: "oe_nodeTTL E \<noteq> 0" and wf: "store_wf (contents E s)"
    and Q: "\<And>k t. (\<And>n. contents E s (keyNode (n_ID n)) = Some (JNode n) \<Longrightarrow> assessed E (env_clock E k) (contents E t) n) \<Longrightarrow> Q (Inr ()) t"
  shows "wp (updateNodeHealth E) Q s"
  unfolding updateNodeHealth_def
proof (rule wp_bnd_ListNodes [OF E wf], goal_cases)
  case (1 ns t)
  show ?case
    unfolding wp_bnd
  proof (rule wp_now, unfold sum.case, goal_cases)
    case (1 u)
    let ?now = "env_clock E (st_tick t)"
    show ?case
    proof (rule wp_for_each [where I = "\<lambda>pre v. store_wf (contents E v) \<and> (\<forall>n \<in> set pre. assessed E ?now (contents E v) n)"], goal_cases start step fin)
      case (step pre n post v)
      show ?case
      proof (rule wp_conseq [OF wp_check_node [OF E ttl]], use step in simp, elim conjE, hypsubst, unfold sum.case, intro conjI ballI)
        fix w assume w: "evolves E (node_write (n_ID n)) v w" "assessed E ?now (contents E w) n"
        show "store_wf (contents E w)" by (rule evolves_wf [OF w(1)]) (use step in \<open>simp_all add: node_write_def\<close>)
        fix m assume "m \<in> set (pre @ [n])"
        then consider "m = n" | "m \<in> set pre" "n_ID m \<noteq> n_ID n" using step(1) \<open>distinct (map n_ID ns)\<close> by (auto, metis imageI)
        then show "assessed E ?now (contents E w) m"
        proof cases
          case 2
          then show ?thesis using step(2) evolves_node_write [OF w(1), of "n_ID m"] evolves_other_node [OF w(1) 2(2)]
            by (auto simp: assessed_def)
        qed (use w in simp)
      qed
    next
      case (fin v)
      then show ?case using \<open>\<And>x. (x \<in> set ns) = _ x\<close> by (intro Q [of "st_tick t"]) simp
    qed (use wf \<open>contents E t = contents E s\<close> 1 in simp)
  qed
qed

text \<open>
  (C14) A node whose last heartbeat is at least two time-to-live intervals old, whenever the clock is
  read, is taken out of service by one evaluation of the node health: the evaluation succeeds, the
  node is stored as down and isolated, and if it had not been critical before, no running or
  pending workload remains on it.
\<close>

theorem failed_node_evacuated:
  fixes E :: "'db oenv" and s :: "'db world"
  assumes E: "env_total E" and wf: "store_wf (contents E s)"
    and ttl: "0 < oe_nodeTTL E" "in64 (2 * oe_nodeTTL E)"
    and n: "contents E s (keyNode i) = Some (JNode n)"
    and silent: "\<And>k. 2 * oe_nodeTTL E \<le> env_clock E k - n_LastSeen n"
  shows "wp (updateNodeHealth E) (\<lambda>r t. r = Inr () \<and>
    (\<exists>n'. contents E t (keyNode i) = Some (JNode n') \<and> n_Status n' = NodeDown \<and> h_Isolated (n_Health n')) \<and>
    (h_FailureClass (n_Health n) \<noteq> NodeFailureCritical \<longrightarrow> on_node (contents E t) i = {})) s"
proof (rule wp_updateNodeHealth [OF E _ wf])
  have id: "n_ID n = i" using wf n by (force simp: store_wf_def keyNode_def)
  fix k t assume a: "\<And>n. contents E s (keyNode (n_ID n)) = Some (JNode n) \<Longrightarrow> assessed E (env_clock E k) (contents E t) n"
  note failed = assess_failed [OF iquo_ge_2 [OF ttl silent [of k]]]
  show "Inr () = Inr () \<and> (\<exists>n'. contents E t (keyNode i) = Some (JNode n') \<and> n_Status n' = NodeDown \<and> h_Isolated (n_Health n')) \<and>
    (h_FailureClass (n_Health n) \<noteq> NodeFailureCritical \<longrightarrow> on_node (contents E t) i = {})"
    using a [of n] n failed by (auto simp: assessed_def id)
qed (use ttl in simp)

definition demo_silent :: Node where
  "demo_silent = zero_Node\<lparr>n_ID := ''n1'', n_Status := NodeReady, n_LastSeen := 1600000000000000000\<rparr>"

theorem failed_node_evacuated_witness:
  "wp (updateNodeHealth demo_oenv) (\<lambda>r t. r = Inr () \<and> on_node (contents demo_oenv t) ''n1'' = {})
     (NewOrchestrator (stored [JNode demo_silent, JWorkload demo_backing]))"
proof -
  have n: "contents demo_oenv (NewOrchestrator (stored [JNode demo_silent, JWorkload demo_backing])) (keyNode ''n1'') = Some (JNode demo_silent)"
    by (simp add: stored_def demo_silent_def demo_backing_def key_defs)
  have "0 < oe_nodeTTL demo_oenv" "in64 (2 * oe_nodeTTL demo_oenv)" "\<And>k. 2 * oe_nodeTTL demo_oenv \<le> env_clock demo_oenv k - n_LastSeen demo_silent"
    by (simp_all add: demo_oenv_def demo_silent_def Second_def in64_def)
  from failed_node_evacuated [OF demo_oenv_total stored_wf this(1,2) n this(3)]
  show ?thesis by (rule wp_conseq) (simp add: demo_silent_def zero_Node_def zero_NodeHealth_def)
qed

text \<open>A heartbeat, and the next evaluation while heartbeats arrive, undo a manual drain or removal of the node.\<close>

lemma heartbeat_undrains:
  "n_Status (heartbeat used t1 t2 n) = NodeReady" "\<not> h_Draining (n_Health (heartbeat used t1 t2 n))"
  by (simp_all add: heartbeat_def)

text \<open>A heartbeat replaces what the node uses by what the worker counts, which leaves out the workloads that were
  placed on the node but not started yet.\<close>

lemma heartbeat_forgets_reservation: "n_Used (heartbeat used t1 t2 n) = used"
  by (simp add: heartbeat_def)

lemma evaluation_undrains:
  assumes "iquo (time_sub now (n_LastSeen n)) ttl < 1"
    and "safeUtilization (MilliCPU (n_Used n)) (MilliCPU (n_Allocatable n)) \<le> pressure"
    and "safeUtilization (MemoryMB (n_Used n)) (MemoryMB (n_Allocatable n)) \<le> pressure"
  shows "n_Status (assess_node ttl now n) = NodeReady" "\<not> h_Draining (n_Health (assess_node ttl now n))"
  using assms by (simp_all add: assess_node_def Let_def)

end
