(* ===== verification/Storage.thy ===== *)
theory Storage
  imports Deployments
begin

text \<open>
  Persistent volumes and claims (\<^verbatim>\<open>internal/service/features.go\<close>): registration of volumes and
  claims and the routine \<^verbatim>\<open>reconcilePVCBindings\<close> that binds every pending claim to the smallest
  available volume that suits it. As in the source the list of volumes is read once and a binding does
  not change the copy in that list.
\<close>

section \<open>Operations\<close>

fun namespace_claims :: "'db oenv \<Rightarrow> Namespace list \<Rightarrow> ('db, PersistentVolumeClaim list) orch" where
  "namespace_claims E [] = ret []"
| "namespace_claims E (ns # rest) =
     bnd (attempt (st_ListPersistentVolumeClaims E (ns_Name ns))) (\<lambda>r.
     bnd (namespace_claims E rest) (\<lambda>more.
     ret ((case r of Inl _ \<Rightarrow> [] | Inr items \<Rightarrow> items) @ more)))"

definition suits :: "PersistentVolumeClaim \<Rightarrow> PersistentVolume \<Rightarrow> bool" where
  "suits pvc pv \<longleftrightarrow> pv_Phase pv = PersistentVolumeAvailable \<and>
     \<not> pv_CapacityMB pv < pvc_RequestedCapacity pvc \<and>
     \<not> (\<not> blank (pvc_StorageClass pvc) \<and> \<not> blank (pv_StorageClass pv) \<and> pvc_StorageClass pvc \<noteq> pv_StorageClass pv) \<and>
     \<not> (\<not> blank (pvc_AccessMode pvc) \<and> \<not> blank (pv_AccessMode pv) \<and> pvc_AccessMode pvc \<noteq> pv_AccessMode pv)"

definition bind_claim :: "'db oenv \<Rightarrow> PersistentVolume list \<Rightarrow> PersistentVolumeClaim \<Rightarrow> ('db, unit) orch" where
  "bind_claim E pvs pvc =
     (if pvc_Phase pvc = PersistentVolumeClaimBound \<and> \<not> blank (pvc_VolumeName pvc) then ret ()
      else case find (suits pvc) pvs of
        None \<Rightarrow> ret ()
      | Some pv \<Rightarrow>
        seq (st_UpsertPersistentVolume E (pv\<lparr>pv_Phase := PersistentVolumeBound, pv_ClaimNamespace := pvc_Namespace pvc,
               pv_ClaimName := pvc_Name pvc\<rparr>))
        (st_UpsertPersistentVolumeClaim E (pvc\<lparr>pvc_VolumeName := pv_Name pv, pvc_Phase := PersistentVolumeClaimBound\<rparr>)))"

definition by_capacity :: "PersistentVolume \<Rightarrow> PersistentVolume \<Rightarrow> bool" where
  "by_capacity a b \<longleftrightarrow> pv_CapacityMB a < pv_CapacityMB b"

definition reconcilePVCBindings :: "'db oenv \<Rightarrow> ('db, unit) orch" where
  "reconcilePVCBindings E =
     bnd (st_ListPersistentVolumes E) (\<lambda>pvs.
     bnd (st_ListPersistentVolumeClaims E ''default'') (\<lambda>pvcs.
     bnd (st_ListNamespaces E) (\<lambda>namespaces.
     bnd (namespace_claims E namespaces) (\<lambda>more.
     for_each (pvcs @ more) (bind_claim E (SliceStable by_capacity pvs))))))"

definition UpsertPersistentVolume :: "'db oenv \<Rightarrow> PersistentVolume \<Rightarrow> ('db, PersistentVolume) orch" where
  "UpsertPersistentVolume E pv =
     (if blank (pv_Name pv) then throw (ErrText ''persistent volume name is required'')
      else if pv_CapacityMB pv \<le> 0 then throw (ErrText ''persistent volume capacityMb must be > 0'')
      else let pv = (if pv_Phase pv = PersistentVolumePhaseUnset then pv\<lparr>pv_Phase := PersistentVolumeAvailable\<rparr> else pv) in
     seq (st_UpsertPersistentVolume E pv)
     (st_GetPersistentVolume E (pv_Name pv)))"

definition UpsertPersistentVolumeClaim :: "'db oenv \<Rightarrow> PersistentVolumeClaim \<Rightarrow> ('db, PersistentVolumeClaim) orch" where
  "UpsertPersistentVolumeClaim E pvc = (let
     pvc = (if blank (pvc_Namespace pvc) then pvc\<lparr>pvc_Namespace := ''default''\<rparr> else pvc) in
     if blank (pvc_Name pvc) then throw (ErrText ''persistent volume claim name is required'')
     else if pvc_RequestedCapacity pvc \<le> 0 then throw (ErrText ''persistent volume claim requestedCapacityMb must be > 0'')
     else seq (ensureNamespaceExists E (pvc_Namespace pvc))
     (let pvc = (if pvc_Phase pvc = PersistentVolumeClaimPhaseUnset then pvc\<lparr>pvc_Phase := PersistentVolumeClaimPending\<rparr> else pvc) in
     seq (st_UpsertPersistentVolumeClaim E pvc)
     (seq (reconcilePVCBindings E)
     (st_GetPersistentVolumeClaim E (pvc_Namespace pvc) (pvc_Name pvc)))))"

definition ListPersistentVolumeClaims :: "'db oenv \<Rightarrow> string \<Rightarrow> ('db, PersistentVolumeClaim list) orch" where
  "ListPersistentVolumeClaims E namespace =
     st_ListPersistentVolumeClaims E (if blank namespace then ''default'' else namespace)"

section \<open>Frames\<close>

lemma quiet_namespace_claims: "stays quiet (namespace_claims E ns)"
  by (induction ns) (auto intro!: quiet_rules)

lemma quiet_reconcilePVCBindings: "stays quiet (reconcilePVCBindings E)"
  unfolding reconcilePVCBindings_def bind_claim_def by (intro quiet_rules quiet_namespace_claims)

lemma quiet_UpsertPersistentVolume: "stays quiet (UpsertPersistentVolume E pv)"
  unfolding UpsertPersistentVolume_def Let_def by (intro quiet_rules)

lemma quiet_UpsertPersistentVolumeClaim: "stays quiet (UpsertPersistentVolumeClaim E pvc)"
  unfolding UpsertPersistentVolumeClaim_def Let_def by (intro quiet_rules quiet_reconcilePVCBindings)

lemma ev_namespace_claims: "env_ok E \<Longrightarrow> stays (evolves E W) (namespace_claims E ns)"
  by (induction ns) (auto intro!: stays_intros ev.rules)

lemma good_reconcilePVCBindings: "env_ok E \<Longrightarrow> stays (evolves E good_write) (reconcilePVCBindings E)"
  unfolding reconcilePVCBindings_def bind_claim_def
  by (intro stays_intros ev.rules ev_reads ev_namespace_claims ev_UpsertPersistentVolume ev_UpsertPersistentVolumeClaim) simp_all

lemma good_UpsertPersistentVolume: "env_ok E \<Longrightarrow> stays (evolves E good_write) (UpsertPersistentVolume E pv)"
  unfolding UpsertPersistentVolume_def Let_def
  by (intro stays_intros ev.rules ev_reads ev_UpsertPersistentVolume) simp_all

lemma good_UpsertPersistentVolumeClaim: "env_ok E \<Longrightarrow> stays (evolves E good_write) (UpsertPersistentVolumeClaim E pvc)"
  unfolding UpsertPersistentVolumeClaim_def Let_def
  by (intro stays_intros ev.rules ev_reads ev_ensureNamespaceExists ev_UpsertPersistentVolumeClaim good_reconcilePVCBindings) simp_all

section \<open>The choice of a volume\<close>

interpretation capacity: strict_weak by_capacity
  by unfold_locales (auto simp: by_capacity_def)

lemma find_sorted:
  assumes "sorted_wrt (\<lambda>a b. \<not> by_capacity b a) pvs" and "find P pvs = Some pv"
  shows "pv \<in> set pvs \<and> P pv \<and> (\<forall>q \<in> set pvs. P q \<longrightarrow> pv_CapacityMB pv \<le> pv_CapacityMB q)"
  using assms by (induction pvs) (auto simp: by_capacity_def split: if_splits)

definition volumes :: "(string \<Rightarrow> blob option) \<Rightarrow> PersistentVolume set" where
  "volumes m = {pv. m (keyPersistentVolume (pv_Name pv)) = Some (JPersistentVolume pv)}"

text \<open>
  A volume answers a claim when it is large enough and when storage class and access mode agree wherever
  both sides name one. The best volume for a claim is a smallest one of those that are available.
\<close>

definition answers :: "PersistentVolume \<Rightarrow> PersistentVolumeClaim \<Rightarrow> bool" where
  "answers v c \<longleftrightarrow> pvc_RequestedCapacity c \<le> pv_CapacityMB v \<and>
     (pvc_StorageClass c = pv_StorageClass v \<or> blank (pvc_StorageClass c) \<or> blank (pv_StorageClass v)) \<and>
     (pvc_AccessMode c = pv_AccessMode v \<or> blank (pvc_AccessMode c) \<or> blank (pv_AccessMode v))"

definition candidates :: "PersistentVolume set \<Rightarrow> PersistentVolumeClaim \<Rightarrow> PersistentVolume set" where
  "candidates V c = {v \<in> V. pv_Phase v = PersistentVolumeAvailable \<and> answers v c}"

definition best_bound :: "PersistentVolume set \<Rightarrow> PersistentVolumeClaim \<Rightarrow> bool" where
  "best_bound V c \<longleftrightarrow> pvc_Phase c = PersistentVolumeClaimBound \<and>
     (\<exists>v \<in> candidates V c. pvc_VolumeName c = pv_Name v \<and> (\<forall>q \<in> candidates V c. pv_CapacityMB v \<le> pv_CapacityMB q))"

definition waiting :: "PersistentVolumeClaim \<Rightarrow> bool" where
  "waiting c \<longleftrightarrow> pvc_Phase c \<noteq> PersistentVolumeClaimBound \<or> blank (pvc_VolumeName c)"

lemma waiting_iff: "waiting c \<longleftrightarrow> \<not> (pvc_Phase c = PersistentVolumeClaimBound \<and> \<not> blank (pvc_VolumeName c))"
  by (auto simp: waiting_def)

text \<open>A claim that was waiting and differs only in its binding and its times.\<close>

definition now_bound :: "PersistentVolumeClaim \<Rightarrow> PersistentVolumeClaim \<Rightarrow> bool" where
  "now_bound c c' \<longleftrightarrow> waiting c \<and> (\<exists>v t u. c' = c\<lparr>pvc_VolumeName := v, pvc_Phase := PersistentVolumeClaimBound, pvc_CreatedAt := t, pvc_UpdatedAt := u\<rparr>)"

definition binding_write :: "(string \<Rightarrow> blob option) \<Rightarrow> string \<Rightarrow> blob option \<Rightarrow> bool" where
  "binding_write m k v \<longleftrightarrow> v \<noteq> None \<and> own_key k v \<and> (\<forall>c. v = Some (JPersistentVolumeClaim c) \<longrightarrow>
     best_bound (volumes m) c \<and> (\<exists>c0. m k = Some (JPersistentVolumeClaim c0) \<and> now_bound c0 c))"

lemma suits_iff: "suits c v \<longleftrightarrow> pv_Phase v = PersistentVolumeAvailable \<and> answers v c"
  by (auto simp: suits_def answers_def)

lemma candidates_cong [simp]:
  "candidates V (c\<lparr>pvc_VolumeName := n, pvc_Phase := ph, pvc_CreatedAt := t, pvc_UpdatedAt := u\<rparr>) = candidates V c"
  by (simp add: candidates_def answers_def)

lemma found_best:
  assumes "sorted_wrt (\<lambda>a b. \<not> by_capacity b a) pvs" and "set pvs = V" and "find (suits c) pvs = Some pv"
  shows "best_bound V (c\<lparr>pvc_VolumeName := pv_Name pv, pvc_Phase := PersistentVolumeClaimBound, pvc_CreatedAt := t, pvc_UpdatedAt := u\<rparr>)"
  using find_sorted [OF assms(1,3)] assms(2) by (auto simp: best_bound_def suits_iff candidates_def answers_def)

lemma ev_bind_claim:
  assumes E: "env_ok E" and pvs: "sorted_wrt (\<lambda>a b. \<not> by_capacity b a) pvs" "set pvs = volumes m"
    and c: "m (keyPersistentVolumeClaim (pvc_Namespace c) (pvc_Name c)) = Some (JPersistentVolumeClaim c)"
  shows "stays (evolves E (binding_write m)) (bind_claim E pvs c)"
proof (cases "find (suits c) pvs")
  case None
  then show ?thesis unfolding bind_claim_def by (auto intro!: stays_if ev.ret)
next
  case (Some pv)
  have "now_bound c (c\<lparr>pvc_VolumeName := pv_Name pv, pvc_Phase := PersistentVolumeClaimBound, pvc_CreatedAt := t, pvc_UpdatedAt := u\<rparr>)"
    if "waiting c" for t u using that by (auto simp: now_bound_def)
  then show ?thesis
    unfolding bind_claim_def Some option.case
    by (intro stays_if ev.ret ev.seq ev_UpsertPersistentVolume ev_UpsertPersistentVolumeClaim E)
      (use c found_best [OF pvs Some] in \<open>simp_all add: binding_write_def waiting_def\<close>)
qed

lemma volumes_ran: "store_wf m \<Longrightarrow> ran (view un_PersistentVolume ''pv:'' m) = volumes m"
  using pvol.wf_view [of m] pvol.wf_view_key [of m] by (auto simp: volumes_def ran_def keyPersistentVolume_def)

lemma writes_new: "writes W m n \<Longrightarrow> n k = m k \<or> W k (n k)"
  by (induction rule: writes.induct) auto

lemma wp_read_bnd:
  assumes "wp m (\<lambda>r t. contents E t = contents E s \<and> (\<forall>x. r = Inr x \<longrightarrow> P x)) s"
    and "\<And>x t. P x \<Longrightarrow> contents E t = contents E s \<Longrightarrow> wp (f x) Q t" and "\<And>e t. contents E t = contents E s \<Longrightarrow> Q (Inl e) t"
  shows "wp (bnd m f) Q s"
  unfolding wp_bnd by (rule wp_conseq [OF assms(1)]) (use assms(2,3) in \<open>auto split: sum.splits\<close>)

lemma wp_UpsertPV:
  fixes E :: "'db oenv" and s :: "'db world"
  assumes "env_total E" and "pv_Phase x \<noteq> PersistentVolumePhaseUnset"
    and "\<And>c u t. contents E t = (contents E s)(keyPersistentVolume (pv_Name x) \<mapsto> JPersistentVolume (x\<lparr>pv_CreatedAt := c, pv_UpdatedAt := u\<rparr>)) \<Longrightarrow> Q (Inr ()) t"
  shows "wp (st_UpsertPersistentVolume E x) Q s"
proof -
  have put: "wp (st_put E (keyPersistentVolume (pv_Name x)) (JPersistentVolume (x\<lparr>pv_CreatedAt := c, pv_UpdatedAt := u\<rparr>))) Q t"
    if "contents E t = contents E s" for c u t
    by (rule wp_put [OF env_total_ok [OF assms(1)]]) (use assms that in auto)
  show ?thesis
    using put [where c = "pv_CreatedAt x"] assms(2) unfolding st_UpsertPersistentVolume_def go_laws Let_def
    by (auto intro!: wp_ifI wp_bnd_now put)
qed

lemma wp_UpsertPVC:
  fixes E :: "'db oenv" and s :: "'db world"
  assumes "env_total E" and "pvc_Phase x \<noteq> PersistentVolumeClaimPhaseUnset"
    and "\<And>c u t. contents E t = (contents E s)(keyPersistentVolumeClaim (pvc_Namespace x) (pvc_Name x) \<mapsto>
      JPersistentVolumeClaim (x\<lparr>pvc_CreatedAt := c, pvc_UpdatedAt := u\<rparr>)) \<Longrightarrow> Q (Inr ()) t"
  shows "wp (st_UpsertPersistentVolumeClaim E x) Q s"
proof -
  have put: "wp (st_put E (keyPersistentVolumeClaim (pvc_Namespace x) (pvc_Name x))
      (JPersistentVolumeClaim (x\<lparr>pvc_CreatedAt := c, pvc_UpdatedAt := u\<rparr>))) Q t" if "contents E t = contents E s" for c u t
    by (rule wp_put [OF env_total_ok [OF assms(1)]]) (use assms that in auto)
  show ?thesis
    using put [where c = "pvc_CreatedAt x"] assms(2) unfolding st_UpsertPersistentVolumeClaim_def go_laws Let_def
    by (auto intro!: wp_ifI wp_bnd_now put)
qed

lemma wp_bind_claim:
  assumes "env_total E" and "waiting c" and "find (suits c) pvs = Some pv"
    and "\<And>a u t. contents E t (keyPersistentVolumeClaim (pvc_Namespace c) (pvc_Name c)) = Some (JPersistentVolumeClaim
        (c\<lparr>pvc_VolumeName := pv_Name pv, pvc_Phase := PersistentVolumeClaimBound, pvc_CreatedAt := a, pvc_UpdatedAt := u\<rparr>)) \<Longrightarrow>
      (\<And>k. k \<noteq> keyPersistentVolumeClaim (pvc_Namespace c) (pvc_Name c) \<Longrightarrow> k \<noteq> keyPersistentVolume (pv_Name pv) \<Longrightarrow>
        contents E t k = contents E s k) \<Longrightarrow> Q (Inr ()) t"
  shows "wp (bind_claim E pvs c) Q s"
  unfolding bind_claim_def if_not_P [OF waiting_iff [THEN iffD1, OF assms(2)]] assms(3) option.case wp_seq
  by (rule wp_UpsertPV [OF assms(1)], simp, unfold sum.case, rule wp_UpsertPVC [OF assms(1)], simp, rule assms(4), simp_all)

subsection \<open>The claims that are listed\<close>

definition stored_claims :: "(string \<Rightarrow> blob option) \<Rightarrow> PersistentVolumeClaim set" where
  "stored_claims m = {c. m (keyPersistentVolumeClaim (pvc_Namespace c) (pvc_Name c)) = Some (JPersistentVolumeClaim c)}"

text \<open>A reading call that returns stored claims, and all those of the namespaces \<open>N\<close> if the database does not fail.\<close>

definition reads_claims :: "'db oenv \<Rightarrow> 'db world \<Rightarrow> string set \<Rightarrow> ('db, PersistentVolumeClaim list) orch \<Rightarrow> bool" where
  "reads_claims E s N m \<longleftrightarrow> (\<forall>t. contents E t = contents E s \<longrightarrow> wp m (\<lambda>r u. contents E u = contents E s \<and>
     (case r of Inl _ \<Rightarrow> \<not> env_total E
      | Inr xs \<Rightarrow> set xs \<subseteq> stored_claims (contents E s) \<and> (env_total E \<longrightarrow> {c \<in> stored_claims (contents E s). pvc_Namespace c \<in> N} \<subseteq> set xs))) t)"

lemma reads_ListClaims:
  assumes E: "env_ok E" and wf: "store_wf (contents E s)"
  shows "reads_claims E s {ns} (st_ListPersistentVolumeClaims E ns)"
  unfolding reads_claims_def st_ListPersistentVolumeClaims_def
proof (intro allI impI, rule claim.wp_list_prefix [OF E], goal_cases)
  case (3 t xs u)
  then show ?case by (auto simp: stored_claims_def keyPersistentVolumeClaim_def keyPersistentVolumeClaimPrefix_def)
qed (use wf in \<open>auto simp: keyPersistentVolumeClaimPrefix_def\<close>)

lemma reads_namespace_claims:
  assumes E: "env_ok E" and wf: "store_wf (contents E s)"
  shows "reads_claims E s (ns_Name ` set nss) (namespace_claims E nss)"
proof (induction nss)
  case (Cons ns nss)
  show ?case
    unfolding reads_claims_def namespace_claims.simps wp_bnd wp_attempt wp_ret sum.case
  proof (intro allI impI, rule wp_conseq [OF reads_ListClaims [OF E wf, unfolded reads_claims_def, rule_format]], assumption, goal_cases)
    case (1 t r u)
    then show ?case
      by (intro wp_conseq [OF Cons.IH [unfolded reads_claims_def, rule_format, of u]]) (auto split: sum.splits)
  qed
qed (simp add: reads_claims_def wp_ret)

subsection \<open>The loop\<close>

definition claim_settled :: "(string \<Rightarrow> blob option) \<Rightarrow> (string \<Rightarrow> blob option) \<Rightarrow> PersistentVolumeClaim \<Rightarrow> bool" where
  "claim_settled m n c \<longleftrightarrow> (\<exists>c'. n (keyPersistentVolumeClaim (pvc_Namespace c) (pvc_Name c)) = Some (JPersistentVolumeClaim c') \<and> best_bound (volumes m) c')"

lemma claim_settled_writes:
  assumes "claim_settled m n c" and "writes (binding_write m) n n'"
  shows "claim_settled m n' c"
proof (cases "binding_write m (keyPersistentVolumeClaim (pvc_Namespace c) (pvc_Name c)) (n' (keyPersistentVolumeClaim (pvc_Namespace c) (pvc_Name c)))")
  case True
  then obtain b where b: "n' (keyPersistentVolumeClaim (pvc_Namespace c) (pvc_Name c)) = Some b"
    "blob_key b = keyPersistentVolumeClaim (pvc_Namespace c) (pvc_Name c)" by (auto simp: binding_write_def)
  obtain c' where "b = JPersistentVolumeClaim c'" using claim.only [of b] b(2)
    by (auto simp: keyPersistentVolumeClaim_def keyPersistentVolumeClaimPrefix_def)
  then show ?thesis using True b(1) by (simp add: claim_settled_def binding_write_def)
qed (use writes_new [OF assms(2), of "keyPersistentVolumeClaim (pvc_Namespace c) (pvc_Name c)"] assms(1) in \<open>auto simp: claim_settled_def\<close>)

lemma wp_both: "wp m P s \<Longrightarrow> wp m Q s \<Longrightarrow> wp m (\<lambda>r t. P r t \<and> Q r t) s"
  by (auto simp: wp_def split: prod.splits)

lemma wp_binding_loop:
  assumes E: "env_ok E" and pvs: "sorted_wrt (\<lambda>a b. \<not> by_capacity b a) pvs" "set pvs = volumes m" and cs: "set cs \<subseteq> stored_claims m"
    and s: "contents E s = m"
    and Q: "\<And>r t. writes (binding_write m) m (contents E t) \<Longrightarrow>
      (\<And>c. env_total E \<Longrightarrow> c \<in> set cs \<Longrightarrow> waiting c \<Longrightarrow> candidates (volumes m) c \<noteq> {} \<Longrightarrow> claim_settled m (contents E t) c) \<Longrightarrow> Q r t"
  shows "wp (for_each cs (bind_claim E pvs)) Q s"
proof -
  let ?due = "\<lambda>ds t. \<forall>c \<in> set ds. waiting c \<and> candidates (volumes m) c \<noteq> {} \<longrightarrow> claim_settled m (contents E t) c"
  let ?I = "\<lambda>ds t. writes (binding_write m) m (contents E t) \<and> (env_total E \<longrightarrow> ?due ds t)"
  have step: "wp (bind_claim E pvs x) (\<lambda>r u. writes (binding_write m) (contents E t) (contents E u) \<and>
      (env_total E \<longrightarrow> r = Inr () \<and> (waiting x \<and> candidates (volumes m) x \<noteq> {} \<longrightarrow> claim_settled m (contents E u) x))) t"
    if x: "x \<in> set cs" for x t
  proof (rule wp_both)
    have "m (keyPersistentVolumeClaim (pvc_Namespace x) (pvc_Name x)) = Some (JPersistentVolumeClaim x)" using x cs by (auto simp: stored_claims_def)
    from stays_wp [OF ev_bind_claim [OF E pvs this]]
    show "wp (bind_claim E pvs x) (\<lambda>r u. writes (binding_write m) (contents E t) (contents E u)) t" by (simp add: evolves_def)
    show "wp (bind_claim E pvs x) (\<lambda>r u. env_total E \<longrightarrow> r = Inr () \<and> (waiting x \<and> candidates (volumes m) x \<noteq> {} \<longrightarrow> claim_settled m (contents E u) x)) t"
    proof (cases "env_total E \<and> waiting x \<and> find (suits x) pvs \<noteq> None")
      case True
      then obtain pv where pv: "find (suits x) pvs = Some pv" by auto
      show ?thesis
        by (rule wp_bind_claim [OF _ _ pv]) (use True found_best [OF pvs pv] in \<open>auto simp: claim_settled_def\<close>)
    next
      case False
      have "candidates (volumes m) x = {}" if "find (suits x) pvs = None"
        using that pvs(2) by (auto simp: find_None_iff candidates_def suits_iff)
      then show ?thesis using False
        by (cases "env_total E") (auto simp: bind_claim_def waiting_def wp_ret wp_any split: option.split)
    qed
  qed
  show ?thesis
  proof (rule wp_for_each [where I = ?I])
    fix pre x post and t :: "'a world" assume split: "cs = pre @ x # post" and I: "?I pre t"
    show "wp (bind_claim E pvs x) (\<lambda>r u. case r of Inl e \<Rightarrow> Q (Inl e) u | Inr _ \<Rightarrow> ?I (pre @ [x]) u) t"
    proof (rule wp_conseq [OF step [of x t]], goal_cases)
      case (2 r u)
      have w: "writes (binding_write m) m (contents E u)" using writes_trans 2 I by blast
      have "?due (pre @ [x]) u" if "env_total E" using I 2 that claim_settled_writes by auto
      then show ?case using w 2 by (auto split: sum.split intro: Q)
    qed (simp add: split)
  qed (use s Q in \<open>auto intro: writes.refl\<close>)
qed

text \<open>
  (C24) The binding of claims to volumes. Every claim whose record a run changes was waiting for a volume and
  is now bound, and nothing else of it changes but its times; its volume is, among those that were
  available when the run began, a smallest one that is large enough and agrees with it on storage class
  and access mode. If the database does not fail, a run leaves no claim waiting, in the namespace
  \<^verbatim>\<open>default\<close> or in a stored one, for which there was such a volume. (Whether a volume is available is
  decided once, at the beginning: a volume that was given to one claim in a run can be given to another
  one in the same run.)
\<close>

theorem claims_bound_best:
  assumes "env_ok E" and "store_wf (contents E s)"
  shows "wp (reconcilePVCBindings E) (\<lambda>r t.
    (\<forall>k c'. contents E t k = Some (JPersistentVolumeClaim c') \<and> contents E s k \<noteq> Some (JPersistentVolumeClaim c') \<longrightarrow>
      best_bound (volumes (contents E s)) c' \<and> (\<exists>c. contents E s k = Some (JPersistentVolumeClaim c) \<and> now_bound c c')) \<and>
    (\<forall>c \<in> stored_claims (contents E s). env_total E \<and> waiting c \<and> candidates (volumes (contents E s)) c \<noteq> {} \<and>
      (pvc_Namespace c = ''default'' \<or> (\<exists>ns. contents E s (keyNamespace (pvc_Namespace c)) = Some (JNamespace ns))) \<longrightarrow>
      claim_settled (contents E s) (contents E t) c)) s" (is "wp _ ?Q s")
proof -
  let ?m = "contents E s"
  have Q: "?Q r t" if w: "writes (binding_write ?m) ?m (contents E t)"
    and due: "\<And>c. env_total E \<Longrightarrow> c \<in> stored_claims ?m \<Longrightarrow>
      pvc_Namespace c = ''default'' \<or> (\<exists>ns. ?m (keyNamespace (pvc_Namespace c)) = Some (JNamespace ns)) \<Longrightarrow>
      waiting c \<Longrightarrow> candidates (volumes ?m) c \<noteq> {} \<Longrightarrow> claim_settled ?m (contents E t) c" for r t
  proof (intro conjI allI impI ballI)
    fix k c' assume c: "contents E t k = Some (JPersistentVolumeClaim c') \<and> ?m k \<noteq> Some (JPersistentVolumeClaim c')"
    then have "binding_write ?m k (contents E t k)" using writes_new [OF w, of k] by auto
    then show "best_bound (volumes ?m) c'" "\<exists>c. ?m k = Some (JPersistentVolumeClaim c) \<and> now_bound c c'" using c by (auto simp: binding_write_def)
  qed (use due in blast)
  have fail: "?Q r t" if "contents E t = ?m" "\<not> env_total E" for r t
    by (rule Q) (use that in \<open>simp_all add: writes.refl\<close>)
  show ?thesis
    unfolding reconcilePVCBindings_def
  proof (subst wp_bnd, rule wp_ListPersistentVolumes [OF assms], unfold sum.case, goal_cases ok err)
    case (ok pvs t)
    let ?pvs = "SliceStable by_capacity pvs"
    have V: "sorted_wrt (\<lambda>a b. \<not> by_capacity b a) ?pvs" "set ?pvs = volumes ?m"
      using ok(5) volumes_ran [OF assms(2)] by (simp_all add: capacity.sorted_SliceStable)
    show ?case
      unfolding wp_bnd
    proof (rule wp_conseq [OF reads_ListClaims [OF assms, of "''default''", unfolded reads_claims_def, rule_format, OF ok(1)]], goal_cases)
      case (1 r u)
      note listed = 1
      show ?case
      proof (cases r)
        case (Inr xs)
        note xs = Inr
        have u: "contents E u = ?m" "store_wf (contents E u)" using listed assms(2) by simp_all
        show ?thesis
          unfolding Inr sum.case
        proof (rule wp_ListNamespaces [OF assms(1) u(2)], unfold sum.case, goal_cases ok err)
          case (ok nss v)
          have names: "ns_Name ` set nss = {n. \<exists>ns. ?m (keyNamespace n) = Some (JNamespace ns)}"
            unfolding ok(5) u(1) using nsp.wf_view [OF assms(2)] nsp.wf_view_key [OF assms(2)]
            by (force simp: ran_def keyNamespace_def image_iff)
          have v: "contents E v = ?m" using ok(1) u(1) by simp
          show ?case
          proof (rule wp_conseq [OF reads_namespace_claims [OF assms, of nss, unfolded reads_claims_def, rule_format, OF v]], goal_cases)
            case (1 q w)
            show ?case
            proof (cases q)
              case (Inr ys)
              have sub: "set (xs @ ys) \<subseteq> stored_claims ?m" using listed 1 xs Inr by simp
              have all: "c \<in> set (xs @ ys)" if "env_total E" "c \<in> stored_claims ?m"
                "pvc_Namespace c = ''default'' \<or> (\<exists>ns. ?m (keyNamespace (pvc_Namespace c)) = Some (JNamespace ns))" for c
                using listed 1 xs Inr names that by auto
              show ?thesis
                unfolding Inr sum.case
                by (rule wp_binding_loop [OF assms(1) V sub], use 1 in simp, rule Q, assumption) (use all in blast)
            qed (use 1 in \<open>auto intro: fail\<close>)
          qed
        qed (use u fail in auto)
      qed (use 1 in \<open>auto intro: fail\<close>)
    qed
  qed (auto intro: fail)
qed

definition demo_volume :: PersistentVolume where
  "demo_volume = zero_PersistentVolume\<lparr>pv_Name := ''disk'', pv_CapacityMB := 100, pv_Phase := PersistentVolumeAvailable\<rparr>"

definition demo_claim :: "string \<Rightarrow> PersistentVolumeClaim" where
  "demo_claim n = zero_PersistentVolumeClaim\<lparr>pvc_Namespace := ''default'', pvc_Name := n, pvc_RequestedCapacity := 50,
     pvc_Phase := PersistentVolumeClaimPending\<rparr>"

theorem claims_bound_best_witness:
  "wp (reconcilePVCBindings demo_oenv) (\<lambda>r t. \<exists>c. contents demo_oenv t (keyPersistentVolumeClaim ''default'' ''data'') =
      Some (JPersistentVolumeClaim c) \<and> pvc_Phase c = PersistentVolumeClaimBound \<and> pvc_VolumeName c = ''disk'')
     (NewOrchestrator (stored [JPersistentVolume demo_volume, JPersistentVolumeClaim (demo_claim ''data'')]))"
proof -
  let ?s = "NewOrchestrator (stored [JPersistentVolume demo_volume, JPersistentVolumeClaim (demo_claim ''data'')])"
  have V: "volumes (contents demo_oenv ?s) = {demo_volume}"
    by (auto simp: volumes_def stored_def key_defs demo_volume_def demo_claim_def split: if_splits)
  have c: "demo_claim ''data'' \<in> stored_claims (contents demo_oenv ?s)"
    by (simp add: stored_claims_def stored_def key_defs demo_claim_def demo_volume_def)
  have due: "candidates {demo_volume} (demo_claim ''data'') \<noteq> {}" "waiting (demo_claim ''data'')"
    by (simp_all add: candidates_def answers_def waiting_def demo_claim_def demo_volume_def zero_PersistentVolumeClaim_def)
  have names: "pvc_Namespace (demo_claim ''data'') = ''default''" "pvc_Name (demo_claim ''data'') = ''data''" "pv_Name demo_volume = ''disk''"
    by (simp_all add: demo_claim_def demo_volume_def)
  show ?thesis
  proof (rule wp_conseq [OF claims_bound_best [OF demo_oenv_ok stored_wf]], elim conjE, goal_cases)
    case (1 r t)
    have "claim_settled (contents demo_oenv ?s) (contents demo_oenv t) (demo_claim ''data'')"
      using bspec [OF 1(2) c] due names(1) demo_oenv_total unfolding V by blast
    then show ?case unfolding claim_settled_def best_bound_def V names by (auto simp: candidates_def names)
  qed
qed

text \<open>One volume is given to every claim it suits: two claims of one run end up bound to the same volume.\<close>

definition bound_to :: "(string \<Rightarrow> blob option) \<Rightarrow> string \<Rightarrow> string \<Rightarrow> string \<Rightarrow> bool" where
  "bound_to m ns n v \<longleftrightarrow> (\<exists>c. m (keyPersistentVolumeClaim ns n) = Some (JPersistentVolumeClaim c) \<and>
     pvc_Phase c = PersistentVolumeClaimBound \<and> pvc_VolumeName c = v)"

lemma one_volume_two_claims:
  assumes "env_total E" and "suits (demo_claim ''a'') pv" and "suits (demo_claim ''b'') pv"
  shows "wp (for_each [demo_claim ''a'', demo_claim ''b''] (bind_claim E [pv])) (\<lambda>r t.
    bound_to (contents E t) ''default'' ''a'' (pv_Name pv) \<and> bound_to (contents E t) ''default'' ''b'' (pv_Name pv)) s"
  unfolding for_each.simps wp_seq wp_ret
  by (rule wp_bind_claim [OF assms(1)], simp add: demo_claim_def waiting_def, simp add: assms(2), unfold sum.case,
      rule wp_bind_claim [OF assms(1)], simp add: demo_claim_def waiting_def, simp add: assms(3))
    (auto simp: demo_claim_def bound_to_def key_defs)

end
