(* ===== verification/Autoscaler.thy ===== *)
theory Autoscaler
  imports Nodes Storage
begin

text \<open>
  The autoscaler (\<^verbatim>\<open>internal/service/orchestrator.go\<close>): policies and metric samples, the averages and the
  linear prediction over the samples in the window, the recommended number of replicas, and the
  reconciliation that applies it subject to the cooldowns. The averages are \<^verbatim>\<open>float64\<close> values.
\<close>

section \<open>Policies and samples\<close>

definition default_policy :: "AutoscalerPolicy \<Rightarrow> AutoscalerPolicy" where
  "default_policy policy = (let
     policy = (if as_MinReplicas policy \<le> 0 then policy\<lparr>as_MinReplicas := 1\<rparr> else policy);
     policy = (if as_MaxReplicas policy \<le> 0 \<or> as_MaxReplicas policy < as_MinReplicas policy
               then policy\<lparr>as_MaxReplicas := as_MinReplicas policy\<rparr> else policy);
     policy = (if as_StabilizationWindowSec policy \<le> 0 then policy\<lparr>as_StabilizationWindowSec := 30\<rparr> else policy);
     policy = (if as_ScaleUpCooldownSec policy \<le> 0 then policy\<lparr>as_ScaleUpCooldownSec := 20\<rparr> else policy);
     policy = (if as_ScaleDownCooldownSec policy \<le> 0 then policy\<lparr>as_ScaleDownCooldownSec := 40\<rparr> else policy)
   in if as_PredictiveScalingEnabled policy then let
     policy = (if as_PredictiveLookbackSamples policy \<le> 1 then policy\<lparr>as_PredictiveLookbackSamples := 6\<rparr> else policy)
     in if as_PredictiveScaleFactor policy \<le> 0 then policy\<lparr>as_PredictiveScaleFactor := 2\<rparr> else policy
   else policy)"

definition UpsertAutoscalerPolicy :: "'db oenv \<Rightarrow> AutoscalerPolicy \<Rightarrow> ('db, AutoscalerPolicy) orch" where
  "UpsertAutoscalerPolicy E policy =
     (if blank (as_DeploymentID policy) then throw (ErrText ''deployment id is required'')
      else bnd (st_GetDeployment E (as_DeploymentID policy)) (\<lambda>_. let policy = default_policy policy in
      bnd (if blank (as_ID policy) then
             bnd (time_now E) (\<lambda>t. bnd (rand_intn E 9999) (\<lambda>r.
             ret (policy\<lparr>as_ID := ''as-'' @ show_int t @ ''-'' @ show_pad 4 r\<rparr>)))
           else ret policy) (\<lambda>policy.
      bnd (if IsZero (as_CreatedAt policy) then bnd (time_now E) (\<lambda>t. ret (policy\<lparr>as_CreatedAt := t\<rparr>)) else ret policy) (\<lambda>policy.
      bnd (time_now E) (\<lambda>t. let policy = policy\<lparr>as_UpdatedAt := t\<rparr> in
      seq (st_UpsertAutoscalerPolicy E policy)
      (seq (ignore (emitEvent E (event EventInfo ''autoscaler'' ''AutoscalerPolicyUpserted'' ''Autoscaler policy configured''
         (as_DeploymentID policy) [] [])))
      (ret policy)))))))"

definition ListAutoscalerPolicies :: "'db oenv \<Rightarrow> ('db, AutoscalerPolicy list) orch" where
  "ListAutoscalerPolicies E = st_ListAutoscalerPolicies E"

definition DeleteAutoscalerPolicy :: "'db oenv \<Rightarrow> string \<Rightarrow> ('db, unit) orch" where
  "DeleteAutoscalerPolicy E policyID = st_DeleteAutoscalerPolicy E policyID"

definition IngestDeploymentMetric :: "'db oenv \<Rightarrow> DeploymentMetricSample \<Rightarrow> ('db, unit) orch" where
  "IngestDeploymentMetric E sample =
     (if blank (m_DeploymentID sample) then throw (ErrText ''deployment id is required'')
      else bnd (st_GetDeployment E (m_DeploymentID sample)) (\<lambda>_. let
        sample = (if m_Custom sample = None then sample\<lparr>m_Custom := Some []\<rparr> else sample) in
      bnd (if IsZero (m_Timestamp sample) then bnd (time_now E) (\<lambda>t. ret (sample\<lparr>m_Timestamp := t\<rparr>)) else ret sample) (\<lambda>sample.
      bnd (if m_ID sample = [] then bnd (rand_intn E 9999) (\<lambda>r.
             ret (sample\<lparr>m_ID := ''ms-'' @ show_int (m_Timestamp sample) @ ''-'' @ show_pad 4 r\<rparr>))
           else ret sample) (\<lambda>sample.
      st_AppendDeploymentMetric E sample))))"

section \<open>Averages and prediction\<close>

definition custom_value :: "string \<Rightarrow> DeploymentMetricSample \<Rightarrow> float64" where
  "custom_value name s = map_get 0 (elems (m_Custom s)) name"

definition aggregateMetrics :: "DeploymentMetricSample list \<Rightarrow> string \<Rightarrow> float64 \<times> float64 \<times> float64" where
  "aggregateMetrics samples customMetric =
     (if length samples = 0 then (0, 0, 0)
      else let
        cpu = foldl (\<lambda>a s. fadd a (m_CPUUsage s)) 0 samples;
        mem = foldl (\<lambda>a s. fadd a (m_MemoryUsage s)) 0 samples;
        custom = foldl (\<lambda>a s. if customMetric \<noteq> [] then fadd a (custom_value customMetric s) else a) 0 samples;
        count = f_of_int (int (length samples)) in
      (fdiv cpu count, fdiv mem count, fdiv custom count))"

definition at_least_0 :: "float64 \<Rightarrow> float64" where
  "at_least_0 x = (if x < 0 then 0 else x)"

definition predict :: "float64 \<Rightarrow> float64 \<Rightarrow> float64 \<Rightarrow> float64 \<Rightarrow> float64" where
  "predict first_value last_value steps factor =
     fadd last_value (fmul (fdiv (fsub last_value first_value) steps) factor)"

definition predictMetrics :: "DeploymentMetricSample list \<Rightarrow> string \<Rightarrow> int \<Rightarrow> float64 \<Rightarrow> float64 \<times> float64 \<times> float64" where
  "predictMetrics samples customMetric lookback factor = (let
     samples = SliceStable (\<lambda>x y. m_Timestamp x < m_Timestamp y) samples;
     lookback = (if lookback \<le> 1 then 2 else lookback);
     factor = (if factor \<le> 0 then 1 else factor);
     samples = (if int (length samples) > lookback then drop (length samples - nat lookback) samples else samples) in
     if length samples < 2 then (0, 0, 0)
     else let
       f = hd samples;
       l = last samples;
       steps = f_of_int (int (length samples) - 1);
       predCPU = predict (m_CPUUsage f) (m_CPUUsage l) steps factor;
       predMem = predict (m_MemoryUsage f) (m_MemoryUsage l) steps factor;
       predCustom = (if customMetric \<noteq> [] then predict (custom_value customMetric f) (custom_value customMetric l) steps factor else 0) in
     (at_least_0 predCPU, at_least_0 predMem, at_least_0 predCustom))"

section \<open>The recommendation\<close>

definition low_mark :: float64 where
  "low_mark = fl (65 / 100)"

definition candidate_replicas :: "int \<Rightarrow> float64 \<Rightarrow> float64 \<Rightarrow> int" where
  "candidate_replicas current avg target = float_int (Ceil (fmul (f_of_int current) (fdiv avg target)))"

definition follow_utilization :: "int \<Rightarrow> float64 \<Rightarrow> float64 \<Rightarrow> int \<Rightarrow> int" where
  "follow_utilization current avg target recommended =
     (if target > 0 \<and> avg > 0 then let
        recommended = maxInt recommended (candidate_replicas current avg target) in
        if avg < fmul target low_mark then minInt recommended (isub current 1) else recommended
      else recommended)"

definition recommended_replicas :: "AutoscalerPolicy \<Rightarrow> int \<Rightarrow> float64 \<times> float64 \<times> float64 \<Rightarrow> int" where
  "recommended_replicas p current avgs = (case avgs of (avgCPU, avgMem, avgCustom) \<Rightarrow> let
     recommended = follow_utilization current avgCPU (as_TargetCPUUtilization p) current;
     recommended = follow_utilization current avgMem (as_TargetMemoryUtilization p) recommended;
     recommended = (if \<not> blank (as_CustomMetricName p) \<and> as_TargetCustomMetricValue p > 0 \<and> avgCustom > 0
       then maxInt recommended (candidate_replicas current avgCustom (as_TargetCustomMetricValue p)) else recommended) in
     maxInt (as_MinReplicas p) (minInt (as_MaxReplicas p) recommended))"

definition window_averages :: "AutoscalerPolicy \<Rightarrow> gotime \<Rightarrow> DeploymentMetricSample list \<Rightarrow> float64 \<times> float64 \<times> float64" where
  "window_averages p now samples = (let
     windowStart = now + imul (i64 (- as_StabilizationWindowSec p)) Second;
     windowSamples = filter (\<lambda>s. m_Timestamp s > windowStart \<or> m_Timestamp s = windowStart) samples;
     windowSamples = (if length windowSamples = 0 then samples else windowSamples) in
     case aggregateMetrics windowSamples (as_CustomMetricName p) of (avgCPU, avgMem, avgCustom) \<Rightarrow>
     if as_PredictiveScalingEnabled p then
       case predictMetrics windowSamples (as_CustomMetricName p) (as_PredictiveLookbackSamples p) (as_PredictiveScaleFactor p) of
         (predictiveCPU, predictiveMem, predictiveCustom) \<Rightarrow>
           (raise_max avgCPU predictiveCPU, raise_max avgMem predictiveMem, raise_max avgCustom predictiveCustom)
     else (avgCPU, avgMem, avgCustom))"

section \<open>Reconciliation\<close>

definition scaled_deployment :: "gotime \<Rightarrow> int \<Rightarrow> Deployment \<Rightarrow> Deployment" where
  "scaled_deployment now recommended dep = (let
     message = ''autoscaler adjusted replicas from '' @ show_int (sp_Replicas (d_Spec dep)) @ '' to '' @ show_int recommended;
     rs = d_RolloutStatus dep;
     started = (if IsZero (rs_StartedAt rs) then now else rs_StartedAt rs);
     dep = dep\<lparr>d_Spec := (d_Spec dep)\<lparr>sp_Replicas := recommended\<rparr>, d_Generation := iadd (d_Generation dep) 1,
       d_Status := DeploymentPending\<rparr>;
     dep = set_rollout ''Autoscaling'' message started now dep;
     dep = put_condition ConditionProgressing True ''AutoscalerAdjusting'' message now dep in
     dep\<lparr>d_UpdatedAt := now\<rparr>)"

definition apply_scale :: "'db oenv \<Rightarrow> gotime \<Rightarrow> AutoscalerPolicy \<Rightarrow> Deployment \<Rightarrow> int \<Rightarrow> float64 \<times> float64 \<times> float64 \<Rightarrow> ('db, unit) orch" where
  "apply_scale E now p dep recommended avgs = (case avgs of (avgCPU, avgMem, avgCustom) \<Rightarrow> let
     current = sp_Replicas (d_Spec dep);
     direction = (if recommended > current then ''up'' else ''down'');
     cooldown = seconds (if recommended > current then as_ScaleUpCooldownSec p else as_ScaleDownCooldownSec p) in
     if \<not> IsZero (as_LastScaleAt p) \<and> time_sub now (as_LastScaleAt p) < cooldown then ret ()
     else let dep = scaled_deployment now recommended dep in
     seq (st_UpdateDeployment E dep)
     (seq (st_UpsertAutoscalerPolicy E (p\<lparr>as_LastScaleAt := now, as_LastScaleDirection := direction, as_UpdatedAt := now\<rparr>))
     (ignore (emitEvent E (event EventInfo ''autoscaler''
        (if direction = ''up'' then ''AutoscalerScaleUp'' else ''AutoscalerScaleDown'')
        (''autoscaler adjusted replicas '' @ show_int current @ '' -> '' @ show_int recommended @ '' (cpu='' @ show_fixed2 avgCPU @
          '' mem='' @ show_fixed2 avgMem @ '' custom='' @ show_fixed2 avgCustom @ '')'') (d_ID dep) [] [])))))"

definition autoscale :: "'db oenv \<Rightarrow> gotime \<Rightarrow> AutoscalerPolicy \<Rightarrow> ('db, unit) orch" where
  "autoscale E now p = bnd (attempt (st_GetDeployment E (as_DeploymentID p))) (\<lambda>r. case r of
     Inl _ \<Rightarrow> ret ()
   | Inr dep \<Rightarrow> bnd (attempt (st_ListDeploymentMetrics E (d_ID dep) 200)) (\<lambda>r. case r of
       Inl _ \<Rightarrow> ret ()
     | Inr samples \<Rightarrow>
       if length samples = 0 then ret ()
       else let
         avgs = window_averages p now samples;
         current = sp_Replicas (d_Spec dep);
         recommended = recommended_replicas p current avgs in
       if recommended = current then ret () else apply_scale E now p dep recommended avgs))"

definition reconcileAutoscaling :: "'db oenv \<Rightarrow> ('db, unit) orch" where
  "reconcileAutoscaling E = bnd (st_ListAutoscalerPolicies E) (\<lambda>policies.
     bnd (time_now E) (\<lambda>now. for_each policies (autoscale E now)))"

section \<open>Frames\<close>

lemma quiet_autoscaler:
  "stays quiet (UpsertAutoscalerPolicy E p)"
  "stays quiet (DeleteAutoscalerPolicy E i)"
  "stays quiet (IngestDeploymentMetric E m)"
  "stays quiet (reconcileAutoscaling E)"
  unfolding UpsertAutoscalerPolicy_def DeleteAutoscalerPolicy_def IngestDeploymentMetric_def reconcileAutoscaling_def
    autoscale_def apply_scale_def Let_def
  by (intro quiet_rules)+

lemma good_policies:
  assumes "env_ok E"
  shows "stays (evolves E good_write) (UpsertAutoscalerPolicy E p)"
    and "stays (evolves E good_write) (DeleteAutoscalerPolicy E i)"
    and "stays (evolves E good_write) (IngestDeploymentMetric E m)"
  using assms unfolding UpsertAutoscalerPolicy_def DeleteAutoscalerPolicy_def IngestDeploymentMetric_def Let_def
  by (intro ev_all ev_deletes; simp add: json_DeploymentMetricSample_def)+

lemma scaled_deployment_simps [simp]:
  "d_ID (scaled_deployment now n d) = d_ID d"
  "sp_Replicas (d_Spec (scaled_deployment now n d)) = n"
  by (simp_all add: scaled_deployment_def Let_def set_rollout_def put_condition_def)

lemma dep_ok_scaled [simp]: "dep_ok d \<Longrightarrow> dep_ok (scaled_deployment now n d)"
  by (simp add: scaled_deployment_def Let_def)

lemma sound_reconcileAutoscaling: "env_ok E \<Longrightarrow> stays (sound E) (reconcileAutoscaling E)"
  unfolding reconcileAutoscaling_def autoscale_def apply_scale_def Let_def
  by (intro sound_attempt_get sound_of_evolves [OF ev_UpsertAutoscalerPolicy] sound_rules) simp_all

text \<open>
  Scaling changes the specification and records no revision, so the recorded specification of the current
  revision keeps the old number of replicas.
\<close>

lemma autoscaling_records_no_revision:
  "d_RevisionHistory (scaled_deployment now n d) = d_RevisionHistory d"
  "d_CurrentRevision (scaled_deployment now n d) = d_CurrentRevision d"
  "sp_Replicas (d_Spec (scaled_deployment now n d)) = n"
  by (simp_all add: scaled_deployment_def set_rollout_def put_condition_def Let_def)

section \<open>Bounds\<close>

definition policy_ok :: "AutoscalerPolicy \<Rightarrow> bool" where
  "policy_ok p \<longleftrightarrow> 1 \<le> as_MinReplicas p \<and> as_MinReplicas p \<le> as_MaxReplicas p"

lemma policy_ok_default: "policy_ok (default_policy p)"
  by (simp add: policy_ok_def default_policy_def Let_def)

lemma recommended_bounds:
  assumes "policy_ok p"
  shows "as_MinReplicas p \<le> recommended_replicas p n a" and "recommended_replicas p n a \<le> as_MaxReplicas p"
  using assms by (auto simp: recommended_replicas_def policy_ok_def Let_def maxInt_def minInt_def split: prod.splits)

definition scale_write :: "AutoscalerPolicy set \<Rightarrow> string \<Rightarrow> blob option \<Rightarrow> bool" where
  "scale_write P k v \<longleftrightarrow> own_key k v \<and> (\<forall>d. v = Some (JDeployment d) \<longrightarrow>
     (\<exists>p \<in> P. as_DeploymentID p = d_ID d \<and> as_MinReplicas p \<le> sp_Replicas (d_Spec d) \<and> sp_Replicas (d_Spec d) \<le> as_MaxReplicas p))"

lemma scale_write_simps [simp]:
  "scale_write P (keyDeployment i) (Some (JDeployment d)) \<longleftrightarrow> d_ID d = i \<and>
     (\<exists>p \<in> P. as_DeploymentID p = i \<and> as_MinReplicas p \<le> sp_Replicas (d_Spec d) \<and> sp_Replicas (d_Spec d) \<le> as_MaxReplicas p)"
  "(\<And>d. b \<noteq> JDeployment d) \<Longrightarrow> scale_write P k (Some b) \<longleftrightarrow> blob_key b = k"
  by (auto simp: scale_write_def keyDeployment_def)

lemma ev_apply_scale:
  assumes "env_ok E" and "p \<in> P" and "d_ID dep = as_DeploymentID p" and "as_MinReplicas p \<le> n" and "n \<le> as_MaxReplicas p"
  shows "stays (evolves E (scale_write P)) (apply_scale E now p dep n avgs)"
  unfolding apply_scale_def Let_def
  by (intro ev_all assms(1)) (use assms in auto)

lemma wp_autoscale:
  fixes s :: "'db world"
  assumes E: "env_ok E" and wf: "store_wf (contents E s)" and p: "p \<in> P" "policy_ok p"
  shows "wp (autoscale E now p) (\<lambda>r t. evolves E (scale_write P) s t) s"
  unfolding autoscale_def wp_bnd wp_attempt
proof (rule wp_GetDeployment [OF E wf], unfold sum.case, goal_cases ok none err)
  case (ok dep t)
  have id: "d_ID dep = as_DeploymentID p" using dp.wf_view_key [OF wf ok(3)] .
  have "stays (evolves E (scale_write P)) (bnd (attempt (st_ListDeploymentMetrics E (d_ID dep) 200)) (\<lambda>r. case r of
       Inl _ \<Rightarrow> ret ()
     | Inr samples \<Rightarrow>
       if length samples = 0 then ret ()
       else let avgs = window_averages p now samples; current = sp_Replicas (d_Spec dep);
         recommended = recommended_replicas p current avgs in
       if recommended = current then ret () else apply_scale E now p dep recommended avgs))"
    unfolding Let_def by (intro stays_intros ev.rules ev_reads ev_apply_scale E p(1) id recommended_bounds p(2))
  from stays_wp [OF this, of t] show ?case
    using evolves_from [OF ok(1)] by (simp only: wp_bnd wp_attempt)
qed (simp_all add: wp_ret evolves_same)

text \<open>
  (C15) The autoscaler never takes a deployment outside the bounds of its policies: a deployment whose
  stored record a run changes has a number of replicas between the minimum and the maximum of a
  stored policy for that deployment.
\<close>

theorem autoscaler_within_bounds:
  fixes E :: "'db oenv" and s :: "'db world"
  assumes E: "env_ok E" and wf: "store_wf (contents E s)"
    and ok: "\<And>p. contents E s (keyAutoscalerPolicy (as_ID p)) = Some (JAutoscalerPolicy p) \<Longrightarrow> policy_ok p"
  shows "wp (reconcileAutoscaling E) (\<lambda>r t. \<forall>i d. contents E t (keyDeployment i) = Some (JDeployment d) \<and>
    contents E s (keyDeployment i) \<noteq> Some (JDeployment d) \<longrightarrow>
    (\<exists>p. contents E s (keyAutoscalerPolicy (as_ID p)) = Some (JAutoscalerPolicy p) \<and> as_DeploymentID p = i \<and>
      as_MinReplicas p \<le> sp_Replicas (d_Spec d) \<and> sp_Replicas (d_Spec d) \<le> as_MaxReplicas p)) s" (is "wp _ ?Q s")
proof -
  let ?P = "{p. contents E s (keyAutoscalerPolicy (as_ID p)) = Some (JAutoscalerPolicy p)}"
  have Q: "?Q r t" if "evolves E (scale_write ?P) s t" for r :: "err + unit" and t
  proof (intro allI impI)
    fix i d assume d: "contents E t (keyDeployment i) = Some (JDeployment d) \<and> contents E s (keyDeployment i) \<noteq> Some (JDeployment d)"
    then have "scale_write ?P (keyDeployment i) (Some (JDeployment d))"
      using writes_new [of "scale_write ?P" "contents E s" "contents E t" "keyDeployment i"] that by (auto simp: evolves_def)
    then show "\<exists>p. contents E s (keyAutoscalerPolicy (as_ID p)) = Some (JAutoscalerPolicy p) \<and> as_DeploymentID p = i \<and>
      as_MinReplicas p \<le> sp_Replicas (d_Spec d) \<and> sp_Replicas (d_Spec d) \<le> as_MaxReplicas p" by auto
  qed
  have list: "wp (st_ListAutoscalerPolicies E) (\<lambda>r t. contents E t = contents E s \<and> (\<forall>x. r = Inr x \<longrightarrow> set x = ?P)) s"
    by (rule wp_ListAutoscalerPolicies [OF E wf])
      (use asp.wf_view [OF wf] asp.wf_view_key [OF wf] in \<open>auto simp: ran_def keyAutoscalerPolicy_def\<close>)
  show ?thesis
    unfolding reconcileAutoscaling_def
  proof (rule wp_read_bnd [OF list], rule wp_bnd_now, goal_cases)
    case (1 ps t now u)
    show ?case
    proof (rule wp_for_each [where I = "\<lambda>_ v. evolves E (scale_write ?P) s v"], goal_cases start step fin)
      case (step pre p post v)
      have "store_wf (contents E v)" by (rule evolves_wf [OF step(2) _ wf]) (simp add: scale_write_def)
      moreover have "p \<in> ?P" using 1(1) step(1) by auto
      ultimately have "wp (autoscale E now p) (\<lambda>r w. evolves E (scale_write ?P) v w) v" using ok by (intro wp_autoscale E) auto
      then show ?case by (rule wp_conseq) (use Q ev.trans [OF step(2)] in \<open>auto split: sum.splits\<close>)
    qed (use Q 1 evolves_same in auto)
  qed (use Q evolves_same in auto)
qed

definition demo_policy_as :: AutoscalerPolicy where
  "demo_policy_as = zero_AutoscalerPolicy\<lparr>as_ID := ''as-1'', as_DeploymentID := ''dep-1'', as_MinReplicas := 2, as_MaxReplicas := 4\<rparr>"

theorem autoscaler_within_bounds_witness:
  "wp (reconcileAutoscaling demo_oenv) (\<lambda>r t. \<forall>d. contents demo_oenv t (keyDeployment ''dep-1'') = Some (JDeployment d) \<and>
      d \<noteq> demo_backend \<longrightarrow> 2 \<le> sp_Replicas (d_Spec d) \<and> sp_Replicas (d_Spec d) \<le> 4)
     (NewOrchestrator (stored [JDeployment demo_backend, JAutoscalerPolicy demo_policy_as]))"
proof -
  let ?bs = "[JDeployment demo_backend, JAutoscalerPolicy demo_policy_as]"
  let ?m = "contents demo_oenv (NewOrchestrator (stored ?bs))"
  have "distinct (map blob_key ?bs)" by (simp add: key_defs demo_backend_def demo_policy_as_def)
  note m = stored_iff [OF this]
  have p: "?m (keyAutoscalerPolicy (as_ID p)) = Some (JAutoscalerPolicy p) \<longleftrightarrow> p = demo_policy_as" for p
    unfolding m by auto
  have d: "?m (keyDeployment ''dep-1'') = Some (JDeployment d) \<longleftrightarrow> d = demo_backend" for d
    unfolding m by (auto simp: demo_backend_def)
  show ?thesis
    by (rule wp_conseq [OF autoscaler_within_bounds [OF demo_oenv_ok stored_wf]])
      (use p d in \<open>auto simp: policy_ok_def demo_policy_as_def simp del: demo_oenv_contents\<close>)
qed

end
