(* ===== verification/Jobs.thy ===== *)
theory Jobs
  imports Autoscaler
begin

text \<open>
  Jobs and cron jobs (\<^verbatim>\<open>internal/service/features.go\<close>): a cron job creates a job whenever its interval
  has passed; a pending job is run as a deployment of one replica; the job succeeds or fails with
  the first running or failed workload of that deployment, and a failed run is repeated up to the
  backoff limit.
\<close>

section \<open>Operations\<close>

definition default_job :: "Job \<Rightarrow> Job" where
  "default_job job = (let
     job = (if js_Completions (j_Spec job) \<le> 0 then job\<lparr>j_Spec := (j_Spec job)\<lparr>js_Completions := 1\<rparr>\<rparr> else job) in
     if js_BackoffLimit (j_Spec job) < 0 then job\<lparr>j_Spec := (j_Spec job)\<lparr>js_BackoffLimit := 0\<rparr>\<rparr> else job)"

definition UpsertJob :: "'db oenv \<Rightarrow> Job \<Rightarrow> ('db, Job) orch" where
  "UpsertJob E job = (let
     job = (if blank (js_Namespace (j_Spec job)) then job\<lparr>j_Spec := (j_Spec job)\<lparr>js_Namespace := ''default''\<rparr>\<rparr> else job) in
     if blank (js_Name (j_Spec job)) then throw (ErrText ''job name is required'')
     else let job = default_job job in
     bnd (if blank (j_ID job) then bnd (time_now E) (\<lambda>t. ret (job\<lparr>j_ID := ''job-'' @ show_int t\<rparr>)) else ret job) (\<lambda>job. let
       job = (if j_Status job = JobPhaseUnset then job\<lparr>j_Status := JobPending\<rparr> else job) in
     seq (st_UpsertJob E job) (st_GetJob E (j_ID job))))"

definition ListJobs :: "'db oenv \<Rightarrow> string \<Rightarrow> ('db, Job list) orch" where
  "ListJobs E namespace = st_ListJobs E (if blank namespace then ''default'' else namespace)"

definition UpsertCronJob :: "'db oenv \<Rightarrow> CronJob \<Rightarrow> ('db, CronJob) orch" where
  "UpsertCronJob E cj = (let
     cj = (if blank (cj_Namespace cj) then cj\<lparr>cj_Namespace := ''default''\<rparr> else cj) in
     if blank (cj_Name cj) then throw (ErrText ''cronjob name is required'')
     else if cj_ScheduleEveryS cj \<le> 0 then throw (ErrText ''cronjob scheduleEverySeconds must be > 0'')
     else let cj = (if cj_HistoryLimit cj \<le> 0 then cj\<lparr>cj_HistoryLimit := 5\<rparr> else cj) in
     seq (st_UpsertCronJob E cj) (st_GetCronJob E (cj_Namespace cj) (cj_Name cj)))"

definition ListCronJobs :: "'db oenv \<Rightarrow> string \<Rightarrow> ('db, CronJob list) orch" where
  "ListCronJobs E namespace = st_ListCronJobs E (if blank namespace then ''default'' else namespace)"

section \<open>Reconciliation\<close>

fun namespace_items :: "(string \<Rightarrow> ('db, 'a list) orch) \<Rightarrow> Namespace list \<Rightarrow> ('db, 'a list) orch" where
  "namespace_items list_of [] = ret []"
| "namespace_items list_of (ns # rest) =
     bnd (attempt (list_of (ns_Name ns))) (\<lambda>r.
     bnd (namespace_items list_of rest) (\<lambda>more.
     ret ((case r of Inl _ \<Rightarrow> [] | Inr items \<Rightarrow> items) @ more)))"

definition cron_job :: "gotime \<Rightarrow> CronJob \<Rightarrow> Job" where
  "cron_job now cj = zero_Job\<lparr>j_Spec := (cj_Template cj)\<lparr>js_Namespace := cj_Namespace cj,
     js_Name := cj_Name cj @ ''-'' @ show_int (now div Second), js_ScheduleReason := ''cron''\<rparr>, j_Status := JobPending\<rparr>"

definition run_cron :: "'db oenv \<Rightarrow> gotime \<Rightarrow> CronJob \<Rightarrow> ('db, unit) orch" where
  "run_cron E now cj =
     (if cj_Suspend cj then ret ()
      else if IsZero (cj_LastRunAt cj) \<or> time_sub now (cj_LastRunAt cj) \<ge> seconds (cj_ScheduleEveryS cj) then
        bnd (attempt (UpsertJob E (cron_job now cj))) (\<lambda>r. case r of
          Inl _ \<Rightarrow> ret ()
        | Inr _ \<Rightarrow> ignore (st_UpsertCronJob E (cj\<lparr>cj_LastRunAt := now\<rparr>)))
      else ret ())"

definition start_job :: "'db oenv \<Rightarrow> Job \<Rightarrow> ('db, unit) orch" where
  "start_job E job =
     (if blank (j_Deployment job) then let
        spec = (js_Template (j_Spec job))\<lparr>sp_Namespace := js_Namespace (j_Spec job), sp_Name := ''job-'' @ j_ID job, sp_Replicas := 1\<rparr> in
        bnd (attempt (CreateDeployment E spec)) (\<lambda>r. case r of
          Inl _ \<Rightarrow> ret ()
        | Inr dep \<Rightarrow> ignore (st_UpsertJob E (job\<lparr>j_Deployment := d_ID dep, j_Status := JobRunning\<rparr>)))
      else ret ())"

definition job_succeeded :: "gotime \<Rightarrow> Job \<Rightarrow> Job" where
  "job_succeeded now job = job\<lparr>j_Succeeded := iadd (j_Succeeded job) 1, j_RunCount := iadd (j_RunCount job) 1,
     j_Status := JobSucceeded, j_CompletedAt := now\<rparr>"

definition job_failed :: "gotime \<Rightarrow> Job \<Rightarrow> Job" where
  "job_failed now job = (let job = job\<lparr>j_Failed := iadd (j_Failed job) 1\<rparr> in
     if j_Failed job > js_BackoffLimit (j_Spec job) then job\<lparr>j_Status := JobFailed, j_CompletedAt := now\<rparr>
     else job\<lparr>j_Status := JobPending, j_Deployment := []\<rparr>)"

definition watch_job :: "'db oenv \<Rightarrow> gotime \<Rightarrow> Job \<Rightarrow> ('db, unit) orch" where
  "watch_job E now job =
     (if blank (j_Deployment job) then ret ()
      else bnd (attempt (st_ListWorkloadsByDeployment E (j_Deployment job))) (\<lambda>r. case r of
        Inl _ \<Rightarrow> ret ()
      | Inr workloads \<Rightarrow> (case find (\<lambda>w. w_Status w = WorkloadRunning \<or> w_Status w = WorkloadFailed) workloads of
          None \<Rightarrow> ret ()
        | Some w \<Rightarrow> let job = (if w_Status w = WorkloadRunning then job_succeeded now job else job_failed now job) in
            seq (ignore (st_UpsertJob E job)) (ignore (DeleteDeployment E (j_Deployment job))))))"

definition expire_job :: "'db oenv \<Rightarrow> gotime \<Rightarrow> Job \<Rightarrow> ('db, unit) orch" where
  "expire_job E now job =
     (if js_TTLSeconds (j_Spec job) > 0 \<and> \<not> IsZero (j_CompletedAt job) \<and>
         time_sub now (j_CompletedAt job) \<ge> seconds (js_TTLSeconds (j_Spec job))
      then ignore (st_DeleteJob E (j_ID job)) else ret ())"

definition reconcile_job :: "'db oenv \<Rightarrow> gotime \<Rightarrow> Job \<Rightarrow> ('db, unit) orch" where
  "reconcile_job E now job = (case j_Status job of
     JobPending \<Rightarrow> start_job E job
   | JobRunning \<Rightarrow> watch_job E now job
   | JobSucceeded \<Rightarrow> expire_job E now job
   | JobFailed \<Rightarrow> expire_job E now job
   | _ \<Rightarrow> ret ())"

definition reconcileJobsAndCron :: "'db oenv \<Rightarrow> ('db, unit) orch" where
  "reconcileJobsAndCron E =
     bnd (st_ListCronJobs E ''default'') (\<lambda>cronJobs.
     bnd (st_ListNamespaces E) (\<lambda>namespaces.
     bnd (namespace_items (st_ListCronJobs E) namespaces) (\<lambda>moreCron.
     bnd (time_now E) (\<lambda>now.
     seq (for_each (cronJobs @ moreCron) (run_cron E now))
     (bnd (st_ListJobs E ''default'') (\<lambda>jobs.
     bnd (namespace_items (st_ListJobs E) namespaces) (\<lambda>more.
     for_each (jobs @ more) (reconcile_job E now))))))))"

section \<open>Frames\<close>

lemma stays_namespace_items:
  assumes "frame R" and "\<And>n. stays R (list_of n)"
  shows "stays R (namespace_items list_of nss)"
proof (induction nss)
  case (Cons ns nss)
  then show ?case using assms(2) by (simp) (intro frame.bnd [OF assms(1)] frame.attempt [OF assms(1)] frame.ret [OF assms(1)])
qed (simp add: frame.ret [OF assms(1)])

lemma stays_case_phase:
  "stays R a \<Longrightarrow> stays R b \<Longrightarrow> stays R c \<Longrightarrow> stays R d \<Longrightarrow> stays R e \<Longrightarrow> (\<And>x. stays R (f x)) \<Longrightarrow>
   stays R (case ph of JobPhaseUnset \<Rightarrow> a | JobPending \<Rightarrow> b | JobRunning \<Rightarrow> c | JobSucceeded \<Rightarrow> d | JobFailed \<Rightarrow> e | JobPhaseOther x \<Rightarrow> f x)"
  by (cases ph) simp_all

lemma quiet_jobs: "stays quiet (UpsertJob E job)" "stays quiet (UpsertCronJob E cj)"
  unfolding UpsertJob_def UpsertCronJob_def Let_def by (intro quiet_rules)+

lemmas free_rules = stays_intros free.rules quiet_store [THEN free_of_quiet] quiet_emitEvent [THEN free_of_quiet]

lemma free_reconcile_job: "stays free (reconcile_job E now job)"
  unfolding reconcile_job_def start_job_def watch_job_def expire_job_def Let_def
  by (intro stays_case_phase free_rules free_CreateDeployment free_DeleteDeployment)

lemma free_reconcileJobsAndCron: "stays free (reconcileJobsAndCron E)"
  unfolding reconcileJobsAndCron_def run_cron_def
  by (intro free_rules stays_namespace_items free.frame_axioms free_reconcile_job quiet_jobs [THEN free_of_quiet])

lemma good_jobs:
  assumes "env_ok E"
  shows "stays (evolves E good_write) (UpsertJob E job)" and "stays (evolves E good_write) (UpsertCronJob E cj)"
  using assms unfolding UpsertJob_def UpsertCronJob_def Let_def
  by (intro ev_all; simp add: json_Job_def json_CronJob_def)+

lemma sound_reconcile_job: "env_ok E \<Longrightarrow> stays (sound E) (reconcile_job E now job)"
  unfolding reconcile_job_def start_job_def watch_job_def expire_job_def Let_def
  by (intro stays_case_phase sound_rules sound_CreateDeployment sound_DeleteDeployment
      sound_of_evolves [OF ev_UpsertJob] ev_deletes [THEN sound_of_evolves]) (simp_all add: json_Job_def)

lemma sound_reconcileJobsAndCron: "env_ok E \<Longrightarrow> stays (sound E) (reconcileJobsAndCron E)"
  unfolding reconcileJobsAndCron_def run_cron_def
  by (intro sound_rules stays_namespace_items sound.frame_axioms sound_reconcile_job sound_of_evolves [OF good_jobs(1)]
      sound_of_evolves [OF ev_UpsertCronJob]; simp add: json_CronJob_def)

section \<open>Retries\<close>

text \<open>
  What a pass of the reconciliation may make of the record of a job: a pending job is started, a running
  one succeeds, or it fails and is counted as failed once more. A job that failed is pending again while
  it has not failed more often than its backoff limit, and has failed for good otherwise.
\<close>

definition job_step :: "Job \<Rightarrow> Job \<Rightarrow> bool" where
  "job_step j j' \<longleftrightarrow> js_BackoffLimit (j_Spec j') = js_BackoffLimit (j_Spec j) \<and>
     (j_Status j = JobPending \<and> j_Status j' = JobRunning \<and> j_Failed j' = j_Failed j \<or>
      j_Status j = JobRunning \<and> j_Status j' = JobSucceeded \<and> j_Failed j' = j_Failed j \<or>
      j_Status j = JobRunning \<and> j_Failed j' = i64 (j_Failed j + 1) \<and>
        j_Status j' = (if j_Failed j' \<le> js_BackoffLimit (j_Spec j) then JobPending else JobFailed))"

definition job_next :: "blob option \<Rightarrow> blob option \<Rightarrow> bool" where
  "job_next old new \<longleftrightarrow> (\<exists>j. old = Some (JJob j) \<and>
     (new = None \<and> j_Status j \<in> {JobSucceeded, JobFailed} \<or> (\<exists>j'. new = Some (JJob j') \<and> job_step j j')))"

text \<open>The writes of a pass that lists the record of the job as \<open>old\<close>; none to this record if there is none.\<close>

definition job_write :: "string \<Rightarrow> blob option \<Rightarrow> string \<Rightarrow> blob option \<Rightarrow> bool" where
  "job_write i old k v \<longleftrightarrow> own_key k v \<and> (k = keyJob i \<longrightarrow> job_next old v)"

lemma blob_key_job: "blob_key b = keyJob i \<Longrightarrow> \<exists>j. b = JJob j"
  by (cases b) (simp_all add: key_defs)

lemma keyJob_iff [simp]: "keyJob i = keyJob i' \<longleftrightarrow> i = i'" "keyWorkload w \<noteq> keyJob i"
  by (simp_all add: key_defs)

lemma job_write_simps [simp]:
  "job_write i old (keyJob i') None \<longleftrightarrow> (i' = i \<longrightarrow> job_next old None)"
  "job_write i old (keyWorkload w) None"
  "(\<And>j. b \<noteq> JJob j) \<Longrightarrow> job_write i old k (Some b) \<longleftrightarrow> blob_key b = k"
  using blob_key_job by (auto simp: job_write_def)

lemma job_write_job [simp]:
  "job_write i old (keyJob i') (Some (JJob j)) \<longleftrightarrow> j_ID j = i' \<and> (i' = i \<longrightarrow> (\<exists>x. old = Some (JJob x) \<and> job_step x j))"
  by (auto simp: job_write_def job_next_def)

lemma job_step_stored [simp]: "job_step x (json_Job (j\<lparr>j_CreatedAt := t, j_UpdatedAt := u\<rparr>)) = job_step x j"
  by (simp add: job_step_def json_Job_def json_JobSpec_def)

lemma j_ID_json [simp]: "j_ID (json_Job j) = j_ID j"
  by (simp add: json_Job_def)

lemma job_advances:
  "j_Status j = JobRunning \<Longrightarrow> job_step j (job_succeeded now j)"
  "j_Status j = JobRunning \<Longrightarrow> job_step j (job_failed now j)"
  "j_Status j = JobPending \<Longrightarrow> job_step j (j\<lparr>j_Deployment := d, j_Status := JobRunning\<rparr>)"
  by (simp_all add: job_step_def job_succeeded_def job_failed_def iadd_def Let_def)

lemma j_Status_advance [simp]:
  "j_Status (job_succeeded now j) \<noteq> JobPhaseUnset" "j_Status (job_failed now j) \<noteq> JobPhaseUnset"
  by (simp_all add: job_succeeded_def job_failed_def Let_def)

lemma j_ID_advance [simp]: "j_ID (job_succeeded now j) = j_ID j" "j_ID (job_failed now j) = j_ID j"
  by (simp_all add: job_succeeded_def job_failed_def Let_def)

subsection \<open>One job of the pass\<close>

text \<open>Operations on deployments write no job.\<close>

lemma jobs_createWorkload: "env_ok E \<Longrightarrow> stays (evolves E (job_write i old)) (createWorkloadForDeployment E dep)"
  unfolding createWorkloadForDeployment_def rollout_defs by (intro ev_all ev_resolveSecretFiles) simp_all

lemma jobs_reconcileDeployment: "env_ok E \<Longrightarrow> stays (evolves E (job_write i old)) (reconcileDeployment E d)"
  unfolding reconcileDeployment_def deadline_exceeded_def fail_deadline_def place_replicas_def create_failed_def
    report_status_def mark_stable_def mark_progress_def scale_down_def scale_down_old_def scale_down_excess_def
    enqueueDeleteForWorkload_def activeWorkloadsAfterRefresh_def Let_def
  by (intro ev_with_mu ev_all ev_rollbackDeploymentLocked jobs_createWorkload) simp_all

lemma jobs_CreateDeployment: "env_ok E \<Longrightarrow> stays (evolves E (job_write i old)) (CreateDeployment E spec)"
  unfolding CreateDeployment_def check_claim_def Let_def
  by (intro ev_all jobs_reconcileDeployment ev_runAdmissionCheck ev_ensureNamespaceExists ev_enforceNamespaceQuota) simp_all

lemma jobs_DeleteDeployment: "env_ok E \<Longrightarrow> stays (evolves E (job_write i old)) (DeleteDeployment E d)"
  unfolding DeleteDeployment_def Let_def by (intro ev_with_mu ev_all) (simp_all add: put_condition_def)

lemma jobs_put:
  assumes "env_ok E" and "j_Status x \<noteq> JobPhaseUnset" and "j_ID x = i \<Longrightarrow> \<exists>j. old = Some (JJob j) \<and> job_step j x"
  shows "stays (evolves E (job_write i old)) (st_UpsertJob E x)"
  by (rule ev_UpsertJob [OF assms(1)]) (use assms(2,3) in simp_all)

lemma jobs_reconcile_job:
  assumes E: "env_ok E" and x: "j_ID x = i \<Longrightarrow> old = Some (JJob x)"
  shows "stays (evolves E (job_write i old)) (reconcile_job E now x)"
proof -
  have start: "stays (evolves E (job_write i old)) (start_job E x)" if "j_Status x = JobPending"
    unfolding start_job_def Let_def
    by (intro stays_intros ev.rules jobs_CreateDeployment jobs_put E) (use x that in \<open>simp_all add: job_advances\<close>)
  have watch: "stays (evolves E (job_write i old)) (watch_job E now x)" if "j_Status x = JobRunning"
    unfolding watch_job_def Let_def
    by (intro stays_intros ev.rules ev_reads jobs_DeleteDeployment jobs_put E) (use x that in \<open>auto simp: job_advances split: if_splits\<close>)
  have expire: "stays (evolves E (job_write i old)) (expire_job E now x)" if "j_Status x \<in> {JobSucceeded, JobFailed}"
    unfolding expire_job_def by (intro stays_intros ev.rules ev_deletes E) (use x that in \<open>simp add: job_next_def\<close>)
  show ?thesis using start watch expire ev.ret by (auto simp: reconcile_job_def split: JobPhase.split)
qed

subsection \<open>Cron jobs\<close>

text \<open>
  The jobs that cron jobs create are named after the clock. As long as it does not give the name of the job
  again, its record stays as it is.
\<close>

definition job_id_at :: "'db oenv \<Rightarrow> nat \<Rightarrow> string" where
  "job_id_at E k = ''job-'' @ show_int (env_clock E k)"

definition later :: "'db world \<Rightarrow> 'db world \<Rightarrow> bool" where
  "later s t \<longleftrightarrow> st_tick s \<le> st_tick t"

interpretation later: frame later
  by unfold_locales (auto simp: later_def)

lemma later_prims:
  "stays later (db_get E k)" "stays later (db_scan E p)" "stays later (db_update E ws)" "stays later (time_now E)"
  by (auto simp: stays_def db_get_def db_scan_def db_update_def time_now_def later_def split: prod.splits)

lemma later_ops:
  "stays later (st_UpsertJob E j)" "stays later (st_GetJob E i)" "stays later (st_UpsertCronJob E cj)"
  "stays later (st_ListCronJobs E ns)" "stays later (st_ListNamespaces E)"
  unfolding st_UpsertJob_def st_GetJob_def st_UpsertCronJob_def st_ListCronJobs_def st_ListNamespaces_def
    st_put_def st_get_def listPrefix_def Let_def
  by (intro stays_intros later.rules later_prims)+

definition job_kept :: "'db oenv \<Rightarrow> string \<Rightarrow> nat \<Rightarrow> 'db world \<Rightarrow> 'db world \<Rightarrow> bool" where
  "job_kept E i b s t \<longleftrightarrow> (b \<le> st_tick s \<longrightarrow> b \<le> st_tick t \<and> evolves E (job_write i None) s t)"

interpretation kept: frame "job_kept E i b"
  by unfold_locales (auto simp: job_kept_def intro: ev.refl ev.trans)

lemma kept_both: "stays later m \<Longrightarrow> stays (evolves E (job_write i None)) m \<Longrightarrow> stays (job_kept E i b) m"
  by (auto simp: stays_def job_kept_def later_def intro: order_trans)

lemma kept_time:
  assumes "\<And>k. b \<le> k \<Longrightarrow> stays (job_kept E i b) (f (env_clock E k))"
  shows "stays (job_kept E i b) (bnd (time_now E) f)"
proof (rule staysI)
  fix s :: "'a world"
  let ?s = "s\<lparr>st_tick := Suc (st_tick s)\<rparr>"
  have same: "evolves E (job_write i None) s = evolves E (job_write i None) ?s" by (rule evolves_from) (simp add: contents_def)
  show "wp (bnd (time_now E) f) (\<lambda>r. job_kept E i b s) s"
  proof (cases "b \<le> st_tick s")
    case True
    have "wp (f (env_clock E (st_tick s))) (\<lambda>r. job_kept E i b ?s) ?s" by (rule stays_wp [OF assms [OF True]])
    then have "wp (f (env_clock E (st_tick s))) (\<lambda>r. job_kept E i b s) ?s"
      by (rule wp_conseq) (use True same in \<open>simp add: job_kept_def\<close>)
    then show ?thesis by (simp add: bnd_def time_now_def wp_def)
  qed (auto simp: job_kept_def wp_def)
qed

lemma kept_ops:
  assumes "env_ok E"
  shows "j_Status x \<noteq> JobPhaseUnset \<Longrightarrow> j_ID x \<noteq> i \<Longrightarrow> stays (job_kept E i b) (st_UpsertJob E x)"
    and "stays (job_kept E i b) (st_GetJob E i')"
    and "stays (job_kept E i b) (st_UpsertCronJob E cj)"
    and "stays (job_kept E i b) (st_ListCronJobs E ns)" and "stays (job_kept E i b) (st_ListNamespaces E)"
  using assms by (auto intro!: kept_both later_ops jobs_put ev_reads ev_UpsertCronJob simp: json_CronJob_def)

lemma cron_upsert:
  assumes E: "env_ok E" and fresh: "\<And>k. b \<le> k \<Longrightarrow> i \<noteq> job_id_at E k"
  shows "stays (job_kept E i b) (UpsertJob E (cron_job now cj))"
proof -
  let ?j = "default_job (if blank (js_Namespace (j_Spec (cron_job now cj))) then (cron_job now cj)\<lparr>j_Spec := (j_Spec (cron_job now cj))\<lparr>js_Namespace := ''default''\<rparr>\<rparr> else cron_job now cj)"
  have j: "j_ID ?j = []" "j_Status ?j = JobPending" by (simp_all add: default_job_def cron_job_def zero_Job_def Let_def)
  have "stays (job_kept E i b) (bnd (time_now E) (\<lambda>t. seq (st_UpsertJob E (?j\<lparr>j_ID := ''job-'' @ show_int t\<rparr>)) (st_GetJob E (''job-'' @ show_int t))))"
    by (rule kept_time, intro kept.seq kept_ops E) (use j fresh in \<open>auto simp: job_id_at_def\<close>)
  then show ?thesis
    unfolding UpsertJob_def Let_def go_laws using j by (auto intro!: stays_intros kept.throw simp: go_laws)
qed

lemma kept_run_cron:
  assumes "env_ok E" and "\<And>k. b \<le> k \<Longrightarrow> i \<noteq> job_id_at E k"
  shows "stays (job_kept E i b) (run_cron E now cj)"
  unfolding run_cron_def by (intro stays_intros kept.rules cron_upsert kept_ops assms)

subsection \<open>The whole pass\<close>

text \<open>The jobs that are listed are stored.\<close>

definition reads_jobs :: "'db oenv \<Rightarrow> 'db world \<Rightarrow> ('db, Job list) orch \<Rightarrow> bool" where
  "reads_jobs E s m \<longleftrightarrow> (\<forall>t. contents E t = contents E s \<longrightarrow>
     wp m (\<lambda>r u. contents E u = contents E s \<and> (\<forall>js. r = Inr js \<longrightarrow> (\<forall>j \<in> set js. contents E s (keyJob (j_ID j)) = Some (JJob j)))) t)"

lemma reads_ListJobs:
  assumes E: "env_ok E" and wf: "store_wf (contents E s)"
  shows "reads_jobs E s (st_ListJobs E ns)"
  unfolding reads_jobs_def
proof (intro allI impI)
  fix t assume t: "contents E t = contents E s"
  have "contents E s (keyJob (j_ID j)) = Some (JJob j)" if j: "j \<in> ran (view un_Job ''job:'' (contents E t))" for j
  proof -
    obtain k where "view un_Job ''job:'' (contents E s) k = Some j" using j by (auto simp: ran_def t)
    then show ?thesis using jb.wf_view [OF wf] jb.wf_view_key [OF wf] by (metis keyJob_def)
  qed
  then show "wp (st_ListJobs E ns) (\<lambda>r u. contents E u = contents E s \<and>
      (\<forall>js. r = Inr js \<longrightarrow> (\<forall>j \<in> set js. contents E s (keyJob (j_ID j)) = Some (JJob j)))) t"
    unfolding st_ListJobs_def wp_bnd
    by (intro jb.wp_list [OF E]) (use t wf in \<open>auto simp: wp_ret intro!: wp_ifI\<close>)
qed

lemma reads_ret: "\<forall>j \<in> set js. contents E s (keyJob (j_ID j)) = Some (JJob j) \<Longrightarrow> reads_jobs E s (ret js)"
  by (simp add: reads_jobs_def wp_ret)

lemma reads_bnd:
  assumes "reads_jobs E s m" and "\<And>js. \<forall>j \<in> set js. contents E s (keyJob (j_ID j)) = Some (JJob j) \<Longrightarrow> reads_jobs E s (f js)"
  shows "reads_jobs E s (bnd m f)"
  unfolding reads_jobs_def wp_bnd
proof (intro allI impI)
  fix t :: "'a world" assume t: "contents E t = contents E s"
  show "wp m (\<lambda>r u. case r of Inl e \<Rightarrow> contents E u = contents E s \<and>
        (\<forall>js. Inl e = Inr js \<longrightarrow> (\<forall>j \<in> set js. contents E s (keyJob (j_ID j)) = Some (JJob j)))
      | Inr x \<Rightarrow> wp (f x) (\<lambda>r u. contents E u = contents E s \<and>
        (\<forall>js. r = Inr js \<longrightarrow> (\<forall>j \<in> set js. contents E s (keyJob (j_ID j)) = Some (JJob j)))) u) t"
    by (rule wp_conseq [OF assms(1) [unfolded reads_jobs_def, rule_format, OF t]])
      (use assms(2) in \<open>auto simp: reads_jobs_def split: sum.split\<close>)
qed

lemma reads_or_none: "reads_jobs E s m \<Longrightarrow> reads_jobs E s (bnd (attempt m) (\<lambda>r. ret (case r of Inl _ \<Rightarrow> [] | Inr items \<Rightarrow> items)))"
  unfolding reads_jobs_def wp_bnd wp_attempt wp_ret sum.case
  by (intro allI impI, drule spec, drule (1) mp, erule wp_conseq) (auto split: sum.split)

lemma reads_namespace_items:
  assumes "\<And>n. reads_jobs E s (list_of n)"
  shows "reads_jobs E s (namespace_items list_of nss)"
proof (induction nss)
  case (Cons ns nss)
  have "namespace_items list_of (ns # nss) = bnd (bnd (attempt (list_of (ns_Name ns))) (\<lambda>r. ret (case r of Inl _ \<Rightarrow> [] | Inr items \<Rightarrow> items)))
      (\<lambda>items. bnd (namespace_items list_of nss) (\<lambda>more. ret (items @ more)))"
    by (simp add: go_laws)
  then show ?case using Cons assms by (auto intro!: reads_bnd reads_ret reads_or_none)
qed (simp add: reads_ret)

text \<open>What a pass makes of the record of one job.\<close>

definition pass_result :: "string \<Rightarrow> (string \<Rightarrow> blob option) \<Rightarrow> (string \<Rightarrow> blob option) \<Rightarrow> bool" where
  "pass_result i m n \<longleftrightarrow> store_wf n \<and> (n (keyJob i) = m (keyJob i) \<or> job_next (m (keyJob i)) (n (keyJob i)))"

lemma wp_jobs_loop:
  assumes E: "env_ok E" and wf: "store_wf (contents E s)"
  shows "wp (bnd (st_ListJobs E ''default'') (\<lambda>jobs. bnd (namespace_items (st_ListJobs E) nss) (\<lambda>more.
    for_each (jobs @ more) (reconcile_job E now)))) (\<lambda>r t. pass_result i (contents E s) (contents E t)) s"
proof -
  let ?P = "\<lambda>js. \<forall>j \<in> set js. contents E s (keyJob (j_ID j)) = Some (JJob j)"
  note list = reads_ListJobs [OF E wf]
  have same: "pass_result i (contents E s) (contents E t)" if "contents E t = contents E s" for t
    using that wf by (simp add: pass_result_def)
  have run: "wp (for_each js (reconcile_job E now)) (\<lambda>r t. pass_result i (contents E s) (contents E t)) u"
    if u: "contents E u = contents E s" and js: "?P js" for js u
  proof -
    have "stays (evolves E (job_write i (contents E s (keyJob i)))) (for_each js (reconcile_job E now))"
      by (rule ev.for_each, rule jobs_reconcile_job [OF E]) (use js in auto)
    from stays_wp [OF this, of u] show ?thesis
    proof (rule wp_conseq)
      fix t assume t: "evolves E (job_write i (contents E s (keyJob i))) u t"
      then have "store_wf (contents E t)" by (rule evolves_wf) (use wf u in \<open>simp_all add: job_write_def\<close>)
      then show "pass_result i (contents E s) (contents E t)"
        using writes_new [OF t [unfolded evolves_def], of "keyJob i"] u by (auto simp: pass_result_def job_write_def)
    qed
  qed
  show ?thesis
  proof (rule wp_read_bnd [where E = E and P = ?P])
    show "wp (st_ListJobs E ''default'') (\<lambda>r t. contents E t = contents E s \<and> (\<forall>x. r = Inr x \<longrightarrow> ?P x)) s"
      using list unfolding reads_jobs_def by blast
    fix js and u :: "'a world" assume js: "?P js" and u: "contents E u = contents E s"
    show "wp (bnd (namespace_items (st_ListJobs E) nss) (\<lambda>more. for_each (js @ more) (reconcile_job E now)))
        (\<lambda>r t. pass_result i (contents E s) (contents E t)) u"
      by (rule wp_read_bnd [where E = E and P = ?P])
        (use reads_namespace_items [OF list, where nss = nss] js u in \<open>auto simp: reads_jobs_def intro!: run same\<close>)
  qed (rule same)
qed

lemma wp_bnd_kept:
  assumes "job_kept E i b s t" and "stays (job_kept E i b) m" and "\<And>e u. job_kept E i b s u \<Longrightarrow> Q (Inl e) u"
    and "\<And>x u. job_kept E i b s u \<Longrightarrow> wp (f x) Q u"
  shows "wp (bnd m f) Q t"
  unfolding wp_bnd
  by (rule wp_conseq [OF stays_wp [OF assms(2)]]) (use assms(3,4) kept.trans [OF assms(1)] in \<open>auto split: sum.splits\<close>)

lemma wp_pass:
  assumes E: "env_ok E" and wf: "store_wf (contents E s)" and fresh: "\<And>k. st_tick s \<le> k \<Longrightarrow> i \<noteq> job_id_at E k"
  shows "wp (reconcileJobsAndCron E) (\<lambda>r t. pass_result i (contents E s) (contents E t)) s"
proof -
  let ?kept = "job_kept E i (st_tick s)"
  have kept: "store_wf (contents E t) \<and> contents E t (keyJob i) = contents E s (keyJob i)" if "?kept s t" for t
  proof -
    have ev: "evolves E (job_write i None) s t" using that by (simp add: job_kept_def)
    have "store_wf (contents E t)" by (rule evolves_wf [OF ev _ wf]) (simp add: job_write_def)
    moreover have "contents E t (keyJob i) = contents E s (keyJob i)"
      by (rule evolves_outside [OF ev]) (simp add: job_write_def job_next_def)
    ultimately show ?thesis by simp
  qed
  have stop: "pass_result i (contents E s) (contents E t)" if "?kept s t" for t
    using kept [OF that] by (simp add: pass_result_def)
  have jobs: "wp (bnd (st_ListJobs E ''default'') (\<lambda>jobs. bnd (namespace_items (st_ListJobs E) nss) (\<lambda>more.
      for_each (jobs @ more) (reconcile_job E now)))) (\<lambda>r u. pass_result i (contents E s) (contents E u)) t" if "?kept s t" for t nss now
    using wp_jobs_loop [OF E, of t nss now i] kept [OF that] by (auto simp: pass_result_def)
  have cron: "stays ?kept (for_each cs (run_cron E now))" for cs now
    by (rule kept.for_each, rule kept_run_cron [OF E fresh])
  have time: "stays ?kept (time_now E)" by (rule kept_both [OF later_prims(4) ev_time])
  note step = wp_bnd_kept [where E = E and i = i and b = "st_tick s" and s = s]
  show ?thesis
    unfolding reconcileJobsAndCron_def seq_def [of "for_each _ _"]
    by (rule step [OF kept.refl], rule kept_ops [OF E], erule stop,
        rule step, assumption, rule kept_ops [OF E], erule stop,
        rule step, assumption, intro stays_namespace_items kept.frame_axioms kept_ops E, erule stop,
        rule step, assumption, rule time, erule stop,
        rule step, assumption, rule cron, erule stop, erule jobs)
qed

subsection \<open>Any number of passes\<close>

text \<open>
  The life of the job \<open>i\<close> from the state \<open>s\<close> on, with the number of times it was put back to be run
  again: passes of the reconciliation, during which no new job takes its name, and in between
  whatever else happens in the cluster that leaves its record alone.
\<close>

definition retried :: "string \<Rightarrow> (string \<Rightarrow> blob option) \<Rightarrow> (string \<Rightarrow> blob option) \<Rightarrow> bool" where
  "retried i m n \<longleftrightarrow> (\<exists>j j'. m (keyJob i) = Some (JJob j) \<and> j_Status j = JobRunning \<and>
     n (keyJob i) = Some (JJob j') \<and> j_Status j' = JobPending)"

inductive job_history :: "'db oenv \<Rightarrow> string \<Rightarrow> 'db world \<Rightarrow> nat \<Rightarrow> 'db world \<Rightarrow> bool" for E i s where
  start: "job_history E i s 0 s"
| pass: "job_history E i s n t \<Longrightarrow> (\<And>k. st_tick t \<le> k \<Longrightarrow> i \<noteq> job_id_at E k) \<Longrightarrow> reconcileJobsAndCron E t = (r, u) \<Longrightarrow>
    job_history E i s (if retried i (contents E t) (contents E u) then Suc n else n) u"
| other: "job_history E i s n t \<Longrightarrow> store_wf (contents E u) \<Longrightarrow> contents E u (keyJob i) = contents E t (keyJob i) \<Longrightarrow>
    job_history E i s n u"

text \<open>The record after \<open>n\<close> retries, when it had failed \<open>f\<close> times at the start.\<close>

definition job_account :: "int \<Rightarrow> int \<Rightarrow> nat \<Rightarrow> Job \<Rightarrow> bool" where
  "job_account lm f n j \<longleftrightarrow> js_BackoffLimit (j_Spec j) = lm \<and> j_Status j \<in> {JobPending, JobRunning, JobSucceeded, JobFailed} \<and>
     j_Failed j = f + int n + (if j_Status j = JobFailed then 1 else 0) \<and> (j_Status j = JobFailed \<longrightarrow> lm < j_Failed j)"

lemma account_step:
  assumes "job_account lm f n j" and "job_step j j'" and "0 < n \<Longrightarrow> f + int n \<le> lm"
    and "- (2 ^ 63) \<le> f" and "f + 1 < 2 ^ 63" and "lm + 1 < 2 ^ 63"
  shows "job_account lm f (if j_Status j = JobRunning \<and> j_Status j' = JobPending then Suc n else n) j' \<and>
    (j_Status j = JobRunning \<and> j_Status j' = JobPending \<longrightarrow> f + int (Suc n) \<le> lm)"
proof -
  have "f + int n + 1 < 2 ^ 63" using assms(3,5,6) by (cases "n = 0") auto
  then have "in64 (f + int n + 1)" unfolding in64_def using assms(4) by linarith
  then have "i64 (f + int n + 1) = f + int n + 1" by (rule i64_id)
  then show ?thesis using assms(1,2) unfolding job_account_def job_step_def by (auto split: if_splits)
qed

lemma history_account:
  assumes "job_history E i s n t" and E: "env_ok E" and wf: "store_wf (contents E s)"
    and j: "contents E s (keyJob i) = Some (JJob j)" "j_Status j \<in> {JobPending, JobRunning}"
    and range: "- (2 ^ 63) \<le> j_Failed j" "j_Failed j + 1 < 2 ^ 63" "js_BackoffLimit (j_Spec j) + 1 < 2 ^ 63"
  shows "store_wf (contents E t) \<and> (0 < n \<longrightarrow> j_Failed j + int n \<le> js_BackoffLimit (j_Spec j)) \<and>
    (contents E t (keyJob i) = None \<or>
     (\<exists>j'. contents E t (keyJob i) = Some (JJob j') \<and> job_account (js_BackoffLimit (j_Spec j)) (j_Failed j) n j'))"
  using assms(1)
proof (induction rule: job_history.induct)
  case start
  then show ?case using wf j by (auto simp: job_account_def)
next
  case (pass n t r u)
  let ?lm = "js_BackoffLimit (j_Spec j)"
  from pass.IH have wt: "store_wf (contents E t)" and n: "0 < n \<Longrightarrow> j_Failed j + int n \<le> ?lm" by simp_all
  from wpD [OF wp_pass [OF E wt pass(2)] pass(3)] have res: "pass_result i (contents E t) (contents E u)" by simp
  show ?case
  proof (cases "contents E u (keyJob i) = contents E t (keyJob i)")
    case True
    then have "\<not> retried i (contents E t) (contents E u)" by (auto simp: retried_def)
    then show ?thesis using True pass.IH res by (simp add: pass_result_def)
  next
    case False
    then have nxt: "job_next (contents E t (keyJob i)) (contents E u (keyJob i))" using res by (simp add: pass_result_def)
    then obtain j1 where t: "contents E t (keyJob i) = Some (JJob j1)" by (auto simp: job_next_def)
    then have a1: "job_account ?lm (j_Failed j) n j1" using pass.IH by simp
    show ?thesis
    proof (cases "contents E u (keyJob i)")
      case None
      then show ?thesis using res n by (simp add: pass_result_def retried_def)
    next
      case (Some b)
      then obtain j2 where u: "contents E u (keyJob i) = Some (JJob j2)" "job_step j1 j2" using nxt t by (auto simp: job_next_def)
      have "retried i (contents E t) (contents E u) \<longleftrightarrow> j_Status j1 = JobRunning \<and> j_Status j2 = JobPending"
        using t u(1) by (simp add: retried_def)
      then show ?thesis using account_step [OF a1 u(2) n range] res u(1) n by (auto simp: pass_result_def)
    qed
  qed
next
  case (other n t u)
  then show ?case by simp
qed

text \<open>
  (C16) Retries are counted and bounded. Follow a job that is pending or running through any number of
  passes of the reconciliation, whatever calls fail in them, with anything in between that does not write
  its record. It is put back to be run again at most as often as its backoff limit exceeds the number of
  times it had failed already. As long as it is stored, its count of failures is exactly this number plus
  the times it was put back, plus one when it has failed for good; and it has failed for good only when
  the count is beyond the limit. (The counters are assumed to be far from the end of the 64-bit range,
  and the clock to give no new job the name of this one.)
\<close>

theorem job_retries_bounded:
  assumes "env_ok E" and "store_wf (contents E s)" and "contents E s (keyJob i) = Some (JJob j)"
    and "j_Status j \<in> {JobPending, JobRunning}"
    and "- (2 ^ 63) \<le> j_Failed j" and "j_Failed j + 1 < 2 ^ 63" and "js_BackoffLimit (j_Spec j) + 1 < 2 ^ 63"
    and "job_history E i s n t"
  shows "int n \<le> max 0 (js_BackoffLimit (j_Spec j) - j_Failed j) \<and>
    (\<forall>j'. contents E t (keyJob i) = Some (JJob j') \<longrightarrow>
      j_Failed j' = j_Failed j + int n + (if j_Status j' = JobFailed then 1 else 0) \<and>
      (j_Status j' = JobFailed \<longrightarrow> js_BackoffLimit (j_Spec j) < j_Failed j'))"
proof -
  from history_account [OF assms(8) assms(1-7)]
  have "0 < n \<longrightarrow> j_Failed j + int n \<le> js_BackoffLimit (j_Spec j)"
    and "\<And>j'. contents E t (keyJob i) = Some (JJob j') \<Longrightarrow> job_account (js_BackoffLimit (j_Spec j)) (j_Failed j) n j'" by auto
  then show ?thesis unfolding job_account_def by (cases "n = 0") auto
qed

definition demo_job :: Job where
  "demo_job = zero_Job\<lparr>j_ID := ''nightly'', j_Status := JobRunning, j_Deployment := ''dep-1'',
     j_Spec := zero_JobSpec\<lparr>js_Namespace := ''default'', js_Name := ''nightly'', js_BackoffLimit := 1\<rparr>\<rparr>"

definition demo_jobs :: "memdb world" where
  "demo_jobs = NewOrchestrator (stored [JJob demo_job, JWorkload (zero_Workload\<lparr>w_ID := ''w1'', w_DeploymentID := ''dep-1'', w_Status := WorkloadFailed\<rparr>)])"

lemma demo_jobs_pass:
  "case contents demo_oenv (snd (reconcileJobsAndCron demo_oenv demo_jobs)) (keyJob ''nightly'') of
     Some (JJob j) \<Rightarrow> j_Status j = JobPending | _ \<Rightarrow> False"
  by code_simp

theorem job_retries_bounded_witness:
  "\<exists>j. contents demo_oenv (snd (reconcileJobsAndCron demo_oenv demo_jobs)) (keyJob ''nightly'') = Some (JJob j) \<and>
     j_Status j = JobPending \<and> j_Failed j = 1"
proof -
  let ?u = "snd (reconcileJobsAndCron demo_oenv demo_jobs)" and ?i = "''nightly''"
  have s: "contents demo_oenv demo_jobs (keyJob ?i) = Some (JJob demo_job)" "store_wf (contents demo_oenv demo_jobs)"
    unfolding demo_jobs_def by (simp add: stored_def key_defs demo_job_def, rule stored_wf)
  obtain j where j: "contents demo_oenv ?u (keyJob ?i) = Some (JJob j)" "j_Status j = JobPending"
    using demo_jobs_pass by (auto split: option.splits blob.splits)
  have "retried ?i (contents demo_oenv demo_jobs) (contents demo_oenv ?u)"
    unfolding retried_def s(1) j(1) using j(2) by (simp add: demo_job_def)
  moreover have "job_history demo_oenv ?i demo_jobs (if retried ?i (contents demo_oenv demo_jobs) (contents demo_oenv ?u) then Suc 0 else 0) ?u"
    by (rule job_history.pass [OF job_history.start _ prod.collapse [symmetric]]) (simp add: job_id_at_def)
  ultimately have "job_history demo_oenv ?i demo_jobs 1 ?u" by simp
  from job_retries_bounded [OF demo_oenv_ok s(2,1) _ _ _ _ this] have "j_Failed j = 1"
    using j by (auto simp: demo_job_def zero_Job_def zero_JobSpec_def simp del: demo_oenv_contents)
  then show ?thesis using j by blast
qed

text \<open>
  A retry clears the name of the deployment before the deployment is deleted, so the deletion is asked for
  the empty name and the deployment of the failed run stays.
\<close>

lemma retry_deletes_nothing:
  "\<not> iadd (j_Failed job) 1 > js_BackoffLimit (j_Spec job) \<Longrightarrow> j_Deployment (job_failed now job) = []"
  by (simp add: job_failed_def Let_def)

text \<open>
  When the namespace \<^verbatim>\<open>default\<close> is stored, its jobs are listed twice, and the second copy is the one from
  before the first was handled.
\<close>

lemma default_jobs_twice:
  fixes s :: "'db world"
  assumes "\<And>s :: 'db world. st_ListJobs E ''default'' s = (Inr js, s)"
    and "\<And>n (s :: 'db world). \<exists>xs. st_ListJobs E n s = (Inr xs, s)"
    and "''default'' \<in> ns_Name ` set nss" and "j \<in> set js"
  shows "\<exists>ks. namespace_items (st_ListJobs E) nss s = (Inr ks, s) \<and> j \<in> set ks"
  using assms(3)
proof (induction nss)
  case (Cons ns nss)
  have total: "\<exists>ks. namespace_items (st_ListJobs E) ms s = (Inr ks, s)" for ms
  proof (induction ms)
    case (Cons m ms)
    then show ?case using assms(2) [of "ns_Name m" s] by (auto simp: bnd_def attempt_def ret_def)
  qed (simp add: ret_def)
  show ?case
  proof (cases "ns_Name ns = ''default''")
    case True
    then show ?thesis using total [of nss] assms(1,4) by (auto simp: bnd_def attempt_def ret_def)
  next
    case False
    then show ?thesis using Cons assms(2) [of "ns_Name ns" s] by (auto simp: bnd_def attempt_def ret_def)
  qed
qed simp

end
