(* ===== verification/Leadership.thy ===== *)
theory Leadership
  imports Deployments "HOL-Library.Word"
begin

text \<open>
  Leadership of the controllers (\<^verbatim>\<open>internal/service/features.go\<close>): the lease that
  \<^verbatim>\<open>TryAcquireControllerLeadership\<close> takes or renews and \<^verbatim>\<open>ReleaseControllerLeadership\<close> gives up,
  and the assignment of deployments to shards by their FNV-1a hash. The lease operations are related
  to an abstract lease (\<open>holder\<close>, \<open>grant\<close>), and exclusion is proved over sequences of steps of the
  other controllers.
\<close>

unbundle bit_operations_syntax

section \<open>The lease\<close>

definition transition :: "string \<Rightarrow> int \<Rightarrow> string \<Rightarrow> string \<Rightarrow> gotime \<Rightarrow> ControlPlaneTransition" where
  "transition node term action descr created = \<lparr>t_ID = [], t_NodeID = node, t_Term = term, t_Action = action,
     t_Description = descr, t_CreatedAt = created\<rparr>"

definition read_lease :: "'db oenv \<Rightarrow> ('db, bool \<times> ControllerLease) orch" where
  "read_lease E = bnd (attempt (st_GetControllerLease E)) (\<lambda>r. case r of
     Inl e \<Rightarrow> if err_is e ErrNotFound then ret (True, zero_ControllerLease) else throw e
   | Inr lease \<Rightarrow> ret (False, lease))"

definition take_lease :: "'db oenv \<Rightarrow> string \<Rightarrow> duration \<Rightarrow> gotime \<Rightarrow> ControllerLease \<Rightarrow> ('db, bool \<times> ControllerLease) orch" where
  "take_lease E controllerID leaseDuration now lease = (let
     term = l_Term lease;
     term = (if l_LeaderID lease \<noteq> controllerID then iadd term 1 else term);
     lease = \<lparr>l_LeaderID = controllerID, l_ExpiresAt = now + leaseDuration, l_Term = term, l_UpdatedAt = now\<rparr> in
     seq (st_UpsertControllerLease E lease)
     (let action = (if term > 0 \<and> l_LeaderID lease = controllerID then ''LeaderAcquired'' else ''LeaderRenewed'') in
     seq (ignore (st_AppendControlPlaneTransition E (transition controllerID term action ''controller leadership updated'' now)))
     (ret (True, lease))))"

definition TryAcquireControllerLeadership ::
    "'db oenv \<Rightarrow> string \<Rightarrow> duration \<Rightarrow> ('db, bool \<times> ControllerLease) orch" where
  "TryAcquireControllerLeadership E controllerID leaseDuration =
     (if blank controllerID then throw (ErrText ''controller id is required'')
      else let leaseDuration = (if leaseDuration \<le> 0 then 10 * Second else leaseDuration) in
     bnd (time_now E) (\<lambda>now.
     bnd (read_lease E) (\<lambda>(missing, lease).
     if missing \<or> blank (l_LeaderID lease) \<or> now > l_ExpiresAt lease \<or> l_LeaderID lease = controllerID
     then take_lease E controllerID leaseDuration now lease
     else ret (l_LeaderID lease = controllerID, lease))))"

definition ReleaseControllerLeadership :: "'db oenv \<Rightarrow> string \<Rightarrow> ('db, unit) orch" where
  "ReleaseControllerLeadership E controllerID =
     bnd (attempt (st_GetControllerLease E)) (\<lambda>r. case r of
       Inl e \<Rightarrow> if err_is e ErrNotFound then ret () else throw e
     | Inr lease \<Rightarrow>
       if l_LeaderID lease \<noteq> controllerID then ret ()
       else seq (st_DeleteControllerLease E)
         (bnd (time_now E) (\<lambda>now.
          st_AppendControlPlaneTransition E (transition controllerID (l_Term lease) ''LeaderReleased'' ''controller released lease'' now))))"

section \<open>Shards\<close>

text \<open>\<^verbatim>\<open>fnv.New32a\<close> over the bytes of a string.\<close>

definition fnv32a :: "string \<Rightarrow> 32 word" where
  "fnv32a s = foldl (\<lambda>h c. (h XOR of_char c) * 16777619) 2166136261 s"

definition belongsToShard :: "string \<Rightarrow> int \<Rightarrow> int \<Rightarrow> err + bool" where
  "belongsToShard ident shardIndex shardCount =
     (if (word_of_int shardCount :: 32 word) = 0 then Inl (ErrPanic ''integer divide by zero'')
      else Inr (uint (fnv32a ident mod word_of_int shardCount) = shardIndex))"

text \<open>
  (C25) Every deployment belongs to exactly one of the shards: the shards of one round are disjoint and
  leave nothing out.
\<close>

theorem shards_partition:
  assumes "0 < n" and "n < 2 ^ 32"
  shows "\<exists>!k. 0 \<le> k \<and> k < n \<and> belongsToShard ident k n = Inr True"
proof -
  have n: "uint (word_of_int n :: 32 word) = n" using assms by (simp add: uint_word_of_int)
  then have nz: "(word_of_int n :: 32 word) \<noteq> 0" using assms(1) by (metis less_irrefl unsigned_0)
  have "uint (fnv32a ident mod word_of_int n) = uint (fnv32a ident) mod n" by (simp add: uint_mod n)
  then show ?thesis using nz assms by (auto simp: belongsToShard_def intro!: exI [of _ "uint (fnv32a ident) mod n"])
qed

theorem shards_partition_witness: "\<exists>!k. 0 \<le> k \<and> k < 3 \<and> belongsToShard ''dep-1'' k 3 = Inr True"
  by (rule shards_partition) simp_all

section \<open>Frames\<close>

lemma quiet_TryAcquire: "stays quiet (TryAcquireControllerLeadership E c d)"
  unfolding TryAcquireControllerLeadership_def read_lease_def take_lease_def Let_def by (intro quiet_rules)

lemma quiet_Release: "stays quiet (ReleaseControllerLeadership E c)"
  unfolding ReleaseControllerLeadership_def by (intro quiet_rules)

lemma good_TryAcquire: "env_ok E \<Longrightarrow> stays (evolves E good_write) (TryAcquireControllerLeadership E c d)"
  unfolding TryAcquireControllerLeadership_def read_lease_def take_lease_def Let_def
  by (intro stays_intros ev.rules ev_time ev_reads ev_UpsertControllerLease ev_AppendControlPlaneTransition) simp_all

lemma good_Release: "env_ok E \<Longrightarrow> stays (evolves E good_write) (ReleaseControllerLeadership E c)"
  unfolding ReleaseControllerLeadership_def
  by (intro stays_intros ev.rules ev_time ev_reads ev_deletes ev_AppendControlPlaneTransition) simp_all

section \<open>The abstract lease\<close>

text \<open>
  Who holds the lease at a time, and what an attempt to take it yields: it is granted when nobody else
  holds it. The term grows when the lease goes to another controller.
\<close>

definition holder :: "ControllerLease option \<Rightarrow> gotime \<Rightarrow> string option" where
  "holder L now = (case L of None \<Rightarrow> None
     | Some l \<Rightarrow> if blank (l_LeaderID l) \<or> now > l_ExpiresAt l then None else Some (l_LeaderID l))"

definition grant :: "ControllerLease option \<Rightarrow> string \<Rightarrow> duration \<Rightarrow> gotime \<Rightarrow> ControllerLease" where
  "grant L c d now = \<lparr>l_LeaderID = c, l_ExpiresAt = now + (if d \<le> 0 then 10 * Second else d),
     l_Term = (case L of None \<Rightarrow> 1 | Some l \<Rightarrow> if l_LeaderID l = c then l_Term l else iadd (l_Term l) 1), l_UpdatedAt = now\<rparr>"

definition lease_of :: "(string \<Rightarrow> blob option) \<Rightarrow> ControllerLease option" where
  "lease_of m = (case m keyControllerLease of Some (JControllerLease l) \<Rightarrow> Some l | _ \<Rightarrow> None)"

definition lease_write :: "string \<Rightarrow> blob option \<Rightarrow> bool" where
  "lease_write k v \<longleftrightarrow> own_key k v \<and> k \<noteq> keyControllerLease"

lemma lease_write_transition [simp]:
  "lease_write (keyControlPlaneTransition t i) (Some (JControlPlaneTransition x)) \<longleftrightarrow>
     keyControlPlaneTransition (t_CreatedAt x) (t_ID x) = keyControlPlaneTransition t i"
  by (auto simp: lease_write_def keyControllerLease_def keyControlPlaneTransition_def)

lemma lease_of_evolves: "evolves E lease_write s t \<Longrightarrow> lease_of (contents E t) = lease_of (contents E s)"
  using evolves_outside [of E lease_write s t keyControllerLease] by (simp add: lease_of_def lease_write_def)

lemma wp_read_lease:
  assumes E: "env_ok E" and wf: "store_wf (contents E s)"
    and ok: "\<And>t. contents E t = contents E s \<Longrightarrow>
      Q (Inr (lease_of (contents E s) = None, case lease_of (contents E s) of None \<Rightarrow> zero_ControllerLease | Some l \<Rightarrow> l)) t"
    and err: "\<And>e t. contents E t = contents E s \<Longrightarrow> \<not> env_total E \<Longrightarrow> Q (Inl e) t"
  shows "wp (read_lease E) Q s"
  unfolding read_lease_def wp_bnd wp_attempt
proof (rule wp_GetControllerLease [OF E wf], unfold sum.case, goal_cases)
  case (1 x t)
  then show ?case using ok [of t] by (simp add: lease_of_def wp_ret)
next
  case (2 t)
  then show ?case using ok [of t] by (simp add: lease_of_def wp_ret)
next
  case (3 e t)
  then show ?case using err [of t] by (simp add: wp_throw)
qed

lemma wp_UpsertControllerLease:
  fixes E :: "'db oenv" and s :: "'db world"
  assumes E: "env_ok E"
    and "\<And>u t. contents E t = (contents E s)(keyControllerLease \<mapsto> JControllerLease (l\<lparr>l_UpdatedAt := u\<rparr>)) \<Longrightarrow>
      (\<not> IsZero (l_UpdatedAt l) \<Longrightarrow> u = l_UpdatedAt l) \<Longrightarrow> Q (Inr ()) t"
    and "\<And>e t. contents E t = contents E s \<Longrightarrow> \<not> env_total E \<Longrightarrow> Q (Inl e) t"
  shows "wp (st_UpsertControllerLease E l) Q s"
proof -
  have put: "wp (st_put E keyControllerLease (JControllerLease (l\<lparr>l_UpdatedAt := u\<rparr>))) Q t"
    if "contents E t = contents E s" "\<not> IsZero (l_UpdatedAt l) \<Longrightarrow> u = l_UpdatedAt l" for u t
    by (rule wp_put [OF E]) (use assms that in auto)
  show ?thesis
    using put [of s "l_UpdatedAt l"] unfolding st_UpsertControllerLease_def go_laws
    by (auto intro!: wp_bnd_now put)
qed

lemma wp_take_lease:
  assumes E: "env_ok E"
    and ok: "\<And>u t. lease_of (contents E t) = Some ((grant L c d now)\<lparr>l_UpdatedAt := u\<rparr>) \<Longrightarrow> (\<not> IsZero now \<Longrightarrow> u = now) \<Longrightarrow>
      (store_wf (contents E s) \<Longrightarrow> store_wf (contents E t)) \<Longrightarrow> Q (Inr (True, grant L c d now)) t"
    and err: "\<And>e t. contents E t = contents E s \<Longrightarrow> \<not> env_total E \<Longrightarrow> Q (Inl e) t"
    and l: "l = (case L of None \<Rightarrow> zero_ControllerLease | Some l \<Rightarrow> l)" and c: "\<not> blank c"
    and d: "d' = (if d \<le> 0 then 10 * Second else d)"
  shows "wp (take_lease E c d' now l) Q s"
proof -
  let ?l = "grant L c d now"
  have eq: "\<lparr>l_LeaderID = c, l_ExpiresAt = now + d', l_Term = (if l_LeaderID l \<noteq> c then iadd (l_Term l) 1 else l_Term l), l_UpdatedAt = now\<rparr> = ?l"
    using c by (cases L) (auto simp: grant_def l d zero_ControllerLease_def iadd_id in64_def)
  have tr: "stays (evolves E lease_write) (st_AppendControlPlaneTransition E x)" for x
    by (rule ev_AppendControlPlaneTransition [OF E]) simp
  show ?thesis
    unfolding take_lease_def Let_def eq wp_seq wp_ret
  proof (rule wp_UpsertControllerLease [OF E], unfold sum.case, goal_cases)
    case (1 u t)
    have lt: "lease_of (contents E t) = Some (?l\<lparr>l_UpdatedAt := u\<rparr>)" using 1(1) by (simp add: lease_of_def)
    have wt: "store_wf (contents E s) \<Longrightarrow> store_wf (contents E t)"
      using store_wf_def 1(1) by (auto simp: store_wf_def keyControllerLease_def)
    show ?case
      unfolding wp_ignore sum.case
      by (rule wp_conseq [OF stays_wp [OF tr]], rule ok [of _ u])
        (use lt wt 1(2) in \<open>auto simp: grant_def lease_write_def dest: lease_of_evolves elim!: evolves_wf\<close>)
  qed (use err in simp)
qed

lemma wp_TryAcquire:
  assumes E: "env_ok E" and wf: "store_wf (contents E s)" and c: "\<not> blank c"
    and L: "L = lease_of (contents E s)" and now: "now = env_clock E (st_tick s)"
    and granted: "\<And>u t. holder L now \<in> {None, Some c} \<Longrightarrow> lease_of (contents E t) = Some ((grant L c d now)\<lparr>l_UpdatedAt := u\<rparr>) \<Longrightarrow>
      store_wf (contents E t) \<Longrightarrow> Q (Inr (True, grant L c d now)) t"
    and refused: "\<And>l t. holder L now \<notin> {None, Some c} \<Longrightarrow> L = Some l \<Longrightarrow> contents E t = contents E s \<Longrightarrow> Q (Inr (False, l)) t"
    and err: "\<And>e t. contents E t = contents E s \<Longrightarrow> \<not> env_total E \<Longrightarrow> Q (Inl e) t"
  shows "wp (TryAcquireControllerLeadership E c d) Q s"
  unfolding TryAcquireControllerLeadership_def if_not_P [OF c] Let_def wp_bnd
proof (rule wp_time, unfold sum.case, rule wp_read_lease [OF E], goal_cases wf ok err)
  case (ok t u)
  let ?l = "case L of None \<Rightarrow> zero_ControllerLease | Some l \<Rightarrow> l"
  have u: "contents E u = contents E s" using ok by simp
  have L': "lease_of (contents E t) = L" using ok(1) L by simp
  have cond: "(L = None \<or> blank (l_LeaderID ?l) \<or> now > l_ExpiresAt ?l \<or> l_LeaderID ?l = c) \<longleftrightarrow> holder L now \<in> {None, Some c}"
    by (auto simp: holder_def split: option.splits)
  show ?case
    unfolding sum.case L' prod.case now [symmetric] cond
  proof (rule wp_ifI)
    assume h: "holder L now \<in> {None, Some c}"
    show "wp (take_lease E c (if d \<le> 0 then 10 * Second else d) now ?l) Q u"
      by (rule wp_take_lease [OF E _ _ HOL.refl c HOL.refl]) (use granted [OF h] err u wf in auto)
  next
    assume h: "holder L now \<notin> {None, Some c}"
    then obtain l where "L = Some l" "l_LeaderID l \<noteq> c" by (cases L) (auto simp: holder_def split: if_splits)
    then show "wp (ret (l_LeaderID ?l = c, ?l)) Q u" using refused [OF h _ u] by (simp add: wp_ret)
  qed
qed (use wf err in auto)

text \<open>
  (C5) The lease operations refine the abstract lease: an attempt is granted exactly when no other
  controller holds the lease at that moment, the stored lease is then the granted one, and an attempt
  that is refused leaves the lease as it is.
\<close>

theorem acquire_refines_lease:
  assumes "env_total E" and "store_wf (contents E s)" and "\<not> blank c"
    and "L = lease_of (contents E s)" and "now = env_clock E (st_tick s)"
  shows "wp (TryAcquireControllerLeadership E c d) (\<lambda>r t.
    if holder L now \<in> {None, Some c}
    then r = Inr (True, grant L c d now) \<and> (\<exists>u. lease_of (contents E t) = Some ((grant L c d now)\<lparr>l_UpdatedAt := u\<rparr>))
    else (\<exists>l. L = Some l \<and> r = Inr (False, l)) \<and> lease_of (contents E t) = L) s"
  by (rule wp_TryAcquire [OF env_total_ok [OF assms(1)] assms(2-5)]) (use assms in auto)

theorem acquire_refines_lease_witness:
  "wp (TryAcquireControllerLeadership demo_oenv ''a'' 0) (\<lambda>r t. \<exists>l. r = Inr (True, l) \<and> l_LeaderID l = ''a'') (NewOrchestrator [])"
proof -
  have "\<not> blank ''a''" by code_simp
  moreover have "store_wf (contents demo_oenv (NewOrchestrator []))" by (simp add: store_wf_def)
  ultimately show ?thesis
    by (intro wp_conseq [OF acquire_refines_lease [OF demo_oenv_total _ _ HOL.refl HOL.refl, of _ "''a''" 0]])
      (auto simp: lease_of_def holder_def grant_def)
qed

section \<open>Exclusion\<close>

text \<open>What the rest of the cluster does while a controller's lease has not expired.\<close>

inductive rivals :: "'db oenv \<Rightarrow> string \<Rightarrow> gotime \<Rightarrow> 'db world \<Rightarrow> 'db world \<Rightarrow> bool" for E leader expiry where
  start: "rivals E leader expiry s s"
| acquire: "rivals E leader expiry s t \<Longrightarrow> c \<noteq> leader \<Longrightarrow> env_clock E (st_tick t) \<le> expiry \<Longrightarrow>
    TryAcquireControllerLeadership E c d t = (r, u) \<Longrightarrow> rivals E leader expiry s u"
| release: "rivals E leader expiry s t \<Longrightarrow> c \<noteq> leader \<Longrightarrow> ReleaseControllerLeadership E c t = (r', u) \<Longrightarrow>
    rivals E leader expiry s u"
| other: "rivals E leader expiry s t \<Longrightarrow> evolves E lease_write t u \<Longrightarrow> rivals E leader expiry s u"

definition leads :: "'db oenv \<Rightarrow> string \<Rightarrow> gotime \<Rightarrow> 'db world \<Rightarrow> bool" where
  "leads E c expiry s \<longleftrightarrow> store_wf (contents E s) \<and> \<not> blank c \<and>
     (\<exists>l. lease_of (contents E s) = Some l \<and> l_LeaderID l = c \<and> l_ExpiresAt l = expiry)"

lemma leads_refuses:
  assumes "env_ok E" and "leads E leader expiry s" and "c \<noteq> leader" and "env_clock E (st_tick s) \<le> expiry"
  shows "wp (TryAcquireControllerLeadership E c d) (\<lambda>r t. leads E leader expiry t \<and> (\<forall>l. r \<noteq> Inr (True, l))) s"
proof (cases "blank c")
  case True
  then show ?thesis using assms(2) by (simp add: TryAcquireControllerLeadership_def wp_throw)
next
  case False
  have wf: "store_wf (contents E s)" using assms(2) by (simp add: leads_def)
  show ?thesis
    by (rule wp_TryAcquire [OF assms(1) wf False HOL.refl HOL.refl])
      (use assms(2-4) in \<open>auto simp: leads_def holder_def\<close>)
qed

lemma leads_release:
  assumes E: "env_ok E" and "leads E leader expiry s" and "c \<noteq> leader"
  shows "wp (ReleaseControllerLeadership E c) (\<lambda>r t. leads E leader expiry t) s"
proof -
  have wf: "store_wf (contents E s)" using assms(2) by (simp add: leads_def)
  have same: "leads E leader expiry t" if "contents E t = contents E s" for t using assms(2) that by (simp add: leads_def)
  show ?thesis
    unfolding ReleaseControllerLeadership_def wp_bnd wp_attempt
    by (rule wp_GetControllerLease [OF E wf])
      (use assms(2,3) same in \<open>auto simp: leads_def lease_of_def wp_ret wp_throw\<close>)
qed

lemma leads_evolves: "evolves E lease_write s t \<Longrightarrow> leads E c e s \<Longrightarrow> leads E c e t"
  by (auto simp: leads_def lease_of_evolves lease_write_def elim!: evolves_wf)

lemma leads_rivals:
  assumes "env_ok E"
  shows "rivals E leader expiry s t \<Longrightarrow> leads E leader expiry s \<Longrightarrow> leads E leader expiry t"
proof (induction rule: rivals.induct)
  case (acquire s t c d r u)
  then show ?case using wpD [OF leads_refuses [OF assms]] by blast
next
  case (release s t c r u)
  then show ?case using wpD [OF leads_release [OF assms]] by blast
next
  case (other s t u)
  then show ?case using leads_evolves by blast
qed

lemma acquired_leads:
  assumes "env_ok E" and "store_wf (contents E s)" and "TryAcquireControllerLeadership E c d s = (Inr (True, l), t)"
  shows "leads E c (l_ExpiresAt l) t"
proof -
  have c: "\<not> blank c" using assms(3) by (auto simp: TryAcquireControllerLeadership_def throw_def split: if_splits)
  have "wp (TryAcquireControllerLeadership E c d) (\<lambda>r t. \<forall>l. r = Inr (True, l) \<longrightarrow> leads E c (l_ExpiresAt l) t) s"
    by (rule wp_TryAcquire [OF assms(1,2) c HOL.refl HOL.refl]) (use c in \<open>auto simp: leads_def grant_def\<close>)
  from wpD [OF this assms(3)] show ?thesis by simp
qed

text \<open>
  (C2) Mutual exclusion: once a controller has acquired the lease, no other controller's attempt
  succeeds before the lease expires, whatever the others try in between (attempts, releases and every
  other operation of the orchestrator), also when database operations fail. Each attempt is one step here:
  the source reads and writes the lease in two transactions without a lock around them, and for attempts
  that overlap between the two the exclusion does not hold (\<open>overlapping_attempts_both_granted\<close>).
\<close>

theorem leader_exclusive:
  assumes "env_ok E" and "store_wf (contents E s)"
    and "TryAcquireControllerLeadership E leader d s = (Inr (True, l), t)"
    and "rivals E leader (l_ExpiresAt l) t u"
    and "c \<noteq> leader" and "env_clock E (st_tick u) \<le> l_ExpiresAt l"
    and "TryAcquireControllerLeadership E c d' u = (r, v)"
  shows "\<forall>l'. r \<noteq> Inr (True, l')"
proof -
  have "leads E leader (l_ExpiresAt l) u"
    using leads_rivals [OF assms(1,4)] acquired_leads [OF assms(1-3)] by blast
  from wpD [OF leads_refuses [OF assms(1) this assms(5,6)] assms(7)] show ?thesis by simp
qed

definition frozen :: "memdb oenv" where
  "frozen = demo_oenv\<lparr>env_clock := (\<lambda>_. 5)\<rparr>"

lemma frozen_total: "env_total frozen"
  using demo_oenv_total by (simp add: frozen_def env_total_def)

lemma nonblank_a: "\<not> blank ''a''"
  by code_simp

theorem leader_exclusive_witness:
  "\<exists>l t. TryAcquireControllerLeadership frozen ''a'' 0 (NewOrchestrator []) = (Inr (True, l), t) \<and>
     (\<forall>l'. fst (TryAcquireControllerLeadership frozen ''b'' 0 t) \<noteq> Inr (True, l'))"
proof -
  obtain r t where a: "TryAcquireControllerLeadership frozen ''a'' 0 (NewOrchestrator []) = (r, t)" by fastforce
  obtain q v where b: "TryAcquireControllerLeadership frozen ''b'' 0 t = (q, v)" by fastforce
  have empty: "contents frozen (NewOrchestrator []) = Map.empty"
    by (simp add: contents_def frozen_def demo_oenv_def NewOrchestrator_def mem_badger_def)
  have wf: "store_wf (contents frozen (NewOrchestrator []))" by (simp add: empty store_wf_def)
  have "wp (TryAcquireControllerLeadership frozen ''a'' 0)
      (\<lambda>r t. \<exists>l. r = Inr (True, l) \<and> l_ExpiresAt l = 5 + 10 * Second) (NewOrchestrator [])"
    by (rule wp_TryAcquire [OF env_total_ok [OF frozen_total] wf nonblank_a HOL.refl HOL.refl])
      (simp_all add: empty lease_of_def holder_def grant_def frozen_total, simp add: frozen_def)
  from wpD [OF this a] obtain l where l: "r = Inr (True, l)" "l_ExpiresAt l = 5 + 10 * Second" by blast
  have "env_clock frozen (st_tick t) \<le> l_ExpiresAt l" by (simp add: l(2) frozen_def Second_def)
  from leader_exclusive [OF env_total_ok [OF frozen_total] wf a [unfolded l(1)] rivals.start _ this b]
  have "\<forall>l'. q \<noteq> Inr (True, l')" by simp
  then show ?thesis using a b l by auto
qed

text \<open>
  The body of two attempts of different controllers, both past the read before either writes: both find no
  lease, and both are granted it.
\<close>

definition overlapping_attempts :: "'db oenv \<Rightarrow> string \<Rightarrow> string \<Rightarrow> duration \<Rightarrow> gotime \<Rightarrow> gotime \<Rightarrow>
    ('db, (bool \<times> bool) \<times> (bool \<times> ControllerLease) \<times> (bool \<times> ControllerLease)) orch" where
  "overlapping_attempts E a b d now now' =
     bnd (read_lease E) (\<lambda>(missing, lease).
     bnd (read_lease E) (\<lambda>(missing', lease').
     bnd (take_lease E a d now lease) (\<lambda>x.
     bnd (take_lease E b d now' lease') (\<lambda>y.
     ret ((missing, missing'), x, y)))))"

lemma overlapping_attempts_both_granted:
  assumes E: "env_total E" and wf: "store_wf (contents E s)" and "\<not> blank a" and "\<not> blank b" and "0 < d"
    and none: "lease_of (contents E s) = None"
  shows "wp (overlapping_attempts E a b d now now') (\<lambda>r t.
    r = Inr ((True, True), (True, grant None a d now), (True, grant None b d now'))) s"
proof -
  have ok: "env_ok E" by (rule env_total_ok [OF E])
  have take: "wp (take_lease E c d n zero_ControllerLease) Q u"
    if "\<not> blank c" "\<And>t. Q (Inr (True, grant None c d n)) t" for c n Q u
    by (rule wp_take_lease [OF ok, where L = None and d = d]) (use that assms(5) E in auto)
  have read: "wp (read_lease E) Q u"
    if "contents E u = contents E s" "\<And>t. contents E t = contents E s \<Longrightarrow> Q (Inr (True, zero_ControllerLease)) t" for Q u
    by (rule wp_read_lease [OF ok]) (use that wf none E in auto)
  show ?thesis
    unfolding overlapping_attempts_def wp_bnd
    by (rule read, simp, simp add: wp_bnd, rule read, assumption, simp add: wp_bnd,
        rule take [OF assms(3)], simp add: wp_bnd, rule take [OF assms(4)], simp add: wp_ret)
qed

text \<open>A released lease is forgotten: the next term starts again at 1, so terms do not order leaders.\<close>

lemma release_resets_term:
  assumes "env_total E" and "store_wf (contents E s)" and "\<not> blank c" and "lease_of (contents E s) = None"
  shows "wp (TryAcquireControllerLeadership E c d) (\<lambda>r t. \<exists>l. r = Inr (True, l) \<and> l_Term l = 1) s"
  by (rule wp_TryAcquire [OF env_total_ok [OF assms(1)] assms(2,3) HOL.refl HOL.refl])
    (use assms in \<open>auto simp: grant_def holder_def\<close>)

end
