(* ===== verification/Rbac.thy ===== *)
theory Rbac
  imports Deployments
begin

text \<open>
  Role bindings (\<^verbatim>\<open>internal/service/features.go\<close>). The roles of a subject are collected by a
  recursive closure over the names a binding inherits from. The closure keeps no record of the names
  it has visited, so it is a partial function: \<^const>\<open>None\<close> stands for a recursion that does not end.
\<close>

section \<open>Operations\<close>

definition UpsertRoleBinding :: "'db oenv \<Rightarrow> RoleBinding \<Rightarrow> ('db, RoleBinding) orch" where
  "UpsertRoleBinding E b =
     (if blank (rb_Name b) then throw (ErrText ''role binding name is required'')
      else if blank (rb_Subject b) then throw (ErrText ''role binding subject is required'')
      else if length (rb_Roles b) = 0 then throw (ErrText ''role binding roles are required'')
      else seq (st_UpsertRoleBinding E b) (st_GetRoleBinding E (rb_Namespace b) (rb_Name b)))"

definition ListRoleBindings :: "'db oenv \<Rightarrow> string \<Rightarrow> ('db, RoleBinding list) orch" where
  "ListRoleBindings E namespace = st_ListRoleBindings E namespace"

definition byName :: "RoleBinding list \<Rightarrow> string \<Rightarrow> RoleBinding option" where
  "byName bindings = map_of (rev (map (\<lambda>rb. (rb_Name rb, rb)) bindings))"

definition add_roles :: "RoleBinding \<Rightarrow> string list \<Rightarrow> string list" where
  "add_roles rb roleSet = fold (\<lambda>r acc. if TrimSpace r \<noteq> [] then List.insert (ToLower (TrimSpace r)) acc else acc)
     (rb_Roles rb) roleSet"

text \<open>\<^verbatim>\<open>visit\<close> called on each name of a list; the inner list is the one of \<^verbatim>\<open>rb.Inherits\<close>.\<close>

partial_function (option) visit :: "(string \<Rightarrow> RoleBinding option) \<Rightarrow> string list \<Rightarrow> string list \<Rightarrow> string list option" where
  "visit table names roleSet = (case names of
     [] \<Rightarrow> Some roleSet
   | name # rest \<Rightarrow> Option.bind
       (case table name of
          None \<Rightarrow> Some roleSet
        | Some rb \<Rightarrow> visit table (rb_Inherits rb) (add_roles rb roleSet))
       (\<lambda>roleSet. visit table rest roleSet))"

definition effective_roles :: "RoleBinding list \<Rightarrow> string \<Rightarrow> string list option" where
  "effective_roles bindings subject = map_option sort (visit (byName bindings)
     (map rb_Name (filter (\<lambda>rb. EqualFold (TrimSpace (rb_Subject rb)) (TrimSpace subject)) bindings)) [])"

definition EffectiveRolesForSubject :: "'db oenv \<Rightarrow> string \<Rightarrow> string \<Rightarrow> ('db, string list option) orch" where
  "EffectiveRolesForSubject E subject namespace =
     bnd (st_ListRoleBindings E []) (\<lambda>bindings.
     bnd (if \<not> blank namespace then
            bnd (attempt (st_ListRoleBindings E namespace)) (\<lambda>r. case r of
              Inr nsItems \<Rightarrow> ret (bindings @ nsItems) | Inl _ \<Rightarrow> ret bindings)
          else ret bindings) (\<lambda>bindings.
     ret (effective_roles bindings subject)))"

section \<open>Frames\<close>

lemma quiet_rbac: "stays quiet (UpsertRoleBinding E b)" "stays quiet (EffectiveRolesForSubject E sub ns)"
  unfolding UpsertRoleBinding_def EffectiveRolesForSubject_def by (intro quiet_rules)+

lemma good_rbac:
  assumes "env_ok E"
  shows "stays (evolves E good_write) (UpsertRoleBinding E b)" "stays (evolves E good_write) (EffectiveRolesForSubject E sub ns)"
  unfolding UpsertRoleBinding_def EffectiveRolesForSubject_def using assms
  by (intro stays_intros ev.rules ev_reads ev_writes; simp add: blob_key_simps)+

section \<open>The closure over the inherited names\<close>

lemma visit_simps [simp, code]:
  "visit table [] acc = Some acc"
  "visit table (n # ns) acc = Option.bind (case table n of None \<Rightarrow> Some acc
     | Some rb \<Rightarrow> visit table (rb_Inherits rb) (add_roles rb acc)) (visit table ns)"
  by (subst visit.simps, simp)+

lemma visit_append: "visit table (xs @ ys) acc = Option.bind (visit table xs acc) (visit table ys)"
proof (induction xs arbitrary: acc)
  case (Cons x xs)
  then have "visit table (xs @ ys) = (\<lambda>acc. Option.bind (visit table xs acc) (visit table ys))" by blast
  then show ?case by (simp add: Option.bind_assoc)
qed simp

lemma visit_one: "visit table [n] acc = (case table n of None \<Rightarrow> Some acc
   | Some rb \<Rightarrow> visit table (rb_Inherits rb) (add_roles rb acc))"
proof -
  have "visit table [] = Some" by (rule ext) simp
  then show ?thesis by simp
qed

definition roles_of :: "RoleBinding \<Rightarrow> string set" where
  "roles_of rb = {ToLower (TrimSpace r) |r. r \<in> set (rb_Roles rb) \<and> \<not> blank r}"

lemma set_add_roles: "set (add_roles rb acc) = set acc \<union> roles_of rb"
proof -
  have "set (fold (\<lambda>r acc. if TrimSpace r \<noteq> [] then List.insert (ToLower (TrimSpace r)) acc else acc) rs acc) =
      set acc \<union> {ToLower (TrimSpace r) |r. r \<in> set rs \<and> \<not> blank r}" for rs
    by (induction rs arbitrary: acc) (auto simp: blank_def)
  then show ?thesis by (simp add: add_roles_def roles_of_def)
qed

lemma distinct_add_roles: "distinct acc \<Longrightarrow> distinct (add_roles rb acc)"
proof -
  have "distinct acc \<Longrightarrow> distinct (fold (\<lambda>r acc. if TrimSpace r \<noteq> [] then List.insert (ToLower (TrimSpace r)) acc else acc) rs acc)" for rs
    by (induction rs arbitrary: acc) auto
  then show "distinct acc \<Longrightarrow> distinct (add_roles rb acc)" by (simp add: add_roles_def)
qed

text \<open>The names reached by inheritance, and what they grant.\<close>

definition parents :: "(string \<Rightarrow> RoleBinding option) \<Rightarrow> (string \<times> string) set" where
  "parents table = {(n, p). \<exists>rb. table n = Some rb \<and> p \<in> set (rb_Inherits rb)}"

definition grants :: "(string \<Rightarrow> RoleBinding option) \<Rightarrow> string \<Rightarrow> string set" where
  "grants table n = (\<Union>(m, rb) \<in> {(m, rb). (n, m) \<in> (parents table)\<^sup>* \<and> table m = Some rb}. roles_of rb)"

lemma grants_None: "table n = None \<Longrightarrow> grants table n = {}"
  by (auto simp: grants_def parents_def elim: converse_rtranclE)

lemma grants_Some: "table n = Some rb \<Longrightarrow> grants table n = roles_of rb \<union> (\<Union>p \<in> set (rb_Inherits rb). grants table p)"
proof (rule set_eqI, rule iffI)
  fix r assume n: "table n = Some rb" and "r \<in> grants table n"
  then obtain m b where m: "(n, m) \<in> (parents table)\<^sup>*" "table m = Some b" "r \<in> roles_of b" by (auto simp: grants_def)
  from m(1) show "r \<in> roles_of rb \<union> (\<Union>p \<in> set (rb_Inherits rb). grants table p)"
    by (rule converse_rtranclE) (use m n in \<open>auto simp: grants_def parents_def\<close>)
next
  fix r assume n: "table n = Some rb" and "r \<in> roles_of rb \<union> (\<Union>p \<in> set (rb_Inherits rb). grants table p)"
  then show "r \<in> grants table n"
    by (auto simp: grants_def parents_def intro: converse_rtrancl_into_rtrancl)
qed

definition collects :: "(string \<Rightarrow> RoleBinding option) \<Rightarrow> string list \<Rightarrow> bool" where
  "collects table ns \<longleftrightarrow> (\<forall>acc. distinct acc \<longrightarrow> (\<exists>out. visit table ns acc = Some out \<and> distinct out \<and>
     set out = set acc \<union> (\<Union>n \<in> set ns. grants table n)))"

lemma collects_Cons: "collects table [n] \<Longrightarrow> collects table ns \<Longrightarrow> collects table (n # ns)"
  unfolding collects_def
proof (intro allI impI)
  fix acc :: "string list"
  assume a: "\<forall>acc. distinct acc \<longrightarrow> (\<exists>out. visit table [n] acc = Some out \<and> distinct out \<and> set out = set acc \<union> (\<Union>n\<in>set [n]. grants table n))"
    and b: "\<forall>acc. distinct acc \<longrightarrow> (\<exists>out. visit table ns acc = Some out \<and> distinct out \<and> set out = set acc \<union> (\<Union>n\<in>set ns. grants table n))"
    and d: "distinct acc"
  from a d obtain o1 where o1: "visit table [n] acc = Some o1" "distinct o1" "set o1 = set acc \<union> grants table n" by auto
  from b o1(2) obtain o2 where "visit table ns o1 = Some o2" "distinct o2" "set o2 = set o1 \<union> (\<Union>n\<in>set ns. grants table n)" by blast
  then show "\<exists>out. visit table (n # ns) acc = Some out \<and> distinct out \<and> set out = set acc \<union> (\<Union>n\<in>set (n # ns). grants table n)"
    using o1 visit_append [of table "[n]" ns acc] by auto
qed

lemma collects_all: "(\<And>n. n \<in> set ns \<Longrightarrow> collects table [n]) \<Longrightarrow> collects table ns"
proof (induction ns)
  case (Cons n ns)
  show ?case by (rule collects_Cons) (use Cons in simp_all)
qed (simp add: collects_def)

lemma collects_wf:
  assumes "wf ((parents table)\<inverse>)"
  shows "collects table [n]"
  using assms
proof (induction n)
  case (less n)
  show ?case
  proof (cases "table n")
    case None
    then show ?thesis by (simp add: collects_def visit_one grants_None del: visit_simps(2))
  next
    case (Some rb)
    have parents: "collects table (rb_Inherits rb)"
      by (rule collects_all, rule less) (use Some in \<open>auto simp: parents_def\<close>)
    have "\<exists>out. visit table (rb_Inherits rb) (add_roles rb acc) = Some out \<and> distinct out \<and>
        set out = set acc \<union> (roles_of rb \<union> (\<Union>p \<in> set (rb_Inherits rb). grants table p))" if "distinct acc" for acc
      using parents [unfolded collects_def, THEN spec, THEN mp, OF distinct_add_roles [OF that, of rb]]
      by (simp add: set_add_roles Un_assoc)
    then show ?thesis
      using Some by (simp add: collects_def grants_Some visit_one del: visit_simps(2))
  qed
qed

text \<open>A binding that inherits from itself, directly or through others, makes the recursion endless.\<close>

lemma visit_cycle_diverges:
  assumes "\<And>n. n \<in> C \<Longrightarrow> \<exists>rb p. table n = Some rb \<and> p \<in> set (rb_Inherits rb) \<and> p \<in> C" and "n \<in> C" and "n \<in> set ns"
  shows "visit table ns acc = None"
proof -
  have "t = table \<longrightarrow> set names \<inter> C = {}" if "visit t names acc = Some out" for t names acc out
  proof (rule visit.raw_induct [where P = "\<lambda>t names acc out. t = table \<longrightarrow> set names \<inter> C = {}", OF _ that], intro impI)
    fix visit t names acc out
    assume IH: "\<And>t names acc out. visit t names acc = Some out \<Longrightarrow> t = table \<longrightarrow> set names \<inter> C = {}" and t: "t = table"
      and v: "(case names of [] \<Rightarrow> Some acc | m # rest \<Rightarrow> Option.bind (case t m of None \<Rightarrow> Some acc
        | Some rb \<Rightarrow> visit t (rb_Inherits rb) (add_roles rb acc)) (visit t rest)) = Some out"
    show "set names \<inter> C = {}"
    proof (cases names)
      case (Cons m rest)
      then obtain mid where mid: "(case t m of None \<Rightarrow> Some acc | Some rb \<Rightarrow> visit t (rb_Inherits rb) (add_roles rb acc)) = Some mid"
        and rest: "visit t rest mid = Some out" using v by (auto simp: bind_eq_Some_conv)
      have "m \<notin> C"
      proof
        assume "m \<in> C"
        from assms(1) [OF this] obtain rb p where rb: "table m = Some rb" "p \<in> set (rb_Inherits rb)" "p \<in> C" by blast
        then have "visit t (rb_Inherits rb) (add_roles rb acc) = Some mid" using mid t by simp
        from IH [OF this] rb t show False by blast
      qed
      with IH [OF rest] t Cons show ?thesis by simp
    qed simp
  qed
  then show ?thesis using assms(2,3) by (cases "visit table ns acc") (simp, blast)
qed

section \<open>The roles of a subject\<close>

definition bindings_of :: "(string \<Rightarrow> blob option) \<Rightarrow> string \<Rightarrow> RoleBinding set" where
  "bindings_of m namespace = {rb. \<exists>k. prefix (keyRoleBindingPrefix namespace) k \<and> m k = Some (JRoleBinding rb)}"

text \<open>The bindings that count for a namespace: the cluster-wide ones and those of the namespace.\<close>

definition in_force :: "(string \<Rightarrow> blob option) \<Rightarrow> string \<Rightarrow> RoleBinding set" where
  "in_force m namespace = bindings_of m [] \<union> (if blank namespace then {} else bindings_of m namespace)"

definition inherits :: "RoleBinding set \<Rightarrow> (string \<times> string) set" where
  "inherits B = {(rb_Name rb, p) |rb p. rb \<in> B \<and> p \<in> set (rb_Inherits rb)}"

definition granted :: "RoleBinding set \<Rightarrow> string \<Rightarrow> string set" where
  "granted B subject = (\<Union>rb \<in> {c \<in> B. \<exists>b \<in> B. EqualFold (TrimSpace (rb_Subject b)) (TrimSpace subject) \<and>
     (rb_Name b, rb_Name c) \<in> (inherits B)\<^sup>*}. roles_of rb)"

lemma wp_ListRoleBindings:
  assumes "env_total E" and wf: "store_wf (contents E s)"
    and "\<And>bs t. contents E t = contents E s \<Longrightarrow> set bs = bindings_of (contents E s) ns \<Longrightarrow> Q (Inr bs) t"
  shows "wp (st_ListRoleBindings E ns) Q s"
  unfolding st_ListRoleBindings_def
proof (rule rb.wp_list_prefix [OF env_total_ok [OF assms(1)] wf], goal_cases pre ok err)
  case (ok bs t)
  have "k = ''rbac:'' @ (if blank (rb_Namespace b) then ''global'' else rb_Namespace b) @ '':'' @ rb_Name b"
    if "contents E s k = Some (JRoleBinding b)" for k b
    using that wf [unfolded store_wf_def, rule_format, OF that] by (simp add: blob_key_simps key_defs)
  then have "set bs = bindings_of (contents E s) ns" unfolding ok(4) bindings_of_def by blast
  then show ?case using assms(3) ok(1) by blast
qed (use assms(1) in \<open>simp_all add: keyRoleBindingPrefix_def\<close>)

lemma byName_iff:
  assumes "inj_on rb_Name (set bs)"
  shows "byName bs n = Some b \<longleftrightarrow> b \<in> set bs \<and> rb_Name b = n"
proof
  show "b \<in> set bs \<and> rb_Name b = n" if "byName bs n = Some b"
    using map_of_SomeD [OF that [unfolded byName_def]] by auto
  assume b: "b \<in> set bs \<and> rb_Name b = n"
  then have "byName bs n \<noteq> None" by (auto simp: byName_def map_of_eq_None_iff image_iff)
  then obtain c where c: "byName bs n = Some c" by blast
  then have "c \<in> set bs \<and> rb_Name c = n" using map_of_SomeD [OF c [unfolded byName_def]] by auto
  then show "byName bs n = Some b" using c b assms by (auto dest: inj_onD)
qed

lemma effective_roles_granted:
  assumes inj: "inj_on rb_Name (set bs)" and acyc: "acyclic (inherits (set bs))"
  shows "\<exists>out. effective_roles bs subject = Some out \<and> sorted out \<and> distinct out \<and> set out = granted (set bs) subject"
proof -
  let ?names = "map rb_Name (filter (\<lambda>rb. EqualFold (TrimSpace (rb_Subject rb)) (TrimSpace subject)) bs)"
  have p: "parents (byName bs) = inherits (set bs)" by (auto simp: parents_def inherits_def byName_iff [OF inj])
  have "finite (inherits (set bs))"
    by (rule finite_subset [of _ "\<Union>rb \<in> set bs. {rb_Name rb} \<times> set (rb_Inherits rb)"]) (auto simp: inherits_def)
  then have "wf ((parents (byName bs))\<inverse>)" unfolding p using acyc by (rule finite_acyclic_wf_converse)
  then have "collects (byName bs) ?names" by (rule collects_all [OF collects_wf])
  from this [unfolded collects_def, THEN spec, THEN mp, OF distinct.simps(1) [THEN iffD2, OF TrueI]]
  obtain out where out: "visit (byName bs) ?names [] = Some out" "distinct out"
    "set out = (\<Union>n \<in> set ?names. grants (byName bs) n)" by auto
  moreover have "(\<Union>n \<in> set ?names. grants (byName bs) n) = granted (set bs) subject"
    unfolding grants_def granted_def p byName_iff [OF inj] by auto
  ultimately show ?thesis by (simp add: effective_roles_def)
qed

text \<open>
  (C23) When the bindings in force have distinct names and inherit without a cycle, the computation of the roles of a
  subject ends, and returns in order and without repetition exactly the roles of the bindings of
  the subject and of every binding these inherit from, directly or through others.
\<close>

theorem roles_of_subject:
  fixes E :: "'db oenv" and s :: "'db world"
  assumes E: "env_total E" and wf: "store_wf (contents E s)" and B: "B = in_force (contents E s) namespace"
    and inj: "inj_on rb_Name B" and acyc: "acyclic (inherits B)"
  shows "wp (EffectiveRolesForSubject E subject namespace) (\<lambda>r t. \<exists>out. r = Inr (Some out) \<and>
    sorted out \<and> distinct out \<and> set out = granted B subject) s" (is "wp _ ?Q s")
proof -
  have fin: "?Q (Inr (effective_roles bs subject)) t" if "set bs = B" for bs t
    using effective_roles_granted [of bs subject] that inj acyc by auto
  show ?thesis
    unfolding EffectiveRolesForSubject_def wp_bnd
  proof (rule wp_ListRoleBindings [OF E wf], unfold sum.case, goal_cases)
    case (1 bs t)
    show ?case
    proof (cases "blank namespace")
      case True
      then show ?thesis using fin [of bs] 1(2) B by (simp add: wp_ret in_force_def)
    next
      case False
      have "wp (st_ListRoleBindings E namespace) (\<lambda>r u. \<exists>ns. r = Inr ns \<and> set ns = bindings_of (contents E s) namespace) t"
        by (rule wp_ListRoleBindings [OF E]) (use 1 wf in auto)
      then show ?thesis
        using False 1(2) B fin by (auto simp: wp_bnd wp_attempt wp_ret in_force_def elim!: wp_conseq)
    qed
  qed
qed

definition demo_viewer :: RoleBinding where
  "demo_viewer = zero_RoleBinding\<lparr>rb_Name := ''base'', rb_Subject := ''ops'', rb_Roles := [''Viewer'']\<rparr>"

definition demo_deployer :: RoleBinding where
  "demo_deployer = zero_RoleBinding\<lparr>rb_Name := ''dev'', rb_Subject := ''alice'', rb_Roles := [''deployer''], rb_Inherits := [''base'']\<rparr>"

theorem roles_of_subject_witness:
  "wp (EffectiveRolesForSubject demo_oenv ''alice'' []) (\<lambda>r t. \<exists>out. r = Inr (Some out) \<and> {''deployer'', ''viewer''} \<subseteq> set out)
     (NewOrchestrator (stored [JRoleBinding demo_viewer, JRoleBinding demo_deployer]))"
proof -
  let ?B = "{demo_viewer, demo_deployer}"
  have z: "blank (rb_Namespace zero_RoleBinding)" "rb_Inherits zero_RoleBinding = []" by (simp_all add: zero_RoleBinding_def)
  have "distinct (map blob_key [JRoleBinding demo_viewer, JRoleBinding demo_deployer])"
    by (simp add: key_defs demo_viewer_def demo_deployer_def)
  from stored_iff [OF this] have "bindings_of (contents demo_oenv (NewOrchestrator (stored [JRoleBinding demo_viewer, JRoleBinding demo_deployer]))) [] = ?B"
    unfolding bindings_of_def by (auto simp: keyRoleBinding_def keyRoleBindingPrefix_def demo_viewer_def demo_deployer_def z)
  then have B: "?B = in_force (contents demo_oenv (NewOrchestrator (stored [JRoleBinding demo_viewer, JRoleBinding demo_deployer]))) []"
    by (simp add: in_force_def)
  have names: "rb_Name demo_viewer = ''base''" "rb_Name demo_deployer = ''dev''" "rb_Subject demo_deployer = ''alice''"
    and parents: "rb_Inherits demo_viewer = []" "rb_Inherits demo_deployer = [''base'']"
    by (simp_all add: demo_viewer_def demo_deployer_def z)
  have "inherits ?B = (\<Union>rb \<in> ?B. {rb_Name rb} \<times> set (rb_Inherits rb))" unfolding inherits_def by blast
  then have i: "inherits ?B = {(''dev'', ''base'')}" by (simp add: names parents)
  have acyc: "acyclic (inherits ?B)" unfolding i by (intro acyclicI) (auto elim: tranclE)
  have inj: "inj_on rb_Name ?B" by (simp add: inj_on_def names)
  have "(rb_Name demo_deployer, rb_Name demo_viewer) \<in> (inherits ?B)\<^sup>*" by (simp add: i names r_into_rtrancl)
  then have "roles_of demo_viewer \<subseteq> granted ?B ''alice''" "roles_of demo_deployer \<subseteq> granted ?B ''alice''"
    using names(3) by (auto simp: granted_def EqualFold_def)
  moreover have "''viewer'' \<in> roles_of demo_viewer" "''deployer'' \<in> roles_of demo_deployer"
    by (simp_all add: roles_of_def demo_viewer_def demo_deployer_def) code_simp+
  ultimately have "{''deployer'', ''viewer''} \<subseteq> granted ?B ''alice''" by blast
  then show ?thesis
    by (intro wp_conseq [OF roles_of_subject [OF demo_oenv_total stored_wf B inj acyc]]) auto
qed

text \<open>A binding of the namespace hides a cluster-wide binding of the same name, and the subject
  of the hidden one is given the roles of the other.\<close>

lemma name_clash_gives_foreign_roles:
  "effective_roles [zero_RoleBinding\<lparr>rb_Name := ''team'', rb_Subject := ''alice'', rb_Roles := [''viewer'']\<rparr>,
     zero_RoleBinding\<lparr>rb_Namespace := ''prod'', rb_Name := ''team'', rb_Subject := ''bob'', rb_Roles := [''admin'']\<rparr>] ''alice'' = Some [''admin'']"
  by code_simp

end
