(* ===== verification/Reconcile_Loop.thy ===== *)
theory Reconcile_Loop
  imports Jobs Leadership Rbac
begin

text \<open>
  The control loop (\<^verbatim>\<open>internal/service/orchestrator.go\<close> and \<^verbatim>\<open>features.go\<close>): one pass over every deployment
  followed by the autoscaler, the probes, the endpoints, the volumes, the jobs and the nodes; the
  same pass restricted to a shard; and the recovery after a restart. Also the read-only listings
  and the metrics text.
\<close>

section \<open>One pass\<close>

text \<open>\<^verbatim>\<open>if err := m; err != nil { emit }\<close>: the error is reported as an event and the loop goes on.\<close>

definition report_failure :: "'db oenv \<Rightarrow> string \<Rightarrow> string \<Rightarrow> string \<Rightarrow> ('db, unit) orch \<Rightarrow> ('db, unit) orch" where
  "report_failure E ty reason dep m = bnd (attempt m) (\<lambda>r. case r of
     Inr _ \<Rightarrow> ret ()
   | Inl e \<Rightarrow> ignore (emitEvent E (event EventError ty reason (err_text e) dep [] [])))"

definition reconcile_one :: "'db oenv \<Rightarrow> Deployment \<Rightarrow> ('db, unit) orch" where
  "reconcile_one E dep =
     (if d_DeletionTimestamp dep \<noteq> None then
        report_failure E ''reconcile'' ''ReconcileDeletionFailed'' (d_ID dep) (reconcileDeletion E (d_ID dep))
      else report_failure E ''reconcile'' ''ReconcileFailed'' (d_ID dep) (reconcileDeployment E (d_ID dep)))"

definition ReconcileAll :: "'db oenv \<Rightarrow> ('db, unit) orch" where
  "ReconcileAll E = bnd (attempt (st_ListDeployments E)) (\<lambda>r. case r of
     Inl err \<Rightarrow> seq (ignore (emitEvent E (event EventError ''reconcile'' ''ListDeploymentsFailed'' (err_text err) [] [] []))) (throw err)
   | Inr deps \<Rightarrow>
     seq (for_each deps (reconcile_one E))
     (seq (report_failure E ''autoscaler'' ''AutoscalerReconcileFailed'' [] (reconcileAutoscaling E))
     (seq (report_failure E ''health'' ''WorkloadHealthCheckFailed'' [] (evaluateWorkloadHealth E))
     (seq (report_failure E ''service'' ''ServiceEndpointReconcileFailed'' [] (reconcileAllServiceEndpoints E))
     (seq (report_failure E ''storage'' ''PVCBindingReconcileFailed'' [] (reconcilePVCBindings E))
     (seq (report_failure E ''job'' ''JobReconcileFailed'' [] (reconcileJobsAndCron E))
     (updateNodeHealth E)))))))"

definition when_in_shard :: "string \<Rightarrow> int \<Rightarrow> int \<Rightarrow> ('db, unit) orch \<Rightarrow> ('db, unit) orch" where
  "when_in_shard ident shardIndex shardCount m = (case belongsToShard ident shardIndex shardCount of
     Inl e \<Rightarrow> throw e
   | Inr b \<Rightarrow> when_so b m)"

definition reconcile_in_shard :: "'db oenv \<Rightarrow> int \<Rightarrow> int \<Rightarrow> Deployment \<Rightarrow> ('db, unit) orch" where
  "reconcile_in_shard E shardIndex shardCount dep =
     (if d_DeletionTimestamp dep \<noteq> None then
        when_in_shard (d_ID dep) shardIndex shardCount (ignore (reconcileDeletion E (d_ID dep)))
      else when_in_shard (d_ID dep) shardIndex shardCount (ignore (reconcileDeployment E (d_ID dep))))"

definition ReconcileShard :: "'db oenv \<Rightarrow> int \<Rightarrow> int \<Rightarrow> ('db, unit) orch" where
  "ReconcileShard E shardIndex shardCount =
     (if shardCount \<le> 1 then ReconcileAll E
      else bnd (st_ListDeployments E) (\<lambda>deps.
      seq (for_each deps (reconcile_in_shard E shardIndex shardCount))
      (seq (when_so (shardIndex = 0)
         (seq (reconcileAutoscaling E)
         (seq (evaluateWorkloadHealth E)
         (seq (reconcileAllServiceEndpoints E)
         (seq (reconcilePVCBindings E)
         (reconcileJobsAndCron E))))))
      (updateNodeHealth E))))"

definition RecoverCluster :: "'db oenv \<Rightarrow> ('db, unit) orch" where
  "RecoverCluster E = seq (reconcilePVCBindings E) (seq (reconcileJobsAndCron E) (ReconcileAll E))"

section \<open>Listings and metrics\<close>

definition ListDeployments :: "'db oenv \<Rightarrow> ('db, Deployment list) orch" where
  "ListDeployments E = st_ListDeployments E"

definition ListPersistentVolumes :: "'db oenv \<Rightarrow> ('db, PersistentVolume list) orch" where
  "ListPersistentVolumes E = st_ListPersistentVolumes E"

definition GetClusterState :: "'db oenv \<Rightarrow> ('db, ClusterState) orch" where
  "GetClusterState E = st_Snapshot E"

definition ListEvents :: "'db oenv \<Rightarrow> int \<Rightarrow> ('db, Event list) orch" where
  "ListEvents E limit = st_ListEvents E limit"

definition gauge :: "string \<Rightarrow> string \<Rightarrow> int \<Rightarrow> string" where
  "gauge name text_help v = ''# HELP '' @ name @ '' '' @ text_help @ [CHR 0x0A] @
     ''# TYPE '' @ name @ '' gauge'' @ [CHR 0x0A] @ name @ '' '' @ show_int v @ [CHR 0x0A]"

definition count_if :: "('a \<Rightarrow> bool) \<Rightarrow> 'a list \<Rightarrow> int" where
  "count_if p xs = int (length (filter p xs))"

definition metrics_text :: "ClusterState \<Rightarrow> AutoscalerPolicy list \<Rightarrow> string" where
  "metrics_text state policies =
     gauge ''orch_nodes_total'' ''Total number of registered nodes'' (int (length (cs_Nodes state))) @
     gauge ''orch_nodes_ready'' ''Number of nodes in Ready state'' (count_if (\<lambda>n. n_Status n = NodeReady) (cs_Nodes state)) @
     gauge ''orch_deployments_total'' ''Total number of deployments'' (int (length (cs_Deployments state))) @
     gauge ''orch_workloads_running'' ''Number of running workloads'' (count_if (\<lambda>w. w_Status w = WorkloadRunning) (cs_Workloads state)) @
     gauge ''orch_workloads_pending'' ''Number of pending workloads'' (count_if (\<lambda>w. w_Status w = WorkloadPending) (cs_Workloads state)) @
     gauge ''orch_workloads_failed'' ''Number of failed workloads'' (count_if (\<lambda>w. w_Status w = WorkloadFailed) (cs_Workloads state)) @
     gauge ''orch_autoscaler_policies_total'' ''Total number of autoscaler policies'' (int (length policies))"

definition PrometheusMetrics :: "'db oenv \<Rightarrow> ('db, string) orch" where
  "PrometheusMetrics E = bnd (st_Snapshot E) (\<lambda>state. bnd (st_ListAutoscalerPolicies E) (\<lambda>policies.
     ret (metrics_text state policies)))"

section \<open>Frames\<close>

lemma free_report: "stays free m \<Longrightarrow> stays free (report_failure E ty re d m)"
  unfolding report_failure_def by (intro free_rules)

lemmas free_passes = free_reconcileDeployment free_reconcileDeletion free_evaluateWorkloadHealth free_reconcileJobsAndCron
  quiet_autoscaler(4) [THEN free_of_quiet] quiet_services(3) [THEN free_of_quiet] quiet_reconcilePVCBindings [THEN free_of_quiet]
  quiet_node_ops(4) [THEN free_of_quiet]

lemma free_ReconcileAll: "stays free (ReconcileAll E)"
  unfolding ReconcileAll_def reconcile_one_def by (intro free_rules free_report free_passes)

lemma free_ReconcileShard: "stays free (ReconcileShard E i n)"
  unfolding ReconcileShard_def reconcile_in_shard_def when_in_shard_def by (intro free_rules free_ReconcileAll free_passes)

lemma free_RecoverCluster: "stays free (RecoverCluster E)"
  unfolding RecoverCluster_def by (intro free_rules free_ReconcileAll free_passes)

lemma sound_report: "env_ok E \<Longrightarrow> stays (sound E) m \<Longrightarrow> stays (sound E) (report_failure E ty re d m)"
  unfolding report_failure_def by (intro sound_rules)

lemmas sound_passes = sound_reconcileDeployment sound_reconcileDeletion sound_evaluateWorkloadHealth sound_reconcileJobsAndCron
  sound_reconcileAutoscaling good_services(3) [THEN sound_of_evolves] good_reconcilePVCBindings [THEN sound_of_evolves]
  good_node_ops(4) [THEN sound_of_evolves]

lemma sound_ReconcileAll: "env_ok E \<Longrightarrow> stays (sound E) (ReconcileAll E)"
  unfolding ReconcileAll_def reconcile_one_def by (intro sound_rules sound_report sound_passes)

lemma sound_ReconcileShard: "env_ok E \<Longrightarrow> stays (sound E) (ReconcileShard E i n)"
  unfolding ReconcileShard_def reconcile_in_shard_def when_in_shard_def by (intro sound_rules sound_ReconcileAll sound_passes)

lemma sound_RecoverCluster: "env_ok E \<Longrightarrow> stays (sound E) (RecoverCluster E)"
  unfolding RecoverCluster_def by (intro sound_rules sound_ReconcileAll sound_passes)

section \<open>Every public operation\<close>

text \<open>The remaining operations of the service: no operation leaves the mutex locked or blocks on it, and
  every operation keeps the stored records well formed.\<close>

lemma quiet_subscriptions: "stays quiet (SubscribeEvents n)" "stays quiet (UnsubscribeEvents c)"
  by (auto simp: stays_def SubscribeEvents_def UnsubscribeEvents_def modify_def quiet_def Let_def)

lemma quiet_listings:
  "stays quiet (ListDeployments E)" "stays quiet (ListPersistentVolumes E)" "stays quiet (GetClusterState E)"
  "stays quiet (ListEvents E n)" "stays quiet (PrometheusMetrics E)" "stays quiet (ListAutoscalerPolicies E)"
  "stays quiet (ListJobs E ns)" "stays quiet (ListCronJobs E ns)" "stays quiet (ListNodeHealthTrends E n)"
  "stays quiet (ListNamespaces E)" "stays quiet (ListNamespaceQuotas E)" "stays quiet (ListServices E)"
  "stays quiet (ListServiceEndpoints E i)" "stays quiet (ListNetworkPolicies E ns)" "stays quiet (ListRoleBindings E ns)"
  "stays quiet (ListPersistentVolumeClaims E ns)" "stays quiet (ListNodeWorkloads E i)"
  "stays quiet (ResolveServiceName E i)" "stays quiet (ResolveServiceDNS E i)"
  "stays quiet (IsNetworkAccessAllowed E ns ls svc port)"
  unfolding ListDeployments_def ListPersistentVolumes_def GetClusterState_def ListEvents_def PrometheusMetrics_def
    ListAutoscalerPolicies_def ListJobs_def ListCronJobs_def ListNodeHealthTrends_def ListNamespaces_def ListNamespaceQuotas_def
    ListServices_def ListServiceEndpoints_def ListNetworkPolicies_def ListRoleBindings_def ListPersistentVolumeClaims_def
    ListNodeWorkloads_def ResolveServiceName_def ResolveServiceDNS_def IsNetworkAccessAllowed_def findServiceByName_def Let_def
  by (intro quiet_rules)+


lemma ev_listings:
  assumes "env_ok E"
  shows "stays (evolves E W) (ListDeployments E)" "stays (evolves E W) (ListPersistentVolumes E)" "stays (evolves E W) (GetClusterState E)"
  "stays (evolves E W) (ListEvents E n)" "stays (evolves E W) (PrometheusMetrics E)" "stays (evolves E W) (ListAutoscalerPolicies E)"
  "stays (evolves E W) (ListJobs E ns)" "stays (evolves E W) (ListCronJobs E ns)" "stays (evolves E W) (ListNodeHealthTrends E n)"
  "stays (evolves E W) (ListNamespaces E)" "stays (evolves E W) (ListNamespaceQuotas E)" "stays (evolves E W) (ListServices E)"
  "stays (evolves E W) (ListServiceEndpoints E i)" "stays (evolves E W) (ListNetworkPolicies E ns)" "stays (evolves E W) (ListRoleBindings E ns)"
  "stays (evolves E W) (ListPersistentVolumeClaims E ns)" "stays (evolves E W) (ListNodeWorkloads E i)"
  "stays (evolves E W) (ResolveServiceName E i)" "stays (evolves E W) (ResolveServiceDNS E i)"
  "stays (evolves E W) (IsNetworkAccessAllowed E ns ls svc port)" "stays (evolves E W) (ListSecrets E ns)"
  unfolding ListDeployments_def ListPersistentVolumes_def GetClusterState_def ListEvents_def PrometheusMetrics_def
    ListAutoscalerPolicies_def ListJobs_def ListCronJobs_def ListNodeHealthTrends_def ListNamespaces_def ListNamespaceQuotas_def
    ListServices_def ListServiceEndpoints_def ListNetworkPolicies_def ListRoleBindings_def ListPersistentVolumeClaims_def
    ListNodeWorkloads_def ResolveServiceName_def ResolveServiceDNS_def IsNetworkAccessAllowed_def findServiceByName_def
    ListSecrets_def Let_def
  by (intro ev_all assms)+

lemma ev_subscriptions: "stays (evolves E W) (SubscribeEvents n)" "stays (evolves E W) (UnsubscribeEvents c)"
    "stays (evolves E W) (ReleaseServiceEndpoint ep)"
  by (auto simp: stays_def SubscribeEvents_def UnsubscribeEvents_def ReleaseServiceEndpoint_def modify_def contents_def Let_def
      intro!: evolves_same)

lemma ev_choices:
  assumes "env_ok E"
  shows "stays (evolves E W) (SelectServiceEndpoint E i st)" and "stays (evolves E W) (RouteServiceTraffic E name st)"
    and "stays (evolves E W) (EffectiveRolesForSubject E sub ns)"
  unfolding SelectServiceEndpoint_def RouteServiceTraffic_def findServiceByName_def EffectiveRolesForSubject_def Let_def
  by (intro ev_all ev_balance_select assms)+

lemma good_UpsertSecret: "env_ok E \<Longrightarrow> stays (evolves E good_write) (UpsertSecret E secret)"
  unfolding UpsertSecret_def encryptSecretData_def Let_def
  by (intro ev_all ev_encrypt_entries ev_ensureNamespaceExists) simp_all

lemmas free_ops = free_ReconcileAll free_ReconcileShard free_RecoverCluster free_CreateDeployment free_DeleteDeployment
  free_UpdateDeployment free_RollbackDeployment
  quiet_listings [THEN free_of_quiet] quiet_subscriptions [THEN free_of_quiet] quiet_ListSecrets [THEN free_of_quiet]
  quiet_UpsertSecret [THEN free_of_quiet] quiet_services [THEN free_of_quiet] quiet_RouteServiceTraffic [THEN free_of_quiet]
  quiet_rbac [THEN free_of_quiet] quiet_UpsertNetworkPolicy [THEN free_of_quiet] quiet_node_ops [THEN free_of_quiet]
  quiet_RemoveNode [THEN free_of_quiet] quiet_autoscaler [THEN free_of_quiet] quiet_jobs [THEN free_of_quiet]
  quiet_UpsertPersistentVolume [THEN free_of_quiet] quiet_UpsertPersistentVolumeClaim [THEN free_of_quiet]
  quiet_TryAcquire [THEN free_of_quiet] quiet_Release [THEN free_of_quiet] quiet_ReportWorkloadStatus [THEN free_of_quiet]
  quiet_PollAssignments [THEN free_of_quiet]

lemmas sound_ops = sound_ReconcileAll sound_ReconcileShard sound_RecoverCluster sound_CreateDeployment sound_DeleteDeployment
  sound_UpdateDeployment_handler sound_RollbackDeployment sound_PollAssignments sound_ReportWorkloadStatus
  ev_listings [THEN sound_of_evolves] ev_subscriptions [THEN sound_of_evolves] ev_choices [THEN sound_of_evolves]
  good_UpsertSecret [THEN sound_of_evolves] good_services [THEN sound_of_evolves]
  good_rbac [THEN sound_of_evolves] good_UpsertNetworkPolicy [THEN sound_of_evolves] good_node_ops [THEN sound_of_evolves]
  good_RemoveNode [THEN sound_of_evolves] good_policies [THEN sound_of_evolves] good_jobs [THEN sound_of_evolves]
  good_UpsertPersistentVolume [THEN sound_of_evolves] good_UpsertPersistentVolumeClaim [THEN sound_of_evolves]
  good_TryAcquire [THEN sound_of_evolves] good_Release [THEN sound_of_evolves]

end
