(* ===== verification/Go_Text.thy ===== *)
theory Go_Text
  imports Go_Prelude
begin

text \<open>
  The rest of \<^verbatim>\<open>strings\<close> and \<^verbatim>\<open>strconv\<close> that the server, the worker and the configuration use: splitting and
  joining at a separator, prefixes and suffixes, and decimal numbers.
\<close>

section \<open>Splitting\<close>

fun Split :: "string \<Rightarrow> char \<Rightarrow> string list" where
  "Split [] sep = [[]]"
| "Split (c # s) sep = (if c = sep then [] # Split s sep else (c # hd (Split s sep)) # tl (Split s sep))"

text \<open>\<^verbatim>\<open>strings.SplitN(s, sep, 2)\<close>.\<close>

definition SplitN2 :: "string \<Rightarrow> char \<Rightarrow> string list" where
  "SplitN2 s sep = (if sep \<in> set s then [takeWhile (\<lambda>c. c \<noteq> sep) s, tl (dropWhile (\<lambda>c. c \<noteq> sep) s)] else [s])"

fun Join :: "string list \<Rightarrow> char \<Rightarrow> string" where
  "Join [] sep = []"
| "Join [s] sep = s"
| "Join (s # ss) sep = s @ [sep] @ Join ss sep"

lemma Split_not_Nil [simp]: "Split s sep \<noteq> []"
  by (induction s) auto

text \<open>The same with one recursive call, for evaluation.\<close>

lemma Split_code [code]:
  "Split [] sep = [[]]"
  "Split (c # s) sep = (case Split s sep of [] \<Rightarrow> [] | p # ps \<Rightarrow> if c = sep then [] # p # ps else (c # p) # ps)"
  by (auto split: list.split)

lemma Join_Cons: "ss \<noteq> [] \<Longrightarrow> Join (s # ss) sep = s @ [sep] @ Join ss sep"
  by (cases ss) simp_all

lemma Join_Split [simp]: "Join (Split s sep) sep = s"
proof (induction s)
  case (Cons c s)
  then show ?case by (cases "Split s sep"; cases "tl (Split s sep)") (auto simp: Join_Cons)
qed simp

lemma Split_free: "sep \<notin> set s \<Longrightarrow> Split s sep = [s]"
  by (induction s) auto

lemma Split_append: "sep \<notin> set s \<Longrightarrow> Split (s @ sep # t) sep = s # Split t sep"
  by (induction s) auto

lemma Split_Join:
  assumes "ss \<noteq> []" and "\<forall>s \<in> set ss. sep \<notin> set s"
  shows "Split (Join ss sep) sep = ss"
  using assms by (induction ss sep rule: Join.induct) (auto simp: Split_free Split_append)

lemma Split_pieces: "p \<in> set (Split s sep) \<Longrightarrow> sep \<notin> set p"
proof (induction s arbitrary: p)
  case (Cons c s)
  then show ?case by (cases "Split s sep") (auto split: if_splits)
qed simp

lemma SplitN2_append: "sep \<notin> set k \<Longrightarrow> SplitN2 (k @ sep # v) sep = [k, v]"
  by (auto simp: SplitN2_def takeWhile_tail dropWhile_append1 dropWhile_eq_Nil_conv split: if_splits)
     (metis (mono_tags, lifting) append_Nil2 dropWhile_eq_Nil_conv dropWhile_append2 dropWhile.simps(2) list.sel(3)
       takeWhile_eq_all_conv takeWhile_append2 takeWhile.simps(2))+

lemma map_of_put: "map_of (map_put k v m) = (map_of m)(k \<mapsto> v)"
  by (induction k v m rule: map_put.induct) (auto simp: fun_eq_iff)

text \<open>\<^verbatim>\<open>for k, v := range m { out[k] = v }\<close>: a copy of a map.\<close>

definition copy_map :: "'v gomap \<Rightarrow> 'v gomap" where
  "copy_map m = foldr (\<lambda>(k, v) out. map_put k v out) m []"

lemma map_of_copy [simp]: "map_of (copy_map m) = map_of m"
  by (induction m) (auto simp: copy_map_def map_of_put)

text \<open>\<^verbatim>\<open>delete(m, k)\<close>\<close>

definition map_delete :: "string \<Rightarrow> 'v gomap \<Rightarrow> 'v gomap" where
  "map_delete k m = filter (\<lambda>(k', v). k' \<noteq> k) m"

lemma map_of_delete [simp]: "map_of (map_delete k m) = (map_of m)(k := None)"
  by (induction m) (auto simp: map_delete_def fun_eq_iff)

section \<open>Prefixes and suffixes\<close>

definition HasSuffix :: "string \<Rightarrow> string \<Rightarrow> bool" where
  "HasSuffix s p \<longleftrightarrow> HasPrefix (rev s) (rev p)"

definition TrimSuffix :: "string \<Rightarrow> string \<Rightarrow> string" where
  "TrimSuffix s p = (if HasSuffix s p then take (length s - length p) s else s)"

fun Contains :: "string \<Rightarrow> string \<Rightarrow> bool" where
  "Contains [] p \<longleftrightarrow> p = []"
| "Contains (c # s) p \<longleftrightarrow> HasPrefix (c # s) p \<or> Contains s p"

definition upper_char :: "char \<Rightarrow> char" where
  "upper_char c = (if CHR ''a'' \<le> c \<and> c \<le> CHR ''z'' then char_of (of_char c - (32::nat)) else c)"

definition ToUpper :: "string \<Rightarrow> string" where
  "ToUpper s = map upper_char s"

section \<open>Paths\<close>

text \<open>\<^verbatim>\<open>path.Clean\<close> of a rooted path: empty and \<^verbatim>\<open>.\<close> elements are dropped and \<^verbatim>\<open>..\<close> takes the element before it away.
  \<^verbatim>\<open>Base\<close> and \<^verbatim>\<open>Dir\<close> are the last element and the rest.\<close>

definition clean_segment :: "string list \<Rightarrow> string \<Rightarrow> string list" where
  "clean_segment segs seg = (if seg = [] \<or> seg = ''.'' then segs
     else if seg = ''..'' then butlast segs else segs @ [seg])"

definition Clean :: "string \<Rightarrow> string" where
  "Clean p = CHR ''/'' # Join (foldl clean_segment [] (Split p CHR ''/'')) CHR ''/''"

definition PathJoin :: "string list \<Rightarrow> string" where
  "PathJoin ps = Clean (Join (filter (\<lambda>p. p \<noteq> []) ps) CHR ''/'')"

definition Base :: "string \<Rightarrow> string" where
  "Base p = (if p = [] then ''.''
     else let q = TrimRight p CHR ''/'' in
     if q = [] then ''/'' else last (Split q CHR ''/''))"

definition Dir :: "string \<Rightarrow> string" where
  "Dir p = Clean (Join (butlast (Split p CHR ''/'')) CHR ''/'')"

section \<open>Decimal numbers\<close>

definition is_digit :: "char \<Rightarrow> bool" where
  "is_digit c \<longleftrightarrow> 48 \<le> (of_char c :: nat) \<and> (of_char c :: nat) \<le> 57"

definition digit_value :: "char \<Rightarrow> nat" where
  "digit_value c = of_char c - 48"

definition digits_value :: "string \<Rightarrow> nat" where
  "digits_value s = foldl (\<lambda>n c. 10 * n + digit_value c) 0 s"

text \<open>\<^verbatim>\<open>strconv.Atoi\<close>: an optional sign and at least one digit, within 64 bits.\<close>

definition Atoi :: "string \<Rightarrow> int option" where
  "Atoi s = (let
     neg = HasPrefix s ''-'';
     ds = (if HasPrefix s ''-'' \<or> HasPrefix s ''+'' then tl s else s);
     v = (if neg then - int (digits_value ds) else int (digits_value ds)) in
     if ds = [] \<or> \<not> list_all is_digit ds \<or> \<not> in64 v then None else Some v)"

lemma of_char_digit: "d < 10 \<Longrightarrow> (of_char (digit d) :: nat) = 48 + d"
  by (simp add: digit_def)

lemma digit_facts: "d < 10 \<Longrightarrow> is_digit (digit d) \<and> digit_value (digit d) = d"
  by (simp add: is_digit_def digit_value_def of_char_digit)

lemma digits_value_snoc [simp]: "digits_value (s @ [c]) = 10 * digits_value s + digit_value c"
  by (simp add: digits_value_def)

lemma show_nat_digits: "show_nat n \<noteq> [] \<and> list_all is_digit (show_nat n) \<and> digits_value (show_nat n) = n"
proof (induction n rule: show_nat.induct)
  case (1 n)
  show ?case
  proof (cases "n < 10")
    case True
    then show ?thesis using digit_facts [of n] by (simp add: show_nat.simps [of n] digits_value_def)
  next
    case False
    then show ?thesis using 1 digit_facts [of "n mod 10"] by (simp add: show_nat.simps [of n])
  qed
qed

lemma is_digit_not_sign: "is_digit c \<Longrightarrow> c \<noteq> CHR ''-'' \<and> c \<noteq> CHR ''+''"
  by (auto simp: is_digit_def)

text \<open>Reading back what \<^verbatim>\<open>%d\<close> prints.\<close>

lemma Atoi_show_int: "in64 i \<Longrightarrow> Atoi (show_int i) = Some i"
proof -
  assume i: "in64 i"
  obtain c cs where n: "show_nat (nat i) = c # cs" using show_nat_digits [of "nat i"] by (cases "show_nat (nat i)") auto
  then have "is_digit c" using show_nat_digits [of "nat i"] by simp
  then have "\<not> HasPrefix (show_nat (nat i)) ''-'' \<and> \<not> HasPrefix (show_nat (nat i)) ''+''"
    using is_digit_not_sign by (auto simp: n HasPrefix_iff)
  then show ?thesis
    using i show_nat_digits [of "nat i"] show_nat_digits [of "nat (- i)"]
    by (auto simp: Atoi_def show_int_def Let_def HasPrefix_iff)
qed

end
