(* ===== verification/Dns_Server.thy ===== *)
theory Dns_Server
  imports Reconcile_Loop Go_Text
begin

text \<open>
  The DNS server (\<^verbatim>\<open>internal/dnsserver/server.go\<close>): a query for an address record of a name under
  \<^verbatim>\<open>default.svc.cluster.local\<close> is answered with the addresses of the ready endpoints of the service. The
  transport and the message format are those of the DNS library; a query is its list of questions.
  \<^verbatim>\<open>net.ParseIP\<close> and \<^verbatim>\<open>To4\<close> are written out.
\<close>

section \<open>IP addresses\<close>

definition parse_octet :: "string \<Rightarrow> nat option" where
  "parse_octet s = (if s = [] \<or> \<not> list_all is_digit s \<or> (length s > 1 \<and> hd s = CHR ''0'') \<or> digits_value s > 255 then None
     else Some (digits_value s))"

definition parseIPv4 :: "string \<Rightarrow> nat list option" where
  "parseIPv4 s = (let fields = Split s CHR ''.'' in if length fields \<noteq> 4 then None else those (map parse_octet fields))"

definition hex_value :: "char \<Rightarrow> nat option" where
  "hex_value c = (let n = (of_char c :: nat) in
     if 48 \<le> n \<and> n \<le> 57 then Some (n - 48)
     else if 97 \<le> n \<and> n \<le> 102 then Some (n - 87)
     else if 65 \<le> n \<and> n \<le> 70 then Some (n - 55)
     else None)"

definition is_hex :: "char \<Rightarrow> bool" where
  "is_hex c \<longleftrightarrow> hex_value c \<noteq> None"

definition hex_number :: "string \<Rightarrow> nat" where
  "hex_number s = foldl (\<lambda>v c. 16 * v + (case hex_value c of Some d \<Rightarrow> d | None \<Rightarrow> 0)) 0 s"

text \<open>The groups of an IPv6 address: the bytes read so far and where the ellipsis was. Eight groups are the
  most there can be, so the fuel of nine rounds suffices.\<close>

fun ipv6_groups :: "nat \<Rightarrow> string \<Rightarrow> nat list \<Rightarrow> nat option \<Rightarrow> (nat list \<times> nat option) option" where
  "ipv6_groups 0 s bs ell = None"
| "ipv6_groups (Suc n) s bs ell =
     (if length bs \<ge> 16 then None
      else let h = takeWhile is_hex s; rest = dropWhile is_hex s in
      if h = [] \<or> length h > 4 then None
      else if rest \<noteq> [] \<and> hd rest = CHR ''.'' then
        (if (ell = None \<and> length bs \<noteq> 12) \<or> length bs + 4 > 16 then None
         else map_option (\<lambda>b4. (bs @ b4, ell)) (parseIPv4 s))
      else let bs = bs @ [hex_number h div 256, hex_number h mod 256] in
      if rest = [] then Some (bs, ell)
      else if hd rest \<noteq> CHR '':'' \<or> length rest = 1 then None
      else let s = tl rest in
      if hd s = CHR '':'' then
        (if ell \<noteq> None then None
         else if tl s = [] then Some (bs, Some (length bs))
         else ipv6_groups n (tl s) bs (Some (length bs)))
      else ipv6_groups n s bs ell)"

definition expand :: "nat list \<times> nat option \<Rightarrow> nat list option" where
  "expand g = (case g of (bs, ell) \<Rightarrow> case ell of
     None \<Rightarrow> if length bs = 16 then Some bs else None
   | Some e \<Rightarrow> if length bs < 16 then Some (take e bs @ replicate (16 - length bs) 0 @ drop e bs) else None)"

definition parseIPv6 :: "string \<Rightarrow> nat list option" where
  "parseIPv6 s = (if HasPrefix s ''::'' then
       (if length s = 2 then Some (replicate 16 0) else Option.bind (ipv6_groups 9 (drop 2 s) [] (Some 0)) expand)
     else Option.bind (ipv6_groups 9 s [] None) expand)"

text \<open>An IPv4 address is held in its IPv6 form.\<close>

definition ParseIP :: "string \<Rightarrow> nat list option" where
  "ParseIP s = (case dropWhile (\<lambda>c. c \<noteq> CHR ''.'' \<and> c \<noteq> CHR '':'' \<and> c \<noteq> CHR ''%'') s of
     [] \<Rightarrow> None
   | c # _ \<Rightarrow> if c = CHR ''.'' then map_option (\<lambda>b4. replicate 10 0 @ [255, 255] @ b4) (parseIPv4 s)
       else if c = CHR '':'' then (if CHR ''%'' \<in> set s then None else parseIPv6 s) else None)"

definition To4 :: "nat list \<Rightarrow> nat list option" where
  "To4 ip = (if take 12 ip = replicate 10 0 @ [255, 255] then Some (drop 12 ip) else None)"

section \<open>Queries\<close>

record question =
  qu_Name :: string
  qu_IsA :: bool

record answer =
  an_Name :: string
  an_TTL :: int
  an_A :: "nat list"

definition domain :: string where
  "domain = ''.default.svc.cluster.local''"

definition endpoint_answer :: "string \<Rightarrow> int \<Rightarrow> ServiceEndpoint \<Rightarrow> answer option" where
  "endpoint_answer name ttl ep = (if \<not> e_Ready ep then None
     else case ParseIP (e_Address ep) of
       None \<Rightarrow> None
     | Some ip \<Rightarrow> map_option (\<lambda>v4. \<lparr>an_Name = name, an_TTL = ttl mod 2 ^ 32, an_A = v4\<rparr>) (To4 ip))"

definition answer_question :: "'db oenv \<Rightarrow> question \<Rightarrow> ('db, answer list) orch" where
  "answer_question E q =
     (if \<not> qu_IsA q then ret []
      else let name = TrimSuffix (qu_Name q) ''.'' in
      if \<not> HasSuffix (ToLower name) domain then ret []
      else bnd (attempt (ResolveServiceDNS E (TrimSuffix name domain))) (\<lambda>r. case r of
        Inl _ \<Rightarrow> ret []
      | Inr (_, endpoints, ttl) \<Rightarrow>
          ret (List.map_filter (endpoint_answer (qu_Name q) (if ttl \<le> 0 then 30 else ttl)) endpoints)))"

fun handleQuery :: "'db oenv \<Rightarrow> question list \<Rightarrow> ('db, answer list) orch" where
  "handleQuery E [] = ret []"
| "handleQuery E (q # qs) = bnd (answer_question E q) (\<lambda>rrs. bnd (handleQuery E qs) (\<lambda>rest. ret (rrs @ rest)))"

section \<open>What is answered\<close>

lemma free_handleQuery: "stays free (handleQuery E qs)"
  by (induction qs) (auto simp: answer_question_def Let_def intro!: free_rules free_ops)

lemma sound_handleQuery: "env_ok E \<Longrightarrow> stays (sound E) (handleQuery E qs)"
  by (induction qs) (auto simp: answer_question_def Let_def intro!: sound_rules sound_ops)

lemma those_map:
  "those (map f xs) = Some ys \<Longrightarrow> length ys = length xs \<and> (\<forall>y \<in> set ys. \<exists>x \<in> set xs. f x = Some y)"
proof (induction xs arbitrary: ys)
  case (Cons x xs)
  then obtain y zs where "f x = Some y" "those (map f xs) = Some zs" "ys = y # zs" by (auto split: option.splits)
  with Cons.IH [of zs] show ?case by auto
qed simp

lemma parseIPv4_octets: "parseIPv4 s = Some bs \<Longrightarrow> length bs = 4 \<and> (\<forall>b \<in> set bs. b \<le> 255)"
  by (auto simp: parseIPv4_def Let_def parse_octet_def split: if_splits dest!: those_map)

text \<open>Only ready endpoints of the service are answered, under the name that was asked for.\<close>

lemma endpoint_answer_ready:
  assumes "a \<in> set (List.map_filter (endpoint_answer name ttl) eps)"
  shows "\<exists>ep \<in> set eps. e_Ready ep \<and> an_Name a = name \<and> (\<exists>ip. ParseIP (e_Address ep) = Some ip \<and> To4 ip = Some (an_A a))"
  using assms by (auto simp: List.map_filter_def endpoint_answer_def split: if_splits option.splits) blast

text \<open>The suffix is recognised in any case but removed only in lower case, so a query in capitals is looked up
  under its full name and finds nothing.\<close>

lemma capital_domain_kept:
  "HasSuffix (ToLower ''web.DEFAULT.svc.cluster.local'') domain"
  "TrimSuffix ''web.DEFAULT.svc.cluster.local'' domain = ''web.DEFAULT.svc.cluster.local''"
  by code_simp+

end
