(* ===== verification/Grpc_Server.thy ===== *)
theory Grpc_Server
  imports Reconcile_Loop Go_Text
begin

text \<open>
  The gRPC server (\<^verbatim>\<open>internal/api/grpcserver.go\<close>): its four methods and the conversions between the
  messages and the structs of the model. The generated messages are records; a missing message is
  \<^const>\<open>None\<close>, whose getters return zero values. The 32-bit fields wrap around.
\<close>

section \<open>Messages\<close>

record pb_DeploymentSpec =
  pb_Name :: string
  pb_Image :: string
  pb_ImagePullSecret :: string
  pb_Replicas :: int
  pb_Priority :: int
  pb_Resources :: "Resource option"
  pb_Labels :: "string gomap"
  pb_Tolerations :: "Toleration list"

record pb_Deployment =
  pb_Id :: string
  pb_Spec :: pb_DeploymentSpec
  pb_Status :: DeploymentStatus

record pb_ClusterNode =
  pb_NodeId :: string
  pb_NodeStatus :: NodeStatus
  pb_AllocatableMilliCpu :: int
  pb_AllocatableMemoryMb :: int
  pb_UsedMilliCpu :: int
  pb_UsedMemoryMb :: int

text \<open>\<^verbatim>\<open>int32(x)\<close>\<close>

definition int32 :: "int \<Rightarrow> int" where
  "int32 x = (x + 2 ^ 31) mod 2 ^ 32 - 2 ^ 31"

section \<open>Conversions\<close>

definition fromPBDeploymentSpec :: "pb_DeploymentSpec option \<Rightarrow> DeploymentSpec" where
  "fromPBDeploymentSpec spec = (case spec of
     None \<Rightarrow> zero_DeploymentSpec
   | Some s \<Rightarrow> zero_DeploymentSpec\<lparr>sp_Name := pb_Name s, sp_Image := pb_Image s, sp_ImagePullSecret := pb_ImagePullSecret s,
       sp_Replicas := pb_Replicas s, sp_Priority := pb_Priority s,
       sp_Resources := (case pb_Resources s of None \<Rightarrow> \<lparr>MilliCPU = 0, MemoryMB = 0\<rparr> | Some rq \<Rightarrow> rq),
       sp_Labels := Some (copy_map (pb_Labels s)), sp_Tolerations := Some (pb_Tolerations s)\<rparr>)"

definition toPBDeployment :: "Deployment \<Rightarrow> pb_Deployment" where
  "toPBDeployment dep = \<lparr>pb_Id = d_ID dep,
     pb_Spec = \<lparr>pb_Name = sp_Name (d_Spec dep), pb_Image = sp_Image (d_Spec dep), pb_ImagePullSecret = sp_ImagePullSecret (d_Spec dep),
       pb_Replicas = int32 (sp_Replicas (d_Spec dep)), pb_Priority = int32 (sp_Priority (d_Spec dep)),
       pb_Resources = Some (sp_Resources (d_Spec dep)), pb_Labels = copy_map (elems (sp_Labels (d_Spec dep))),
       pb_Tolerations = elems (sp_Tolerations (d_Spec dep))\<rparr>,
     pb_Status = d_Status dep\<rparr>"

definition toPBNode :: "Node \<Rightarrow> pb_ClusterNode" where
  "toPBNode n = \<lparr>pb_NodeId = n_ID n, pb_NodeStatus = n_Status n, pb_AllocatableMilliCpu = MilliCPU (n_Allocatable n),
     pb_AllocatableMemoryMb = MemoryMB (n_Allocatable n), pb_UsedMilliCpu = MilliCPU (n_Used n), pb_UsedMemoryMb = MemoryMB (n_Used n)\<rparr>"

section \<open>Methods\<close>

definition grpc_CreateDeployment :: "'db oenv \<Rightarrow> pb_DeploymentSpec option \<Rightarrow> ('db, pb_Deployment) orch" where
  "grpc_CreateDeployment E spec = bnd (CreateDeployment E (fromPBDeploymentSpec spec)) (\<lambda>dep. ret (toPBDeployment dep))"

definition grpc_DeleteDeployment :: "'db oenv \<Rightarrow> string \<Rightarrow> ('db, bool) orch" where
  "grpc_DeleteDeployment E ident = seq (DeleteDeployment E ident) (ret True)"

definition grpc_ListDeployments :: "'db oenv \<Rightarrow> ('db, pb_Deployment list) orch" where
  "grpc_ListDeployments E = bnd (ListDeployments E) (\<lambda>items. ret (map toPBDeployment items))"

definition grpc_GetClusterState :: "'db oenv \<Rightarrow> ('db, pb_ClusterNode list) orch" where
  "grpc_GetClusterState E = bnd (GetClusterState E) (\<lambda>state. ret (map toPBNode (cs_Nodes state)))"

section \<open>Frames and round trip\<close>

lemma free_grpc: "stays free (grpc_CreateDeployment E spec)" "stays free (grpc_DeleteDeployment E i)"
    "stays free (grpc_ListDeployments E)" "stays free (grpc_GetClusterState E)"
  unfolding grpc_CreateDeployment_def grpc_DeleteDeployment_def grpc_ListDeployments_def grpc_GetClusterState_def
  by (intro free_rules free_ops)+

lemma sound_grpc:
  assumes "env_ok E"
  shows "stays (sound E) (grpc_CreateDeployment E spec)" "stays (sound E) (grpc_DeleteDeployment E i)"
    "stays (sound E) (grpc_ListDeployments E)" "stays (sound E) (grpc_GetClusterState E)"
  unfolding grpc_CreateDeployment_def grpc_DeleteDeployment_def grpc_ListDeployments_def grpc_GetClusterState_def
  by (intro sound_rules sound_ops assms)+

lemma int32_id: "- (2 ^ 31) \<le> x \<Longrightarrow> x < 2 ^ 31 \<Longrightarrow> int32 x = x"
  by (simp add: int32_def)

text \<open>Within 32 bits a specification survives the way to a client and back, up to the fields that have no
  counterpart in the messages.\<close>

lemma pb_roundtrip:
  assumes "- (2 ^ 31) \<le> sp_Replicas (d_Spec d)" "sp_Replicas (d_Spec d) < 2 ^ 31"
    and "- (2 ^ 31) \<le> sp_Priority (d_Spec d)" "sp_Priority (d_Spec d) < 2 ^ 31"
  defines "back \<equiv> fromPBDeploymentSpec (Some (pb_Spec (toPBDeployment d)))"
  shows "sp_Name back = sp_Name (d_Spec d)" "sp_Replicas back = sp_Replicas (d_Spec d)" "sp_Priority back = sp_Priority (d_Spec d)"
    "sp_Resources back = sp_Resources (d_Spec d)" "elems (sp_Tolerations back) = elems (sp_Tolerations (d_Spec d))"
    "map_of (elems (sp_Labels back)) = map_of (elems (sp_Labels (d_Spec d)))"
  using assms by (simp_all add: back_def fromPBDeploymentSpec_def toPBDeployment_def int32_id)

text \<open>Beyond 32 bits the number of replicas a client sees is another one.\<close>

lemma replicas_truncated: "sp_Replicas (d_Spec d) = 2 ^ 32 + 1 \<Longrightarrow> pb_Replicas (pb_Spec (toPBDeployment d)) = 1"
  by (simp add: toPBDeployment_def int32_def)

end
