(* ===== verification/Http_Client.thy ===== *)
theory Http_Client
  imports Go_Text Go_Effects
begin

text \<open>
  Requests of the HTTP clients (\<^verbatim>\<open>net/http\<close>): the client of a worker and the remote container runtime put a
  method, a URL, headers and a body together and read the status and the body of the answer. Sending a
  request, and the check of its URL, are parameters of those clients.
\<close>

record http_request =
  cq_Method :: string
  cq_URL :: string
  cq_Header :: "string gomap"
  cq_Body :: string

record http_response =
  cp_Status :: int
  cp_Body :: string

definition NewRequest :: "(string \<Rightarrow> err option) \<Rightarrow> string \<Rightarrow> string \<Rightarrow> string \<Rightarrow> ('s, http_request) go" where
  "NewRequest urlError method url body = (case urlError url of
     Some e \<Rightarrow> throw e
   | None \<Rightarrow> ret \<lparr>cq_Method = method, cq_URL = url, cq_Header = [], cq_Body = body\<rparr>)"

definition set_header_of :: "string \<Rightarrow> string \<Rightarrow> http_request \<Rightarrow> http_request" where
  "set_header_of k v q = q\<lparr>cq_Header := map_put k v (cq_Header q)\<rparr>"

definition decoding :: "(string \<Rightarrow> err + 'a) \<Rightarrow> http_response \<Rightarrow> ('s, 'a) go" where
  "decoding dec resp = (case dec (cp_Body resp) of Inl e \<Rightarrow> throw e | Inr x \<Rightarrow> ret x)"

end
