(* ===== verification/Runtimes.thy ===== *)
theory Runtimes
  imports Http_Client
begin

text \<open>
  The container runtimes of the worker (\<^verbatim>\<open>internal/runtime\<close>): the interface \<^verbatim>\<open>ContainerRuntime\<close>, the registry of
  drivers, the runtime in memory, the one that talks to a remote service over HTTP and the one that
  drives Docker. The Docker client and the HTTP transport are parameters. What a worker relies on is the
  locale \<open>container_runtime\<close>, and the runtime in memory is shown to provide it.
\<close>

section \<open>The interface\<close>

record 'x runtime =
  rt_RunWorkload :: "string \<Rightarrow> string \<Rightarrow> string \<Rightarrow> ('x, string) go"
  rt_StopWorkload :: "string \<Rightarrow> string \<Rightarrow> ('x, unit) go"
  rt_ListManagedWorkloads :: "('x, string gomap) go"

text \<open>A runtime manages a container per workload: running a workload adds its container, stopping it removes
  it and no other, and listing returns the containers. A failed call changes nothing.\<close>

locale container_runtime =
  fixes rt :: "'x runtime" and managed :: "'x \<Rightarrow> string \<Rightarrow> string option"
  assumes run: "wp (rt_RunWorkload rt w img secret) (\<lambda>r t. case r of
      Inr c \<Rightarrow> managed t = (managed s)(w \<mapsto> c) | Inl _ \<Rightarrow> managed t = managed s) s"
    and stop: "w \<noteq> [] \<Longrightarrow> wp (rt_StopWorkload rt w c) (\<lambda>r t. case r of
      Inr _ \<Rightarrow> managed t = (managed s)(w := None) | Inl _ \<Rightarrow> managed t = managed s) s"
    and list_all_managed: "wp (rt_ListManagedWorkloads rt) (\<lambda>r t. managed t = managed s \<and> (\<forall>m. r = Inr m \<longrightarrow> map_of m = managed s)) s"

text \<open>A runtime whose containers can always be listed and stopped.\<close>

locale reliable_runtime = container_runtime rt managed for rt :: "'x runtime" and managed +
  assumes stop_succeeds: "wp (rt_StopWorkload rt w c) (\<lambda>r t. r = Inr ()) s"
    and list_succeeds: "wp (rt_ListManagedWorkloads rt) (\<lambda>r t. \<exists>m. r = Inr m) s"
begin

lemma stopped: "w \<noteq> [] \<Longrightarrow> wp (rt_StopWorkload rt w c) (\<lambda>r t. r = Inr () \<and> managed t w = None) s"
  using stop [of w c s] stop_succeeds [of w c s] by (auto simp: wp_def split: prod.splits)

end

section \<open>In memory\<close>

type_synonym memory = "string gomap"

definition NewInMemoryRuntime :: memory where
  "NewInMemoryRuntime = []"

definition mem_RunWorkload :: "string \<Rightarrow> string \<Rightarrow> string \<Rightarrow> (memory, string) go" where
  "mem_RunWorkload workloadID img secret = (let containerID = ''mem-'' @ workloadID in
     seq (modify (map_put workloadID containerID)) (ret containerID))"

definition mem_StopWorkload :: "string \<Rightarrow> string \<Rightarrow> (memory, unit) go" where
  "mem_StopWorkload workloadID containerID =
     (if workloadID \<noteq> [] then modify (map_delete workloadID)
      else modify (\<lambda>m. case find (\<lambda>(k, v). v = containerID) m of None \<Rightarrow> m | Some (k, _) \<Rightarrow> map_delete k m))"

definition mem_ListManagedWorkloads :: "(memory, string gomap) go" where
  "mem_ListManagedWorkloads = gets copy_map"

definition InMemoryRuntime :: "memory runtime" where
  "InMemoryRuntime = \<lparr>rt_RunWorkload = mem_RunWorkload, rt_StopWorkload = mem_StopWorkload,
     rt_ListManagedWorkloads = mem_ListManagedWorkloads\<rparr>"

lemma wp_mem_run: "wp (mem_RunWorkload w img sec) Q m = Q (Inr (''mem-'' @ w)) (map_put w (''mem-'' @ w) m)"
  by (simp add: mem_RunWorkload_def Let_def wp_simps)

lemma wp_mem_stop: "w \<noteq> [] \<Longrightarrow> wp (mem_StopWorkload w c) Q m = Q (Inr ()) (map_delete w m)"
  by (simp add: mem_StopWorkload_def wp_simps)

lemma wp_mem_list: "wp mem_ListManagedWorkloads Q m = Q (Inr (copy_map m)) m"
  by (simp add: mem_ListManagedWorkloads_def wp_simps)

lemmas mem_ops = wp_mem_run wp_mem_stop wp_mem_list

lemma mem_stop_succeeds: "wp (mem_StopWorkload w c) (\<lambda>r t. r = Inr ()) m"
  by (simp add: mem_StopWorkload_def wp_simps)

interpretation inmemory: reliable_runtime InMemoryRuntime map_of
  by unfold_locales (simp_all add: InMemoryRuntime_def mem_ops map_of_put mem_stop_succeeds)

section \<open>Docker\<close>

text \<open>The calls of the Docker client that the runtime makes, and standard base64.\<close>

record 'd docker_client =
  dk_ImagePull :: "string \<Rightarrow> string \<Rightarrow> ('d, unit) go"
  dk_ContainerCreate :: "string \<Rightarrow> string list \<Rightarrow> string gomap \<Rightarrow> string \<Rightarrow> ('d, string) go"
  dk_ContainerStart :: "string \<Rightarrow> ('d, unit) go"
  dk_ContainerStop :: "string \<Rightarrow> int \<Rightarrow> ('d, unit) go"
  dk_ContainerRemove :: "string \<Rightarrow> ('d, unit) go"
  dk_ContainerList :: "string \<Rightarrow> ('d, (string \<times> string gomap) list) go"
  dk_base64 :: "string \<Rightarrow> string"

text \<open>\<^verbatim>\<open>fmt.Errorf(text + "%w", err)\<close> around the error of a call.\<close>

definition wrapped :: "string \<Rightarrow> ('s, 'a) go \<Rightarrow> ('s, 'a) go" where
  "wrapped text m = bnd (attempt m) (\<lambda>r. case r of Inl e \<Rightarrow> throw (ErrWrap text e) | Inr x \<Rightarrow> ret x)"

definition docker_RunWorkload :: "'d docker_client \<Rightarrow> string \<Rightarrow> string \<Rightarrow> string \<Rightarrow> ('d, string) go" where
  "docker_RunWorkload D workloadID imageRef imagePullSecret = (let
     auth = (if \<not> blank imagePullSecret then dk_base64 D imagePullSecret else []) in
     seq (wrapped ''image pull: '' (dk_ImagePull D imageRef auth))
     (bnd (wrapped ''container create: '' (dk_ContainerCreate D imageRef [''sleep'', ''3600'']
        [(''orchestrator.workload'', workloadID)] (''orch-'' @ workloadID))) (\<lambda>containerID.
     seq (wrapped ''container start: '' (dk_ContainerStart D containerID)) (ret containerID))))"

definition labelled :: "string gomap \<Rightarrow> string \<times> string gomap \<Rightarrow> string gomap" where
  "labelled out c = (case map_of (snd c) ''orchestrator.workload'' of
     Some workloadID \<Rightarrow> if \<not> blank workloadID then map_put workloadID (fst c) out else out
   | None \<Rightarrow> out)"

definition docker_ListManagedWorkloads :: "'d docker_client \<Rightarrow> ('d, string gomap) go" where
  "docker_ListManagedWorkloads D = bnd (dk_ContainerList D ''orchestrator.workload'') (\<lambda>containers.
     ret (foldl labelled [] containers))"

definition docker_StopWorkload :: "'d docker_client \<Rightarrow> string \<Rightarrow> string \<Rightarrow> ('d, unit) go" where
  "docker_StopWorkload D workloadID containerID =
     bnd (if blank containerID
          then bnd (docker_ListManagedWorkloads D) (\<lambda>managed. ret (map_get [] managed workloadID))
          else ret containerID) (\<lambda>found.
     if blank containerID \<and> blank found then ret ()
     else seq (ignore (dk_ContainerStop D found 10)) (ignore (dk_ContainerRemove D found)))"

definition DockerRuntime :: "'d docker_client \<Rightarrow> 'd runtime" where
  "DockerRuntime D = \<lparr>rt_RunWorkload = docker_RunWorkload D, rt_StopWorkload = docker_StopWorkload D,
     rt_ListManagedWorkloads = docker_ListManagedWorkloads D\<rparr>"

text \<open>Stopping a container is reported as done whatever the daemon answers.\<close>

lemma docker_stop_hides_failure:
  assumes "\<not> blank c"
  shows "wp (docker_StopWorkload D w c) (\<lambda>r t. r = Inr ()) s"
  using assms by (auto simp: docker_StopWorkload_def wp_simps intro!: wp_any)

text \<open>A container that was created but could not be started stays, under the name a further attempt uses.\<close>

lemma docker_failed_start_keeps_container:
  assumes "dk_ImagePull D img [] s = (Inr (), s1)" and "blank secret"
    and "dk_ContainerCreate D img [''sleep'', ''3600''] [(''orchestrator.workload'', w)] (''orch-'' @ w) s1 = (Inr c, s2)"
    and "dk_ContainerStart D c s2 = (Inl e, s3)"
  shows "docker_RunWorkload D w img secret s = (Inl (ErrWrap ''container start: '' e), s3)"
  using assms by (simp add: docker_RunWorkload_def wrapped_def seq_def bnd_def attempt_def ret_def throw_def)

section \<open>A remote runtime\<close>

record RemoteHTTPRuntime =
  rr_baseURL :: string
  rr_token :: string

record 'n remote_env =
  re_Do :: "http_request \<Rightarrow> ('n, http_response) go"
  re_urlError :: "string \<Rightarrow> err option"
  re_marshalRun :: "string \<times> string \<times> string \<Rightarrow> err + string"
  re_marshalStop :: "string \<times> string \<Rightarrow> err + string"
  re_decodeRun :: "string \<Rightarrow> err + string"
  re_decodeList :: "string \<Rightarrow> err + string gomap option"

definition NewRemoteHTTPRuntime :: "string \<Rightarrow> string \<Rightarrow> RemoteHTTPRuntime" where
  "NewRemoteHTTPRuntime baseURL tok = \<lparr>rr_baseURL = TrimRight (TrimSpace baseURL) CHR ''/'', rr_token = TrimSpace tok\<rparr>"

text \<open>\<^verbatim>\<open>doJSON\<close> up to the decoding of the answer, which is left to the callers that want one.\<close>

definition doJSON :: "'n remote_env \<Rightarrow> RemoteHTTPRuntime \<Rightarrow> string \<Rightarrow> string \<Rightarrow> err + string \<Rightarrow> ('n, http_response) go" where
  "doJSON E r method path blob = (case blob of
     Inl e \<Rightarrow> throw e
   | Inr body \<Rightarrow> bnd (NewRequest (re_urlError E) method (rr_baseURL r @ path) body) (\<lambda>req. let
       req = set_header_of ''Content-Type'' ''application/json'' req;
       req = (if rr_token r \<noteq> [] then set_header_of ''Authorization'' (''Bearer '' @ rr_token r) req else req) in
       bnd (re_Do E req) (\<lambda>resp.
       if cp_Status resp < 200 \<or> cp_Status resp \<ge> 300 then throw (ErrText (''remote runtime status '' @ show_int (cp_Status resp)))
       else ret resp)))"

definition remote_RunWorkload :: "'n remote_env \<Rightarrow> RemoteHTTPRuntime \<Rightarrow> string \<Rightarrow> string \<Rightarrow> string \<Rightarrow> ('n, string) go" where
  "remote_RunWorkload E r workloadID imageRef imagePullSecret =
     bnd (doJSON E r ''POST'' ''/v1/runtime/workloads'' (re_marshalRun E (workloadID, imageRef, imagePullSecret))) (\<lambda>resp.
     bnd (decoding (re_decodeRun E) resp) (\<lambda>containerID.
     if blank containerID then throw (ErrText ''remote runtime returned empty container id'') else ret containerID))"

definition remote_StopWorkload :: "'n remote_env \<Rightarrow> RemoteHTTPRuntime \<Rightarrow> string \<Rightarrow> string \<Rightarrow> ('n, unit) go" where
  "remote_StopWorkload E r workloadID containerID =
     seq (doJSON E r ''POST'' ''/v1/runtime/workloads/stop'' (re_marshalStop E (workloadID, containerID))) (ret ())"

definition remote_ListManagedWorkloads :: "'n remote_env \<Rightarrow> RemoteHTTPRuntime \<Rightarrow> ('n, string gomap) go" where
  "remote_ListManagedWorkloads E r = bnd (doJSON E r ''GET'' ''/v1/runtime/workloads'' (Inr [])) (\<lambda>resp.
     bnd (decoding (re_decodeList E) resp) (\<lambda>out. ret (case out of None \<Rightarrow> [] | Some m \<Rightarrow> m)))"

text \<open>A workload that the remote service started has a container.\<close>

lemma remote_run_names_container: "wp (remote_RunWorkload E r w img secret) (\<lambda>x t. \<forall>c. x = Inr c \<longrightarrow> \<not> blank c) s"
  unfolding remote_RunWorkload_def
  by (auto simp: wp_simps decoding_def split: sum.split intro!: wp_any)

section \<open>Drivers\<close>

text \<open>What a driver makes: one of the three runtimes.\<close>

datatype driver = Docker | InMemory memory | Remote RemoteHTTPRuntime

definition RegisterDriver :: "string \<Rightarrow> (unit \<Rightarrow> err + driver) \<Rightarrow> (unit \<Rightarrow> err + driver) gomap \<Rightarrow> (unit \<Rightarrow> err + driver) gomap" where
  "RegisterDriver name factory drivers = map_put (ToLower (TrimSpace name)) factory drivers"

text \<open>The factories that the package registers when it is loaded; making the Docker client may fail.\<close>

definition remote_driver :: "(string \<Rightarrow> string) \<Rightarrow> unit \<Rightarrow> err + driver" where
  "remote_driver getenv _ = (let base = TrimSpace (getenv ''ORCH_REMOTE_RUNTIME_URL'');
     base = (if base = [] then ''http://localhost:18080'' else base);
     tok = TrimSpace (getenv ''ORCH_REMOTE_RUNTIME_TOKEN'') in Inr (Remote (NewRemoteHTTPRuntime base tok)))"

definition drivers :: "err option \<Rightarrow> (string \<Rightarrow> string) \<Rightarrow> (unit \<Rightarrow> err + driver) gomap" where
  "drivers dockerError getenv =
     RegisterDriver ''remote-http'' (remote_driver getenv)
     (RegisterDriver ''inmemory'' (\<lambda>_. Inr (InMemory NewInMemoryRuntime))
     (RegisterDriver ''docker'' (\<lambda>_. case dockerError of Some e \<Rightarrow> Inl e | None \<Rightarrow> Inr Docker) []))"

definition NewRuntimeFromDriver :: "(unit \<Rightarrow> err + driver) gomap \<Rightarrow> string \<Rightarrow> err + driver" where
  "NewRuntimeFromDriver ds name = (let name = ToLower (TrimSpace name); name = (if name = [] then ''docker'' else name) in
     case map_of ds name of
       None \<Rightarrow> Inl (ErrText (''runtime driver not found: '' @ name))
     | Some factory \<Rightarrow> factory ())"

text \<open>A driver that was registered is found again under its name, in capitals or with spaces around it too.\<close>

lemma registered_driver_found:
  assumes "\<not> blank name" and "ToLower (TrimSpace other) = ToLower (TrimSpace name)"
  shows "NewRuntimeFromDriver (RegisterDriver name f ds) other = f ()"
proof -
  have "ToLower (TrimSpace name) \<noteq> []" using assms(1) by (simp add: blank_def ToLower_def)
  then show ?thesis using assms(2) by (simp add: NewRuntimeFromDriver_def RegisterDriver_def map_of_put)
qed

end
