(* ===== verification/Go_Paths.thy ===== *)
theory Go_Paths
  imports Go_Text
begin

text \<open>
  Cleaned paths: \<^verbatim>\<open>path.Clean\<close> of a rooted path is a sequence of proper elements, and joining an element to
  a cleaned path adds it, takes the last one away (\<^verbatim>\<open>..\<close>) or leaves the path alone.
\<close>

definition proper :: "string \<Rightarrow> bool" where
  "proper x \<longleftrightarrow> x \<noteq> [] \<and> x \<noteq> ''.'' \<and> x \<noteq> ''..'' \<and> CHR ''/'' \<notin> set x"

definition path_of :: "string list \<Rightarrow> string" where
  "path_of segs = CHR ''/'' # Join segs CHR ''/''"

lemma Split_extend: "Split (s @ sep # t) sep = Split s sep @ Split t sep"
  by (induction s) auto

lemma clean_keeps_proper:
  "list_all proper acc \<Longrightarrow> \<forall>x \<in> set xs. CHR ''/'' \<notin> set x \<Longrightarrow> list_all proper (foldl clean_segment acc xs)"
proof (induction xs arbitrary: acc)
  case (Cons x xs)
  have "list_all proper (clean_segment acc x)"
    using Cons.prems by (auto simp: clean_segment_def proper_def list_all_iff dest: in_set_butlastD)
  then show ?case using Cons by simp
qed simp

lemma clean_proper: "list_all proper xs \<Longrightarrow> foldl clean_segment acc xs = acc @ xs"
  by (induction xs arbitrary: acc) (auto simp: clean_segment_def proper_def)

lemma Clean_proper: "\<exists>segs. Clean p = path_of segs \<and> list_all proper segs"
  unfolding Clean_def path_of_def
  using clean_keeps_proper [of "[]" "Split p CHR ''/''"] by (auto dest: Split_pieces)

lemma clean_path_of: "list_all proper segs \<Longrightarrow> foldl clean_segment [] (Split (path_of segs) CHR ''/'') = segs"
proof (cases segs)
  case (Cons x xs)
  assume p: "list_all proper segs"
  then have "Split (Join segs CHR ''/'') CHR ''/'' = segs"
    using Cons by (intro Split_Join) (auto simp: list_all_iff proper_def)
  then show ?thesis using clean_proper [OF p, of "[]"] by (simp add: path_of_def clean_segment_def)
qed (simp add: path_of_def clean_segment_def)

lemma Clean_path_of: "list_all proper segs \<Longrightarrow> Clean (path_of segs) = path_of segs"
  unfolding Clean_def [of "path_of segs"] by (simp only: clean_path_of) (simp add: path_of_def)

lemma Clean_extend:
  assumes "list_all proper segs"
  shows "Clean (path_of segs @ CHR ''/'' # t) = path_of (foldl clean_segment segs (Split t CHR ''/''))"
  unfolding Clean_def [of "path_of segs @ CHR ''/'' # t"] Split_extend foldl_append clean_path_of [OF assms] by (simp add: path_of_def)

lemma path_of_not_Nil [simp]: "path_of segs \<noteq> []"
  by (simp add: path_of_def)

text \<open>\<^verbatim>\<open>filepath.Join(dir, name)\<close> for a name without a separator, and for the separator itself.\<close>

lemma PathJoin_name:
  assumes "list_all proper segs" and "name \<noteq> []" and "CHR ''/'' \<notin> set name"
  shows "PathJoin [path_of segs, name] = path_of (clean_segment segs name)"
  using Clean_extend [OF assms(1), of name] assms(2,3) by (simp add: PathJoin_def Split_free)

lemma PathJoin_root:
  assumes "list_all proper segs"
  shows "PathJoin [path_of segs, ''/''] = path_of segs"
  using Clean_extend [OF assms, of "''/''"] by (simp add: PathJoin_def clean_segment_def)

lemma Join_snoc: "ss \<noteq> [] \<Longrightarrow> Join (ss @ [x]) sep = Join ss sep @ [sep] @ x"
  by (induction ss sep rule: Join.induct) (auto simp: Join_Cons)

lemma path_of_snoc: "segs \<noteq> [] \<Longrightarrow> path_of (segs @ [x]) = path_of segs @ CHR ''/'' # x"
  by (simp add: path_of_def Join_snoc)

lemma Dir_snoc:
  assumes "list_all proper segs" and "proper x" and "segs \<noteq> []"
  shows "Dir (path_of (segs @ [x])) = path_of segs"
proof -
  have "Split (Join (segs @ [x]) CHR ''/'') CHR ''/'' = segs @ [x]"
    using assms(1,2) by (intro Split_Join) (auto simp: list_all_iff proper_def)
  then have "Dir (path_of (segs @ [x])) = Clean (Join ([] # segs) CHR ''/'')" by (simp add: Dir_def path_of_def)
  also have "\<dots> = path_of segs" using Clean_path_of [OF assms(1)] assms(3) by (simp add: Join_Cons path_of_def)
  finally show ?thesis .
qed

lemma Base_cases: "Base p = ''/'' \<or> Base p = ''.'' \<or> CHR ''/'' \<notin> set (Base p)"
  using Split_pieces [OF last_in_set [OF Split_not_Nil]] by (auto simp: Base_def Let_def)

end
