(* ===== verification/Worker.thy ===== *)
theory Worker
  imports Runtimes Model_Types Go_Paths
begin

text \<open>
  The worker of a node (\<^verbatim>\<open>internal/worker/runner.go\<close>): it takes the assignments of its node, starts and stops
  their containers with a bounded number of attempts, writes the secret files of a workload before it
  starts and removes them afterwards, reports to the server, and brings the containers in line with
  what the server wants.

  The state of a worker holds what it counts and remembers, the files of its host, the state of the
  runtime and the state behind the client. The client and the runtime are the interfaces the code
  declares. A call of the operating system fails when \<open>we_osError\<close> says so, and a wait is cut
  short when \<open>we_ctxErr\<close> says that the context is cancelled. A call of the operating system that fails
  leaves the files as they are (a real one may leave a truncated file), and the loops over a Go map, which
  visit it in any order, visit it in the order of insertion.
\<close>

section \<open>The host\<close>

text \<open>Files and directories by their absolute path, and the number of calls made.\<close>

record host =
  fs_files :: "string gomap"
  fs_dirs :: "string list"
  fs_calls :: nat

record worker_env =
  we_TempDir :: string
  we_osError :: "nat \<Rightarrow> err option"
  we_ctxErr :: "nat \<Rightarrow> err option"

definition os_call :: "worker_env \<Rightarrow> (host, unit) go \<Rightarrow> (host, unit) go" where
  "os_call E m = bnd (gets fs_calls) (\<lambda>n. seq (modify (\<lambda>h. h\<lparr>fs_calls := Suc n\<rparr>))
     (case we_osError E n of Some e \<Rightarrow> throw e | None \<Rightarrow> m))"

definition is_file :: "host \<Rightarrow> string \<Rightarrow> bool" where
  "is_file h p \<longleftrightarrow> p \<in> set (map fst (fs_files h))"

definition is_dir :: "host \<Rightarrow> string \<Rightarrow> bool" where
  "is_dir h p \<longleftrightarrow> p = ''/'' \<or> p \<in> set (fs_dirs h)"

text \<open>A path and the directories above it.\<close>

definition above :: "string \<Rightarrow> string list" where
  "above p = map (\<lambda>k. take k p) (filter (\<lambda>k. k = length p \<or> p ! k = CHR ''/'') [1..<Suc (length p)])"

definition MkdirAll :: "worker_env \<Rightarrow> string \<Rightarrow> (host, unit) go" where
  "MkdirAll E p = os_call E (bnd (gets (\<lambda>h. list_ex (is_file h) (above p))) (\<lambda>b.
     if b then throw (ErrText (''mkdir '' @ p @ '': not a directory''))
     else modify (\<lambda>h. h\<lparr>fs_dirs := fs_dirs h @ filter (\<lambda>q. \<not> is_dir h q) (above p)\<rparr>)))"

definition WriteFile :: "worker_env \<Rightarrow> string \<Rightarrow> string \<Rightarrow> (host, unit) go" where
  "WriteFile E p content = os_call E (bnd (gets (\<lambda>h. (is_dir h p, is_dir h (Dir p)))) (\<lambda>(d, up).
     if d then throw (ErrText (''open '' @ p @ '': is a directory''))
     else if \<not> up then throw (ErrText (''open '' @ p @ '': no such file or directory''))
     else modify (\<lambda>h. h\<lparr>fs_files := map_put p content (fs_files h)\<rparr>)))"

definition Remove :: "worker_env \<Rightarrow> string \<Rightarrow> (host, unit) go" where
  "Remove E p = os_call E (bnd (gets (\<lambda>h. (is_file h p, p \<in> set (fs_dirs h),
       list_ex (\<lambda>q. HasPrefix q (p @ ''/'')) (map fst (fs_files h) @ fs_dirs h)))) (\<lambda>(f, d, full).
     if f then modify (\<lambda>h. h\<lparr>fs_files := map_delete p (fs_files h)\<rparr>)
     else if d \<and> \<not> full then modify (\<lambda>h. h\<lparr>fs_dirs := removeAll p (fs_dirs h)\<rparr>)
     else if d then throw (ErrText (''remove '' @ p @ '': directory not empty''))
     else throw (ErrText (''remove '' @ p @ '': no such file or directory''))))"

section \<open>The runner\<close>

record 'c AssignmentClient =
  cl_RegisterNode :: "Node \<Rightarrow> ('c, unit) go"
  cl_Heartbeat :: "string \<Rightarrow> Resource \<Rightarrow> ('c, unit) go"
  cl_PollAssignments :: "string \<Rightarrow> int \<Rightarrow> ('c, Assignment list) go"
  cl_ListNodeWorkloads :: "string \<Rightarrow> ('c, Workload list) go"
  cl_ReportWorkloadStatus :: "string \<Rightarrow> WorkloadStatus \<Rightarrow> string \<Rightarrow> ('c, unit) go"

record ('x, 'c) Runner =
  rn_nodeID :: string
  rn_client :: "'c AssignmentClient"
  rn_runtime :: "'x runtime"
  rn_restartMaxRetries :: int
  rn_restartBackoff :: duration

text \<open>What changes: the used resources, the secret files by workload, the host, the runtime, the server and the waits
  between attempts so far.\<close>

record ('x, 'c) worker =
  wk_used :: Resource
  wk_secretFiles :: "string list gomap"
  wk_host :: host
  wk_runtime :: 'x
  wk_server :: 'c
  wk_waits :: "duration list"

type_synonym ('x, 'c, 'a) wrk = "(('x, 'c) worker, 'a) go"

definition on_host :: "(host, 'a) go \<Rightarrow> ('x, 'c, 'a) wrk" where
  "on_host m s = (case m (wk_host s) of (r, h) \<Rightarrow> (r, s\<lparr>wk_host := h\<rparr>))"

definition on_runtime :: "('x, 'a) go \<Rightarrow> ('x, 'c, 'a) wrk" where
  "on_runtime m s = (case m (wk_runtime s) of (r, x) \<Rightarrow> (r, s\<lparr>wk_runtime := x\<rparr>))"

definition on_server :: "('c, 'a) go \<Rightarrow> ('x, 'c, 'a) wrk" where
  "on_server m s = (case m (wk_server s) of (r, c) \<Rightarrow> (r, s\<lparr>wk_server := c\<rparr>))"

definition NewRunner :: "string \<Rightarrow> 'c AssignmentClient \<Rightarrow> 'x runtime \<Rightarrow> int \<Rightarrow> duration \<Rightarrow> ('x, 'c) Runner" where
  "NewRunner nodeID cl rt restartMaxRetries restartBackoff = (let
     restartMaxRetries = (if restartMaxRetries \<le> 0 then 3 else restartMaxRetries);
     restartBackoff = (if restartBackoff \<le> 0 then 250000000 else restartBackoff) in
     \<lparr>rn_nodeID = nodeID, rn_client = cl, rn_runtime = rt, rn_restartMaxRetries = restartMaxRetries, rn_restartBackoff = restartBackoff\<rparr>)"

text \<open>The state a new runner starts with: nothing used and no secret files, on the host as it is.\<close>

definition new_worker :: "host \<Rightarrow> 'x \<Rightarrow> 'c \<Rightarrow> ('x, 'c) worker" where
  "new_worker h x c = \<lparr>wk_used = zero_Resource, wk_secretFiles = [], wk_host = h, wk_runtime = x, wk_server = c, wk_waits = []\<rparr>"

definition Register :: "('x, 'c) Runner \<Rightarrow> Node \<Rightarrow> ('x, 'c, unit) wrk" where
  "Register R node = on_server (cl_RegisterNode (rn_client R) node)"

definition Heartbeat :: "('x, 'c) Runner \<Rightarrow> ('x, 'c, unit) wrk" where
  "Heartbeat R = bnd (gets wk_used) (\<lambda>used. on_server (cl_Heartbeat (rn_client R) (rn_nodeID R) used))"

definition UsedResource :: "('x, 'c, Resource) wrk" where
  "UsedResource = gets wk_used"

definition report :: "('x, 'c) Runner \<Rightarrow> string \<Rightarrow> WorkloadStatus \<Rightarrow> string \<Rightarrow> ('x, 'c, unit) wrk" where
  "report R workloadID status containerID =
     ignore (on_server (cl_ReportWorkloadStatus (rn_client R) workloadID status containerID))"

subsection \<open>Secret files\<close>

definition secret_dir :: "worker_env \<Rightarrow> string \<Rightarrow> string" where
  "secret_dir E workloadID = PathJoin [we_TempDir E, ''orch-secrets'', workloadID]"

primrec write_secrets :: "worker_env \<Rightarrow> string \<Rightarrow> SecretFile list \<Rightarrow> string list \<Rightarrow> ('x, 'c, string list) wrk" where
  "write_secrets E dir [] created = ret created"
| "write_secrets E dir (f # fs) created = (let name = Base (TrimSpace (sf_Path f)) in
     if name = [] \<or> name = ''.'' then write_secrets E dir fs created
     else let target = PathJoin [dir, name] in
       seq (on_host (WriteFile E target (sf_Content f))) (write_secrets E dir fs (created @ [target])))"

definition materializeSecretFiles :: "worker_env \<Rightarrow> string \<Rightarrow> SecretFile list \<Rightarrow> ('x, 'c, unit) wrk" where
  "materializeSecretFiles E workloadID files =
     (if files = [] then ret ()
      else let dir = secret_dir E workloadID in
        seq (on_host (MkdirAll E dir))
        (bnd (write_secrets E dir files []) (\<lambda>created.
          modify (\<lambda>s. s\<lparr>wk_secretFiles := map_put workloadID created (wk_secretFiles s)\<rparr>))))"

definition cleanupSecretFiles :: "worker_env \<Rightarrow> string \<Rightarrow> ('x, 'c, unit) wrk" where
  "cleanupSecretFiles E workloadID = bnd (gets (\<lambda>s. map_get [] (wk_secretFiles s) workloadID)) (\<lambda>paths.
     seq (modify (\<lambda>s. s\<lparr>wk_secretFiles := map_delete workloadID (wk_secretFiles s)\<rparr>))
     (seq (for_each paths (\<lambda>p. ignore (on_host (Remove E p))))
     (when_so (paths \<noteq> []) (ignore (on_host (Remove E (Dir (hd paths))))))))"

subsection \<open>Starting with retries\<close>

text \<open>\<^verbatim>\<open>select\<close> on the context and on \<^verbatim>\<open>time.After(backoff)\<close>: the error of the context when it is cancelled first.\<close>

definition wait_for :: "worker_env \<Rightarrow> duration \<Rightarrow> ('x, 'c, unit) wrk" where
  "wait_for E backoff = bnd (gets (\<lambda>s. length (wk_waits s))) (\<lambda>n. case we_ctxErr E n of
     Some e \<Rightarrow> throw e
   | None \<Rightarrow> modify (\<lambda>s. s\<lparr>wk_waits := wk_waits s @ [backoff]\<rparr>))"

definition backoff_of :: "duration \<Rightarrow> nat \<Rightarrow> duration" where
  "backoff_of restartBackoff att = imul restartBackoff (i64 (2 ^ att))"

text \<open>The loop with the number of attempts left; without any attempt \<^verbatim>\<open>lastErr\<close> is \<^verbatim>\<open>nil\<close>.\<close>

primrec run_attempts :: "worker_env \<Rightarrow> ('x, 'c) Runner \<Rightarrow> Assignment \<Rightarrow> nat \<Rightarrow> nat \<Rightarrow> ('x, 'c, string) wrk" where
  "run_attempts E R a att 0 = ret []"
| "run_attempts E R a att (Suc left) =
     bnd (attempt (on_runtime (rt_RunWorkload (rn_runtime R) (a_WorkloadID a) (a_Image a) (a_ImagePullSecret a)))) (\<lambda>r. case r of
       Inr containerID \<Rightarrow> ret containerID
     | Inl lastErr \<Rightarrow> if left = 0 then throw lastErr
         else seq (wait_for E (backoff_of (rn_restartBackoff R) att)) (run_attempts E R a (Suc att) left))"

definition runWithBackoff :: "worker_env \<Rightarrow> ('x, 'c) Runner \<Rightarrow> Assignment \<Rightarrow> ('x, 'c, string) wrk" where
  "runWithBackoff E R a = run_attempts E R a 0 (nat (rn_restartMaxRetries R))"

subsection \<open>Assignments\<close>

definition release_used :: "Resource \<Rightarrow> Resource \<Rightarrow> Resource" where
  "release_used used res = (let cpu = isub (MilliCPU used) (MilliCPU res); mem = isub (MemoryMB used) (MemoryMB res) in
     \<lparr>MilliCPU = (if cpu < 0 then 0 else cpu), MemoryMB = (if mem < 0 then 0 else mem)\<rparr>)"

definition add_used :: "Resource \<Rightarrow> Resource \<Rightarrow> Resource" where
  "add_used used res = \<lparr>MilliCPU = iadd (MilliCPU used) (MilliCPU res), MemoryMB = iadd (MemoryMB used) (MemoryMB res)\<rparr>"

definition process_delete :: "worker_env \<Rightarrow> ('x, 'c) Runner \<Rightarrow> Assignment \<Rightarrow> ('x, 'c, unit) wrk" where
  "process_delete E R a = seq (cleanupSecretFiles E (a_WorkloadID a))
     (bnd (attempt (on_runtime (rt_StopWorkload (rn_runtime R) (a_WorkloadID a) (a_ContainerID a)))) (\<lambda>r. case r of
       Inl _ \<Rightarrow> report R (a_WorkloadID a) WorkloadFailed []
     | Inr _ \<Rightarrow> seq (modify (\<lambda>s. s\<lparr>wk_used := release_used (wk_used s) (a_Resources a)\<rparr>))
         (report R (a_WorkloadID a) WorkloadTerminated [])))"

definition process_create :: "worker_env \<Rightarrow> ('x, 'c) Runner \<Rightarrow> Assignment \<Rightarrow> ('x, 'c, unit) wrk" where
  "process_create E R a = bnd (attempt (materializeSecretFiles E (a_WorkloadID a) (a_SecretFiles a))) (\<lambda>m. case m of
     Inl _ \<Rightarrow> report R (a_WorkloadID a) WorkloadFailed []
   | Inr _ \<Rightarrow> bnd (attempt (runWithBackoff E R a)) (\<lambda>r. case r of
       Inl _ \<Rightarrow> seq (cleanupSecretFiles E (a_WorkloadID a)) (report R (a_WorkloadID a) WorkloadFailed [])
     | Inr containerID \<Rightarrow> seq (modify (\<lambda>s. s\<lparr>wk_used := add_used (wk_used s) (a_Resources a)\<rparr>))
         (report R (a_WorkloadID a) WorkloadRunning containerID)))"

definition process_assignment :: "worker_env \<Rightarrow> ('x, 'c) Runner \<Rightarrow> Assignment \<Rightarrow> ('x, 'c, unit) wrk" where
  "process_assignment E R a = (let action = (if a_Action a = [] then ''create'' else a_Action a) in
     if action = ''delete'' then process_delete E R a
     else if action = ''create'' then process_create E R a
     else ret ())"

primrec process_all :: "worker_env \<Rightarrow> ('x, 'c) Runner \<Rightarrow> Assignment list \<Rightarrow> int \<Rightarrow> ('x, 'c, int) wrk" where
  "process_all E R [] processed = ret processed"
| "process_all E R (a # as) processed = seq (process_assignment E R a) (process_all E R as (iadd processed 1))"

definition ProcessAssignments :: "worker_env \<Rightarrow> ('x, 'c) Runner \<Rightarrow> int \<Rightarrow> ('x, 'c, int) wrk" where
  "ProcessAssignments E R mx = bnd (on_server (cl_PollAssignments (rn_client R) (rn_nodeID R) mx)) (\<lambda>assignments.
     process_all E R assignments 0)"

subsection \<open>Reconciliation\<close>

definition desired_map :: "Workload list \<Rightarrow> Workload gomap" where
  "desired_map ws = foldl (\<lambda>m w. map_put (w_ID w) w m) [] ws"

definition ReconcileRuntime :: "('x, 'c) Runner \<Rightarrow> ('x, 'c, unit) wrk" where
  "ReconcileRuntime R = bnd (on_server (cl_ListNodeWorkloads (rn_client R) (rn_nodeID R))) (\<lambda>desired. let
     desiredMap = desired_map desired in
     bnd (on_runtime (rt_ListManagedWorkloads (rn_runtime R))) (\<lambda>actual.
     seq (for_each (map fst desiredMap) (\<lambda>workloadID.
       when_so (map_of actual workloadID = None) (report R workloadID WorkloadFailed [])))
     (for_each actual (\<lambda>(workloadID, containerID).
       when_so (map_of desiredMap workloadID = None)
         (ignore (on_runtime (rt_StopWorkload (rn_runtime R) workloadID containerID)))))))"
section \<open>Laws of the lifted calls\<close>

lemma wp_on_host [wp_simps]: "wp (on_host m) Q s = wp m (\<lambda>r h. Q r (s\<lparr>wk_host := h\<rparr>)) (wk_host s)"
  by (auto simp: wp_def on_host_def split: prod.splits)

lemma wp_on_runtime [wp_simps]: "wp (on_runtime m) Q s = wp m (\<lambda>r x. Q r (s\<lparr>wk_runtime := x\<rparr>)) (wk_runtime s)"
  by (auto simp: wp_def on_runtime_def split: prod.splits)

lemma wp_on_server [wp_simps]: "wp (on_server m) Q s = wp m (\<lambda>r c. Q r (s\<lparr>wk_server := c\<rparr>)) (wk_server s)"
  by (auto simp: wp_def on_server_def split: prod.splits)

lemma wp_run: "m s = (r, t) \<Longrightarrow> wp m Q s = Q r t"
  by (simp add: wp_def)

section \<open>Retries\<close>

text \<open>The results of calling the runtime a number of times in a row.\<close>

primrec tries :: "('x, 'a) go \<Rightarrow> nat \<Rightarrow> 'x \<Rightarrow> ((err + 'a) \<times> 'x) list" where
  "tries m 0 x = []"
| "tries m (Suc n) x = m x # tries m n (snd (m x))"

lemma length_tries [simp]: "length (tries m n x) = n"
  by (induction n arbitrary: x) auto

abbreviation failures :: "((err + 'a) \<times> 'x) list \<Rightarrow> nat" where
  "failures ts \<equiv> length (takeWhile (\<lambda>(r, _). isl r) ts)"

lemma run_attempts_tries:
  assumes "\<And>i. we_ctxErr E i = None"
    and "ts = tries (rt_RunWorkload (rn_runtime R) (a_WorkloadID a) (a_Image a) (a_ImagePullSecret a)) (Suc n) (wk_runtime s)"
    and "k = min (failures ts) n"
  shows "run_attempts E R a att (Suc n) s = (fst (ts ! k),
    s\<lparr>wk_runtime := snd (ts ! k), wk_waits := wk_waits s @ map (backoff_of (rn_restartBackoff R)) [att..<att + k]\<rparr>)"
  using assms(2,3)
proof (induction n arbitrary: att s ts k)
  case 0
  then show ?case
    by (cases "rt_RunWorkload (rn_runtime R) (a_WorkloadID a) (a_Image a) (a_ImagePullSecret a) (wk_runtime s)")
      (auto simp: bnd_def attempt_def on_runtime_def ret_def throw_def split: sum.split)
next
  case (Suc n)
  let ?run = "rt_RunWorkload (rn_runtime R) (a_WorkloadID a) (a_Image a) (a_ImagePullSecret a)"
  obtain r x where rx: "?run (wk_runtime s) = (r, x)" by force
  show ?case
  proof (cases r)
    case (Inr c)
    then show ?thesis using Suc.prems rx by (simp add: bnd_def attempt_def on_runtime_def ret_def)
  next
    case (Inl e)
    let ?s = "s\<lparr>wk_runtime := x, wk_waits := wk_waits s @ [backoff_of (rn_restartBackoff R) att]\<rparr>"
    let ?ts = "tries ?run (Suc n) x"
    have step: "run_attempts E R a att (Suc (Suc n)) s = run_attempts E R a (Suc att) (Suc n) ?s"
      using rx Inl assms(1)
      by (simp add: bnd_def seq_def attempt_def on_runtime_def wait_for_def gets_def modify_def del: run_attempts.simps)
        (simp add: run_attempts.simps bnd_def seq_def attempt_def on_runtime_def wait_for_def gets_def modify_def)
    have ts: "ts = (Inl e, x) # ?ts" using Suc.prems(1) rx Inl by (simp only: tries.simps snd_conv)
    then have k: "k = Suc (min (failures ?ts) n)" using Suc.prems(2) by (simp del: tries.simps)
    show ?thesis
      unfolding step Suc.IH [OF HOL.refl HOL.refl, of "Suc att" ?s] ts k
      by (simp add: upt_conv_Cons del: tries.simps upt_Suc)
  qed
qed

text \<open>
  (C21) Starting a workload is tried again after a failure, at most as often as configured and with the wait
  doubled each time: the result is that of the first attempt that succeeds or else of the last, the
  runtime is called no further, and there is one wait before every attempt but the first.
\<close>

theorem retries_exact:
  assumes "\<And>i. we_ctxErr E i = None" and "0 < rn_restartMaxRetries R"
    and "ts = tries (rt_RunWorkload (rn_runtime R) (a_WorkloadID a) (a_Image a) (a_ImagePullSecret a))
           (nat (rn_restartMaxRetries R)) (wk_runtime s)"
    and "k = min (failures ts) (nat (rn_restartMaxRetries R) - 1)"
  shows "runWithBackoff E R a s = (fst (ts ! k), s\<lparr>wk_runtime := snd (ts ! k),
    wk_waits := wk_waits s @ map (\<lambda>i. imul (rn_restartBackoff R) (i64 (2 ^ i))) [0..<k]\<rparr>)"
proof -
  obtain n where n: "nat (rn_restartMaxRetries R) = Suc n" using assms(2) by (metis Suc_pred' zero_less_nat_eq)
  show ?thesis
    using run_attempts_tries [OF assms(1) assms(3) [unfolded n], of k 0] assms(4)
    by (simp add: runWithBackoff_def n backoff_of_def comp_def)
qed
text \<open>A runtime that fails twice before it starts a container.\<close>

definition flaky :: "nat runtime" where
  "flaky = \<lparr>rt_RunWorkload = (\<lambda>_ _ _ n. (if n < 2 then Inl (ErrText ''busy'') else Inr ''c1'', Suc n)),
     rt_StopWorkload = (\<lambda>_ _. ret ()), rt_ListManagedWorkloads = ret []\<rparr>"

definition quiet_client :: "'c AssignmentClient" where
  "quiet_client = \<lparr>cl_RegisterNode = (\<lambda>_. ret ()), cl_Heartbeat = (\<lambda>_ _. ret ()), cl_PollAssignments = (\<lambda>_ _. ret []),
     cl_ListNodeWorkloads = (\<lambda>_. ret []), cl_ReportWorkloadStatus = (\<lambda>_ _ _. ret ())\<rparr>"

definition calm :: worker_env where
  "calm = \<lparr>we_TempDir = ''/tmp'', we_osError = (\<lambda>_. None), we_ctxErr = (\<lambda>_. None)\<rparr>"

theorem retries_exact_witness:
  "runWithBackoff calm (NewRunner ''n1'' quiet_client flaky 0 0) zero_Assignment (new_worker \<lparr>fs_files = [], fs_dirs = [], fs_calls = 0\<rparr> 0 ())
   = (Inr ''c1'', (new_worker \<lparr>fs_files = [], fs_dirs = [], fs_calls = 0\<rparr> 0 ())\<lparr>wk_runtime := 3, wk_waits := [250000000, 500000000]\<rparr>)"
  using retries_exact [of calm "NewRunner ''n1'' quiet_client flaky 0 0", OF _ _ HOL.refl HOL.refl, of zero_Assignment
      "new_worker \<lparr>fs_files = [], fs_dirs = [], fs_calls = 0\<rparr> 0 ()"]
  by (simp add: calm_def NewRunner_def flaky_def new_worker_def eval_nat_numeral imul_def i64_def)

section \<open>Reconciliation\<close>

lemma map_of_desired: "map_of (desired_map ws) i = None \<longleftrightarrow> i \<notin> w_ID ` set ws"
proof -
  have "map_of (foldl (\<lambda>m w. map_put (w_ID w) w m) m ws) i = None \<longleftrightarrow> i \<notin> w_ID ` set ws \<and> map_of m i = None" for m
    by (induction ws arbitrary: m) (auto simp: map_of_put)
  then show ?thesis by (simp add: desired_map_def)
qed

text \<open>The reports the first loop makes, in the order of the map.\<close>

definition failed_reports :: "('x, 'c) Runner \<Rightarrow> string list \<Rightarrow> 'c \<Rightarrow> 'c" where
  "failed_reports R ids c = foldl (\<lambda>c i. snd (cl_ReportWorkloadStatus (rn_client R) i WorkloadFailed [] c)) c ids"

lemma report_missing:
  "for_each ids (\<lambda>i. when_so (P i) (report R i WorkloadFailed [])) s =
   (Inr (), s\<lparr>wk_server := failed_reports R (filter P ids) (wk_server s)\<rparr>)"
proof (induction ids arbitrary: s)
  case (Cons i ids)
  then show ?case
    by (auto simp: seq_def bnd_def when_so_def report_def ignore_def attempt_def on_server_def ret_def failed_reports_def split: prod.splits)
qed (simp add: ret_def failed_reports_def)

lemma ReconcileRuntime_listed:
  assumes "cl_ListNodeWorkloads (rn_client R) (rn_nodeID R) (wk_server s) = (Inr ds, c)"
    and "rt_ListManagedWorkloads (rn_runtime R) (wk_runtime s) = (Inr actual, x)"
  shows "ReconcileRuntime R s = for_each actual (\<lambda>(w, c). when_so (map_of (desired_map ds) w = None)
      (ignore (on_runtime (rt_StopWorkload (rn_runtime R) w c))))
    (s\<lparr>wk_runtime := x, wk_server := failed_reports R (filter (\<lambda>i. map_of actual i = None) (map fst (desired_map ds))) c\<rparr>)"
  using assms by (simp add: ReconcileRuntime_def Let_def bnd_def seq_def on_server_def on_runtime_def report_missing)

lemma ReconcileRuntime_unlisted:
  assumes "cl_ListNodeWorkloads (rn_client R) (rn_nodeID R) (wk_server s) = (Inr ds, c)"
    and "rt_ListManagedWorkloads (rn_runtime R) (wk_runtime s) = (Inl e, x)"
  shows "ReconcileRuntime R s = (Inl e, s\<lparr>wk_server := c, wk_runtime := x\<rparr>)"
  using assms by (simp add: ReconcileRuntime_def Let_def bnd_def on_server_def on_runtime_def)

context container_runtime
begin

text \<open>The second loop: what is not wanted is stopped, unless stopping it fails, and nothing else changes.\<close>

lemma stop_unwanted:
  assumes "rn_runtime R = rt" and "[] \<notin> set (map fst actual)"
  shows "wp (for_each actual (\<lambda>(w, c). when_so (P w) (ignore (on_runtime (rt_StopWorkload (rn_runtime R) w c)))))
    (\<lambda>r t. r = Inr () \<and> (\<exists>y. t = s\<lparr>wk_runtime := y\<rparr>) \<and> (\<forall>w. managed (wk_runtime t) w = managed (wk_runtime s) w \<or>
      P w \<and> w \<in> set (map fst actual) \<and> managed (wk_runtime t) w = None)) s"
proof (rule wp_for_each [where I = "\<lambda>pre t. (\<exists>y. t = s\<lparr>wk_runtime := y\<rparr>) \<and> (\<forall>w. managed (wk_runtime t) w = managed (wk_runtime s) w \<or>
      P w \<and> w \<in> set (map fst pre) \<and> managed (wk_runtime t) w = None)"])
  fix pre x post t
  assume split: "actual = pre @ x # post"
    and I: "(\<exists>y. t = s\<lparr>wk_runtime := y\<rparr>) \<and> (\<forall>w. managed (wk_runtime t) w = managed (wk_runtime s) w \<or>
      P w \<and> w \<in> set (map fst pre) \<and> managed (wk_runtime t) w = None)"
  obtain w c where x: "x = (w, c)" by force
  have w: "w \<noteq> []" using assms(2) split x by auto
  let ?I = "\<lambda>u. (\<exists>y. u = s\<lparr>wk_runtime := y\<rparr>) \<and> (\<forall>w. managed (wk_runtime u) w = managed (wk_runtime s) w \<or>
      P w \<and> w \<in> set (map fst (pre @ [x])) \<and> managed (wk_runtime u) w = None)"
  have "wp (rt_StopWorkload rt w c) (\<lambda>r y. P w \<longrightarrow> ?I (t\<lparr>wk_runtime := y\<rparr>)) (wk_runtime t)"
    by (rule wp_conseq [OF stop [OF w]]) (use I x in \<open>auto split: sum.splits\<close>)
  then show "wp (case x of (w, c) \<Rightarrow> when_so (P w) (ignore (on_runtime (rt_StopWorkload (rn_runtime R) w c))))
      (\<lambda>r u. case r of Inl e \<Rightarrow> Inl e = Inr () \<and> (\<exists>y. u = s\<lparr>wk_runtime := y\<rparr>) \<and> (\<forall>w. managed (wk_runtime u) w = managed (wk_runtime s) w \<or>
        P w \<and> w \<in> set (map fst actual) \<and> managed (wk_runtime u) w = None) | Inr _ \<Rightarrow> ?I u) t"
    using I by (auto simp: x assms(1) wp_simps)
qed (auto intro: exI [of _ "wk_runtime s"])

text \<open>Reconciliation stops no container of a wanted workload, and starts none.\<close>

lemma wp_ReconcileRuntime:
  assumes "rn_runtime R = rt" and "cl_ListNodeWorkloads (rn_client R) (rn_nodeID R) (wk_server s) = (Inr ds, c)"
    and "managed (wk_runtime s) [] = None"
  shows "wp (ReconcileRuntime R) (\<lambda>r t. \<forall>w. managed (wk_runtime t) w = managed (wk_runtime s) w \<or>
    w \<notin> w_ID ` set ds \<and> managed (wk_runtime t) w = None) s"
proof (cases "rt_ListManagedWorkloads rt (wk_runtime s)")
  case (Pair r x)
  note laws = wpD [OF list_all_managed Pair]
  show ?thesis
  proof (cases r)
    case (Inl e)
    then show ?thesis using ReconcileRuntime_unlisted [OF assms(2)] Pair laws by (simp add: wp_def assms(1))
  next
    case (Inr actual)
    then have m: "managed x = managed (wk_runtime s)" "map_of actual = managed (wk_runtime s)" using laws by auto
    then have "[] \<notin> set (map fst actual)" using assms(3) by (metis list.set_map map_of_eq_None_iff)
    note stopped = stop_unwanted [OF assms(1) this, of "\<lambda>w. map_of (desired_map ds) w = None"]
    show ?thesis
      unfolding wp_def ReconcileRuntime_listed [OF assms(2), unfolded assms(1), OF Pair [unfolded Inr]]
      unfolding wp_def [symmetric] using m assms(1) by (intro wp_conseq [OF stopped [unfolded assms(1)]]) (auto simp: map_of_desired)
  qed
qed


end
context reliable_runtime
begin

text \<open>When stopping and listing do not fail, exactly the containers of wanted workloads are left.\<close>

lemma stops_unwanted:
  assumes "rn_runtime R = rt" and "[] \<notin> set (map fst actual)"
  shows "wp (for_each actual (\<lambda>(w, c). when_so (P w) (ignore (on_runtime (rt_StopWorkload (rn_runtime R) w c)))))
    (\<lambda>r t. r = Inr () \<and> (\<exists>y. t = s\<lparr>wk_runtime := y\<rparr> \<and>
      managed y = (\<lambda>w. if P w \<and> w \<in> set (map fst actual) then None else managed (wk_runtime s) w))) s"
proof (rule wp_for_each [where I = "\<lambda>pre t. \<exists>y. t = s\<lparr>wk_runtime := y\<rparr> \<and>
      managed y = (\<lambda>w. if P w \<and> w \<in> set (map fst pre) then None else managed (wk_runtime s) w)"])
  fix pre x post t
  assume split: "actual = pre @ x # post" and "\<exists>y. t = s\<lparr>wk_runtime := y\<rparr> \<and>
      managed y = (\<lambda>w. if P w \<and> w \<in> set (map fst pre) then None else managed (wk_runtime s) w)"
  then obtain y where t: "t = s\<lparr>wk_runtime := y\<rparr>"
    and y: "managed y = (\<lambda>w. if P w \<and> w \<in> set (map fst pre) then None else managed (wk_runtime s) w)" by blast
  obtain w c where x: "x = (w, c)" by force
  have w: "w \<noteq> []" using assms(2) split x by auto
  let ?I = "\<lambda>u. \<exists>y. u = s\<lparr>wk_runtime := y\<rparr> \<and>
      managed y = (\<lambda>w. if P w \<and> w \<in> set (map fst (pre @ [x])) then None else managed (wk_runtime s) w)"
  have keep: "\<not> P w \<Longrightarrow> ?I t" by (rule exI [of _ y]) (auto simp: t x y)
  have "wp (rt_StopWorkload rt w c) (\<lambda>r z. P w \<longrightarrow> ?I (s\<lparr>wk_runtime := z\<rparr>)) y"
    by (rule wp_conseq [OF wp_conj [OF stop [OF w] stop_succeeds]]) (auto simp: y x intro!: exI conjI [OF HOL.refl])
  then show "wp (case x of (w, c) \<Rightarrow> when_so (P w) (ignore (on_runtime (rt_StopWorkload (rn_runtime R) w c))))
      (\<lambda>r u. case r of Inl e \<Rightarrow> Inl e = Inr () \<and> (\<exists>y. u = s\<lparr>wk_runtime := y\<rparr> \<and>
         managed y = (\<lambda>w. if P w \<and> w \<in> set (map fst actual) then None else managed (wk_runtime s) w)) | Inr _ \<Rightarrow> ?I u) t"
    using keep by (cases "P w") (simp_all add: t x assms(1) wp_simps)
qed (auto intro: exI [of _ "wk_runtime s"])

lemma reconciled:
  assumes "rn_runtime R = rt" and "cl_ListNodeWorkloads (rn_client R) (rn_nodeID R) (wk_server s) = (Inr ds, c)"
    and "managed (wk_runtime s) [] = None"
  shows "wp (ReconcileRuntime R) (\<lambda>r t. r = Inr () \<and> managed (wk_runtime t) = managed (wk_runtime s) |` (w_ID ` set ds) \<and>
    wk_server t = failed_reports R (filter (\<lambda>i. managed (wk_runtime s) i = None) (map fst (desired_map ds))) c) s"
proof -
  obtain actual x where l: "rt_ListManagedWorkloads rt (wk_runtime s) = (Inr actual, x)"
    using list_succeeds [of "wk_runtime s"] by (auto simp: wp_def split: prod.splits)
  then have m: "managed x = managed (wk_runtime s)" "map_of actual = managed (wk_runtime s)"
    using wpD [OF list_all_managed l] by auto
  then have "[] \<notin> set (map fst actual)" using assms(3) by (metis list.set_map map_of_eq_None_iff)
  note stopped = stops_unwanted [OF assms(1) this, of "\<lambda>w. map_of (desired_map ds) w = None"]
  have dom: "w \<in> fst ` set actual \<longleftrightarrow> managed (wk_runtime s) w \<noteq> None" for w
    using m(2) by (metis map_of_eq_None_iff)
  show ?thesis
    unfolding wp_def ReconcileRuntime_listed [OF assms(2), unfolded assms(1), OF l]
    unfolding wp_def [symmetric]
    by (rule wp_conseq [OF stopped [unfolded assms(1)]])
      (auto simp: m map_of_desired restrict_map_def fun_eq_iff dom)
qed

end

text \<open>
  (C19) With the runtime in memory, reconciliation leaves exactly the containers of the workloads that the
  server lists for the node: every other container is stopped, none of theirs is touched, and the
  server is told that the ones without a container failed.
\<close>

theorem reconcile_runtime_exact:
  assumes "rn_runtime R = InMemoryRuntime"
    and "cl_ListNodeWorkloads (rn_client R) (rn_nodeID R) (wk_server s) = (Inr ds, c)"
    and "[] \<notin> dom (map_of (wk_runtime s))" and "ReconcileRuntime R s = (r, t)"
  shows "r = Inr () \<and> map_of (wk_runtime t) = map_of (wk_runtime s) |` (w_ID ` set ds) \<and>
    wk_server t = failed_reports R (filter (\<lambda>i. i \<notin> dom (map_of (wk_runtime s))) (map fst (desired_map ds))) c"
  using wpD [OF inmemory.reconciled [OF assms(1,2)] assms(4)] assms(3) by (simp add: domIff)
definition demo_runner :: "(memory, string list) Runner" where
  "demo_runner = NewRunner ''n1'' (quiet_client\<lparr>cl_ListNodeWorkloads := (\<lambda>_. ret [zero_Workload\<lparr>w_ID := ''w1''\<rparr>, zero_Workload\<lparr>w_ID := ''w2''\<rparr>]),
     cl_ReportWorkloadStatus := (\<lambda>i _ _. modify (\<lambda>log. log @ [i]))\<rparr>) InMemoryRuntime 3 1"

definition demo_worker :: "(memory, string list) worker" where
  "demo_worker = new_worker \<lparr>fs_files = [], fs_dirs = [], fs_calls = 0\<rparr> [(''w2'', ''mem-w2''), (''w3'', ''mem-w3'')] []"

theorem reconcile_runtime_exact_witness:
  "\<exists>t. ReconcileRuntime demo_runner demo_worker = (Inr (), t) \<and> map_of (wk_runtime t) = [''w2'' \<mapsto> ''mem-w2''] \<and> wk_server t = [''w1'']"
proof -
  obtain r t where run: "ReconcileRuntime demo_runner demo_worker = (r, t)" by force
  have rt: "rn_runtime demo_runner = InMemoryRuntime" by (simp add: demo_runner_def NewRunner_def)
  have l: "cl_ListNodeWorkloads (rn_client demo_runner) (rn_nodeID demo_runner) (wk_server demo_worker) =
      (Inr [zero_Workload\<lparr>w_ID := ''w1''\<rparr>, zero_Workload\<lparr>w_ID := ''w2''\<rparr>], [])"
    by (simp add: demo_runner_def NewRunner_def quiet_client_def ret_def demo_worker_def new_worker_def)
  have m: "wk_runtime demo_worker = [(''w2'', ''mem-w2''), (''w3'', ''mem-w3'')]" by (simp add: demo_worker_def new_worker_def)
  have "r = Inr () \<and> map_of (wk_runtime t) = map_of (wk_runtime demo_worker) |` {''w1'', ''w2''} \<and> wk_server t = [''w1'']"
    using reconcile_runtime_exact [OF rt l _ run]
    by (simp add: m desired_map_def failed_reports_def demo_runner_def NewRunner_def modify_def)
  moreover have "map_of [(''w2'', ''mem-w2''), (''w3'', ''mem-w3'')] |` {''w1'', ''w2''} = [''w2'' \<mapsto> ''mem-w2'']"
    by (auto simp: restrict_map_def fun_eq_iff)
  ultimately show ?thesis using run m by auto
qed
section \<open>Secret files\<close>

lemma is_file_map_of: "is_file h p \<longleftrightarrow> map_of (fs_files h) p \<noteq> None"
  by (simp add: is_file_def map_of_eq_None_iff)

lemma is_file_updates [simp]: "is_file (h\<lparr>fs_calls := n\<rparr>) = is_file h" "is_file (h\<lparr>fs_dirs := ds\<rparr>) = is_file h"
  by (simp_all add: is_file_def fun_eq_iff)

lemma is_dir_updates [simp]: "is_dir (h\<lparr>fs_calls := n\<rparr>) = is_dir h" "is_dir (h\<lparr>fs_files := fs\<rparr>) = is_dir h"
  by (simp_all add: is_dir_def fun_eq_iff)

lemma wp_os_call:
  "wp (os_call E m) Q h = (case we_osError E (fs_calls h) of
     Some e \<Rightarrow> Q (Inl e) (h\<lparr>fs_calls := Suc (fs_calls h)\<rparr>)
   | None \<Rightarrow> wp m Q (h\<lparr>fs_calls := Suc (fs_calls h)\<rparr>))"
  by (simp add: os_call_def wp_simps split: option.split)

text \<open>\<open>made segs h\<close>: the directory of these elements is there, with the one above it.\<close>

definition made :: "string list \<Rightarrow> host \<Rightarrow> bool" where
  "made segs h \<longleftrightarrow> is_dir h (path_of segs) \<and> is_dir h (path_of (butlast segs)) \<and> \<not> is_file h (path_of segs)"

lemma above_parent: "path_of (butlast segs) = ''/'' \<or> path_of (butlast segs) \<in> set (above (path_of segs))"
proof (cases "butlast segs = []")
  case True
  then show ?thesis by (simp add: path_of_def)
next
  case False
  then have "segs \<noteq> []" by auto
  with path_of_snoc [OF False, of "last segs"] have p: "path_of segs = path_of (butlast segs) @ CHR ''/'' # last segs" by simp
  have "length (path_of (butlast segs)) \<in> set (filter (\<lambda>k. k = length (path_of segs) \<or> path_of segs ! k = CHR ''/'') [1..<Suc (length (path_of segs))])"
    by (simp add: p Suc_le_eq)
  moreover have "take (length (path_of (butlast segs))) (path_of segs) = path_of (butlast segs)" by (simp add: p)
  ultimately show ?thesis unfolding above_def by (metis (mono_tags, lifting) imageI list.set_map)
qed

lemma above_self: "path_of segs \<in> set (above (path_of segs))"
  by (auto simp: above_def Suc_le_eq image_iff intro!: bexI [of _ "length (path_of segs)"])

lemma wp_MkdirAll:
  "wp (MkdirAll E (path_of segs)) (\<lambda>r h'. fs_files h' = fs_files h \<and> (r = Inr () \<longrightarrow> made segs h')) h"
proof -
  have "made segs (h\<lparr>fs_calls := n, fs_dirs := fs_dirs h @ filter (\<lambda>q. \<not> is_dir h q) (above (path_of segs))\<rparr>)"
    if "\<not> list_ex (is_file h) (above (path_of segs))" for n
    using that above_parent [of segs] above_self [of segs]
    by (auto simp: made_def is_dir_def is_file_def list_ex_iff)
  then show ?thesis
    by (auto simp: MkdirAll_def wp_os_call wp_simps split: option.split)
qed

text \<open>What writing does: some new files directly in the directory, whether or not it succeeds.\<close>

definition wrote :: "string list \<Rightarrow> string list \<Rightarrow> host \<Rightarrow> host \<Rightarrow> bool" where
  "wrote segs new h h' \<longleftrightarrow> fs_dirs h' = fs_dirs h \<and> (\<forall>p \<in> set new. \<exists>name. proper name \<and> p = path_of (segs @ [name])) \<and>
     (\<forall>p. p \<notin> set new \<longrightarrow> map_of (fs_files h') p = map_of (fs_files h) p) \<and> (\<forall>p \<in> set new. is_file h' p)"

lemma wrote_Nil: "wrote segs [] h h' \<longleftrightarrow> fs_dirs h' = fs_dirs h \<and> map_of (fs_files h') = map_of (fs_files h)"
  by (auto simp: wrote_def)

lemma wrote_append: "wrote segs xs h h' \<Longrightarrow> wrote segs ys h' h'' \<Longrightarrow> wrote segs (xs @ ys) h h''"
  by (auto simp: wrote_def is_file_map_of)

lemma wrote_made: "wrote segs xs h h' \<Longrightarrow> made segs h \<Longrightarrow> list_all proper segs \<Longrightarrow> segs \<noteq> [] \<Longrightarrow> made segs h'"
  by (auto simp: wrote_def made_def is_dir_def is_file_map_of path_of_snoc)

lemma wp_WriteFile_in:
  assumes "list_all proper segs" and "segs \<noteq> []" and "made segs h" and "name = Base q" and "name \<noteq> []" and "name \<noteq> ''.''"
  shows "wp (WriteFile E (PathJoin [path_of segs, name]) c) (\<lambda>r h'. case r of
    Inl _ \<Rightarrow> wrote segs [] h h' | Inr _ \<Rightarrow> wrote segs [PathJoin [path_of segs, name]] h h') h"
proof -
  consider "proper name" | "PathJoin [path_of segs, name] = path_of segs" | "PathJoin [path_of segs, name] = path_of (butlast segs)"
  proof (cases "name = ''/''")
    case False
    then have "CHR ''/'' \<notin> set name" using Base_cases [of q] assms(4,6) by auto
    then show ?thesis
      using that PathJoin_name [OF assms(1,5)] assms(5,6) by (cases "name = ''..''") (auto simp: proper_def clean_segment_def)
  qed (use that PathJoin_root [OF assms(1)] in auto)
  then show ?thesis
  proof cases
    case 1
    then have "PathJoin [path_of segs, name] = path_of (segs @ [name])"
      using PathJoin_name [OF assms(1,5)] by (simp add: proper_def clean_segment_def)
    then show ?thesis
      using 1 by (auto simp: WriteFile_def wp_os_call wp_simps wrote_def is_file_map_of map_of_put is_dir_def split: option.split)
  qed (use assms(3) in \<open>auto simp: WriteFile_def wp_os_call wp_simps wrote_def made_def is_dir_def split: option.split\<close>)
qed

lemma wp_write_secrets:
  assumes "list_all proper segs" and "segs \<noteq> []" and "made segs (wk_host s)"
  shows "wp (write_secrets E (path_of segs) fs created) (\<lambda>r t. (\<exists>h. t = s\<lparr>wk_host := h\<rparr>) \<and>
    (\<exists>new. wrote segs new (wk_host s) (wk_host t) \<and> (\<forall>cs. r = Inr cs \<longrightarrow> cs = created @ new))) s"
  using assms(3)
proof (induction fs arbitrary: s created)
  case Nil
  show ?case by (auto simp: wp_simps wrote_Nil intro!: exI [of _ "[]"] exI [of _ "wk_host s"])
next
  case (Cons f fs)
  let ?name = "Base (TrimSpace (sf_Path f))" and ?p = "PathJoin [path_of segs, Base (TrimSpace (sf_Path f))]"
  show ?case
  proof (cases "?name = [] \<or> ?name = ''.''")
    case False
    then have n: "?name \<noteq> []" "?name \<noteq> ''.''" by auto
    have IH: "wp (write_secrets E (path_of segs) fs (created @ [?p])) (\<lambda>r t. (\<exists>h. t = s\<lparr>wk_host := h\<rparr>) \<and>
      (\<exists>new. wrote segs new (wk_host s) (wk_host t) \<and> (\<forall>cs. r = Inr cs \<longrightarrow> cs = created @ new))) (s\<lparr>wk_host := h\<rparr>)"
      if h: "wrote segs [?p] (wk_host s) h" for h
    proof (rule wp_conseq [OF Cons.IH [of "s\<lparr>wk_host := h\<rparr>" "created @ [?p]"]])
      show "made segs (wk_host (s\<lparr>wk_host := h\<rparr>))" using wrote_made [OF h Cons.prems assms(1,2)] by simp
    next
      fix r t
      assume "(\<exists>h'. t = s\<lparr>wk_host := h, wk_host := h'\<rparr>) \<and> (\<exists>new. wrote segs new (wk_host (s\<lparr>wk_host := h\<rparr>)) (wk_host t) \<and>
        (\<forall>cs. r = Inr cs \<longrightarrow> cs = (created @ [?p]) @ new))"
      then obtain h' new where t: "t = s\<lparr>wk_host := h'\<rparr>" and new: "wrote segs new h h'"
        and cs: "\<forall>cs. r = Inr cs \<longrightarrow> cs = created @ [?p] @ new" by auto
      show "(\<exists>h. t = s\<lparr>wk_host := h\<rparr>) \<and> (\<exists>new. wrote segs new (wk_host s) (wk_host t) \<and> (\<forall>cs. r = Inr cs \<longrightarrow> cs = created @ new))"
        using t cs wrote_append [OF h new] by (intro conjI exI [of _ h'] exI [of _ "[?p] @ new"]) auto
    qed
    show ?thesis
      unfolding write_secrets.simps Let_def if_not_P [OF False] wp_seq wp_on_host
      by (rule wp_conseq [OF wp_WriteFile_in [OF assms(1,2) Cons.prems HOL.refl n]])
        (auto split: sum.splits intro: IH)
  qed (use Cons in \<open>auto simp: Let_def\<close>)
qed
lemma secret_dir_segs:
  assumes "proper w"
  obtains segs where "secret_dir E w = path_of (segs @ [''orch-secrets'', w])" and "list_all proper (segs @ [''orch-secrets'', w])"
proof -
  have w: "w \<noteq> []" "CHR ''/'' \<notin> set w" using assms by (auto simp: proper_def)
  have o: "proper ''orch-secrets''" by (simp add: proper_def)
  let ?segs = "if we_TempDir E = [] then [] else foldl clean_segment [] (Split (we_TempDir E) CHR ''/'')"
  have "Split (''orch-secrets/'' @ w) CHR ''/'' = [''orch-secrets'', w]"
    using Split_append [of "CHR ''/''" "''orch-secrets''" w] Split_free [OF w(2)] by (simp del: Split.simps)
  then have two: "foldl clean_segment acc (Split (''orch-secrets/'' @ w) CHR ''/'') = acc @ [''orch-secrets'', w]" for acc
    using assms o clean_proper [of "[''orch-secrets'', w]" acc] by (simp del: Split.simps)
  have "secret_dir E w = path_of (?segs @ [''orch-secrets'', w])"
  proof (cases "we_TempDir E = []")
    case True
    then show ?thesis using w two [of "[]"] by (simp add: secret_dir_def PathJoin_def Clean_def path_of_def del: Split.simps)
  next
    case False
    have "Split (we_TempDir E @ CHR ''/'' # ''orch-secrets/'' @ w) CHR ''/'' = Split (we_TempDir E) CHR ''/'' @ Split (''orch-secrets/'' @ w) CHR ''/''"
      by (rule Split_extend)
    then show ?thesis using False w two by (simp add: secret_dir_def PathJoin_def Clean_def path_of_def del: Split.simps)
  qed
  moreover have "list_all proper ?segs" using clean_keeps_proper [of "[]" "Split (we_TempDir E) CHR ''/''"] by (auto dest: Split_pieces)
  ultimately show ?thesis using that assms o by simp
qed

text \<open>\<open>in_dir dir p\<close>: a file directly in a directory.\<close>

definition in_dir :: "string \<Rightarrow> string \<Rightarrow> bool" where
  "in_dir dir p \<longleftrightarrow> (\<exists>name. proper name \<and> p = dir @ ''/'' @ name)"

lemma wrote_in_dir: "wrote segs new h h' \<Longrightarrow> segs \<noteq> [] \<Longrightarrow> p \<in> set new \<Longrightarrow> in_dir (path_of segs) p"
  by (auto simp: wrote_def in_dir_def path_of_snoc)

lemma wp_materializeSecretFiles:
  assumes "secret_dir E w = path_of segs" and "list_all proper segs" and "segs \<noteq> []"
  shows "wp (materializeSecretFiles E w fs) (\<lambda>r t. \<exists>new h. wrote segs new h (wk_host t) \<and> fs_files h = fs_files (wk_host s) \<and>
    (r = Inr () \<and> fs \<noteq> [] \<longrightarrow> made segs h \<and> map_get [] (wk_secretFiles t) w = new)) s"
proof (cases "fs = []")
  case True
  then show ?thesis by (auto simp: materializeSecretFiles_def wp_simps wrote_Nil intro!: exI [of _ "[]"] exI [of _ "wk_host s"])
next
  case False
  have wr: "wp (bnd (write_secrets E (path_of segs) fs []) (\<lambda>created. modify (\<lambda>s. s\<lparr>wk_secretFiles := map_put w created (wk_secretFiles s)\<rparr>)))
     (\<lambda>r t. \<exists>new h. wrote segs new h (wk_host t) \<and> fs_files h = fs_files (wk_host s) \<and>
       (r = Inr () \<and> fs \<noteq> [] \<longrightarrow> made segs h \<and> map_get [] (wk_secretFiles t) w = new)) (s\<lparr>wk_host := h\<rparr>)"
    if "made segs h" "fs_files h = fs_files (wk_host s)" for h
    unfolding wp_bnd
    using that(1) by (intro wp_conseq [OF wp_write_secrets [OF assms(2,3)]])
      (use that in \<open>auto simp: wp_simps map_get_def map_of_put split: sum.splits\<close>)
  show ?thesis
    unfolding materializeSecretFiles_def if_not_P [OF False] Let_def assms(1) wp_seq wp_on_host
    by (rule wp_conseq [OF wp_MkdirAll [of E segs "wk_host s"]])
      (auto split: sum.splits intro: wr intro!: exI [of _ "[]"] simp: wrote_Nil, metis+)
qed

lemma wp_Remove:
  assumes "\<And>i. we_osError E i = None"
  shows "wp (Remove E p) (\<lambda>r h'. map_of (fs_files h') = (map_of (fs_files h))(p := None)) h"
  using assms by (auto simp: Remove_def wp_os_call wp_simps is_file_map_of fun_eq_iff)

lemma wp_cleanupSecretFiles:
  fixes t :: "('x, 'c) worker"
  assumes "\<And>i. we_osError E i = None" and "paths = map_get [] (wk_secretFiles t) w"
  shows "wp (cleanupSecretFiles E w) (\<lambda>r u. \<forall>p. paths = [] \<or> p \<noteq> Dir (hd paths) \<or> \<not> is_file (wk_host t) p \<longrightarrow>
     map_of (fs_files (wk_host u)) p = (if p \<in> set paths then None else map_of (fs_files (wk_host t)) p)) t"
proof -
  let ?left = "\<lambda>pre p. if p \<in> set pre then None else map_of (fs_files (wk_host t)) p"
  have loop: "wp (for_each paths (\<lambda>p. ignore (on_host (Remove E p)))) (\<lambda>r u. r = Inr () \<and> map_of (fs_files (wk_host u)) = ?left paths)
     (t\<lparr>wk_secretFiles := map_delete w (wk_secretFiles t)\<rparr>)"
  proof (rule wp_for_each [where I = "\<lambda>pre u. map_of (fs_files (wk_host u)) = ?left pre"])
    fix pre x post and u :: "('x, 'c) worker"
    assume I: "map_of (fs_files (wk_host u)) = ?left pre"
    show "wp (ignore (on_host (Remove E x))) (\<lambda>r v. case r of Inl e \<Rightarrow> Inl e = Inr () \<and> map_of (fs_files (wk_host v)) = ?left paths
      | Inr _ \<Rightarrow> map_of (fs_files (wk_host v)) = ?left (pre @ [x])) u"
      unfolding wp_ignore wp_on_host by (rule wp_conseq [OF wp_Remove [OF assms(1)]]) (auto simp: I fun_eq_iff)
  qed (auto simp: fun_eq_iff)
  show ?thesis
    unfolding cleanupSecretFiles_def wp_bnd wp_gets sum.case assms(2) [symmetric] wp_seq wp_modify
    by (rule wp_conseq [OF loop], auto simp: wp_when wp_ignore wp_on_host,
        rule wp_conseq [OF wp_Remove [OF assms(1)]], auto simp: is_file_map_of)
qed
lemma Dir_in_dir:
  assumes "in_dir (path_of segs) p" and "list_all proper segs" and "segs \<noteq> []"
  shows "Dir p = path_of segs"
  using assms Dir_snoc [OF assms(2) _ assms(3)] by (auto simp: in_dir_def path_of_snoc [OF assms(3), symmetric])

text \<open>
  (C20) The secret files of a workload go nowhere but into its own directory, whatever their names contain and
  also when writing one of them fails. When they were all written, cleaning up removes every one of
  them and leaves all other files of the host as they were.
\<close>

theorem secret_files_confined:
  assumes "proper w" and "materializeSecretFiles E w fs s = (r, t)" and "created = map_get [] (wk_secretFiles t) w"
  shows "(\<forall>p. map_of (fs_files (wk_host t)) p \<noteq> map_of (fs_files (wk_host s)) p \<longrightarrow> in_dir (secret_dir E w) p) \<and>
    (r = Inr () \<and> fs \<noteq> [] \<and> (\<forall>i. we_osError E i = None) \<longrightarrow> (\<forall>p. map_of (fs_files (wk_host (snd (cleanupSecretFiles E w t)))) p =
      (if p \<in> set created then None else map_of (fs_files (wk_host s)) p) \<and> (p \<in> set created \<longrightarrow> in_dir (secret_dir E w) p)))"
proof -
  obtain tmp where d: "secret_dir E w = path_of (tmp @ [''orch-secrets'', w])" and proper: "list_all proper (tmp @ [''orch-secrets'', w])"
    using secret_dir_segs [OF assms(1)] by blast
  let ?segs = "tmp @ [''orch-secrets'', w]"
  have ne: "?segs \<noteq> []" by simp
  obtain new h where wr: "wrote ?segs new h (wk_host t)" and h: "fs_files h = fs_files (wk_host s)"
    and ok: "r = Inr () \<and> fs \<noteq> [] \<longrightarrow> made ?segs h \<and> created = new"
    using wpD [OF wp_materializeSecretFiles [OF d proper ne] assms(2)] unfolding assms(3) by blast
  note inside = wrote_in_dir [OF wr ne]
  have same: "p \<notin> set new \<Longrightarrow> map_of (fs_files (wk_host t)) p = map_of (fs_files (wk_host s)) p" for p
    using wr h by (simp add: wrote_def)
  have "map_of (fs_files (wk_host (snd (cleanupSecretFiles E w t)))) p = (if p \<in> set new then None else map_of (fs_files (wk_host s)) p)"
    if "r = Inr () \<and> fs \<noteq> []" "\<forall>i. we_osError E i = None" for p
  proof -
    have "made ?segs (wk_host t)" using wrote_made [OF wr _ proper ne] ok that(1) by blast
    then have "new = [] \<or> p \<noteq> Dir (hd new) \<or> \<not> is_file (wk_host t) p"
      using Dir_in_dir [OF inside proper ne, of "hd new"] by (auto simp: made_def)
    moreover have "new = map_get [] (wk_secretFiles t) w" using ok that(1) assms(3) by simp
    ultimately show ?thesis
      using wp_cleanupSecretFiles [of E new t w] that(2) same by (auto simp: wp_def split: prod.splits)
  qed
  then show ?thesis using ok inside same unfolding d by blast
qed
theorem secret_files_confined_witness:
  "let s = materializeSecretFiles calm ''w1'' [\<lparr>sf_Path = ''../../etc/passwd'', sf_Content = ''root''\<rparr>] demo_worker in
   fst s = Inr () \<and> map_of (fs_files (wk_host (snd s))) ''/tmp/orch-secrets/w1/passwd'' = Some ''root'' \<and>
   map_of (fs_files (wk_host (snd (cleanupSecretFiles calm ''w1'' (snd s))))) ''/tmp/orch-secrets/w1/passwd'' = None"
  (is "let s = ?run in _")
proof -
  obtain r t where run: "?run = (r, t)" by force
  have "fst ?run = Inr ()" and c: "map_get [] (wk_secretFiles (snd ?run)) ''w1'' = [''/tmp/orch-secrets/w1/passwd'']"
    and w: "map_of (fs_files (wk_host (snd ?run))) ''/tmp/orch-secrets/w1/passwd'' = Some ''root''" by code_simp+
  then have r: "r = Inr ()" and c': "[''/tmp/orch-secrets/w1/passwd''] = map_get [] (wk_secretFiles t) ''w1''" by (simp_all add: run)
  have p: "proper ''w1''" by (simp add: proper_def)
  have e: "\<forall>i. we_osError calm i = None" by (simp add: calm_def)
  show ?thesis using secret_files_confined [OF p run c'] w e by (simp add: run r)
qed
section \<open>Used resources\<close>

text \<open>Cleaning up touches the files only.\<close>

definition files_only :: "('x, 'c) worker \<Rightarrow> ('x, 'c) worker \<Rightarrow> bool" where
  "files_only s t \<longleftrightarrow> wk_used t = wk_used s \<and> wk_runtime t = wk_runtime s \<and> wk_server t = wk_server s \<and> wk_waits t = wk_waits s"

interpretation files_only: frame files_only
  by unfold_locales (auto simp: files_only_def)

lemma files_only_host: "stays files_only (on_host m)"
  by (auto simp: stays_def on_host_def files_only_def split: prod.splits)

lemma wp_cleanup_files_only: "wp (cleanupSecretFiles E w) (\<lambda>r t. r = Inr () \<and> files_only s t) s"
proof -
  have host: "wp (ignore (on_host m)) (\<lambda>r v. r = Inr () \<and> files_only s v) u" if "files_only s u" for m and u :: "('a, 'b) worker"
    unfolding wp_ignore by (rule wp_conseq [OF stays_wp [OF files_only_host]]) (use that files_only.trans in auto)
  show ?thesis
    unfolding cleanupSecretFiles_def wp_bnd wp_gets sum.case wp_seq wp_modify
    by (rule wp_for_each [where I = "\<lambda>_. files_only s"])
      (auto simp: files_only_def [of s "s\<lparr>wk_secretFiles := _\<rparr>"] wp_when intro: host intro!: wp_conseq [OF host])
qed

text \<open>The resources of a deletion are given back whether or not the workload had a container: deleting a workload
  that never started gives back what another one uses.\<close>

lemma delete_releases_unused:
  assumes "rn_runtime R = InMemoryRuntime"
  shows "wp (process_delete E R a) (\<lambda>r t. wk_used t = release_used (wk_used s) (a_Resources a)) s"
  unfolding process_delete_def wp_seq
proof (rule wp_conseq [OF wp_cleanup_files_only], goal_cases)
  case (1 r t)
  have stop: "wp (rt_StopWorkload InMemoryRuntime w c) (\<lambda>r x. r = Inr ()) m" for w c m
    by (simp add: InMemoryRuntime_def mem_stop_succeeds)
  have rep: "wp (report R i st c) (\<lambda>r u. wk_used u = wk_used v) v" for i st c and v :: "(memory, 'a) worker"
    by (simp add: report_def wp_simps wp_any)
  have r: "r = Inr ()" and u: "wk_used t = wk_used s" using 1 by (simp_all add: files_only_def)
  show ?case
    unfolding assms r sum.case wp_bnd wp_attempt wp_on_runtime
    by (rule wp_conseq [OF stop]) (auto simp: wp_seq wp_modify u intro!: wp_conseq [OF rep])
qed

text \<open>The used resources a worker reports are never negative after a deletion.\<close>

lemma release_used_nonneg: "0 \<le> MilliCPU (release_used u r) \<and> 0 \<le> MemoryMB (release_used u r)"
  by (simp add: release_used_def Let_def)

text \<open>A worker counts every assignment it was given, also those that failed.\<close>

lemma wp_process_all:
  assumes "in64 (n + int (length as))" and "in64 n" and "\<And>a t. a \<in> set as \<Longrightarrow> wp (process_assignment E R a) (\<lambda>r u. \<exists>x. r = Inr x) t"
  shows "wp (process_all E R as n) (\<lambda>r t. r = Inr (n + int (length as))) s"
  using assms
proof (induction as arbitrary: n s)
  case (Cons a as)
  have n: "in64 (n + 1)" "iadd n 1 = n + 1" using Cons.prems(1,2) by (auto simp: in64_def intro: iadd_id)
  show ?case
    unfolding process_all.simps wp_seq n(2)
    by (rule wp_conseq [OF Cons.prems(3)]) (use Cons.IH [of "n + 1"] Cons.prems n in \<open>auto simp: algebra_simps\<close>)
qed (simp add: wp_ret)

end
