(* ===== verification/Agent.thy ===== *)
theory Agent
  imports Worker
begin

text \<open>
  The HTTP client of a worker (\<^verbatim>\<open>internal/agent/client.go\<close>) and its resolver for sidecars
  (\<^verbatim>\<open>internal/agent/sidecar_resolver.go\<close>). The network, the check of a URL, the random source, the clock and
  JSON are parameters; a request is the method, URL, headers and body that the client puts together.
  The client provides the interface the worker relies on.
\<close>

section \<open>Requests\<close>

record SidecarDNSRecord =
  sd_Name :: string
  sd_TTLSeconds :: int
  sd_Endpoints :: "ServiceEndpoint list"
  sd_CacheStrategy :: string

record 'n agent_env =
  ag_Do :: "http_request \<Rightarrow> ('n, http_response) go"
  ag_urlError :: "string \<Rightarrow> err option"
  ag_random :: "nat \<Rightarrow> err + string"
  ag_unixNano :: "nat \<Rightarrow> int"
  ag_marshalNode :: "Node \<Rightarrow> err + string"
  ag_marshalUsed :: "Resource \<Rightarrow> err + string"
  ag_marshalStatus :: "WorkloadStatus \<times> string \<Rightarrow> err + string"
  ag_decodeAssignments :: "string \<Rightarrow> err + Assignment list"
  ag_decodeWorkloads :: "string \<Rightarrow> err + Workload list"
  ag_decodeSidecar :: "string \<Rightarrow> err + SidecarDNSRecord"

text \<open>The state behind the client: the number of requests so far and the network.\<close>

record 'n agent =
  ag_calls :: nat
  ag_net :: 'n

definition on_net :: "('n, 'a) go \<Rightarrow> ('n agent, 'a) go" where
  "on_net m s = (case m (ag_net s) of (r, n) \<Rightarrow> (r, s\<lparr>ag_net := n\<rparr>))"

section \<open>The client\<close>

record Client =
  ac_baseURL :: string
  ac_token :: string

definition NewClientWithHTTPClient :: "string \<Rightarrow> string \<Rightarrow> Client" where
  "NewClientWithHTTPClient baseURL tok = \<lparr>ac_baseURL = TrimRight baseURL CHR ''/'', ac_token = tok\<rparr>"

definition NewClient :: "string \<Rightarrow> string \<Rightarrow> Client" where
  "NewClient baseURL tok = NewClientWithHTTPClient baseURL tok"

text \<open>\<^verbatim>\<open>hex.EncodeToString\<close>\<close>

definition hex_digit :: "nat \<Rightarrow> char" where
  "hex_digit d = (if d < 10 then char_of (48 + d) else char_of (87 + d))"

definition EncodeHex :: "string \<Rightarrow> string" where
  "EncodeHex s = concat (map (\<lambda>c. [hex_digit (of_char c div 16), hex_digit (of_char c mod 16)]) s)"

definition newTraceID :: "'n agent_env \<Rightarrow> ('n agent, string) go" where
  "newTraceID A = bnd (gets ag_calls) (\<lambda>n. seq (modify (\<lambda>s. s\<lparr>ag_calls := Suc n\<rparr>))
     (ret (case ag_random A n of
       Inl _ \<Rightarrow> ''trace-'' @ show_int (ag_unixNano A n)
     | Inr b \<Rightarrow> ''trace-'' @ EncodeHex b)))"

definition attachAuth :: "'n agent_env \<Rightarrow> Client \<Rightarrow> http_request \<Rightarrow> ('n agent, http_request) go" where
  "attachAuth A c req = (let
     req = (if ac_token c \<noteq> [] then set_header_of ''Authorization'' (''Bearer '' @ ac_token c) req else req) in
     bnd (newTraceID A) (\<lambda>t. ret (set_header_of ''X-Trace-ID'' t req)))"

definition get :: "'n agent_env \<Rightarrow> Client \<Rightarrow> string \<Rightarrow> ('n agent, http_response) go" where
  "get A c url = bnd (NewRequest (ag_urlError A) ''GET'' url []) (\<lambda>req. bnd (attachAuth A c req) (\<lambda>req. on_net (ag_Do A req)))"

definition client_PollAssignments :: "'n agent_env \<Rightarrow> Client \<Rightarrow> string \<Rightarrow> int \<Rightarrow> ('n agent, Assignment list) go" where
  "client_PollAssignments A c nodeID mx =
     bnd (get A c (ac_baseURL c @ ''/v1/workers/'' @ nodeID @ ''/assignments?max='' @ show_int mx)) (\<lambda>resp.
     if cp_Status resp \<ge> 300 then throw (ErrText (''poll assignments failed: '' @ TrimSpace (cp_Body resp)))
     else decoding (ag_decodeAssignments A) resp)"

definition client_ListNodeWorkloads :: "'n agent_env \<Rightarrow> Client \<Rightarrow> string \<Rightarrow> ('n agent, Workload list) go" where
  "client_ListNodeWorkloads A c nodeID =
     bnd (get A c (ac_baseURL c @ ''/v1/workers/'' @ nodeID @ ''/workloads'')) (\<lambda>resp.
     if cp_Status resp \<ge> 300 then throw (ErrText (''list node workloads failed: '' @ TrimSpace (cp_Body resp)))
     else decoding (ag_decodeWorkloads A) resp)"

text \<open>\<^verbatim>\<open>post\<close> of an encoded body; every caller passes \<^verbatim>\<open>nil\<close> for the result.\<close>

definition post :: "'n agent_env \<Rightarrow> Client \<Rightarrow> string \<Rightarrow> err + string \<Rightarrow> ('n agent, unit) go" where
  "post A c path blob = (case blob of
     Inl e \<Rightarrow> throw e
   | Inr body \<Rightarrow> bnd (NewRequest (ag_urlError A) ''POST'' (ac_baseURL c @ path) body) (\<lambda>req.
       bnd (attachAuth A c (set_header_of ''Content-Type'' ''application/json'' req)) (\<lambda>req.
       bnd (on_net (ag_Do A req)) (\<lambda>resp.
       if cp_Status resp \<ge> 300
       then throw (ErrText (''request failed ('' @ show_int (cp_Status resp) @ ''): '' @ TrimSpace (cp_Body resp)))
       else ret ()))))"

definition client_RegisterNode :: "'n agent_env \<Rightarrow> Client \<Rightarrow> Node \<Rightarrow> ('n agent, unit) go" where
  "client_RegisterNode A c node = post A c ''/v1/nodes/register'' (ag_marshalNode A node)"

definition client_Heartbeat :: "'n agent_env \<Rightarrow> Client \<Rightarrow> string \<Rightarrow> Resource \<Rightarrow> ('n agent, unit) go" where
  "client_Heartbeat A c nodeID used = post A c (''/v1/nodes/'' @ nodeID @ ''/heartbeat'') (ag_marshalUsed A used)"

definition client_ReportWorkloadStatus ::
  "'n agent_env \<Rightarrow> Client \<Rightarrow> string \<Rightarrow> WorkloadStatus \<Rightarrow> string \<Rightarrow> ('n agent, unit) go" where
  "client_ReportWorkloadStatus A c workloadID status containerID =
     post A c (''/v1/workloads/'' @ workloadID @ ''/status'') (ag_marshalStatus A (status, containerID))"

definition AgentClient :: "'n agent_env \<Rightarrow> Client \<Rightarrow> 'n agent AssignmentClient" where
  "AgentClient A c = \<lparr>cl_RegisterNode = client_RegisterNode A c, cl_Heartbeat = client_Heartbeat A c,
     cl_PollAssignments = client_PollAssignments A c, cl_ListNodeWorkloads = client_ListNodeWorkloads A c,
     cl_ReportWorkloadStatus = client_ReportWorkloadStatus A c\<rparr>"

section \<open>The resolver of sidecars\<close>

text \<open>\<^verbatim>\<open>url.QueryEscape\<close>\<close>

definition is_letter :: "char \<Rightarrow> bool" where
  "is_letter c \<longleftrightarrow> (let n = of_char c :: nat in 65 \<le> n \<and> n \<le> 90 \<or> 97 \<le> n \<and> n \<le> 122)"

definition unreserved :: "char \<Rightarrow> bool" where
  "unreserved c \<longleftrightarrow> is_letter c \<or> is_digit c \<or> List.member ''-_.~'' c"

definition QueryEscape :: "string \<Rightarrow> string" where
  "QueryEscape s = concat (map (\<lambda>c. if unreserved c then [c] else if c = CHR '' '' then ''+''
     else CHR ''%'' # map upper_char [hex_digit (of_char c div 16), hex_digit (of_char c mod 16)]) s)"

definition ResolveForSidecar :: "'n agent_env \<Rightarrow> Client \<Rightarrow> string \<Rightarrow> ('n agent, SidecarDNSRecord) go" where
  "ResolveForSidecar A c serviceName =
     bnd (get A c (ac_baseURL c @ ''/v1/dns/sidecar/resolve?name='' @ QueryEscape serviceName)) (\<lambda>resp.
     if cp_Status resp \<ge> 300 then throw (ErrText (''sidecar resolve failed: '' @ cp_Body resp))
     else decoding (ag_decodeSidecar A) resp)"

section \<open>Requests that are made\<close>

lemma wp_on_net [wp_simps]: "wp (on_net m) Q s = wp m (\<lambda>r n. Q r (s\<lparr>ag_net := n\<rparr>)) (ag_net s)"
  by (auto simp: wp_def on_net_def split: prod.splits)

text \<open>What the client sends: the URL and the body as they are put together, the token as a bearer token and a trace id
  that is never empty.\<close>

definition sent :: "Client \<Rightarrow> string \<Rightarrow> string \<Rightarrow> string \<Rightarrow> http_request \<Rightarrow> bool" where
  "sent c method url body q \<longleftrightarrow> cq_Method q = method \<and> cq_URL q = url \<and> cq_Body q = body \<and>
     map_of (cq_Header q) ''Authorization'' = (if ac_token c = [] then None else Some (''Bearer '' @ ac_token c)) \<and>
     (\<exists>t. map_of (cq_Header q) ''X-Trace-ID'' = Some (''trace-'' @ t)) \<and>
     (\<forall>k. k \<notin> {''Authorization'', ''Content-Type'', ''X-Trace-ID''} \<longrightarrow> map_of (cq_Header q) k = None)"

lemma wp_newTraceID:
  assumes "\<And>t. P (Inr (''trace-'' @ t)) (s\<lparr>ag_calls := Suc (ag_calls s)\<rparr>)"
  shows "wp (newTraceID A) P s"
  using assms by (auto simp: newTraceID_def wp_simps split: sum.split)

lemma wp_post:
  assumes "ag_urlError A (ac_baseURL c @ path) = None"
    and "\<And>q. sent c ''POST'' (ac_baseURL c @ path) body q \<Longrightarrow> wp (ag_Do A q) (\<lambda>r n. case r of
      Inl e \<Rightarrow> Q (Inl e) (s\<lparr>ag_calls := Suc (ag_calls s), ag_net := n\<rparr>)
    | Inr resp \<Rightarrow> (cp_Status resp < 300 \<longrightarrow> Q (Inr ()) (s\<lparr>ag_calls := Suc (ag_calls s), ag_net := n\<rparr>)) \<and>
        (300 \<le> cp_Status resp \<longrightarrow> (\<forall>e. Q (Inl e) (s\<lparr>ag_calls := Suc (ag_calls s), ag_net := n\<rparr>)))) (ag_net s)"
  shows "wp (post A c path (Inr body)) Q s"
proof -
  let ?h = "if ac_token c \<noteq> [] then map_put ''Authorization'' (''Bearer '' @ ac_token c) [(''Content-Type'', ''application/json'')]
    else [(''Content-Type'', ''application/json'')]"
  have "sent c ''POST'' (ac_baseURL c @ path) body \<lparr>cq_Method = ''POST'', cq_URL = ac_baseURL c @ path,
    cq_Header = map_put ''X-Trace-ID'' (''trace-'' @ t) ?h, cq_Body = body\<rparr>" for t
    by (simp add: sent_def map_of_put)
  from assms(2) [OF this] show ?thesis
    unfolding post_def NewRequest_def attachAuth_def set_header_of_def Let_def assms(1) sum.case option.case bnd_ret
    by (auto simp: wp_bnd wp_ret wp_on_net wp_throw intro!: wp_newTraceID)
      (drule meta_spec, erule wp_conseq, auto split: sum.splits simp: wp_throw wp_ret)+
qed

end
