(* ===== verification/Auth.thy ===== *)
theory Auth
  imports Go_Text Go_Effects
begin

text \<open>
  Authentication of requests (\<^verbatim>\<open>internal/auth/auth.go\<close>): the bearer token is compared with the static
  token, or checked as a JWT with the shared secret, or as an OIDC token with a key of the JWKS
  endpoint, whose keys are cached for five minutes.

  The JWT library is a parameter (\<open>auth_env\<close>): \<open>ja_header\<close> parses a token without verifying it, and
  \<open>ja_verify\<close> checks its signature with a key and the registered claims at a time;
  \<^verbatim>\<open>ParseWithClaims\<close> calls the key function in between. The HTTP request to the JWKS endpoint and the
  clock are parameters as well.
\<close>

section \<open>Tokens, keys and claims\<close>

datatype claim = CString string | CList "claim list" | CStrings "string list" | COther

type_synonym claims = "claim gomap"

datatype jwt_key = HMACKey string | RSAKey nat int

record JWK =
  jwk_Kty :: string
  jwk_Kid :: string
  jwk_N :: string
  jwk_E :: string

record jwt_header =
  jh_Alg :: string
  jh_Fields :: claims

record auth_env =
  ja_clock :: "nat \<Rightarrow> gotime"
  ja_header :: "string \<Rightarrow> err + jwt_header"
  ja_verify :: "string \<Rightarrow> jwt_key \<Rightarrow> gotime \<Rightarrow> err + claims"
  ja_httpGet :: "nat \<Rightarrow> string \<Rightarrow> err + (int \<times> (err + JWK list))"

datatype Mode = ModeStatic | ModeJWT | ModeHybrid | ModeOIDC | ModeOther string

definition mode_of :: "string \<Rightarrow> Mode" where
  "mode_of s = (if s = ''static'' then ModeStatic else if s = ''jwt'' then ModeJWT else if s = ''hybrid'' then ModeHybrid
     else if s = ''oidc'' then ModeOIDC else ModeOther s)"

record Principal =
  p_Subject :: string
  p_Roles :: "string list"
  p_Source :: string

text \<open>The settings of a verifier and the part of it that changes, the cached keys.\<close>

record Verifier =
  vf_mode :: Mode
  vf_staticTok :: string
  vf_jwtSecret :: string
  vf_issuer :: string
  vf_audience :: string
  vf_jwksURL :: string
  vf_jwksRefreshAfter :: duration

record jwks_cache =
  jc_tick :: nat
  jc_resolvedJWKKeys :: "jwt_key gomap"
  jc_lastJWKSRefresh :: gotime

type_synonym 'a authn = "(jwks_cache, 'a) go"

definition NewVerifier :: "string \<Rightarrow> string \<Rightarrow> string \<Rightarrow> string \<Rightarrow> string \<Rightarrow> string \<Rightarrow> Verifier \<times> jwks_cache" where
  "NewVerifier mode staticTok jwtSecret issuer audience jwksURL = (let
     m = ToLower (TrimSpace mode);
     m = (if m = [] then ModeStatic else mode_of m) in
     (\<lparr>vf_mode = m, vf_staticTok = TrimSpace staticTok, vf_jwtSecret = TrimSpace jwtSecret, vf_issuer = TrimSpace issuer,
       vf_audience = TrimSpace audience, vf_jwksURL = TrimSpace jwksURL, vf_jwksRefreshAfter = 5 * 60 * Second\<rparr>,
      \<lparr>jc_tick = 0, jc_resolvedJWKKeys = [], jc_lastJWKSRefresh = zero_time\<rparr>))"

definition auth_now :: "auth_env \<Rightarrow> gotime authn" where
  "auth_now A c = (Inr (ja_clock A (jc_tick c)), c\<lparr>jc_tick := Suc (jc_tick c)\<rparr>)"

definition ParseWithClaims :: "auth_env \<Rightarrow> string \<Rightarrow> (jwt_header \<Rightarrow> jwt_key authn) \<Rightarrow> claims authn" where
  "ParseWithClaims A token keyFunc = (case ja_header A token of
     Inl e \<Rightarrow> throw e
   | Inr h \<Rightarrow> bnd (keyFunc h) (\<lambda>key. bnd (auth_now A) (\<lambda>now. case ja_verify A token key now of
       Inl e \<Rightarrow> throw e
     | Inr claims \<Rightarrow> ret claims)))"

text \<open>\<^verbatim>\<open>got, _ := claims[name].(string)\<close>\<close>

definition string_claim :: "claims \<Rightarrow> string \<Rightarrow> string" where
  "string_claim claims name = (case map_of claims name of Some (CString s) \<Rightarrow> s | _ \<Rightarrow> [])"

definition role_names :: "string list \<Rightarrow> string list" where
  "role_names ss = map TrimSpace (filter (\<lambda>s. \<not> blank s) ss)"

fun string_items :: "claim list \<Rightarrow> string list" where
  "string_items [] = []"
| "string_items (CString s # xs) = s # string_items xs"
| "string_items (_ # xs) = string_items xs"

definition extractRoles :: "claims \<Rightarrow> string list" where
  "extractRoles claims = (case map_of claims ''roles'' of
     Some (CList items) \<Rightarrow> role_names (string_items items)
   | Some (CStrings ss) \<Rightarrow> role_names ss
   | Some (CString s) \<Rightarrow> role_names [s]
   | _ \<Rightarrow> [])"

definition claimHasAudience :: "claim option \<Rightarrow> string \<Rightarrow> bool" where
  "claimHasAudience raw expected = (let expected = TrimSpace expected in
     if expected = [] then True
     else case raw of
       Some (CString s) \<Rightarrow> TrimSpace s = expected
     | Some (CList items) \<Rightarrow> list_ex (\<lambda>s. TrimSpace s = expected) (string_items items)
     | _ \<Rightarrow> False)"

section \<open>Keys of the JWKS endpoint\<close>

text \<open>\<^verbatim>\<open>base64.RawURLEncoding\<close>: six bits per character, line ends are skipped.\<close>

definition sextet :: "char \<Rightarrow> nat option" where
  "sextet c = (let n = (of_char c :: nat) in
     if 65 \<le> n \<and> n \<le> 90 then Some (n - 65)
     else if 97 \<le> n \<and> n \<le> 122 then Some (n - 71)
     else if 48 \<le> n \<and> n \<le> 57 then Some (n + 4)
     else if c = CHR ''-'' then Some 62
     else if c = CHR ''_'' then Some 63
     else None)"

fun bytes_of_sextets :: "nat list \<Rightarrow> nat list option" where
  "bytes_of_sextets [] = Some []"
| "bytes_of_sextets [a] = None"
| "bytes_of_sextets [a, b] = Some [4 * a + b div 16]"
| "bytes_of_sextets [a, b, c] = Some [4 * a + b div 16, 16 * (b mod 16) + c div 4]"
| "bytes_of_sextets (a # b # c # d # r) = map_option
     (\<lambda>bs. [4 * a + b div 16, 16 * (b mod 16) + c div 4, 64 * (c mod 4) + d] @ bs) (bytes_of_sextets r)"

definition RawURLDecode :: "string \<Rightarrow> nat list option" where
  "RawURLDecode s = (case those (map sextet (filter (\<lambda>c. c \<noteq> CHR 0x0A \<and> c \<noteq> CHR 0x0D) s)) of
     None \<Rightarrow> None | Some ss \<Rightarrow> bytes_of_sextets ss)"

definition jwkRSAToPublicKey :: "string \<Rightarrow> string \<Rightarrow> jwt_key option" where
  "jwkRSAToPublicKey nRaw eRaw = (case RawURLDecode (TrimSpace nRaw) of
     None \<Rightarrow> None
   | Some nBytes \<Rightarrow> (case RawURLDecode (TrimSpace eRaw) of
       None \<Rightarrow> None
     | Some eBytes \<Rightarrow> (let
         n = foldl (\<lambda>v b. 256 * v + b) 0 nBytes;
         e = foldl (\<lambda>v b. iadd (imul v 256) (int b)) 0 eBytes in
         if e \<le> 0 then None else Some (RSAKey n e))))"

definition usable_key :: "JWK \<Rightarrow> (string \<times> jwt_key) option" where
  "usable_key k = (if ToUpper (TrimSpace (jwk_Kty k)) \<noteq> ''RSA'' \<or> blank (jwk_Kid k) then None
     else map_option (Pair (jwk_Kid k)) (jwkRSAToPublicKey (jwk_N k) (jwk_E k)))"

definition refreshJWKSLocked :: "auth_env \<Rightarrow> Verifier \<Rightarrow> unit authn" where
  "refreshJWKSLocked A v = bnd (\<lambda>c. (Inr (ja_httpGet A (jc_tick c) (vf_jwksURL v)), c\<lparr>jc_tick := Suc (jc_tick c)\<rparr>)) (\<lambda>answer. case answer of
     Inl e \<Rightarrow> throw e
   | Inr (status, body) \<Rightarrow>
     if status < 200 \<or> status \<ge> 300 then throw (ErrText (''jwks endpoint returned status '' @ show_int status))
     else case body of
       Inl e \<Rightarrow> throw e
     | Inr ks \<Rightarrow> let keys = foldl (\<lambda>m (kid, key). map_put kid key m) [] (List.map_filter usable_key ks) in
       bnd (auth_now A) (\<lambda>now.
       seq (modify (\<lambda>c. c\<lparr>jc_resolvedJWKKeys := keys, jc_lastJWKSRefresh := now\<rparr>))
       (if keys = [] then throw (ErrText ''no usable rsa keys found in jwks'') else ret ())))"

text \<open>The test is made once under the read lock and once more under the write lock; nothing changes in between
  in a sequential run, so it is written once.\<close>

definition cached_key :: "Verifier \<Rightarrow> string \<Rightarrow> gotime \<Rightarrow> jwks_cache \<Rightarrow> jwt_key option" where
  "cached_key v kid now c = (case map_of (jc_resolvedJWKKeys c) kid of
     None \<Rightarrow> None
   | Some key \<Rightarrow> if time_sub now (jc_lastJWKSRefresh c) < vf_jwksRefreshAfter v then Some key else None)"

definition resolveJWKKeyByKID :: "auth_env \<Rightarrow> Verifier \<Rightarrow> string \<Rightarrow> jwt_key authn" where
  "resolveJWKKeyByKID A v kid = bnd (auth_now A) (\<lambda>now. bnd (gets (cached_key v kid now)) (\<lambda>hit. case hit of
     Some key \<Rightarrow> ret key
   | None \<Rightarrow> seq (refreshJWKSLocked A v) (bnd (gets jc_resolvedJWKKeys) (\<lambda>keys. case map_of keys kid of
       None \<Rightarrow> throw (ErrText (''kid not found in jwks: '' @ kid))
     | Some key \<Rightarrow> ret key))))"

section \<open>Verification\<close>

definition verifyStatic :: "Verifier \<Rightarrow> string \<Rightarrow> Principal authn" where
  "verifyStatic v token =
     (if vf_staticTok v = [] \<or> token \<noteq> vf_staticTok v then throw (ErrText ''invalid static token'')
      else ret \<lparr>p_Subject = ''static-token'', p_Roles = [''admin''], p_Source = ''static''\<rparr>)"

definition principal_of :: "claims \<Rightarrow> string \<Rightarrow> Principal" where
  "principal_of claims source = (let roles = extractRoles claims in
     \<lparr>p_Subject = string_claim claims ''sub'', p_Roles = (if roles = [] then [''viewer''] else roles), p_Source = source\<rparr>)"

definition hmac_key :: "Verifier \<Rightarrow> jwt_header \<Rightarrow> jwt_key authn" where
  "hmac_key v t = (if jh_Alg t \<noteq> ''HS256'' then throw (ErrText (''unexpected signing method: '' @ jh_Alg t))
     else ret (HMACKey (vf_jwtSecret v)))"

definition verifyJWT :: "auth_env \<Rightarrow> Verifier \<Rightarrow> string \<Rightarrow> Principal authn" where
  "verifyJWT A v token =
     (if vf_jwtSecret v = [] then throw (ErrText ''jwt secret not configured'')
      else bnd (attempt (ParseWithClaims A token (hmac_key v))) (\<lambda>r. case r of
        Inl _ \<Rightarrow> throw (ErrText ''invalid jwt token'')
      | Inr claims \<Rightarrow>
          if vf_issuer v \<noteq> [] \<and> string_claim claims ''iss'' \<noteq> vf_issuer v then throw (ErrText ''invalid issuer'')
          else if vf_audience v \<noteq> [] \<and> string_claim claims ''aud'' \<noteq> vf_audience v then throw (ErrText ''invalid audience'')
          else ret (principal_of claims ''jwt'')))"

definition rsa_key :: "auth_env \<Rightarrow> Verifier \<Rightarrow> jwt_header \<Rightarrow> jwt_key authn" where
  "rsa_key A v t = (if jh_Alg t \<noteq> ''RS256'' then throw (ErrText (''unexpected signing method: '' @ jh_Alg t))
     else let kid = string_claim (jh_Fields t) ''kid'' in
     if blank kid then throw (ErrText ''missing kid in jwt header'')
     else resolveJWKKeyByKID A v kid)"

definition verifyOIDC :: "auth_env \<Rightarrow> Verifier \<Rightarrow> string \<Rightarrow> Principal authn" where
  "verifyOIDC A v token =
     (if vf_jwksURL v = [] then throw (ErrText ''jwks url not configured'')
      else bnd (attempt (ParseWithClaims A token (rsa_key A v))) (\<lambda>r. case r of
        Inl _ \<Rightarrow> throw (ErrText ''invalid oidc jwt token'')
      | Inr claims \<Rightarrow>
          if vf_issuer v \<noteq> [] \<and> string_claim claims ''iss'' \<noteq> vf_issuer v then throw (ErrText ''invalid issuer'')
          else if vf_audience v \<noteq> [] \<and> \<not> claimHasAudience (map_of claims ''aud'') (vf_audience v) then throw (ErrText ''invalid audience'')
          else ret (principal_of claims ''oidc'')))"

definition mode_text :: "Mode \<Rightarrow> string" where
  "mode_text m = (case m of ModeStatic \<Rightarrow> ''static'' | ModeJWT \<Rightarrow> ''jwt'' | ModeHybrid \<Rightarrow> ''hybrid'' | ModeOIDC \<Rightarrow> ''oidc'' | ModeOther s \<Rightarrow> s)"

definition VerifyBearer :: "auth_env \<Rightarrow> Verifier \<Rightarrow> string \<Rightarrow> Principal authn" where
  "VerifyBearer A v authz = (let authz = TrimSpace authz in
     if \<not> HasPrefix authz ''Bearer '' then throw (ErrText ''missing bearer token'')
     else let token = TrimSpace (TrimPrefix authz ''Bearer '') in
     if token = [] then throw (ErrText ''empty bearer token'')
     else case vf_mode v of
       ModeStatic \<Rightarrow> verifyStatic v token
     | ModeJWT \<Rightarrow> verifyJWT A v token
     | ModeOIDC \<Rightarrow> verifyOIDC A v token
     | ModeHybrid \<Rightarrow> bnd (attempt (verifyStatic v token)) (\<lambda>r. case r of
         Inr p \<Rightarrow> ret p
       | Inl _ \<Rightarrow> bnd (attempt (verifyJWT A v token)) (\<lambda>r. case r of
           Inr p \<Rightarrow> ret p
         | Inl _ \<Rightarrow> verifyOIDC A v token))
     | ModeOther s \<Rightarrow> throw (ErrText (''unsupported auth mode: '' @ mode_text (vf_mode v))))"

section \<open>What an accepted token proves\<close>

text \<open>
  The readings of the clock and the requests to the JWKS endpoint are numbered in the order they are made.
  What the endpoint published in its answer to request \<open>t\<close>: the RSA key with modulus \<open>n\<close> and exponent \<open>e\<close>
  under a name. Both numbers are written in base64, the most significant byte first; an exponent beyond
  64 bits is cut off, as the source does.
\<close>

definition published :: "auth_env \<Rightarrow> Verifier \<Rightarrow> nat \<Rightarrow> string \<Rightarrow> nat \<Rightarrow> int \<Rightarrow> bool" where
  "published A v t kid n e \<longleftrightarrow> (\<exists>status ks k nb eb. ja_httpGet A t (vf_jwksURL v) = Inr (status, Inr ks) \<and>
     200 \<le> status \<and> status < 300 \<and> k \<in> set ks \<and> ToUpper (TrimSpace (jwk_Kty k)) = ''RSA'' \<and> jwk_Kid k = kid \<and>
     RawURLDecode (TrimSpace (jwk_N k)) = Some nb \<and> n = horner_sum id 256 (rev nb) \<and>
     RawURLDecode (TrimSpace (jwk_E k)) = Some eb \<and> e = i64 (int (horner_sum id 256 (rev eb))) \<and> 0 < e)"

text \<open>
  A key that may be used between the numbers \<open>lo\<close> and \<open>hi\<close>: it was published in an answer that came in this time,
  or that had come less than five minutes before a moment of this time.
\<close>

definition trusted_key :: "auth_env \<Rightarrow> Verifier \<Rightarrow> nat \<Rightarrow> nat \<Rightarrow> string \<Rightarrow> nat \<Rightarrow> int \<Rightarrow> bool" where
  "trusted_key A v lo hi kid n e \<longleftrightarrow> (\<exists>t. published A v t kid n e \<and> Suc t < hi \<and>
     (lo \<le> t \<or> (\<exists>u. lo \<le> u \<and> u < hi \<and> time_sub (ja_clock A u) (ja_clock A (Suc t)) < 5 * 60 * Second)))"

text \<open>Every cached key was published in the answer the time of the last refresh belongs to.\<close>

definition cache_ok :: "auth_env \<Rightarrow> Verifier \<Rightarrow> jwks_cache \<Rightarrow> bool" where
  "cache_ok A v c \<longleftrightarrow> (\<forall>kid key. map_of (jc_resolvedJWKKeys c) kid = Some key \<longrightarrow>
     (\<exists>t n e. key = RSAKey n e \<and> published A v t kid n e \<and> jc_lastJWKSRefresh c = ja_clock A (Suc t) \<and> Suc t < jc_tick c))"

text \<open>The roles a token claims, its issuer and its audience.\<close>

definition claims_role :: "claims \<Rightarrow> string \<Rightarrow> bool" where
  "claims_role claims x \<longleftrightarrow> x \<noteq> [] \<and> (\<exists>s. TrimSpace s = x \<and> (map_of claims ''roles'' = Some (CString s) \<or>
     (\<exists>l. map_of claims ''roles'' = Some (CList l) \<and> CString s \<in> set l) \<or>
     (\<exists>l. map_of claims ''roles'' = Some (CStrings l) \<and> s \<in> set l)))"

definition speaks_for :: "claims \<Rightarrow> string \<Rightarrow> Principal \<Rightarrow> bool" where
  "speaks_for claims src p \<longleftrightarrow> p_Subject p = string_claim claims ''sub'' \<and> p_Source p = src \<and>
     set (p_Roles p) = (if \<exists>x. claims_role claims x then {x. claims_role claims x} else {''viewer''})"

definition issued_by :: "Verifier \<Rightarrow> claims \<Rightarrow> bool" where
  "issued_by v claims \<longleftrightarrow> vf_issuer v = [] \<or> map_of claims ''iss'' = Some (CString (vf_issuer v))"

definition meant_for :: "claims \<Rightarrow> string \<Rightarrow> bool" where
  "meant_for claims a \<longleftrightarrow> (\<exists>s. TrimSpace s = a \<and> (map_of claims ''aud'' = Some (CString s) \<or>
     (\<exists>l. map_of claims ''aud'' = Some (CList l) \<and> CString s \<in> set l)))"

text \<open>The three proofs a token can be. The claims hold at a time that was read in the call.\<close>

definition by_static :: "Verifier \<Rightarrow> string \<Rightarrow> Principal \<Rightarrow> bool" where
  "by_static v token p \<longleftrightarrow> vf_mode v \<in> {ModeStatic, ModeHybrid} \<and> token \<noteq> [] \<and> token = vf_staticTok v \<and>
     p = \<lparr>p_Subject = ''static-token'', p_Roles = [''admin''], p_Source = ''static''\<rparr>"

definition by_secret :: "auth_env \<Rightarrow> Verifier \<Rightarrow> string \<Rightarrow> nat \<Rightarrow> nat \<Rightarrow> Principal \<Rightarrow> bool" where
  "by_secret A v token lo hi p \<longleftrightarrow> vf_mode v \<in> {ModeJWT, ModeHybrid} \<and> vf_jwtSecret v \<noteq> [] \<and>
     (\<exists>h claims u. ja_header A token = Inr h \<and> jh_Alg h = ''HS256'' \<and> lo \<le> u \<and> u < hi \<and>
       ja_verify A token (HMACKey (vf_jwtSecret v)) (ja_clock A u) = Inr claims \<and> issued_by v claims \<and>
       (vf_audience v = [] \<or> map_of claims ''aud'' = Some (CString (vf_audience v))) \<and> speaks_for claims ''jwt'' p)"

definition by_key :: "auth_env \<Rightarrow> Verifier \<Rightarrow> string \<Rightarrow> nat \<Rightarrow> nat \<Rightarrow> Principal \<Rightarrow> bool" where
  "by_key A v token lo hi p \<longleftrightarrow> vf_mode v \<in> {ModeOIDC, ModeHybrid} \<and> vf_jwksURL v \<noteq> [] \<and>
     (\<exists>h claims u n e. ja_header A token = Inr h \<and> jh_Alg h = ''RS256'' \<and> lo \<le> u \<and> u < hi \<and>
       trusted_key A v lo hi (string_claim (jh_Fields h) ''kid'') n e \<and>
       ja_verify A token (RSAKey n e) (ja_clock A u) = Inr claims \<and> issued_by v claims \<and>
       (blank (vf_audience v) \<or> meant_for claims (TrimSpace (vf_audience v))) \<and> speaks_for claims ''oidc'' p)"

abbreviation accepted :: "auth_env \<Rightarrow> Verifier \<Rightarrow> string \<Rightarrow> nat \<Rightarrow> nat \<Rightarrow> Principal \<Rightarrow> bool" where
  "accepted A v token lo hi p \<equiv> by_static v token p \<or> by_secret A v token lo hi p \<or> by_key A v token lo hi p"

subsection \<open>Claims\<close>

lemma string_claim_some: "x \<noteq> [] \<Longrightarrow> string_claim claims k = x \<longleftrightarrow> map_of claims k = Some (CString x)"
  by (auto simp: string_claim_def split: option.split claim.split)

lemma string_items_iff: "s \<in> set (string_items l) \<longleftrightarrow> CString s \<in> set l"
  by (induction l rule: string_items.induct) auto

lemma extractRoles_iff: "x \<in> set (extractRoles claims) \<longleftrightarrow> claims_role claims x"
proof (cases "map_of claims ''roles''")
  case (Some c)
  then show ?thesis
    by (cases c) (auto simp: extractRoles_def claims_role_def role_names_def string_items_iff blank_def)
qed (simp add: extractRoles_def claims_role_def)

lemma speaks_principal: "speaks_for claims src (principal_of claims src)"
proof -
  have "extractRoles claims = [] \<longleftrightarrow> (\<nexists>x. claims_role claims x)"
    unfolding extractRoles_iff [symmetric] by (metis ex_in_conv set_empty)
  then show ?thesis by (auto simp: speaks_for_def principal_of_def Let_def extractRoles_iff)
qed

lemma meant_audience: "claimHasAudience (map_of claims ''aud'') a \<Longrightarrow> blank a \<or> meant_for claims (TrimSpace a)"
  by (auto simp: claimHasAudience_def meant_for_def blank_def Let_def list_ex_iff string_items_iff split: if_splits option.splits claim.splits)

lemma issued_claim: "\<not> (vf_issuer v \<noteq> [] \<and> string_claim claims ''iss'' \<noteq> vf_issuer v) \<Longrightarrow> issued_by v claims"
  unfolding issued_by_def by (metis string_claim_some)

subsection \<open>Keys\<close>

lemma modulus_value: "foldl (\<lambda>v b. 256 * v + b) 0 bs = (horner_sum id 256 (rev bs) :: nat)"
  by (induction bs rule: rev_induct) simp_all

lemma i64_shift: "i64 (x + 2 ^ 64 * k) = i64 x"
proof -
  have "(x + 2 ^ 64 * k + 2 ^ 63) mod 2 ^ 64 = (x + 2 ^ 63 + 2 ^ 64 * k) mod (2 ^ 64 :: int)" by (simp only: ac_simps)
  then show ?thesis unfolding i64_def by (simp only: mod_mult_self2)
qed

lemma i64_step: "iadd (imul (i64 x) 256) y = i64 (256 * x + y)"
proof -
  have rep: "\<exists>k. i64 z = z + 2 ^ 64 * k" for z
    unfolding i64_def by (rule exI [of _ "- ((z + 2 ^ 63) div 2 ^ 64)"]) (simp add: minus_mult_div_eq_mod [symmetric])
  obtain j where j: "i64 x = x + 2 ^ 64 * j" using rep by blast
  obtain k where k: "imul (i64 x) 256 = i64 x * 256 + 2 ^ 64 * k" unfolding imul_def using rep by blast
  have "imul (i64 x) 256 + y = (x + 2 ^ 64 * j) * 256 + 2 ^ 64 * k + y" unfolding k by (simp only: j)
  also have "\<dots> = 256 * x + y + 2 ^ 64 * (256 * j + k)" by (simp add: algebra_simps)
  finally have "imul (i64 x) 256 + y = 256 * x + y + 2 ^ 64 * (256 * j + k)" .
  then show ?thesis unfolding iadd_def by (simp only: i64_shift)
qed

lemma exponent_value: "foldl (\<lambda>v b. iadd (imul v 256) (int b)) 0 bs = i64 (int (horner_sum id 256 (rev bs)))"
  by (induction bs rule: rev_induct) (simp_all add: i64_step i64_id in64_def add.commute)

lemma usable_published:
  assumes "ja_httpGet A t (vf_jwksURL v) = Inr (status, Inr ks)" and "\<not> (status < 200 \<or> status \<ge> 300)"
    and "k \<in> set ks" and "usable_key k = Some (kid, key)"
  shows "\<exists>n e. key = RSAKey n e \<and> published A v t kid n e"
  using assms unfolding usable_key_def jwkRSAToPublicKey_def Let_def modulus_value exponent_value published_def
  by (auto split: if_splits option.splits) fastforce+

lemma collected_key:
  assumes "map_of (foldl (\<lambda>m (kid, key). map_put kid key m) m kks) kid = Some key"
  shows "map_of m kid = Some key \<or> (kid, key) \<in> set kks"
  using assms
proof (induction kks arbitrary: m)
  case (Cons kk kks)
  obtain i k where kk: "kk = (i, k)" by (cases kk)
  then have "map_of (map_put i k m) kid = Some key \<or> (kid, key) \<in> set kks" using Cons by simp
  then show ?case using kk by (auto simp: map_of_put split: if_splits)
qed auto

lemma wp_auth_now: "wp (auth_now A) Q c = Q (Inr (ja_clock A (jc_tick c))) (c\<lparr>jc_tick := Suc (jc_tick c)\<rparr>)"
  by (simp add: wp_def auth_now_def)

lemma cache_ok_tick: "cache_ok A v c \<Longrightarrow> jc_tick c \<le> t \<Longrightarrow> cache_ok A v (c\<lparr>jc_tick := t\<rparr>)"
  unfolding cache_ok_def by (fastforce intro: less_le_trans)

lemma wp_refresh:
  assumes c: "cache_ok A v c" and lo: "lo \<le> jc_tick c"
    and Q: "\<And>r d. cache_ok A v d \<Longrightarrow> lo \<le> jc_tick d \<Longrightarrow>
      (\<And>kid key. r = Inr () \<Longrightarrow> map_of (jc_resolvedJWKKeys d) kid = Some key \<Longrightarrow> \<exists>n e. key = RSAKey n e \<and> trusted_key A v lo (jc_tick d) kid n e) \<Longrightarrow>
      Q r d"
  shows "wp (refreshJWKSLocked A v) Q c"
proof -
  let ?t = "jc_tick c" and ?d = "\<lambda>keys. c\<lparr>jc_tick := Suc (Suc (jc_tick c)), jc_resolvedJWKKeys := keys, jc_lastJWKSRefresh := ja_clock A (Suc (jc_tick c))\<rparr>"
  let ?keys = "\<lambda>ks. foldl (\<lambda>m (kid, key). map_put kid key m) [] (List.map_filter usable_key ks)"
  have get: "wp (\<lambda>c. (Inr (ja_httpGet A (jc_tick c) (vf_jwksURL v)), c\<lparr>jc_tick := Suc (jc_tick c)\<rparr>)) P c
    = P (Inr (ja_httpGet A ?t (vf_jwksURL v))) (c\<lparr>jc_tick := Suc ?t\<rparr>)" for P by (simp add: wp_def)
  have kept: "Q (Inl e) (c\<lparr>jc_tick := Suc ?t\<rparr>)" for e by (rule Q) (use c lo in \<open>auto intro: cache_ok_tick\<close>)
  have new: "Q r (?d (?keys ks))"
    if ans: "ja_httpGet A ?t (vf_jwksURL v) = Inr (status, Inr ks)" "\<not> (status < 200 \<or> status \<ge> 300)" for r status ks
  proof -
    have pub: "\<exists>n e. key = RSAKey n e \<and> published A v ?t kid n e" if "map_of (?keys ks) kid = Some key" for kid key
    proof -
      have "(kid, key) \<in> set (List.map_filter usable_key ks)" using collected_key [OF that] by simp
      then obtain k where "k \<in> set ks" "usable_key k = Some (kid, key)" by (auto simp: List.map_filter_def)
      then show ?thesis by (rule usable_published [OF ans])
    qed
    show ?thesis
    proof (rule Q)
      show "cache_ok A v (?d (?keys ks))" unfolding cache_ok_def using pub by fastforce
      show "\<exists>n e. key = RSAKey n e \<and> trusted_key A v lo (jc_tick (?d (?keys ks))) kid n e"
        if "map_of (jc_resolvedJWKKeys (?d (?keys ks))) kid = Some key" for kid key
        using pub [of kid key] that lo unfolding trusted_key_def by fastforce
    qed (use lo in simp)
  qed
  show ?thesis
    unfolding refreshJWKSLocked_def wp_bnd get sum.case
    by (auto simp: wp_simps wp_auth_now Let_def kept dest!: new split: sum.split prod.split)
qed

lemma wp_resolve:
  assumes c: "cache_ok A v c" and lo: "lo \<le> jc_tick c" and after: "vf_jwksRefreshAfter v = 5 * 60 * Second"
  shows "wp (resolveJWKKeyByKID A v kid) (\<lambda>r d. cache_ok A v d \<and> lo \<le> jc_tick d \<and>
    (\<forall>key. r = Inr key \<longrightarrow> (\<exists>n e. key = RSAKey n e \<and> trusted_key A v lo (jc_tick d) kid n e))) c"
proof -
  let ?c = "c\<lparr>jc_tick := Suc (jc_tick c)\<rparr>"
  have ok: "cache_ok A v ?c" using c by (rule cache_ok_tick) simp
  show ?thesis
    unfolding resolveJWKKeyByKID_def wp_simps wp_auth_now sum.case
  proof (cases "cached_key v kid (ja_clock A (jc_tick c)) ?c", goal_cases)
    case 1
    show ?case
      unfolding 1 option.case wp_simps
      by (rule wp_refresh [where lo = lo, OF ok]) (use lo in \<open>auto simp: wp_simps split: sum.split option.split\<close>)
  next
    case (2 key)
    then have key: "map_of (jc_resolvedJWKKeys ?c) kid = Some key"
      "time_sub (ja_clock A (jc_tick c)) (jc_lastJWKSRefresh c) < 5 * 60 * Second"
      by (auto simp: cached_key_def after split: option.splits if_splits)
    obtain t n e where t: "key = RSAKey n e" "published A v t kid n e" "jc_lastJWKSRefresh c = ja_clock A (Suc t)" "Suc t < Suc (jc_tick c)"
      using ok key(1) unfolding cache_ok_def by fastforce
    have "trusted_key A v lo (jc_tick ?c) kid n e"
      unfolding trusted_key_def using t(2-4) key(2) lo by (intro exI [of _ t] conjI disjI2 exI [of _ "jc_tick c"]) simp_all
    then show ?case using 2 ok lo t(1) by (simp add: wp_simps)
  qed
qed

subsection \<open>Tokens\<close>

lemma wp_hybrid:
  assumes "wp m (\<lambda>r d. I d \<and> (\<forall>p. r = Inr p \<longrightarrow> P p d)) c" and "\<And>d. I d \<Longrightarrow> wp k (\<lambda>r d. I d \<and> (\<forall>p. r = Inr p \<longrightarrow> P p d)) d"
  shows "wp (bnd (attempt m) (\<lambda>r. case r of Inr p \<Rightarrow> ret p | Inl _ \<Rightarrow> k)) (\<lambda>r d. I d \<and> (\<forall>p. r = Inr p \<longrightarrow> P p d)) c"
  unfolding wp_bnd wp_attempt sum.case
  by (rule wp_conseq [OF assms(1)]) (use assms(2) in \<open>auto simp: wp_ret split: sum.split\<close>)

text \<open>The state between two calls: the cached keys are in order and the numbering has gone on.\<close>

abbreviation going :: "auth_env \<Rightarrow> Verifier \<Rightarrow> nat \<Rightarrow> jwks_cache \<Rightarrow> bool" where
  "going A v lo d \<equiv> cache_ok A v d \<and> lo \<le> jc_tick d"

lemma wp_verifyStatic:
  assumes "going A v lo c" and "vf_mode v \<in> {ModeStatic, ModeHybrid}"
  shows "wp (verifyStatic v token) (\<lambda>r d. going A v lo d \<and> (\<forall>p. r = Inr p \<longrightarrow> accepted A v token lo (jc_tick d) p)) c"
  using assms by (auto simp: verifyStatic_def wp_simps by_static_def)

lemma by_secretI:
  assumes "vf_mode v \<in> {ModeJWT, ModeHybrid}" and "vf_jwtSecret v \<noteq> []" and "ja_header A token = Inr h" "jh_Alg h = ''HS256''"
    and "ja_verify A token (HMACKey (vf_jwtSecret v)) (ja_clock A u) = Inr claims" "lo \<le> u" "u < hi"
    and "\<not> (vf_issuer v \<noteq> [] \<and> string_claim claims ''iss'' \<noteq> vf_issuer v)"
    and "\<not> (vf_audience v \<noteq> [] \<and> string_claim claims ''aud'' \<noteq> vf_audience v)"
  shows "by_secret A v token lo hi (principal_of claims ''jwt'')"
proof -
  have "vf_audience v = [] \<or> map_of claims ''aud'' = Some (CString (vf_audience v))" using assms(9) by (metis string_claim_some)
  then show ?thesis using assms(1-7) issued_claim [OF assms(8)] speaks_principal unfolding by_secret_def by blast
qed

lemma wp_verifyJWT:
  assumes "going A v lo c" and "vf_mode v \<in> {ModeJWT, ModeHybrid}"
  shows "wp (verifyJWT A v token) (\<lambda>r d. going A v lo d \<and> (\<forall>p. r = Inr p \<longrightarrow> accepted A v token lo (jc_tick d) p)) c"
proof -
  let ?c = "c\<lparr>jc_tick := Suc (jc_tick c)\<rparr>"
  have ok: "going A v lo ?c" using assms(1) cache_ok_tick [of A v c "Suc (jc_tick c)"] by simp
  show ?thesis
    unfolding verifyJWT_def ParseWithClaims_def hmac_key_def wp_simps
    using assms ok by (auto simp: wp_simps wp_auth_now split: sum.split intro!: by_secretI)
qed

lemma wp_rsa_key:
  assumes "going A v lo c" and "vf_jwksRefreshAfter v = 5 * 60 * Second"
  shows "wp (rsa_key A v h) (\<lambda>r d. going A v lo d \<and> (\<forall>key. r = Inr key \<longrightarrow> jh_Alg h = ''RS256'' \<and>
      (\<exists>n e. key = RSAKey n e \<and> trusted_key A v lo (jc_tick d) (string_claim (jh_Fields h) ''kid'') n e))) c"
proof (cases "jh_Alg h = ''RS256'' \<and> \<not> blank (string_claim (jh_Fields h) ''kid'')")
  case True
  then show ?thesis
    unfolding rsa_key_def Let_def using wp_resolve [OF _ _ assms(2), of A c lo] assms(1) by (auto elim!: wp_conseq)
qed (use assms in \<open>auto simp: rsa_key_def Let_def wp_throw\<close>)

lemma trusted_key_mono: "trusted_key A v lo hi kid n e \<Longrightarrow> hi \<le> hi' \<Longrightarrow> trusted_key A v lo hi' kid n e"
  unfolding trusted_key_def by (meson less_le_trans)

text \<open>What a successful parse with such a key shows.\<close>

definition parsed_with_key :: "auth_env \<Rightarrow> Verifier \<Rightarrow> string \<Rightarrow> nat \<Rightarrow> nat \<Rightarrow> claims \<Rightarrow> bool" where
  "parsed_with_key A v token lo hi claims \<longleftrightarrow> (\<exists>h u n e. ja_header A token = Inr h \<and> jh_Alg h = ''RS256'' \<and> lo \<le> u \<and> u < hi \<and>
     trusted_key A v lo hi (string_claim (jh_Fields h) ''kid'') n e \<and> ja_verify A token (RSAKey n e) (ja_clock A u) = Inr claims)"

lemma wp_parse_rsa:
  assumes "going A v lo c" and "vf_jwksRefreshAfter v = 5 * 60 * Second"
  shows "wp (ParseWithClaims A token (rsa_key A v)) (\<lambda>r d. going A v lo d \<and>
    (\<forall>claims. r = Inr claims \<longrightarrow> parsed_with_key A v token lo (jc_tick d) claims)) c"
proof (cases "ja_header A token")
  case (Inr h)
  show ?thesis
    unfolding ParseWithClaims_def Inr sum.case wp_bnd
  proof (rule wp_conseq [OF wp_rsa_key [OF assms]], goal_cases)
    case (1 r d)
    have "going A v lo (d\<lparr>jc_tick := Suc (jc_tick d)\<rparr>)" using 1 cache_ok_tick [of A v d "Suc (jc_tick d)"] by simp
    moreover have "parsed_with_key A v token lo (Suc (jc_tick d)) claims"
      if "r = Inr key" "ja_verify A token key (ja_clock A (jc_tick d)) = Inr claims" for key claims
      using 1 that trusted_key_mono [of A v lo "jc_tick d" _ _ _ "Suc (jc_tick d)"] Inr
      unfolding parsed_with_key_def by (metis lessI le_SucI order.refl)
    ultimately show ?case using 1 by (auto simp: wp_auth_now wp_simps split: sum.splits)
  qed
qed (use assms in \<open>simp add: ParseWithClaims_def wp_throw\<close>)

lemma by_keyI:
  assumes "vf_mode v \<in> {ModeOIDC, ModeHybrid}" and "vf_jwksURL v \<noteq> []" and "parsed_with_key A v token lo hi claims"
    and "\<not> (vf_issuer v \<noteq> [] \<and> string_claim claims ''iss'' \<noteq> vf_issuer v)"
    and "\<not> (vf_audience v \<noteq> [] \<and> \<not> claimHasAudience (map_of claims ''aud'') (vf_audience v))"
  shows "by_key A v token lo hi (principal_of claims ''oidc'')"
proof -
  have "blank (vf_audience v) \<or> meant_for claims (TrimSpace (vf_audience v))" using assms(5) meant_audience [of claims "vf_audience v"] by auto
  then show ?thesis using assms(1-3) issued_claim [OF assms(4)] speaks_principal unfolding by_key_def parsed_with_key_def by blast
qed

lemma wp_verifyOIDC:
  assumes "going A v lo c" and "vf_jwksRefreshAfter v = 5 * 60 * Second" and "vf_mode v \<in> {ModeOIDC, ModeHybrid}"
  shows "wp (verifyOIDC A v token) (\<lambda>r d. going A v lo d \<and> (\<forall>p. r = Inr p \<longrightarrow> accepted A v token lo (jc_tick d) p)) c"
proof (cases "vf_jwksURL v = []")
  case False
  show ?thesis
    unfolding verifyOIDC_def if_not_P [OF False] wp_bnd wp_attempt sum.case
    by (rule wp_conseq [OF wp_parse_rsa [OF assms(1,2)]])
      (auto simp: wp_simps split: sum.split intro!: by_keyI [OF assms(3) False])
qed (use assms in \<open>simp add: verifyOIDC_def wp_throw\<close>)

lemma wp_VerifyBearer:
  assumes go: "going A v lo c" and after: "vf_jwksRefreshAfter v = 5 * 60 * Second"
  shows "wp (VerifyBearer A v authz) (\<lambda>r d. going A v lo d \<and> (\<forall>p. r = Inr p \<longrightarrow>
    (HasPrefix (TrimSpace authz) ''Bearer '' \<and> accepted A v (TrimSpace (TrimPrefix (TrimSpace authz) ''Bearer '')) lo (jc_tick d) p))) c"
proof (cases "HasPrefix (TrimSpace authz) ''Bearer ''")
  case True
  let ?t = "TrimSpace (TrimPrefix (TrimSpace authz) ''Bearer '')"
  let ?Q = "\<lambda>r d. going A v lo d \<and> (\<forall>p. r = Inr p \<longrightarrow> accepted A v ?t lo (jc_tick d) p)"
  have "wp (VerifyBearer A v authz) ?Q c"
  proof (cases "vf_mode v")
    case ModeHybrid
    have "wp (bnd (attempt (verifyStatic v ?t)) (\<lambda>r. case r of Inr p \<Rightarrow> ret p | Inl _ \<Rightarrow>
      bnd (attempt (verifyJWT A v ?t)) (\<lambda>r. case r of Inr p \<Rightarrow> ret p | Inl _ \<Rightarrow> verifyOIDC A v ?t))) ?Q c"
      by (intro wp_hybrid wp_verifyStatic wp_verifyJWT wp_verifyOIDC [OF _ after]) (use go in \<open>simp_all add: ModeHybrid\<close>)
    then show ?thesis using True go by (simp add: VerifyBearer_def Let_def wp_throw ModeHybrid)
  qed (use True go wp_verifyStatic [OF go] wp_verifyJWT [OF go] wp_verifyOIDC [OF go after] in \<open>simp_all add: VerifyBearer_def Let_def wp_throw\<close>)
  then show ?thesis by (rule wp_conseq) (use True in simp)
qed (use go in \<open>simp add: VerifyBearer_def wp_throw\<close>)

text \<open>The verifications that came before.\<close>

definition verifies :: "auth_env \<Rightarrow> Verifier \<Rightarrow> jwks_cache \<Rightarrow> jwks_cache \<Rightarrow> bool" where
  "verifies A v c d \<longleftrightarrow> (\<exists>authz r. VerifyBearer A v authz c = (r, d))"

lemma new_verifier:
  assumes "NewVerifier mode staticTok jwtSecret issuer audience jwksURL = (v, c)"
  shows "cache_ok A v c" "vf_jwksRefreshAfter v = 5 * 60 * Second"
  using assms by (auto simp: NewVerifier_def Let_def cache_ok_def)

lemma verified_before:
  assumes "(verifies A v)\<^sup>*\<^sup>* c d" and "cache_ok A v c" and "vf_jwksRefreshAfter v = 5 * 60 * Second"
  shows "cache_ok A v d"
  using assms(1)
proof (induction rule: rtranclp_induct)
  case (step d e)
  then obtain authz r where run: "VerifyBearer A v authz d = (r, e)" unfolding verifies_def by blast
  show ?case using wpD [OF wp_VerifyBearer [where lo = 0] run] step(3) assms(3) by simp
qed (rule assms(2))

text \<open>
  (C7) A verifier authenticates a request only by a token that proves it, after whatever other requests
  it has verified before: the configured static token; a token whose HS256 signature verifies with the
  configured secret; or one whose RS256 signature verifies with an RSA key that the configured JWKS
  endpoint published under the name the token gives, in an answer fetched in this call or less than five
  minutes before a moment of it. Each is accepted only in the modes that allow it, with the configured
  issuer and audience and at the time of the call, and the principal has the subject and exactly the
  roles the token claims, or the role viewer if it claims none.
\<close>

theorem accepted_token_proven:
  assumes "NewVerifier mode staticTok jwtSecret issuer audience jwksURL = (v, c0)" and "(verifies A v)\<^sup>*\<^sup>* c0 c"
    and "VerifyBearer A v authz c = (Inr p, d)"
  shows "HasPrefix (TrimSpace authz) ''Bearer '' \<and>
    (by_static v (TrimSpace (TrimPrefix (TrimSpace authz) ''Bearer '')) p \<or>
     by_secret A v (TrimSpace (TrimPrefix (TrimSpace authz) ''Bearer '')) (jc_tick c) (jc_tick d) p \<or>
     by_key A v (TrimSpace (TrimPrefix (TrimSpace authz) ''Bearer '')) (jc_tick c) (jc_tick d) p)"
proof -
  note new = new_verifier(1) [OF assms(1), of A] new_verifier(2) [OF assms(1)]
  have "going A v (jc_tick c) c" using verified_before [OF assms(2) new] by simp
  from wpD [OF wp_VerifyBearer [OF this new(2)] assms(3)] show ?thesis by blast
qed

definition demo_auth :: auth_env where
  "demo_auth = \<lparr>ja_clock = (\<lambda>n. int n * Second), ja_header = (\<lambda>t. Inr \<lparr>jh_Alg = ''HS256'', jh_Fields = []\<rparr>),
     ja_verify = (\<lambda>t k now. if k = HMACKey t then Inr [(''roles'', CList [CString ''operator'']), (''sub'', CString ''ann'')] else Inl (ErrText ''signature'')),
     ja_httpGet = (\<lambda>n u. Inl (ErrText ''unreachable''))\<rparr>"

text \<open>A provider that publishes one key and signs the token with it.\<close>

definition demo_provider :: auth_env where
  "demo_provider = \<lparr>ja_clock = (\<lambda>n. int n * Second), ja_header = (\<lambda>t. Inr \<lparr>jh_Alg = ''RS256'', jh_Fields = [(''kid'', CString ''k1'')]\<rparr>),
     ja_verify = (\<lambda>t k now. if k = RSAKey 3 3 then Inr [(''roles'', CString '' operator ''), (''sub'', CString ''ann''), (''aud'', CList [CString ''api''])]
       else Inl (ErrText ''signature'')),
     ja_httpGet = (\<lambda>n u. if u = ''https://idp/keys'' then Inr (200, Inr [\<lparr>jwk_Kty = ''RSA'', jwk_Kid = ''k1'', jwk_N = ''Aw'', jwk_E = ''Aw''\<rparr>])
       else Inl (ErrText ''unreachable''))\<rparr>"

theorem accepted_token_proven_witness:
  "case NewVerifier ''oidc'' '''' '''' '''' ''api'' ''https://idp/keys'' of (v, c) \<Rightarrow>
   case VerifyBearer demo_provider v ''Bearer tok'' c of (r, d) \<Rightarrow>
     r = Inr \<lparr>p_Subject = ''ann'', p_Roles = [''operator''], p_Source = ''oidc''\<rparr> \<and>
     by_key demo_provider v ''tok'' (jc_tick c) (jc_tick d) \<lparr>p_Subject = ''ann'', p_Roles = [''operator''], p_Source = ''oidc''\<rparr>"
proof -
  let ?new = "NewVerifier ''oidc'' '''' '''' '''' ''api'' ''https://idp/keys''"
  let ?v = "fst ?new" and ?c = "snd ?new" and ?p = "\<lparr>p_Subject = ''ann'', p_Roles = [''operator''], p_Source = ''oidc''\<rparr>"
  let ?d = "snd (VerifyBearer demo_provider ?v ''Bearer tok'' ?c)"
  have run: "fst (VerifyBearer demo_provider ?v ''Bearer tok'' ?c) = Inr ?p" by code_simp
  have tok: "TrimSpace (TrimPrefix (TrimSpace ''Bearer tok'') ''Bearer '') = ''tok''" by code_simp
  have mode: "vf_mode ?v = ModeOIDC" by code_simp
  have "VerifyBearer demo_provider ?v ''Bearer tok'' ?c = (Inr ?p, ?d)" using run by (metis prod.collapse)
  from accepted_token_proven [OF prod.collapse [symmetric] rtranclp.rtrancl_refl this]
  have "by_key demo_provider ?v ''tok'' (jc_tick ?c) (jc_tick ?d) ?p" using tok mode by (auto simp: by_static_def by_secret_def)
  with run show ?thesis by (simp add: case_prod_beta)
qed

text \<open>An audience given as a list is rejected in the mode with a shared secret and accepted in the OIDC mode.\<close>

lemma jwt_audience_list_rejected:
  assumes "vf_audience v \<noteq> []" and "TrimSpace (vf_audience v) = vf_audience v" and "vf_jwtSecret v \<noteq> []"
    and "map_of claims ''aud'' = Some (CList [CString (vf_audience v)])"
  shows "claimHasAudience (map_of claims ''aud'') (vf_audience v)" and "string_claim claims ''aud'' \<noteq> vf_audience v"
  using assms by (simp_all add: claimHasAudience_def string_claim_def)

end
