(* ===== verification/Validation.thy ===== *)
theory Validation
  imports Autoscaler
begin

text \<open>
  Validation of request payloads (\<^verbatim>\<open>internal/api/validation.go\<close>). A validator returns the error of the
  first condition that fails, or none. What validation guarantees is stated as a predicate per
  payload, and the defaults the service applies afterwards are shown to leave valid values alone.
\<close>

section \<open>Guards\<close>

text \<open>\<^verbatim>\<open>if cond { return fmt.Errorf(msg) }\<close> in a row; a loop that returns the first error of its body.\<close>

fun guards :: "(bool \<times> string) list \<Rightarrow> err option" where
  "guards [] = None"
| "guards ((b, msg) # gs) = (if b then Some (ErrText msg) else guards gs)"

fun first_error :: "('a \<Rightarrow> err option) \<Rightarrow> 'a list \<Rightarrow> err option" where
  "first_error f [] = None"
| "first_error f (x # xs) = (case f x of Some e \<Rightarrow> Some e | None \<Rightarrow> first_error f xs)"

definition or_else :: "err option \<Rightarrow> err option \<Rightarrow> err option" where
  "or_else a b = (case a of Some e \<Rightarrow> Some e | None \<Rightarrow> b)"

lemma guards_None [simp]: "guards gs = None \<longleftrightarrow> (\<forall>(b, msg) \<in> set gs. \<not> b)"
  by (induction gs rule: guards.induct) auto

declare guards.simps [simp del]

lemma first_error_None [simp]: "first_error f xs = None \<longleftrightarrow> (\<forall>x \<in> set xs. f x = None)"
  by (induction xs) (auto split: option.splits)

lemma or_else_None [simp]: "or_else a b = None \<longleftrightarrow> a = None \<and> b = None"
  by (auto simp: or_else_def split: option.splits)

section \<open>Validators\<close>

definition validateNode :: "Node \<Rightarrow> err option" where
  "validateNode n = guards
     [(blank (n_ID n), ''node id is required''),
      (MilliCPU (n_Capacity n) < 0 \<or> MemoryMB (n_Capacity n) < 0, ''node capacity cannot be negative''),
      (MilliCPU (n_Allocatable n) < 0 \<or> MemoryMB (n_Allocatable n) < 0, ''node allocatable cannot be negative'')]"

definition validate_toleration :: "Toleration \<Rightarrow> err option" where
  "validate_toleration t = guards [(blank (to_Key t), ''toleration key is required'')]"

definition validateDeploymentSpec :: "DeploymentSpec \<Rightarrow> err option" where
  "validateDeploymentSpec d = or_else (guards
     [(blank (sp_Name d), ''deployment name is required''),
      (blank (sp_Image d), ''deployment image is required''),
      (sp_Replicas d < 0, ''replicas cannot be negative''),
      (sp_Priority d < 0, ''priority cannot be negative''),
      (MilliCPU (sp_Resources d) < 0 \<or> MemoryMB (sp_Resources d) < 0, ''resource requests cannot be negative'')])
   (or_else (first_error validate_toleration (elems (sp_Tolerations d)))
   (guards
     [(pr_InitialDelaySeconds (sp_LivenessProbe d) < 0 \<or> pr_InitialDelaySeconds (sp_ReadinessProbe d) < 0,
         ''probe initialDelaySeconds cannot be negative''),
      (pr_FailureThreshold (sp_LivenessProbe d) < 0 \<or> pr_FailureThreshold (sp_ReadinessProbe d) < 0,
         ''probe failureThreshold cannot be negative''),
      (ro_Strategy (sp_Rollout d) \<noteq> StrategyUnset \<and> ro_Strategy (sp_Rollout d) \<noteq> RolloutStrategyRollingUpdate \<and>
         ro_Strategy (sp_Rollout d) \<noteq> RolloutStrategyCanary, ''rollout strategy must be RollingUpdate or Canary''),
      (MaxUnavailable (ro_RollingUpdate (sp_Rollout d)) < 0 \<or> MaxSurge (ro_RollingUpdate (sp_Rollout d)) < 0,
         ''rollout maxUnavailable and maxSurge cannot be negative''),
      (ca_Enabled (ro_Canary (sp_Rollout d)) \<and>
         (ca_Percentage (ro_Canary (sp_Rollout d)) \<le> 0 \<or> ca_Percentage (ro_Canary (sp_Rollout d)) > 100),
         ''canary percentage must be between 1 and 100''),
      (ro_ProgressDeadlineSeconds (sp_Rollout d) < 0, ''rollout progressDeadlineSeconds cannot be negative''),
      (ro_MaxFailedWorkloads (sp_Rollout d) < 0, ''rollout maxFailedWorkloads cannot be negative'')]))"

definition validate_port :: "ServicePort \<Rightarrow> err option" where
  "validate_port p = guards
     [(po_Port p \<le> 0 \<or> po_Port p > 65535, ''service port must be between 1 and 65535''),
      (po_TargetPort p \<le> 0 \<or> po_TargetPort p > 65535, ''service targetPort must be between 1 and 65535''),
      (po_Protocol p \<noteq> ServiceProtocolTCP \<and> po_Protocol p \<noteq> ServiceProtocolUDP, ''service protocol must be TCP or UDP''),
      (po_NodePort p \<noteq> 0 \<and> (po_NodePort p < 30000 \<or> po_NodePort p > 32767), ''service nodePort must be between 30000 and 32767'')]"

definition validateServiceSpec :: "ServiceSpec \<Rightarrow> err option" where
  "validateServiceSpec sv = or_else (guards
     [(blank (ss_Name sv), ''service name is required''),
      (ss_Selector sv = [], ''service selector is required''),
      (ss_Ports sv = [], ''service ports are required'')])
   (or_else (first_error validate_port (ss_Ports sv))
   (or_else (guards
     [(ss_Type sv \<noteq> ServiceTypeUnset \<and> ss_Type sv \<noteq> ServiceTypeClusterIP \<and> ss_Type sv \<noteq> ServiceTypeNodePort,
         ''service type must be ClusterIP or NodePort'')])
   (if ss_Type sv = ServiceTypeNodePort
    then first_error (\<lambda>p. guards [(po_NodePort p = 0, ''nodePort is required for NodePort services'')]) (ss_Ports sv) else None)))"

definition validateAutoscalerPolicy :: "AutoscalerPolicy \<Rightarrow> err option" where
  "validateAutoscalerPolicy p = guards
     [(blank (as_DeploymentID p), ''deploymentId is required''),
      (as_MinReplicas p < 1, ''minReplicas must be >= 1''),
      (as_MaxReplicas p < as_MinReplicas p, ''maxReplicas must be >= minReplicas''),
      (as_TargetCPUUtilization p < 0 \<or> as_TargetMemoryUtilization p < 0 \<or> as_TargetCustomMetricValue p < 0,
         ''target utilization values cannot be negative''),
      (as_CustomMetricName p \<noteq> [] \<and> as_TargetCustomMetricValue p \<le> 0,
         ''targetCustomMetricValue must be > 0 when customMetricName is set''),
      (as_StabilizationWindowSec p < 0 \<or> as_ScaleUpCooldownSec p < 0 \<or> as_ScaleDownCooldownSec p < 0,
         ''stabilization and cooldown values cannot be negative''),
      (as_PredictiveLookbackSamples p < 0, ''predictiveLookbackSamples cannot be negative''),
      (as_PredictiveScaleFactor p < 0, ''predictiveScaleFactor cannot be negative''),
      (as_PredictiveScalingEnabled p \<and> as_PredictiveLookbackSamples p = 1,
         ''predictiveLookbackSamples must be >= 2 when predictiveScalingEnabled is true'')]"

text \<open>The loop over the custom values is over a map: the model takes the keys in order, and which of two
  errors is reported depends on the order, but not whether there is one.\<close>

definition validate_custom :: "string \<times> float64 \<Rightarrow> err option" where
  "validate_custom kv = guards
     [(blank (fst kv), ''custom metric name cannot be empty''), (snd kv < 0, ''custom metric value cannot be negative'')]"

definition validateDeploymentMetricSample :: "DeploymentMetricSample \<Rightarrow> err option" where
  "validateDeploymentMetricSample m = or_else (guards
     [(blank (m_DeploymentID m), ''deploymentId is required''),
      (m_CPUUsage m < 0 \<or> m_MemoryUsage m < 0, ''cpuUsage and memoryUsage cannot be negative'')])
   (first_error validate_custom (elems (m_Custom m)))"

section \<open>What validation guarantees\<close>

text \<open>The normalisation of the rollout settings and the defaults of the autoscaler never correct a value that
  passed validation: they only fill in what was left out.\<close>

lemma valid_spec_rollout:
  assumes "validateDeploymentSpec d = None"
  shows "ro_RollingUpdate (normalizeRolloutSpec (sp_Rollout d)) = ro_RollingUpdate (sp_Rollout d)"
proof -
  have "\<not> MaxUnavailable (ro_RollingUpdate (sp_Rollout d)) < 0" and "\<not> MaxSurge (ro_RollingUpdate (sp_Rollout d)) < 0"
    using assms by (simp_all add: validateDeploymentSpec_def)
  then show ?thesis by (simp add: normalizeRolloutSpec_def Let_def)
qed

lemma valid_policy_kept:
  assumes "validateAutoscalerPolicy p = None"
  shows "as_MinReplicas (default_policy p) = as_MinReplicas p \<and> as_MaxReplicas (default_policy p) = as_MaxReplicas p"
  using assms by (auto simp: validateAutoscalerPolicy_def default_policy_def Let_def)

text \<open>The range of the ports of a service that passed validation, and the node port of a service of that type.\<close>

lemma valid_service_ports:
  assumes "validateServiceSpec sv = None" and "p \<in> set (ss_Ports sv)"
  shows "1 \<le> po_Port p \<and> po_Port p \<le> 65535 \<and> 1 \<le> po_TargetPort p \<and> po_TargetPort p \<le> 65535 \<and>
    (ss_Type sv = ServiceTypeNodePort \<longrightarrow> 30000 \<le> po_NodePort p \<and> po_NodePort p \<le> 32767)"
  using assms by (auto simp: validateServiceSpec_def validate_port_def split: if_splits)

end
