(* ===== verification/Controller.thy ===== *)
theory Controller
  imports Reconcile_Loop
begin

text \<open>
  The controller manager (\<^verbatim>\<open>internal/controller/manager.go\<close>): at every tick a controller tries to take or
  renew the lease and reconciles its shard when it leads; when it is stopped it gives the lease up.
  A run is a sequence of ticks of the loop, closed by the release.
\<close>

section \<open>The manager\<close>

record Manager =
  mg_interval :: duration
  mg_controllerID :: string
  mg_shardIndex :: int
  mg_shardTotal :: int
  mg_lease :: duration

definition NewManager :: "duration \<Rightarrow> string \<Rightarrow> int \<Rightarrow> int \<Rightarrow> duration \<Rightarrow> Manager" where
  "NewManager interval controllerID shardIndex shardTotal lease = (let
     shardTotal = (if shardTotal \<le> 0 then 1 else shardTotal);
     shardIndex = (if shardIndex < 0 then 0 else shardIndex);
     shardIndex = (if shardIndex \<ge> shardTotal then irem shardIndex shardTotal else shardIndex);
     lease = (if lease \<le> 0 then 10 * Second else lease) in
     \<lparr>mg_interval = interval, mg_controllerID = controllerID, mg_shardIndex = shardIndex, mg_shardTotal = shardTotal, mg_lease = lease\<rparr>)"

definition on_tick :: "'db oenv \<Rightarrow> Manager \<Rightarrow> ('db, unit) orch" where
  "on_tick E m = bnd (attempt (TryAcquireControllerLeadership E (mg_controllerID m) (mg_lease m))) (\<lambda>r. case r of
     Inl _ \<Rightarrow> ret ()
   | Inr (leader, _) \<Rightarrow>
       if \<not> leader then ret ()
       else ignore (ReconcileShard E (mg_shardIndex m) (mg_shardTotal m)))"

definition on_done :: "'db oenv \<Rightarrow> Manager \<Rightarrow> ('db, unit) orch" where
  "on_done E m = ignore (ReleaseControllerLeadership E (mg_controllerID m))"

text \<open>\<^verbatim>\<open>Run\<close> after a number of ticks: the loop itself ends only when the context is cancelled.\<close>

definition Run :: "'db oenv \<Rightarrow> Manager \<Rightarrow> nat \<Rightarrow> ('db, unit) orch" where
  "Run E m ticks = seq (for_each [0..<ticks] (\<lambda>_. on_tick E m)) (on_done E m)"

section \<open>Frames\<close>

lemma free_on_tick: "stays free (on_tick E m)"
  unfolding on_tick_def by (intro free_rules free_ops)

lemma free_Run: "stays free (Run E m n)"
  unfolding Run_def on_done_def by (intro free_rules free_on_tick free_ops)

lemma sound_on_tick: "env_ok E \<Longrightarrow> stays (sound E) (on_tick E m)"
  unfolding on_tick_def by (intro sound_rules sound_ops)

lemma sound_Run: "env_ok E \<Longrightarrow> stays (sound E) (Run E m n)"
  unfolding Run_def on_done_def by (intro sound_rules sound_on_tick sound_ops)

section \<open>Shards and leadership\<close>

text \<open>A manager reconciles one of its shards and none that does not exist.\<close>

lemma manager_in_range:
  assumes "m = NewManager iv c i n l"
  shows "0 \<le> mg_shardIndex m \<and> mg_shardIndex m < mg_shardTotal m \<and> 0 < mg_lease m"
  using assms by (auto simp: NewManager_def Let_def irem_nonneg Second_def)

text \<open>
  (C8) A standby controller is idle: while the lease of another controller has not expired, a tick of the
  loop leaves the whole database as it is, so only the leader reconciles.
\<close>

theorem standby_is_idle:
  assumes "env_ok E" and "leads E leader expiry s" and "mg_controllerID m \<noteq> leader"
    and "env_clock E (st_tick s) \<le> expiry" and "on_tick E m s = (r, t)"
  shows "contents E t = contents E s"
proof -
  let ?c = "mg_controllerID m"
  have wf: "store_wf (contents E s)" using assms(2) by (simp add: leads_def)
  have "wp (TryAcquireControllerLeadership E ?c (mg_lease m)) (\<lambda>r u. contents E u = contents E s \<and> (\<forall>l. r \<noteq> Inr (True, l))) s"
  proof (cases "blank ?c")
    case False
    show ?thesis
      by (rule wp_TryAcquire [OF assms(1) wf False HOL.refl HOL.refl])
        (use assms(2-4) in \<open>auto simp: leads_def holder_def\<close>)
  qed (simp add: TryAcquireControllerLeadership_def wp_throw)
  then have "wp (on_tick E m) (\<lambda>_ u. contents E u = contents E s) s"
    unfolding on_tick_def wp_bnd wp_attempt by (rule wp_conseq) (auto simp: wp_ret split: sum.splits)
  from wpD [OF this assms(5)] show ?thesis .
qed

theorem standby_is_idle_witness:
  "contents demo_oenv (snd (on_tick demo_oenv (NewManager Second ''b'' 0 1 0)
     (NewOrchestrator [(keyControllerLease, JControllerLease
       \<lparr>l_LeaderID = ''a'', l_ExpiresAt = env_clock demo_oenv 0, l_Term = 1, l_UpdatedAt = 0\<rparr>)])))
   = contents demo_oenv (NewOrchestrator [(keyControllerLease, JControllerLease
       \<lparr>l_LeaderID = ''a'', l_ExpiresAt = env_clock demo_oenv 0, l_Term = 1, l_UpdatedAt = 0\<rparr>)])"
  (is "contents _ (snd (on_tick _ ?m ?s)) = _")
proof -
  have b: "\<not> blank ''a''" by code_simp
  have "leads demo_oenv ''a'' (env_clock demo_oenv 0) ?s"
    using b by (auto simp: leads_def lease_of_def store_wf_def keyControllerLease_def blob_key_simps)
  then show ?thesis
    by (rule standby_is_idle [OF demo_oenv_ok _ _ _ prod.collapse [symmetric]]) (simp_all add: NewManager_def NewOrchestrator_def)
qed

end
