(* ===== verification/Http_Types.thy ===== *)
theory Http_Types
  imports Go_Text Auth Validation Controller
begin

text \<open>
  Requests, responses and the state of the HTTP server (\<^verbatim>\<open>internal/api/httpserver.go\<close>, \<^verbatim>\<open>errors.go\<close>), the helpers
  its handlers share, and the circuit breakers.

  A response carries the value that is written as JSON (\<open>payload\<close>), not its text. Decoding a request
  body into a struct of the model, the upstream of the proxy and the schedule of an event stream are
  parameters (\<open>henv\<close>). Where the source ignores that the decoding failed, the parameter is the value the
  struct then has (\<open>he_decodeRevision\<close>). Whether the writer of a response can flush, as that of
  \<^verbatim>\<open>net/http\<close> can, is a parameter too (\<open>he_flusher\<close>). The audit lines that the server logs are kept in its state.
\<close>

section \<open>Requests and responses\<close>

record request =
  rq_Method :: string
  rq_Path :: string
  rq_Header :: "string \<Rightarrow> string"
  rq_Query :: "string \<Rightarrow> string"
  rq_Body :: string
  rq_Principal :: "Principal option"

record APIError =
  ae_Code :: string
  ae_Message :: string
  ae_Details :: string

datatype stream_frame = FrameKeepAlive | FrameEvent Event

datatype payload =
    PError APIError
  | POk
  | PText string
  | PRedirect string
  | PDeployment Deployment | PDeployments "Deployment list"
  | PAutoscaler AutoscalerPolicy | PAutoscalers "AutoscalerPolicy list"
  | PTrends "NodeHealthTrend list"
  | PCluster ClusterState
  | PAssignments "Assignment list" | PWorkloads "Workload list"
  | PService Service | PServices "Service list"
  | PNamespace Namespace | PNamespaces "Namespace list"
  | PQuota NamespaceQuota | PQuotas "NamespaceQuota list"
  | PSecret Secret | PSecrets "Secret list"
  | PVolume PersistentVolume | PVolumes "PersistentVolume list"
  | PClaim PersistentVolumeClaim | PClaims "PersistentVolumeClaim list"
  | PNetworkPolicy NetworkPolicy | PNetworkPolicies "NetworkPolicy list"
  | PJob Job | PJobs "Job list"
  | PCronJob CronJob | PCronJobs "CronJob list"
  | PBinding RoleBinding | PBindings "RoleBinding list"
  | PEndpoint ServiceEndpoint | PEndpoints "ServiceEndpoint list"
  | PResolved string "ServiceEndpoint list"
  | PSidecar string "ServiceEndpoint list" int string
  | PConnected Service ServiceEndpoint string int
  | PEvents "Event list"
  | PStream "stream_frame list"

record response =
  hr_Status :: int
  hr_Header :: "string gomap"
  hr_Body :: payload

section \<open>The server\<close>

record breakerState =
  br_Failures :: int
  br_OpenUntil :: gotime
  br_LastReason :: string

datatype audit =
    AuthFailed string string string
  | AuthorizationDenied string string string "string list"
  | SensitiveRequest string string int string "string list"

record 'db server =
  srv_orch :: "'db world"
  srv_auth :: jwks_cache
  srv_breakers :: "breakerState gomap"
  srv_audit :: "audit list"

type_synonym ('db, 'a) http = "('db server, 'a) go"

record upstream_response =
  up_Status :: int
  up_Header :: "string gomap"
  up_Body :: string

datatype stream_tick = TickDone | TickKeepAlive | TickEvent

type_synonym 'a decoder = "string \<Rightarrow> err + 'a"

record 'db henv =
  he_orch :: "'db oenv"
  he_auth :: auth_env
  he_verifier :: Verifier
  he_decodeNode :: "Node decoder"
  he_decodeUsed :: "Resource decoder"
  he_decodeSpec :: "DeploymentSpec decoder"
  he_decodeRevision :: "string \<Rightarrow> int"
  he_decodePolicy :: "AutoscalerPolicy decoder"
  he_decodeMetric :: "DeploymentMetricSample decoder"
  he_decodeStatus :: "(WorkloadStatus \<times> string) decoder"
  he_decodeServiceSpec :: "ServiceSpec decoder"
  he_decodeNamespace :: "Namespace decoder"
  he_decodeQuota :: "NamespaceQuota decoder"
  he_decodeSecret :: "Secret decoder"
  he_decodeVolume :: "PersistentVolume decoder"
  he_decodeClaim :: "PersistentVolumeClaim decoder"
  he_decodeNetworkPolicy :: "NetworkPolicy decoder"
  he_decodeJob :: "Job decoder"
  he_decodeCronJob :: "CronJob decoder"
  he_decodeBinding :: "RoleBinding decoder"
  he_newRequest :: "string \<Rightarrow> err + unit"
  he_upstream :: "nat \<Rightarrow> string \<Rightarrow> duration \<Rightarrow> err + upstream_response"
  he_flusher :: bool
  he_stream :: "stream_tick list"

type_synonym 'db handler = "'db henv \<Rightarrow> request \<Rightarrow> ('db, response) http"

definition NewHTTPServer :: "'db world \<Rightarrow> jwks_cache \<Rightarrow> 'db server" where
  "NewHTTPServer orch auth = \<lparr>srv_orch = orch, srv_auth = auth, srv_breakers = [], srv_audit = []\<rparr>"

section \<open>Calling the service\<close>

definition on_orch :: "('db, 'a) orch \<Rightarrow> ('db, 'a) http" where
  "on_orch m s = (case m (srv_orch s) of (r, w) \<Rightarrow> (r, s\<lparr>srv_orch := w\<rparr>))"

definition on_auth :: "'a authn \<Rightarrow> ('db, 'a) http" where
  "on_auth m s = (case m (srv_auth s) of (r, c) \<Rightarrow> (r, s\<lparr>srv_auth := c\<rparr>))"

definition log_audit :: "audit \<Rightarrow> ('db, unit) http" where
  "log_audit a = modify (\<lambda>s. s\<lparr>srv_audit := srv_audit s @ [a]\<rparr>)"

text \<open>A panic or a blocked lock inside a call is not an error value of the call: it ends the handler.\<close>

fun abnormal :: "err \<Rightarrow> bool" where
  "abnormal (ErrPanic m) \<longleftrightarrow> True"
| "abnormal ErrDeadlock \<longleftrightarrow> True"
| "abnormal _ \<longleftrightarrow> False"

definition called :: "('db, 'a) orch \<Rightarrow> (err + 'a \<Rightarrow> ('db, 'b) http) \<Rightarrow> ('db, 'b) http" where
  "called m f = bnd (attempt (on_orch m)) (\<lambda>r. case r of
     Inl e \<Rightarrow> if abnormal e then throw e else f (Inl e)
   | Inr x \<Rightarrow> f (Inr x))"

section \<open>Writing responses\<close>

definition json_header :: "string gomap" where
  "json_header = [(''Content-Type'', ''application/json'')]"

definition writeAPIError :: "int \<Rightarrow> string \<Rightarrow> string \<Rightarrow> string \<Rightarrow> ('db, response) http" where
  "writeAPIError status code message details = ret \<lparr>hr_Status = status, hr_Header = json_header,
     hr_Body = PError \<lparr>ae_Code = code, ae_Message = message, ae_Details = details\<rparr>\<rparr>"

definition writeJSON :: "int \<Rightarrow> payload \<Rightarrow> ('db, response) http" where
  "writeJSON code payload = ret \<lparr>hr_Status = code, hr_Header = json_header, hr_Body = payload\<rparr>"

definition method_not_allowed :: "string \<Rightarrow> ('db, response) http" where
  "method_not_allowed hint = writeAPIError 405 ''method_not_allowed'' ''Method not allowed'' hint"

definition route_not_found :: "string \<Rightarrow> ('db, response) http" where
  "route_not_found details = writeAPIError 404 ''not_found'' ''Route not found'' details"

text \<open>\<^verbatim>\<open>json.NewDecoder(r.Body).Decode(&req)\<close>, or a 400.\<close>

definition decoded :: "'a decoder \<Rightarrow> request \<Rightarrow> ('a \<Rightarrow> ('db, response) http) \<Rightarrow> ('db, response) http" where
  "decoded dec r f = (case dec (rq_Body r) of
     Inl e \<Rightarrow> writeAPIError 400 ''invalid_payload'' ''Invalid payload'' (err_text e)
   | Inr x \<Rightarrow> f x)"

definition validated :: "err option \<Rightarrow> string \<Rightarrow> ('db, response) http \<Rightarrow> ('db, response) http" where
  "validated verdict message f = (case verdict of
     Some e \<Rightarrow> writeAPIError 400 ''validation_failed'' message (err_text e)
   | None \<Rightarrow> f)"

text \<open>The result of a call as JSON, or its error with the given status and code.\<close>

definition answered :: "('db, 'a) orch \<Rightarrow> int \<Rightarrow> string \<Rightarrow> string \<Rightarrow> int \<Rightarrow> ('a \<Rightarrow> payload) \<Rightarrow> ('db, response) http" where
  "answered m failure code message success body = called m (\<lambda>r. case r of
     Inl e \<Rightarrow> writeAPIError failure code message (err_text e)
   | Inr x \<Rightarrow> writeJSON success (body x))"

text \<open>The same when a missing record is reported as 404.\<close>

definition unless_found :: "string \<Rightarrow> string \<Rightarrow> string \<Rightarrow> err \<Rightarrow> ('db, response) http \<Rightarrow> ('db, response) http" where
  "unless_found code message what e other =
     (if err_is e ErrNotFound then writeAPIError 404 code message what else other)"

definition post_or_get :: "request \<Rightarrow> ('db, response) http \<Rightarrow> ('db, response) http \<Rightarrow> ('db, response) http" where
  "post_or_get r post_it get_it =
     (if rq_Method r = ''POST'' then post_it
      else if rq_Method r = ''GET'' then get_it
      else method_not_allowed ''use GET or POST'')"

definition parsePositiveIntOrDefault :: "string \<Rightarrow> int \<Rightarrow> int" where
  "parsePositiveIntOrDefault raw fallback = (case Atoi (TrimSpace raw) of
     None \<Rightarrow> fallback | Some v \<Rightarrow> if v \<le> 0 then fallback else v)"

definition label_segment :: "string gomap \<Rightarrow> string \<Rightarrow> string gomap" where
  "label_segment out seg = (case SplitN2 (TrimSpace seg) CHR ''='' of
     [a, b] \<Rightarrow> (let k = TrimSpace a; v = TrimSpace b in if k \<noteq> [] \<and> v \<noteq> [] then map_put k v out else out)
   | _ \<Rightarrow> out)"

definition parseLabelQuery :: "string \<Rightarrow> string gomap" where
  "parseLabelQuery raw = (let raw = TrimSpace raw in
     if raw = [] then [] else foldl label_segment [] (Split raw CHR '',''))"

section \<open>Circuit breakers\<close>

definition zero_breaker :: breakerState where
  "zero_breaker = \<lparr>br_Failures = 0, br_OpenUntil = zero_time, br_LastReason = []\<rparr>"

definition breaker :: "'db server \<Rightarrow> string \<Rightarrow> breakerState" where
  "breaker s name = map_get zero_breaker (srv_breakers s) name"

definition circuitOpen :: "'db henv \<Rightarrow> string \<Rightarrow> ('db, bool \<times> string) http" where
  "circuitOpen H name = bnd (gets (\<lambda>s. breaker s name)) (\<lambda>b. bnd (on_orch (time_now (he_orch H))) (\<lambda>now.
     ret (if br_OpenUntil b > now then (True, br_LastReason b) else (False, []))))"

definition recordCircuitFailure :: "'db henv \<Rightarrow> string \<Rightarrow> int \<Rightarrow> int \<Rightarrow> string \<Rightarrow> ('db, unit) http" where
  "recordCircuitFailure H name threshold openSec reason = bnd (gets (\<lambda>s. breaker s name)) (\<lambda>b. let
     b = b\<lparr>br_Failures := iadd (br_Failures b) 1, br_LastReason := reason\<rparr> in
     bnd (if br_Failures b \<ge> threshold
          then bnd (on_orch (time_now (he_orch H))) (\<lambda>now. ret (b\<lparr>br_OpenUntil := now + seconds openSec, br_Failures := 0\<rparr>))
          else ret b) (\<lambda>b.
     modify (\<lambda>s. s\<lparr>srv_breakers := map_put name b (srv_breakers s)\<rparr>)))"

definition recordCircuitSuccess :: "string \<Rightarrow> ('db, unit) http" where
  "recordCircuitSuccess name = modify (\<lambda>s. s\<lparr>srv_breakers := map_put name zero_breaker (srv_breakers s)\<rparr>)"

end
