(* ===== verification/Http_Handlers.thy ===== *)
theory Http_Handlers
  imports Http_Types
begin

text \<open>
  The handlers of the HTTP server (\<^verbatim>\<open>internal/api/httpserver.go\<close>), one definition each: the method and the
  route are checked, the body is decoded and validated, the operation of the service is called, and
  its result or error is written. A deferred release of an endpoint runs after the response is made.
\<close>

section \<open>Nodes\<close>

definition handleRegisterNode :: "'db handler" where
  "handleRegisterNode H r =
     (if rq_Method r \<noteq> ''POST'' then method_not_allowed ''use POST''
      else decoded (he_decodeNode H) r (\<lambda>node.
      validated (validateNode node) ''Node validation failed''
      (answered (RegisterNode (he_orch H) node) 400 ''register_failed'' ''Failed to register node'' 201 (\<lambda>_. POk))))"

definition handleNodeSubroutes :: "'db handler" where
  "handleNodeSubroutes H r = (case Split (TrimPrefix (rq_Path r) ''/v1/nodes/'') CHR ''/'' of
     [node, sub] \<Rightarrow>
       if sub = ''drain'' then
         if rq_Method r \<noteq> ''POST'' then method_not_allowed ''use POST''
         else answered (DrainNode (he_orch H) node) 400 ''drain_failed'' ''Node drain failed'' 200 (\<lambda>_. POk)
       else if sub = ''remove'' then
         if rq_Method r \<noteq> ''POST'' then method_not_allowed ''use POST''
         else answered (RemoveNode (he_orch H) node) 400 ''remove_failed'' ''Node remove failed'' 200 (\<lambda>_. POk)
       else if sub \<noteq> ''heartbeat'' then route_not_found ''unknown node subroute''
       else if rq_Method r \<noteq> ''POST'' then method_not_allowed ''use POST''
       else decoded (he_decodeUsed H) r (\<lambda>used.
         called (HeartbeatNode (he_orch H) node used) (\<lambda>x. case x of
           Inl e \<Rightarrow> unless_found ''node_not_found'' ''Node not found'' node e
             (writeAPIError 400 ''heartbeat_failed'' ''Heartbeat failed'' (err_text e))
         | Inr _ \<Rightarrow> writeJSON 200 POk))
   | _ \<Rightarrow> route_not_found ''unknown node subroute'')"

section \<open>Deployments\<close>

definition handleDeployments :: "'db handler" where
  "handleDeployments H r = post_or_get r
     (decoded (he_decodeSpec H) r (\<lambda>spec.
      validated (validateDeploymentSpec spec) ''Deployment spec validation failed''
      (answered (CreateDeployment (he_orch H) spec) 400 ''create_failed'' ''Create deployment failed'' 201 PDeployment)))
     (answered (ListDeployments (he_orch H)) 500 ''list_failed'' ''List deployments failed'' 200 PDeployments)"

definition handleDeploymentByID :: "'db handler" where
  "handleDeploymentByID H r = (let parts = Split (TrimPrefix (rq_Path r) ''/v1/deployments/'') CHR ''/''; ident = hd parts in
     if blank ident then route_not_found ''deployment id is empty''
     else if length parts = 2 \<and> parts ! 1 = ''rollback'' then
       if rq_Method r \<noteq> ''POST'' then method_not_allowed ''use POST''
       else answered (RollbackDeployment (he_orch H) ident (he_decodeRevision H (rq_Body r)))
         400 ''rollback_failed'' ''Rollback deployment failed'' 200 PDeployment
     else if length parts \<noteq> 1 then route_not_found ''unknown deployment subroute''
     else if rq_Method r = ''DELETE'' then
       answered (DeleteDeployment (he_orch H) ident) 400 ''delete_failed'' ''Delete deployment failed'' 200 (\<lambda>_. POk)
     else if rq_Method r = ''PUT'' then
       decoded (he_decodeSpec H) r (\<lambda>spec.
       validated (validateDeploymentSpec spec) ''Deployment spec validation failed''
       (answered (UpdateDeployment (he_orch H) ident spec) 400 ''update_failed'' ''Update deployment failed'' 200 PDeployment))
     else method_not_allowed ''use DELETE, PUT, or POST /rollback'')"

section \<open>Autoscaling and metrics\<close>

definition handleAutoscalers :: "'db handler" where
  "handleAutoscalers H r = post_or_get r
     (decoded (he_decodePolicy H) r (\<lambda>policy.
      validated (validateAutoscalerPolicy policy) ''Autoscaler policy validation failed''
      (answered (UpsertAutoscalerPolicy (he_orch H) policy) 400 ''autoscaler_upsert_failed'' ''Failed to upsert autoscaler policy'' 201 PAutoscaler)))
     (answered (ListAutoscalerPolicies (he_orch H)) 500 ''autoscaler_list_failed'' ''Failed to list autoscaler policies'' 200 PAutoscalers)"

definition handleAutoscalerByID :: "'db handler" where
  "handleAutoscalerByID H r = (let parts = Split (TrimPrefix (rq_Path r) ''/v1/autoscalers/'') CHR ''/'' in
     if length parts \<noteq> 1 \<or> blank (hd parts) then route_not_found ''autoscaler id is required''
     else if rq_Method r \<noteq> ''DELETE'' then method_not_allowed ''use DELETE''
     else answered (DeleteAutoscalerPolicy (he_orch H) (hd parts)) 400 ''autoscaler_delete_failed'' ''Failed to delete autoscaler policy'' 200 (\<lambda>_. POk))"

definition handleDeploymentMetrics :: "'db handler" where
  "handleDeploymentMetrics H r =
     (if rq_Method r \<noteq> ''POST'' then method_not_allowed ''use POST''
      else decoded (he_decodeMetric H) r (\<lambda>metric.
      validated (validateDeploymentMetricSample metric) ''Deployment metric validation failed''
      (answered (IngestDeploymentMetric (he_orch H) metric) 400 ''metric_ingest_failed'' ''Failed to ingest deployment metric'' 202 (\<lambda>_. POk))))"

definition handlePrometheusMetrics :: "'db handler" where
  "handlePrometheusMetrics H r =
     (if rq_Method r \<noteq> ''GET'' then method_not_allowed ''use GET''
      else called (PrometheusMetrics (he_orch H)) (\<lambda>x. case x of
        Inl e \<Rightarrow> writeAPIError 500 ''metrics_failed'' ''Failed to render metrics'' (err_text e)
      | Inr metrics \<Rightarrow> ret \<lparr>hr_Status = 200, hr_Header = [(''Content-Type'', ''text/plain; version=0.0.4'')], hr_Body = PText metrics\<rparr>))"

text \<open>A positive number in a query parameter, or the default.\<close>

definition query_number :: "string \<Rightarrow> int \<Rightarrow> int" where
  "query_number raw fallback = (if raw = [] then fallback
     else case Atoi raw of None \<Rightarrow> fallback | Some v \<Rightarrow> if v > 0 then v else fallback)"

definition handleNodeHealthTrends :: "'db handler" where
  "handleNodeHealthTrends H r =
     (if rq_Method r \<noteq> ''GET'' then method_not_allowed ''use GET''
      else answered (ListNodeHealthTrends (he_orch H) (query_number (TrimSpace (rq_Query r ''window'')) 20))
        500 ''node_health_trends_failed'' ''Failed to list node health trends'' 200 PTrends)"

definition handleCluster :: "'db handler" where
  "handleCluster H r =
     (if rq_Method r \<noteq> ''GET'' then method_not_allowed ''use GET''
      else answered (GetClusterState (he_orch H)) 500 ''cluster_failed'' ''Failed to read cluster state'' 200 PCluster)"

section \<open>Workers\<close>

definition handleWorkerSubroutes :: "'db handler" where
  "handleWorkerSubroutes H r = (case Split (TrimPrefix (rq_Path r) ''/v1/workers/'') CHR ''/'' of
     [node, sub] \<Rightarrow>
       if rq_Method r \<noteq> ''GET'' then method_not_allowed ''use GET''
       else if sub = ''assignments'' then
         answered (PollAssignments (he_orch H) node (query_number (rq_Query r ''max'') 10))
           500 ''poll_failed'' ''Failed to poll assignments'' 200 PAssignments
       else if sub = ''workloads'' then
         answered (ListNodeWorkloads (he_orch H) node) 500 ''workloads_failed'' ''Failed to list desired node workloads'' 200 PWorkloads
       else route_not_found ''unknown worker subroute''
   | _ \<Rightarrow> route_not_found ''unknown worker subroute'')"

definition handleWorkloadSubroutes :: "'db handler" where
  "handleWorkloadSubroutes H r = (let parts = Split (TrimPrefix (rq_Path r) ''/v1/workloads/'') CHR ''/'' in
     if length parts \<noteq> 2 \<or> parts ! 1 \<noteq> ''status'' then route_not_found ''unknown workload subroute''
     else if rq_Method r \<noteq> ''POST'' then method_not_allowed ''use POST''
     else decoded (he_decodeStatus H) r (\<lambda>(status, containerID).
       answered (ReportWorkloadStatus (he_orch H) (hd parts) status containerID)
         400 ''status_update_failed'' ''Workload status update failed'' 200 (\<lambda>_. POk)))"

section \<open>Collections\<close>

definition handleServices :: "'db handler" where
  "handleServices H r = post_or_get r
     (decoded (he_decodeServiceSpec H) r (\<lambda>spec.
      validated (validateServiceSpec spec) ''Service spec validation failed''
      (answered (CreateService (he_orch H) spec) 400 ''create_service_failed'' ''Create service failed'' 201 PService)))
     (answered (ListServices (he_orch H)) 500 ''list_services_failed'' ''List services failed'' 200 PServices)"

definition handleNamespaces :: "'db handler" where
  "handleNamespaces H r = post_or_get r
     (decoded (he_decodeNamespace H) r (\<lambda>ns.
      validated (guards [(blank (ns_Name ns), ''namespace name is required'')]) ''Namespace validation failed''
      (answered (CreateNamespace (he_orch H) ns) 400 ''namespace_create_failed'' ''Create namespace failed'' 201 PNamespace)))
     (answered (ListNamespaces (he_orch H)) 500 ''namespace_list_failed'' ''List namespaces failed'' 200 PNamespaces)"

definition handleQuotas :: "'db handler" where
  "handleQuotas H r = post_or_get r
     (decoded (he_decodeQuota H) r (\<lambda>quota.
      validated (guards [(blank (q_Namespace quota), ''namespace is required'')]) ''Quota validation failed''
      (answered (UpsertNamespaceQuota (he_orch H) quota) 400 ''quota_upsert_failed'' ''Upsert quota failed'' 201 PQuota)))
     (answered (ListNamespaceQuotas (he_orch H)) 500 ''quota_list_failed'' ''List quotas failed'' 200 PQuotas)"

definition handleSecrets :: "'db handler" where
  "handleSecrets H r = post_or_get r
     (decoded (he_decodeSecret H) r (\<lambda>secret.
      validated (guards [(blank (se_Name secret), ''secret name is required'')]) ''Secret validation failed''
      (answered (UpsertSecret (he_orch H) secret) 400 ''secret_upsert_failed'' ''Upsert secret failed'' 201 PSecret)))
     (answered (ListSecrets (he_orch H) (TrimSpace (rq_Query r ''namespace''))) 500 ''secret_list_failed'' ''List secrets failed'' 200 PSecrets)"

definition handlePersistentVolumes :: "'db handler" where
  "handlePersistentVolumes H r = post_or_get r
     (decoded (he_decodeVolume H) r (\<lambda>pv.
      answered (UpsertPersistentVolume (he_orch H) pv) 400 ''pv_upsert_failed'' ''Upsert persistent volume failed'' 201 PVolume))
     (answered (ListPersistentVolumes (he_orch H)) 500 ''pv_list_failed'' ''List persistent volumes failed'' 200 PVolumes)"

definition handlePersistentVolumeClaims :: "'db handler" where
  "handlePersistentVolumeClaims H r = post_or_get r
     (decoded (he_decodeClaim H) r (\<lambda>pvc.
      answered (UpsertPersistentVolumeClaim (he_orch H) pvc) 400 ''pvc_upsert_failed'' ''Upsert persistent volume claim failed'' 201 PClaim))
     (answered (ListPersistentVolumeClaims (he_orch H) (TrimSpace (rq_Query r ''namespace'')))
        500 ''pvc_list_failed'' ''List persistent volume claims failed'' 200 PClaims)"

definition handleNetworkPolicies :: "'db handler" where
  "handleNetworkPolicies H r = post_or_get r
     (decoded (he_decodeNetworkPolicy H) r (\<lambda>policy.
      answered (UpsertNetworkPolicy (he_orch H) policy) 400 ''network_policy_upsert_failed'' ''Upsert network policy failed'' 201 PNetworkPolicy))
     (answered (ListNetworkPolicies (he_orch H) (TrimSpace (rq_Query r ''namespace'')))
        500 ''network_policy_list_failed'' ''List network policies failed'' 200 PNetworkPolicies)"

definition handleJobs :: "'db handler" where
  "handleJobs H r = post_or_get r
     (decoded (he_decodeJob H) r (\<lambda>job.
      answered (UpsertJob (he_orch H) job) 400 ''job_upsert_failed'' ''Upsert job failed'' 201 PJob))
     (answered (ListJobs (he_orch H) (TrimSpace (rq_Query r ''namespace''))) 500 ''job_list_failed'' ''List jobs failed'' 200 PJobs)"

definition handleCronJobs :: "'db handler" where
  "handleCronJobs H r = post_or_get r
     (decoded (he_decodeCronJob H) r (\<lambda>cj.
      answered (UpsertCronJob (he_orch H) cj) 400 ''cronjob_upsert_failed'' ''Upsert cronjob failed'' 201 PCronJob))
     (answered (ListCronJobs (he_orch H) (TrimSpace (rq_Query r ''namespace''))) 500 ''cronjob_list_failed'' ''List cronjobs failed'' 200 PCronJobs)"

definition handleRoleBindings :: "'db handler" where
  "handleRoleBindings H r = post_or_get r
     (decoded (he_decodeBinding H) r (\<lambda>binding.
      answered (UpsertRoleBinding (he_orch H) binding) 400 ''role_binding_upsert_failed'' ''Upsert role binding failed'' 201 PBinding))
     (answered (ListRoleBindings (he_orch H) (TrimSpace (rq_Query r ''namespace'')))
        500 ''role_binding_list_failed'' ''List role bindings failed'' 200 PBindings)"

definition handleRecoveryRun :: "'db handler" where
  "handleRecoveryRun H r =
     (if rq_Method r \<noteq> ''POST'' then method_not_allowed ''use POST''
      else answered (RecoverCluster (he_orch H)) 500 ''recovery_failed'' ''Cluster recovery run failed'' 200 (\<lambda>_. POk))"

section \<open>Services and traffic\<close>

definition handleServiceSubroutes :: "'db handler" where
  "handleServiceSubroutes H r = (case Split (TrimPrefix (rq_Path r) ''/v1/services/'') CHR ''/'' of
     [serviceID, subroute] \<Rightarrow>
       if subroute = ''endpoints'' then
         if rq_Method r \<noteq> ''GET'' then method_not_allowed ''use GET''
         else called (ListServiceEndpoints (he_orch H) serviceID) (\<lambda>x. case x of
           Inl e \<Rightarrow> unless_found ''service_not_found'' ''Service not found'' serviceID e
             (writeAPIError 500 ''list_endpoints_failed'' ''List service endpoints failed'' (err_text e))
         | Inr items \<Rightarrow> writeJSON 200 (PEndpoints items))
       else if subroute = ''proxy-target'' then
         if rq_Method r \<noteq> ''GET'' then method_not_allowed ''use GET''
         else called (SelectServiceEndpoint (he_orch H) serviceID (TrimSpace (rq_Query r ''strategy''))) (\<lambda>x. case x of
           Inl e \<Rightarrow> unless_found ''service_not_found'' ''Service not found'' serviceID e
             (writeAPIError 400 ''select_target_failed'' ''Failed to select service endpoint'' (err_text e))
         | Inr ep \<Rightarrow> bnd (writeJSON 200 (PEndpoint ep)) (\<lambda>resp.
             seq (on_orch (ReleaseServiceEndpoint (e_ID ep))) (ret resp)))
       else route_not_found ''unknown service subroute''
   | _ \<Rightarrow> route_not_found ''unknown service subroute'')"

definition handleDNSResolve :: "'db handler" where
  "handleDNSResolve H r =
     (if rq_Method r \<noteq> ''GET'' then method_not_allowed ''use GET''
      else let name = TrimSpace (rq_Query r ''name'') in
      if name = [] then writeAPIError 400 ''invalid_query'' ''Invalid query'' ''name is required''
      else called (ResolveServiceName (he_orch H) name) (\<lambda>x. case x of
        Inl e \<Rightarrow> unless_found ''service_not_found'' ''Service not found'' name e
          (writeAPIError 500 ''resolve_failed'' ''Service resolve failed'' (err_text e))
      | Inr (dnsName, endpoints) \<Rightarrow> writeJSON 200 (PResolved dnsName endpoints)))"

definition handleDNSSidecarResolve :: "'db handler" where
  "handleDNSSidecarResolve H r =
     (if rq_Method r \<noteq> ''GET'' then method_not_allowed ''use GET''
      else let name = TrimSpace (rq_Query r ''name'') in
      if name = [] then writeAPIError 400 ''invalid_query'' ''Invalid query'' ''name is required''
      else called (ResolveServiceDNS (he_orch H) name) (\<lambda>x. case x of
        Inl e \<Rightarrow> unless_found ''service_not_found'' ''Service not found'' name e
          (writeAPIError 500 ''resolve_failed'' ''Service resolve failed'' (err_text e))
      | Inr (dnsName, endpoints, ttl) \<Rightarrow> writeJSON 200 (PSidecar dnsName endpoints ttl ''sidecar-refresh-before-expiry'')))"

text \<open>The policy check both kinds of traffic make once an endpoint has been chosen.\<close>

definition policy_checked :: "'db henv \<Rightarrow> request \<Rightarrow> Service \<Rightarrow> ServiceEndpoint \<Rightarrow> ('db, response) http \<Rightarrow> ('db, response) http" where
  "policy_checked H r svc endpoint f =
     called (IsNetworkAccessAllowed (he_orch H) (TrimSpace (rq_Query r ''sourceNamespace''))
       (parseLabelQuery (rq_Query r ''sourceLabels'')) svc (e_Port endpoint)) (\<lambda>x. case x of
         Inl e \<Rightarrow> writeAPIError 500 ''network_policy_check_failed'' ''Network policy check failed'' (err_text e)
       | Inr (allowed, reason) \<Rightarrow>
           if \<not> allowed then writeAPIError 403 ''network_policy_denied'' ''Network policy denied traffic'' reason
           else f)"

definition released :: "ServiceEndpoint \<Rightarrow> ('db, response) http \<Rightarrow> ('db, response) http" where
  "released endpoint f = bnd (attempt f) (\<lambda>x. seq (on_orch (ReleaseServiceEndpoint (e_ID endpoint)))
     (case x of Inl e \<Rightarrow> throw e | Inr resp \<Rightarrow> ret resp))"

definition connect_service :: "'db henv \<Rightarrow> request \<Rightarrow> string \<Rightarrow> ('db, response) http" where
  "connect_service H r name =
     called (RouteServiceTraffic (he_orch H) name (TrimSpace (rq_Query r ''strategy''))) (\<lambda>x. case x of
       Inl e \<Rightarrow> unless_found ''service_not_found'' ''Service not found'' name e
         (writeAPIError 400 ''connect_failed'' ''Service connect failed'' (err_text e))
     | Inr (svc, endpoint, routedHost, routedPort) \<Rightarrow> released endpoint (policy_checked H r svc endpoint
         (writeJSON 200 (PConnected svc endpoint routedHost routedPort))))"

text \<open>The retries of the proxy: up to \<open>n\<close> requests, until one is answered with a status below 500. The body of a
  discarded answer is closed, so nothing of it can be copied later.\<close>

datatype outcome = RequestFailed err | Unanswered | UpstreamError err | Answer upstream_response

definition upstream_do :: "'db henv \<Rightarrow> string \<Rightarrow> duration \<Rightarrow> ('db, err + upstream_response) http" where
  "upstream_do H url timeout = bnd (on_orch next_tick) (\<lambda>n. ret (he_upstream H n url timeout))"

fun proxy_attempts :: "'db henv \<Rightarrow> string \<Rightarrow> duration \<Rightarrow> nat \<Rightarrow> outcome \<Rightarrow> ('db, outcome) http" where
  "proxy_attempts H url timeout 0 latest = ret latest"
| "proxy_attempts H url timeout (Suc n) latest = (case he_newRequest H url of
     Inl e \<Rightarrow> ret (RequestFailed e)
   | Inr _ \<Rightarrow> bnd (upstream_do H url timeout) (\<lambda>x. case x of
       Inl e \<Rightarrow> proxy_attempts H url timeout n (UpstreamError e)
     | Inr resp \<Rightarrow> if up_Status resp < 500 then ret (Answer resp)
         else proxy_attempts H url timeout n (Answer (resp\<lparr>up_Body := []\<rparr>))))"

definition forwarded :: "string \<Rightarrow> int \<Rightarrow> upstream_response \<Rightarrow> ('db, response) http" where
  "forwarded name retries resp = ret \<lparr>hr_Status = up_Status resp,
     hr_Header = up_Header resp @ [(''X-Orch-Proxied-Service'', name), (''X-Orch-Proxy-Retries'', show_int retries)],
     hr_Body = PText (up_Body resp)\<rparr>"

definition proxy_service :: "'db henv \<Rightarrow> request \<Rightarrow> string \<Rightarrow> ('db, response) http" where
  "proxy_service H r name = (let
     retries = parsePositiveIntOrDefault (rq_Query r ''retries'') 1;
     timeoutMs = parsePositiveIntOrDefault (rq_Query r ''timeoutMs'') 1500;
     cbThreshold = parsePositiveIntOrDefault (rq_Query r ''cbThreshold'') 3;
     cbOpenSec = parsePositiveIntOrDefault (rq_Query r ''cbOpenSec'') 15;
     failure = recordCircuitFailure H name cbThreshold cbOpenSec in
     bnd (circuitOpen H name) (\<lambda>(is_open, reason).
     if is_open then writeAPIError 503 ''circuit_open'' ''Circuit breaker open'' reason
     else called (RouteServiceTraffic (he_orch H) name (TrimSpace (rq_Query r ''strategy''))) (\<lambda>x. case x of
       Inl e \<Rightarrow> unless_found ''service_not_found'' ''Service not found'' name e
         (seq (failure (err_text e)) (writeAPIError 400 ''proxy_failed'' ''Service proxy failed'' (err_text e)))
     | Inr (svc, endpoint, _, _) \<Rightarrow> released endpoint (policy_checked H r svc endpoint
         (bnd (proxy_attempts H (''http://'' @ e_Address endpoint @ '':'' @ show_int (e_Port endpoint))
                 (imul timeoutMs 1000000) (nat (iadd retries 1)) Unanswered) (\<lambda>out. case out of
            RequestFailed e \<Rightarrow> writeAPIError 500 ''proxy_request_failed'' ''Proxy request build failed'' (err_text e)
          | UpstreamError e \<Rightarrow> seq (failure (err_text e))
              (writeAPIError 502 ''proxy_upstream_failed'' ''Upstream request failed'' (err_text e))
          | Unanswered \<Rightarrow> seq (failure ''empty upstream response'')
              (writeAPIError 502 ''proxy_upstream_failed'' ''Upstream request failed'' ''empty upstream response'')
          | Answer resp \<Rightarrow> seq (if up_Status resp \<ge> 500 then failure ''upstream 5xx'' else recordCircuitSuccess name)
              (forwarded name retries resp)))))))"

definition handleNetworkServiceSubroutes :: "'db handler" where
  "handleNetworkServiceSubroutes H r = (case Split (TrimPrefix (rq_Path r) ''/v1/network/services/'') CHR ''/'' of
     name # sub # _ \<Rightarrow>
       if rq_Method r \<noteq> ''GET'' then method_not_allowed ''use GET''
       else if sub = ''connect'' then connect_service H r name
       else if sub = ''proxy'' then proxy_service H r name
       else route_not_found ''unknown network service route''
   | _ \<Rightarrow> route_not_found ''unknown network service route'')"

section \<open>Events\<close>

definition handleEvents :: "'db handler" where
  "handleEvents H r =
     (if rq_Method r \<noteq> ''GET'' then method_not_allowed ''use GET''
      else answered (ListEvents (he_orch H) (query_number (TrimSpace (rq_Query r ''limit'')) 100))
        500 ''events_failed'' ''Failed to list events'' 200 PEvents)"

text \<open>\<^verbatim>\<open>evt := <-eventCh\<close>: the oldest buffered event of the channel.\<close>

definition receive :: "nat \<Rightarrow> ('db, Event option) orch" where
  "receive ch s = (case find (\<lambda>sub. sub_chan sub = ch) (o_subscribers s) of
     None \<Rightarrow> (Inr None, s)
   | Some sub \<Rightarrow> (case sub_buf sub of
       [] \<Rightarrow> (Inr None, s)
     | e # rest \<Rightarrow> (Inr (Some e), s\<lparr>o_subscribers := map (\<lambda>x. if sub_chan x = ch then x\<lparr>sub_buf := rest\<rparr> else x) (o_subscribers s)\<rparr>)))"

text \<open>The loop of the stream for the given schedule; without an event the third case is not ready.\<close>

fun stream_loop :: "nat \<Rightarrow> stream_tick list \<Rightarrow> ('db, stream_frame list) orch" where
  "stream_loop ch [] = ret []"
| "stream_loop ch (TickDone # _) = ret []"
| "stream_loop ch (TickKeepAlive # ts) = bnd (stream_loop ch ts) (\<lambda>fs. ret (FrameKeepAlive # fs))"
| "stream_loop ch (TickEvent # ts) = bnd (receive ch) (\<lambda>evt. bnd (stream_loop ch ts) (\<lambda>fs.
     ret (case evt of None \<Rightarrow> fs | Some e \<Rightarrow> FrameEvent e # fs)))"

definition handleEventStream :: "'db handler" where
  "handleEventStream H r =
     (if rq_Method r \<noteq> ''GET'' then method_not_allowed ''use GET''
      else if \<not> he_flusher H then writeAPIError 500 ''stream_unsupported'' ''Streaming unsupported'' ''http flusher unavailable''
      else bnd (on_orch (SubscribeEvents 64)) (\<lambda>ch.
      bnd (on_orch (stream_loop ch (he_stream H))) (\<lambda>frames.
      seq (on_orch (UnsubscribeEvents ch))
      (ret \<lparr>hr_Status = 200, hr_Header = [(''Content-Type'', ''text/event-stream''), (''Cache-Control'', ''no-cache''), (''Connection'', ''keep-alive'')],
        hr_Body = PStream frames\<rparr>))))"

end
