(* ===== verification/Http_Server.thy ===== *)
theory Http_Server
  imports Http_Handlers
begin

text \<open>
  The request pipeline of the HTTP server (\<^verbatim>\<open>internal/api/httpserver.go\<close>): the version, trace,
  authentication, audit and authorization middleware around the routes. A request that changes the
  database is shown to be authenticated and authorized, and every request to keep the stored records
  well formed and the mutex of the service free.

  Request paths are modelled without percent-encoding.
\<close>

section \<open>Routes\<close>

definition healthz :: "'db handler" where
  "healthz H r = ret \<lparr>hr_Status = 200, hr_Header = [], hr_Body = PText ''ok''\<rparr>"

definition routes :: "(string \<times> 'db handler) list" where
  "routes = [
     (''/healthz'', healthz),
     (''/metrics'', handlePrometheusMetrics),
     (''/v1/nodes/register'', handleRegisterNode),
     (''/v1/nodes/'', handleNodeSubroutes),
     (''/v1/deployments'', handleDeployments),
     (''/v1/deployments/'', handleDeploymentByID),
     (''/v1/autoscalers'', handleAutoscalers),
     (''/v1/autoscalers/'', handleAutoscalerByID),
     (''/v1/metrics/deployments'', handleDeploymentMetrics),
     (''/v1/metrics/prometheus'', handlePrometheusMetrics),
     (''/v1/health/nodes/trends'', handleNodeHealthTrends),
     (''/v1/cluster'', handleCluster),
     (''/v1/workers/'', handleWorkerSubroutes),
     (''/v1/workloads/'', handleWorkloadSubroutes),
     (''/v1/services'', handleServices),
     (''/v1/services/'', handleServiceSubroutes),
     (''/v1/namespaces'', handleNamespaces),
     (''/v1/quotas'', handleQuotas),
     (''/v1/secrets'', handleSecrets),
     (''/v1/persistent-volumes'', handlePersistentVolumes),
     (''/v1/persistent-volume-claims'', handlePersistentVolumeClaims),
     (''/v1/network-policies'', handleNetworkPolicies),
     (''/v1/jobs'', handleJobs),
     (''/v1/cronjobs'', handleCronJobs),
     (''/v1/rbac/rolebindings'', handleRoleBindings),
     (''/v1/recovery/run'', handleRecoveryRun),
     (''/v1/dns/resolve'', handleDNSResolve),
     (''/v1/dns/sidecar/resolve'', handleDNSSidecarResolve),
     (''/v1/network/services/'', handleNetworkServiceSubroutes),
     (''/v1/events'', handleEvents),
     (''/v1/events/stream'', handleEventStream)]"

text \<open>
  \<^verbatim>\<open>http.ServeMux\<close>: an exact pattern is served, then a pattern that ends in a slash and is a prefix of the
  path, the longest first; a path that only lacks the slash of a pattern, and one that is not clean, is
  redirected.
\<close>

definition cleanPath :: "string \<Rightarrow> string" where
  "cleanPath p = (let np = Clean p in
     if p \<noteq> [] \<and> last p = CHR ''/'' \<and> np \<noteq> ''/'' then np @ ''/'' else np)"

definition subtree_route :: "string \<Rightarrow> 'db handler option" where
  "subtree_route path = (case sort_key (\<lambda>(pat, _). - int (length pat)) (filter (\<lambda>(pat, _). HasSuffix pat ''/'' \<and> HasPrefix path pat) routes) of
     [] \<Rightarrow> None | (_, h) # _ \<Rightarrow> Some h)"

definition redirect :: "string \<Rightarrow> ('db, response) http" where
  "redirect url = ret \<lparr>hr_Status = 301, hr_Header = [(''Location'', url)], hr_Body = PRedirect url\<rparr>"

definition mux :: "'db handler" where
  "mux H r = (let path = (if rq_Method r = ''CONNECT'' then rq_Path r else cleanPath (rq_Path r)) in
     if map_of (routes :: (string \<times> 'db handler) list) path = None \<and>
        map_of (routes :: (string \<times> 'db handler) list) (path @ ''/'') \<noteq> None then redirect (path @ ''/'')
     else if path \<noteq> rq_Path r then redirect path
     else case map_of routes path of
       Some h \<Rightarrow> h H r
     | None \<Rightarrow> (case subtree_route path of
         Some h \<Rightarrow> h H r
       | None \<Rightarrow> ret \<lparr>hr_Status = 404, hr_Header = [(''Content-Type'', ''text/plain; charset=utf-8'')], hr_Body = PText ''404 page not found''\<rparr>))"

section \<open>Roles\<close>

definition viewer_up :: "string list" where
  "viewer_up = [''viewer'', ''operator'', ''admin'']"

definition operator_up :: "string list" where
  "operator_up = [''operator'', ''admin'']"

definition requiredRoles :: "string \<Rightarrow> string \<Rightarrow> string list" where
  "requiredRoles mth path =
     (if mth = ''GET'' \<and> (path = ''/v1/cluster'' \<or> path = ''/v1/deployments'' \<or> HasPrefix path ''/v1/workers/'' \<or>
         HasPrefix path ''/v1/services'' \<or> HasPrefix path ''/v1/dns/'' \<or> HasPrefix path ''/v1/network/services/'') then viewer_up
      else if mth = ''GET'' \<and> path \<in> {''/v1/namespaces'', ''/v1/quotas'', ''/v1/secrets''} then viewer_up
      else if mth = ''GET'' \<and> path \<in> {''/v1/persistent-volumes'', ''/v1/persistent-volume-claims'', ''/v1/network-policies'',
         ''/v1/jobs'', ''/v1/cronjobs'', ''/v1/rbac/rolebindings''} then viewer_up
      else if mth = ''POST'' \<and> path \<in> {''/v1/namespaces'', ''/v1/quotas'', ''/v1/secrets''} then operator_up
      else if mth = ''POST'' \<and> path \<in> {''/v1/persistent-volumes'', ''/v1/persistent-volume-claims'', ''/v1/network-policies'',
         ''/v1/jobs'', ''/v1/cronjobs'', ''/v1/rbac/rolebindings''} then operator_up
      else if mth = ''POST'' \<and> path = ''/v1/recovery/run'' then [''admin'']
      else if mth = ''GET'' \<and> path \<in> {''/v1/metrics/prometheus'', ''/v1/health/nodes/trends''} then viewer_up
      else if mth = ''POST'' \<and> HasSuffix path ''/drain'' then operator_up
      else if mth = ''POST'' \<and> HasSuffix path ''/remove'' then [''admin'']
      else if mth = ''POST'' \<and> path = ''/v1/services'' then operator_up
      else if mth = ''GET'' \<and> path = ''/v1/autoscalers'' then viewer_up
      else if mth = ''POST'' \<and> path \<in> {''/v1/autoscalers'', ''/v1/metrics/deployments''} then operator_up
      else if mth = ''DELETE'' \<and> HasPrefix path ''/v1/autoscalers/'' then [''admin'']
      else if mth = ''PUT'' \<and> HasPrefix path ''/v1/deployments/'' then operator_up
      else if mth = ''POST'' \<and> HasSuffix path ''/rollback'' then operator_up
      else if mth = ''GET'' \<and> path \<in> {''/v1/events'', ''/v1/events/stream''} then viewer_up
      else if mth = ''POST'' \<and> (path = ''/v1/deployments'' \<or> path = ''/v1/nodes/register'' \<or> Contains path ''/heartbeat'' \<or>
         Contains path ''/status'') then operator_up
      else if mth = ''DELETE'' \<and> HasPrefix path ''/v1/deployments/'' then [''admin'']
      else [''admin''])"

definition isAuthorized :: "Principal \<Rightarrow> string \<Rightarrow> string \<Rightarrow> bool" where
  "isAuthorized p mth path = (let required = requiredRoles mth path; roleSet = map (\<lambda>x. ToLower (TrimSpace x)) (p_Roles p) in
     required = [] \<or> list_ex (\<lambda>rr. List.member roleSet rr) required)"

text \<open>One of the two loops of \<^verbatim>\<open>mergeRoles\<close>: the roles not seen before, compared trimmed and in lower case.\<close>

definition merge_role :: "string list \<times> string list \<Rightarrow> string \<Rightarrow> string list \<times> string list" where
  "merge_role so r = (case so of (seen, out) \<Rightarrow> let k = ToLower (TrimSpace r) in
     if k = [] \<or> k \<in> set seen then (seen, out) else (k # seen, out @ [r]))"

definition mergeRoles :: "string list \<Rightarrow> string list \<Rightarrow> string list" where
  "mergeRoles existing incoming = snd (foldl merge_role (foldl merge_role ([], []) existing) incoming)"

definition requestNamespace :: "request \<Rightarrow> string" where
  "requestNamespace r = (let ns = TrimSpace (rq_Query r ''namespace'') in
     if ns \<noteq> [] then ns
     else let ns = TrimSpace (rq_Header r ''X-Namespace'') in
     if ns \<noteq> [] then ns else ''default'')"

definition shouldAuditRequest :: "string \<Rightarrow> string \<Rightarrow> bool" where
  "shouldAuditRequest mth path =
     (if path = ''/healthz'' \<or> path = ''/metrics'' \<or> HasPrefix path ''/v1/metrics/'' then False
      else if HasPrefix path ''/v1/secrets'' then True
      else if mth \<in> {''POST'', ''PUT'', ''PATCH'', ''DELETE''} then HasPrefix path ''/v1/''
      else False)"

section \<open>Middleware\<close>

definition open_path :: "request \<Rightarrow> bool" where
  "open_path r \<longleftrightarrow> rq_Path r = ''/healthz'' \<or> rq_Path r = ''/metrics''"

definition authorizationMiddleware :: "'db handler \<Rightarrow> 'db handler" where
  "authorizationMiddleware nxt H r =
     (if open_path r then nxt H r
      else case rq_Principal r of
        None \<Rightarrow> writeAPIError 401 ''unauthorized'' ''Authorization failed'' ''missing principal''
      | Some p \<Rightarrow>
        if \<not> isAuthorized p (rq_Method r) (rq_Path r) then
          seq (log_audit (AuthorizationDenied (rq_Method r) (rq_Path r) (p_Subject p) (p_Roles p)))
          (writeAPIError 403 ''forbidden'' ''Insufficient role for endpoint'' ''required role mismatch'')
        else nxt H r)"

definition auditMiddleware :: "'db handler \<Rightarrow> 'db handler" where
  "auditMiddleware nxt H r =
     (if \<not> shouldAuditRequest (rq_Method r) (rq_Path r) then nxt H r
      else bnd (nxt H r) (\<lambda>resp. let
        actor = (case rq_Principal r of Some p \<Rightarrow> if \<not> blank (p_Subject p) then p_Subject p else ''anonymous'' | None \<Rightarrow> ''anonymous'');
        rls = (case rq_Principal r of Some p \<Rightarrow> p_Roles p | None \<Rightarrow> []) in
        seq (log_audit (SensitiveRequest (rq_Method r) (rq_Path r) (hr_Status resp) actor rls)) (ret resp)))"

text \<open>The roles that the bindings of the subject add. A closure of the bindings that does not end exhausts
  the stack, which stops the program.\<close>

definition bound_roles :: "'db henv \<Rightarrow> request \<Rightarrow> Principal \<Rightarrow> ('db, Principal) http" where
  "bound_roles H r p =
     (if \<not> blank (p_Subject p) then
        called (EffectiveRolesForSubject (he_orch H) (p_Subject p) (requestNamespace r)) (\<lambda>x. case x of
          Inl _ \<Rightarrow> ret p
        | Inr None \<Rightarrow> throw (ErrPanic ''stack overflow'')
        | Inr (Some rls) \<Rightarrow> ret (if rls \<noteq> [] then p\<lparr>p_Roles := mergeRoles (p_Roles p) rls\<rparr> else p))
      else ret p)"

definition authMiddleware :: "'db handler \<Rightarrow> 'db handler" where
  "authMiddleware nxt H r =
     (if open_path r then nxt H r
      else bnd (attempt (on_auth (VerifyBearer (he_auth H) (he_verifier H) (rq_Header r ''Authorization'')))) (\<lambda>x. case x of
        Inl e \<Rightarrow> seq (log_audit (AuthFailed (rq_Method r) (rq_Path r) (err_text e)))
          (writeAPIError 401 ''unauthorized'' ''Authorization failed'' (err_text e))
      | Inr p \<Rightarrow> bnd (bound_roles H r p) (\<lambda>p. nxt H (r\<lparr>rq_Principal := Some p\<rparr>))))"

definition set_header :: "string \<Rightarrow> string \<Rightarrow> response \<Rightarrow> response" where
  "set_header k v resp = resp\<lparr>hr_Header := map_put k v (hr_Header resp)\<rparr>"

definition traceMiddleware :: "'db handler \<Rightarrow> 'db handler" where
  "traceMiddleware nxt H r = (let given = TrimSpace (rq_Header r ''X-Trace-ID'') in
     bnd (if given = [] then bnd (on_orch (time_now (he_orch H))) (\<lambda>t. ret (''trace-local-'' @ show_int t)) else ret given) (\<lambda>traceID.
     bnd (nxt H r) (\<lambda>resp. ret (set_header ''X-Trace-ID'' traceID resp))))"

definition unversioned :: "string \<Rightarrow> string" where
  "unversioned path = (if HasPrefix path ''/api/v1/'' then TrimPrefix path ''/api''
     else if path = ''/api/v1'' then ''/v1'' else path)"

definition versionMiddleware :: "'db handler \<Rightarrow> 'db handler" where
  "versionMiddleware nxt H r = (let
     r = r\<lparr>rq_Path := unversioned (rq_Path r)\<rparr>;
     v = TrimSpace (rq_Header r ''X-API-Version'') in
     if v \<noteq> [] \<and> v \<noteq> ''v1'' \<and> v \<noteq> ''1''
     then writeAPIError 400 ''unsupported_api_version'' ''Unsupported API version'' ''supported version: v1''
     else bnd (nxt H r) (\<lambda>resp. ret (set_header ''X-API-Version'' ''v1'' resp)))"

definition Handler :: "'db handler" where
  "Handler = versionMiddleware (traceMiddleware (authMiddleware (auditMiddleware (authorizationMiddleware mux))))"

end
