(* ===== verification/Http_Safety.thy ===== *)
theory Http_Safety
  imports Http_Server
begin

text \<open>
  What a request to the HTTP server can do. The interface between the server and the service is the
  pair of locales \<open>read_service\<close> and \<open>service\<close>: a relation between states of the service that every
  operation the handlers call respects. All handlers and the middleware then respect it; the locales
  are instantiated for the mutex, for the well-formedness of the records and, the reads only, for the
  contents of the database.
\<close>

section \<open>The interface to the service\<close>

definition on_world :: "('db world \<Rightarrow> 'db world \<Rightarrow> bool) \<Rightarrow> 'db server \<Rightarrow> 'db server \<Rightarrow> bool" where
  "on_world R s t \<longleftrightarrow> R (srv_orch s) (srv_orch t)"

locale read_service = frame R for R :: "'db world \<Rightarrow> 'db world \<Rightarrow> bool" +
  fixes E :: "'db oenv"
  assumes clock: "stays R (time_now E)" "stays R next_tick"
    and listings: "stays R (ListDeployments E)" "stays R (ListPersistentVolumes E)" "stays R (GetClusterState E)"
      "stays R (ListEvents E n)" "stays R (PrometheusMetrics E)" "stays R (ListAutoscalerPolicies E)"
      "stays R (ListJobs E ns)" "stays R (ListCronJobs E ns)" "stays R (ListNodeHealthTrends E n)"
      "stays R (ListNamespaces E)" "stays R (ListNamespaceQuotas E)" "stays R (ListServices E)"
      "stays R (ListServiceEndpoints E i)" "stays R (ListNetworkPolicies E ns)" "stays R (ListRoleBindings E ns)"
      "stays R (ListPersistentVolumeClaims E ns)" "stays R (ListNodeWorkloads E i)" "stays R (ListSecrets E ns)"
    and resolution: "stays R (ResolveServiceName E i)" "stays R (ResolveServiceDNS E i)"
      "stays R (IsNetworkAccessAllowed E ns ls svc port)" "stays R (EffectiveRolesForSubject E i ns)"
    and traffic: "stays R (SelectServiceEndpoint E i st)" "stays R (RouteServiceTraffic E i st)" "stays R (ReleaseServiceEndpoint i)"
    and streams: "stays R (SubscribeEvents n)" "stays R (UnsubscribeEvents ch)" "stays R (receive ch)"

locale service = read_service R E for R :: "'db world \<Rightarrow> 'db world \<Rightarrow> bool" and E +
  assumes nodes: "stays R (RegisterNode E node)" "stays R (DrainNode E i)" "stays R (RemoveNode E i)" "stays R (HeartbeatNode E i used)"
    and deployments: "stays R (CreateDeployment E spec)" "stays R (UpdateDeployment E i spec)" "stays R (RollbackDeployment E i n)"
      "stays R (DeleteDeployment E i)"
    and scaling: "stays R (UpsertAutoscalerPolicy E policy)" "stays R (DeleteAutoscalerPolicy E i)" "stays R (IngestDeploymentMetric E metric)"
    and workers: "stays R (PollAssignments E i n)" "stays R (ReportWorkloadStatus E i status ct)"
    and records: "stays R (CreateService E sspec)" "stays R (CreateNamespace E nsp)" "stays R (UpsertNamespaceQuota E quota)"
      "stays R (UpsertSecret E secret)" "stays R (UpsertPersistentVolume E pv)" "stays R (UpsertPersistentVolumeClaim E pvc)"
      "stays R (UpsertNetworkPolicy E npol)" "stays R (UpsertJob E job)" "stays R (UpsertCronJob E cj)" "stays R (UpsertRoleBinding E rb)"
    and recovery: "stays R (RecoverCluster E)"

section \<open>Handlers respect what the service respects\<close>

lemma stays_on_orch: "stays R m \<Longrightarrow> stays (on_world R) (on_orch m)"
  by (auto simp: stays_def on_orch_def on_world_def split: prod.splits) (metis snd_conv)

sublocale read_service \<subseteq> srv: frame "on_world R"
  by unfold_locales (auto simp: on_world_def intro: refl trans)

lemma stays_case_outcome [stays_intros]:
  "(\<And>e. stays R (a e)) \<Longrightarrow> stays R b \<Longrightarrow> (\<And>e. stays R (c e)) \<Longrightarrow> (\<And>x. stays R (d x)) \<Longrightarrow>
   stays R (case out of RequestFailed e \<Rightarrow> a e | Unanswered \<Rightarrow> b | UpstreamError e \<Rightarrow> c e | Answer x \<Rightarrow> d x)"
  by (cases out) auto

context read_service
begin

lemma on_state: "(\<And>s. srv_orch (f s) = srv_orch s) \<Longrightarrow> stays (on_world R) (modify f)"
  by (simp add: stays_def modify_def on_world_def refl)

lemma on_auth: "stays (on_world R) (on_auth m)"
  by (auto simp: stays_def on_auth_def on_world_def refl split: prod.splits)

lemma log: "stays (on_world R) (log_audit a)"
  unfolding log_audit_def by (rule on_state) simp

lemma called: "stays R m \<Longrightarrow> (\<And>x. stays (on_world R) (f x)) \<Longrightarrow> stays (on_world R) (called m f)"
  unfolding called_def by (intro srv.bnd srv.attempt stays_on_orch stays_intros srv.throw)

lemma written: "stays (on_world R) (writeAPIError st c m d)" "stays (on_world R) (writeJSON st p)"
    "stays (on_world R) (method_not_allowed h)" "stays (on_world R) (route_not_found h)" "stays (on_world R) (redirect url)"
    "stays (on_world R) (forwarded name n resp)"
  unfolding writeAPIError_def writeJSON_def method_not_allowed_def route_not_found_def redirect_def forwarded_def by (rule srv.ret)+

lemma decoded: "(\<And>x. stays (on_world R) (f x)) \<Longrightarrow> stays (on_world R) (decoded dec r f)"
  unfolding decoded_def by (intro stays_intros written)

lemma validated: "stays (on_world R) f \<Longrightarrow> stays (on_world R) (validated v m f)"
  unfolding validated_def by (intro stays_intros written)

lemma answered: "stays R m \<Longrightarrow> stays (on_world R) (answered m a b c d e)"
  unfolding answered_def by (intro called stays_intros written)

lemma unless_found: "stays (on_world R) f \<Longrightarrow> stays (on_world R) (unless_found a b c e f)"
  unfolding unless_found_def by (intro stays_intros written)

lemma released: "stays (on_world R) f \<Longrightarrow> stays (on_world R) (released ep f)"
  unfolding released_def by (intro srv.bnd srv.attempt srv.seq stays_on_orch traffic stays_intros srv.ret srv.throw)

lemmas steps = called answered decoded validated unless_found released written on_auth log stays_on_orch
  clock listings resolution traffic streams stays_intros srv.rules

end

context read_service
begin

lemma breakers:
  assumes "he_orch H = E"
  shows "stays (on_world R) (circuitOpen H name)" "stays (on_world R) (recordCircuitFailure H name n t why)"
    "stays (on_world R) (recordCircuitSuccess name)"
proof -
  have put: "stays (on_world R) (modify (\<lambda>s. s\<lparr>srv_breakers := f s\<rparr>))" for f by (rule on_state) simp
  show "stays (on_world R) (circuitOpen H name)" "stays (on_world R) (recordCircuitFailure H name n t why)"
    "stays (on_world R) (recordCircuitSuccess name)"
    unfolding circuitOpen_def recordCircuitFailure_def recordCircuitSuccess_def Let_def assms by (intro steps put)+
qed

lemma attempts: "stays (on_world R) (proxy_attempts H url t n latest)"
proof (induction n arbitrary: latest)
  case (Suc n)
  then show ?case unfolding proxy_attempts.simps upstream_do_def by (intro steps)
qed (simp add: srv.ret)

lemma network_traffic:
  assumes "he_orch H = E"
  shows "stays (on_world R) (connect_service H r name)" "stays (on_world R) (proxy_service H r name)"
  unfolding connect_service_def proxy_service_def policy_checked_def Let_def assms
  by (intro steps attempts breakers [OF assms])+

lemma stream: "stays R (stream_loop ch ts)"
  by (induction ch ts rule: stream_loop.induct) (auto intro!: bnd ret streams)

text \<open>The handlers that only read, and the collections when they are read.\<close>

lemma readers:
  assumes "he_orch H = E"
  shows "stays (on_world R) (healthz H r)" "stays (on_world R) (handlePrometheusMetrics H r)"
    "stays (on_world R) (handleNodeHealthTrends H r)" "stays (on_world R) (handleCluster H r)"
    "stays (on_world R) (handleServiceSubroutes H r)" "stays (on_world R) (handleDNSResolve H r)"
    "stays (on_world R) (handleDNSSidecarResolve H r)" "stays (on_world R) (handleNetworkServiceSubroutes H r)"
    "stays (on_world R) (handleEvents H r)" "stays (on_world R) (handleEventStream H r)"
  unfolding healthz_def handlePrometheusMetrics_def handleNodeHealthTrends_def handleCluster_def handleServiceSubroutes_def
    handleDNSResolve_def handleDNSSidecarResolve_def handleNetworkServiceSubroutes_def handleEvents_def handleEventStream_def Let_def assms
  by (intro steps network_traffic [OF assms] stream)+

lemma get_collections:
  assumes "he_orch H = E" and "rq_Method r = ''GET''"
  shows "stays (on_world R) (handleDeployments H r)" "stays (on_world R) (handleAutoscalers H r)" "stays (on_world R) (handleServices H r)"
    "stays (on_world R) (handleNamespaces H r)" "stays (on_world R) (handleQuotas H r)" "stays (on_world R) (handleSecrets H r)"
    "stays (on_world R) (handlePersistentVolumes H r)" "stays (on_world R) (handlePersistentVolumeClaims H r)"
    "stays (on_world R) (handleNetworkPolicies H r)" "stays (on_world R) (handleJobs H r)" "stays (on_world R) (handleCronJobs H r)"
    "stays (on_world R) (handleRoleBindings H r)"
  using assms
  by (simp_all add: handleDeployments_def handleAutoscalers_def handleServices_def handleNamespaces_def handleQuotas_def handleSecrets_def
      handlePersistentVolumes_def handlePersistentVolumeClaims_def handleNetworkPolicies_def handleJobs_def handleCronJobs_def
      handleRoleBindings_def post_or_get_def answered listings)

lemma get_refused:
  assumes "rq_Method r = ''GET''"
  shows "stays (on_world R) (handleRegisterNode H r)" "stays (on_world R) (handleNodeSubroutes H r)"
    "stays (on_world R) (handleDeploymentByID H r)" "stays (on_world R) (handleAutoscalerByID H r)"
    "stays (on_world R) (handleDeploymentMetrics H r)" "stays (on_world R) (handleWorkloadSubroutes H r)"
    "stays (on_world R) (handleRecoveryRun H r)"
  using assms
  by (auto simp: handleRegisterNode_def handleNodeSubroutes_def handleDeploymentByID_def handleAutoscalerByID_def
      handleDeploymentMetrics_def handleWorkloadSubroutes_def handleRecoveryRun_def Let_def written split: list.split)

lemma worker_reads:
  assumes "he_orch H = E" and "\<nexists>node. Split (TrimPrefix (rq_Path r) ''/v1/workers/'') CHR ''/'' = [node, ''assignments'']"
  shows "stays (on_world R) (handleWorkerSubroutes H r)"
  using assms by (auto simp: handleWorkerSubroutes_def written answered listings split: list.split)

text \<open>The middleware around any handler that respects the relation.\<close>

lemma bound:
  assumes "he_orch H = E"
  shows "stays (on_world R) (bound_roles H r p)"
  unfolding bound_roles_def assms by (intro steps)

end

context service
begin

lemma writers:
  assumes "he_orch H = E"
  shows "stays (on_world R) (handleRegisterNode H r)" "stays (on_world R) (handleNodeSubroutes H r)"
    "stays (on_world R) (handleDeploymentByID H r)" "stays (on_world R) (handleAutoscalerByID H r)"
    "stays (on_world R) (handleDeploymentMetrics H r)" "stays (on_world R) (handleWorkloadSubroutes H r)"
    "stays (on_world R) (handleRecoveryRun H r)" "stays (on_world R) (handleWorkerSubroutes H r)"
  unfolding handleRegisterNode_def handleNodeSubroutes_def handleDeploymentByID_def handleAutoscalerByID_def
    handleDeploymentMetrics_def handleWorkloadSubroutes_def handleRecoveryRun_def handleWorkerSubroutes_def Let_def assms
  by (intro steps nodes deployments scaling workers recovery)+

lemma collections:
  assumes "he_orch H = E"
  shows "stays (on_world R) (handleDeployments H r)" "stays (on_world R) (handleAutoscalers H r)" "stays (on_world R) (handleServices H r)"
    "stays (on_world R) (handleNamespaces H r)" "stays (on_world R) (handleQuotas H r)" "stays (on_world R) (handleSecrets H r)"
    "stays (on_world R) (handlePersistentVolumes H r)" "stays (on_world R) (handlePersistentVolumeClaims H r)"
    "stays (on_world R) (handleNetworkPolicies H r)" "stays (on_world R) (handleJobs H r)" "stays (on_world R) (handleCronJobs H r)"
    "stays (on_world R) (handleRoleBindings H r)"
  unfolding handleDeployments_def handleAutoscalers_def handleServices_def handleNamespaces_def handleQuotas_def handleSecrets_def
      handlePersistentVolumes_def handlePersistentVolumeClaims_def handleNetworkPolicies_def handleJobs_def handleCronJobs_def
      handleRoleBindings_def post_or_get_def assms
  by (intro steps deployments scaling records)+

end

section \<open>The whole pipeline\<close>

lemma first_sorted_in:
  assumes "(case sort_key f xs of [] \<Rightarrow> None | (_, h) # _ \<Rightarrow> Some h) = Some h"
  shows "\<exists>pat. (pat, h) \<in> set xs"
proof (cases "sort_key f xs")
  case (Cons x rest)
  then have "x \<in> set xs" by (metis list.set_intros(1) set_sort)
  moreover have "snd x = h" using assms Cons by (cases x) simp
  ultimately show ?thesis by (metis prod.collapse)
qed (use assms in simp)

lemma subtree_route_in:
  assumes "subtree_route path = Some h"
  shows "\<exists>pat. (pat, h) \<in> set routes \<and> HasPrefix path pat"
  using first_sorted_in [OF assms [unfolded subtree_route_def]] by force

lemma stays_mux:
  assumes "frame R" and "\<And>pat h. (pat, h) \<in> set routes \<Longrightarrow> HasPrefix (rq_Path r) pat \<Longrightarrow> stays R (h H r)"
  shows "stays R (mux H r)"
proof -
  have "HasPrefix p p" for p by (simp add: HasPrefix_def)
  then have exact: "map_of routes (rq_Path r) = Some h \<Longrightarrow> stays R (h H r)" for h
    using assms(2) by (metis map_of_SomeD)
  have sub: "subtree_route (rq_Path r) = Some h \<Longrightarrow> stays R (h H r)" for h
    using assms(2) subtree_route_in by metis
  show ?thesis
    unfolding mux_def Let_def redirect_def
    by (intro stays_if frame.ret [OF assms(1)] stays_case_option) (auto intro: exact sub)
qed

lemma HasPrefix_split: "HasPrefix s p \<Longrightarrow> s = p @ TrimPrefix s p"
  by (metis HasPrefix_def TrimPrefix_def append_take_drop_id)

lemma two_parts: "Split s sep = [a, b] \<Longrightarrow> s = a @ [sep] @ b"
  by (metis Join.simps(2,3) Join_Split)

lemma assignments_path:
  assumes "HasPrefix path ''/v1/workers/''" and "Split (TrimPrefix path ''/v1/workers/'') CHR ''/'' = [node, ''assignments'']"
  shows "path = ''/v1/workers/'' @ node @ ''/assignments''"
  using HasPrefix_split [OF assms(1)] two_parts [OF assms(2)] by simp

context read_service
begin

text \<open>Reading requests: every GET but the one with which a worker takes its assignments.\<close>

lemma get_mux:
  assumes "he_orch H = E" and "rq_Method r = ''GET''" and "\<nexists>node. rq_Path r = ''/v1/workers/'' @ node @ ''/assignments''"
  shows "stays (on_world R) (mux H r)"
proof (rule stays_mux)
  show "frame (on_world R)" by (rule srv.frame_axioms)
  fix pat and h :: "'db handler" assume h: "(pat, h) \<in> set routes" "HasPrefix (rq_Path r) pat"
  have "h = handleWorkerSubroutes \<Longrightarrow> pat = ''/v1/workers/'' \<Longrightarrow> stays (on_world R) (h H r)"
    using h(2) assms(3) assignments_path worker_reads [OF assms(1), of r] by blast
  then show "stays (on_world R) (h H r)"
    using h(1) readers [OF assms(1), of r] get_collections [OF assms(1,2)] get_refused [OF assms(2), of H]
    unfolding routes_def by (simp only: list.set insert_iff empty_iff prod.inject) (elim disjE conjE; simp)
qed

lemma open_mux:
  assumes "he_orch H = E" and "open_path r"
  shows "stays (on_world R) (mux H r)"
proof (rule stays_mux)
  show "frame (on_world R)" by (rule srv.frame_axioms)
  fix pat and h :: "'db handler" assume "(pat, h) \<in> set routes" "HasPrefix (rq_Path r) pat"
  then have "h = healthz \<or> h = handlePrometheusMetrics"
    using assms(2) unfolding routes_def open_path_def
    by (simp only: list.set insert_iff empty_iff prod.inject) (elim disjE conjE; simp add: HasPrefix_def)
  then show "stays (on_world R) (h H r)" using readers [OF assms(1)] by auto
qed

text \<open>Behind the authentication, only an authorized request reaches a handler.\<close>

lemma audited: "stays (on_world R) (nxt H r) \<Longrightarrow> stays (on_world R) (auditMiddleware nxt H r)"
  unfolding auditMiddleware_def Let_def by (intro steps)

lemma guarded:
  assumes "rq_Principal r = Some q" and "\<not> open_path r"
    and "isAuthorized q (rq_Method r) (rq_Path r) \<Longrightarrow> stays (on_world R) (nxt H r)"
  shows "stays (on_world R) (authorizationMiddleware nxt H r)"
  unfolding authorizationMiddleware_def assms(1) option.case if_not_P [OF assms(2)] by (intro steps assms(3)) simp

end

context service
begin

lemma any_mux:
  assumes "he_orch H = E"
  shows "stays (on_world R) (mux H r)"
proof (rule stays_mux)
  show "frame (on_world R)" by (rule srv.frame_axioms)
  fix pat and h :: "'db handler" assume "(pat, h) \<in> set routes"
  then show "stays (on_world R) (h H r)"
    using readers [OF assms, of r] collections [OF assms, of r] writers [OF assms, of r]
    unfolding routes_def by (simp only: list.set insert_iff empty_iff prod.inject) (elim disjE conjE; simp)
qed

lemma any_request:
  assumes "he_orch H = E"
  shows "stays (on_world R) (Handler H r)"
  unfolding Handler_def versionMiddleware_def traceMiddleware_def authMiddleware_def auditMiddleware_def
    authorizationMiddleware_def Let_def assms
  by (intro steps any_mux [OF assms] bound [OF assms])

end

section \<open>Instances\<close>

lemma quiet_receive: "stays quiet (receive ch)"
  by (auto simp: stays_def receive_def quiet_def split: option.split list.split)

lemma ev_receive: "stays (evolves E W) (receive ch)"
  by (auto simp: stays_def receive_def contents_def split: option.split list.split intro!: evolves_same)

interpretation free_service: service free E
  by unfold_locales (intro free_ops free_of_quiet [OF quiet_receive] free_of_quiet [OF quiet_next_tick]
    quiet_store [THEN free_of_quiet])+

lemma sound_service: "env_ok E \<Longrightarrow> service (sound E) E"
  by unfold_locales (intro sound_ops sound_time sound_of_evolves [OF ev_receive] sound_of_evolves [OF ev_next_tick]; assumption)+

text \<open>The contents of the database do not change.\<close>

definition same_contents :: "'db oenv \<Rightarrow> 'db world \<Rightarrow> 'db world \<Rightarrow> bool" where
  "same_contents E s t \<longleftrightarrow> contents E t = contents E s"

lemma writes_none: "writes (\<lambda>_ _. False) m n \<Longrightarrow> n = m"
  by (induction rule: writes.induct) auto

lemma same_of_evolves: "stays (evolves E (\<lambda>_ _. False)) m \<Longrightarrow> stays (same_contents E) m"
  by (erule stays_mono) (auto simp: evolves_def same_contents_def dest: writes_none)

lemma same_service: "env_ok E \<Longrightarrow> read_service (same_contents E) E"
  by unfold_locales (auto simp: same_contents_def intro!: same_of_evolves ev_listings ev_choices ev_subscriptions
    ev_time ev_next_tick ev_receive)

section \<open>Changes need a role\<close>

text \<open>The principal a request acts as: the one its token proves, with the roles of its bindings added.\<close>

definition acts_as :: "'db henv \<Rightarrow> request \<Rightarrow> 'db server \<Rightarrow> Principal \<Rightarrow> bool" where
  "acts_as H r s q \<longleftrightarrow> (\<exists>p c u v.
     VerifyBearer (he_auth H) (he_verifier H) (rq_Header r ''Authorization'') (srv_auth s) = (Inr p, c) \<and>
     contents (he_orch H) (srv_orch u) = contents (he_orch H) (srv_orch s) \<and> bound_roles H r p u = (Inr q, v))"

text \<open>Which roles are enough for a method: an administrator for everything, an operator for everything but deleting,
  a viewer for reading.\<close>

definition has_role :: "Principal \<Rightarrow> string \<Rightarrow> bool" where
  "has_role q role \<longleftrightarrow> (\<exists>x \<in> set (p_Roles q). ToLower (TrimSpace x) = role)"

definition sufficient :: "Principal \<Rightarrow> string \<Rightarrow> bool" where
  "sufficient q mth \<longleftrightarrow> has_role q ''admin'' \<or> mth \<noteq> ''DELETE'' \<and> has_role q ''operator'' \<or> mth = ''GET'' \<and> has_role q ''viewer''"

lemma required_roles:
  "set (requiredRoles mth path) \<subseteq> {''admin''} \<union> (if mth = ''DELETE'' then {} else {''operator''}) \<union> (if mth = ''GET'' then {''viewer''} else {})"
  "requiredRoles mth path \<noteq> []"
  by (auto simp: requiredRoles_def viewer_up_def operator_up_def split: if_splits)

lemma authorized_sufficient:
  assumes "isAuthorized q mth path"
  shows "sufficient q mth"
proof -
  obtain x where "x \<in> set (p_Roles q)" "ToLower (TrimSpace x) \<in> set (requiredRoles mth path)"
    using assms required_roles(2) by (auto simp: isAuthorized_def list_ex_iff Let_def)
  then show ?thesis using required_roles(1) [of mth path] by (auto simp: sufficient_def has_role_def split: if_splits)
qed

definition authorized_change :: "'db henv \<Rightarrow> request \<Rightarrow> 'db server \<Rightarrow> bool" where
  "authorized_change H r s \<longleftrightarrow> (\<exists>q. acts_as H r s q \<and> isAuthorized q (rq_Method r) (rq_Path r) \<and> sufficient q (rq_Method r)) \<and>
     (rq_Method r = ''GET'' \<longrightarrow> (\<exists>node. rq_Path r = ''/v1/workers/'' @ node @ ''/assignments''))"

lemma wp_on_world: "stays (on_world R) m \<Longrightarrow> (\<And>x t. R (srv_orch s) (srv_orch t) \<Longrightarrow> Q x t) \<Longrightarrow> wp m Q s"
  by (drule stays_wp [of _ _ s], erule wp_conseq) (simp add: on_world_def)

lemma wp_authMiddleware:
  assumes E: "env_ok (he_orch H)"
  shows "wp (authMiddleware (auditMiddleware (authorizationMiddleware mux)) H r) (\<lambda>x t.
    contents (he_orch H) (srv_orch t) \<noteq> contents (he_orch H) (srv_orch s) \<longrightarrow> authorized_change H r s) s"
    (is "wp _ ?Q s")
proof (cases "open_path r")
  case True
  note S = same_service [OF E]
  have "stays (on_world (same_contents (he_orch H))) (authMiddleware (auditMiddleware (authorizationMiddleware mux)) H r)"
    unfolding authMiddleware_def authorizationMiddleware_def if_P [OF True]
    by (intro read_service.audited [OF S]) (simp add: True read_service.open_mux [OF S HOL.refl True])
  then show ?thesis by (rule wp_on_world) (simp add: same_contents_def)
next
  case False
  note S = same_service [OF E]
  let ?same = "\<lambda>t. contents (he_orch H) (srv_orch t) = contents (he_orch H) (srv_orch s)"
  let ?in = "auditMiddleware (authorizationMiddleware mux)"
  have inner: "wp (?in H (r\<lparr>rq_Principal := Some q\<rparr>)) ?Q u" if q: "acts_as H r s q" and u: "?same u" for q u
  proof (cases "isAuthorized q (rq_Method r) (rq_Path r) \<and>
      (rq_Method r = ''GET'' \<longrightarrow> (\<exists>node. rq_Path r = ''/v1/workers/'' @ node @ ''/assignments''))")
    case True
    then show ?thesis using q authorized_sufficient by (intro wpI) (auto simp: authorized_change_def)
  next
    case no: False
    have "stays (on_world (same_contents (he_orch H))) (?in H (r\<lparr>rq_Principal := Some q\<rparr>))"
    proof (intro read_service.audited [OF S] read_service.guarded [OF S, where q = q])
      assume "isAuthorized q (rq_Method (r\<lparr>rq_Principal := Some q\<rparr>)) (rq_Path (r\<lparr>rq_Principal := Some q\<rparr>))"
      then show "stays (on_world (same_contents (he_orch H))) (mux H (r\<lparr>rq_Principal := Some q\<rparr>))"
        using no by (intro read_service.get_mux [OF S HOL.refl]) auto
    qed (use False in \<open>simp_all add: open_path_def\<close>)
    then show ?thesis by (rule wp_on_world) (use u in \<open>simp add: same_contents_def\<close>)
  qed
  have bound: "wp (bnd (bound_roles H r p) (\<lambda>q. ?in H (r\<lparr>rq_Principal := Some q\<rparr>))) ?Q u"
    if p: "VerifyBearer (he_auth H) (he_verifier H) (rq_Header r ''Authorization'') (srv_auth s) = (Inr p, c)" and u: "?same u" for p c u
  proof (unfold wp_bnd, rule wpI)
    fix x t assume x: "bound_roles H r p u = (x, t)"
    have "on_world (same_contents (he_orch H)) u t"
      using staysD [OF read_service.bound [OF S HOL.refl] x] .
    then have t: "?same t" using u by (simp add: on_world_def same_contents_def)
    show "case x of Inl e \<Rightarrow> ?Q (Inl e) t | Inr q \<Rightarrow> wp (?in H (r\<lparr>rq_Principal := Some q\<rparr>)) ?Q t"
      using t x p u by (auto simp: acts_as_def split: sum.split intro!: inner) blast
  qed
  obtain y c where v: "VerifyBearer (he_auth H) (he_verifier H) (rq_Header r ''Authorization'') (srv_auth s) = (y, c)" by force
  show ?thesis
    unfolding authMiddleware_def if_not_P [OF False] wp_bnd wp_attempt
    using v bound by (auto simp: wp_def [of "on_auth _"] on_auth_def log_audit_def writeAPIError_def wp_simps split: sum.split)
qed

text \<open>
  (C4) A request changes the database only if its token authenticates a principal whose roles, its own and
  those of its bindings, are sufficient for the method and the path: an administrator, an operator
  unless something is deleted, or a viewer for a GET request; and a GET request changes it
  only when a worker takes its assignments. Everything else, failed authentication included, leaves
  the database as it is.
\<close>

theorem changes_need_role:
  assumes "env_ok (he_orch H)" and "Handler H r s = (x, t)"
    and "contents (he_orch H) (srv_orch t) \<noteq> contents (he_orch H) (srv_orch s)"
  shows "authorized_change H (r\<lparr>rq_Path := unversioned (rq_Path r)\<rparr>) s"
proof -
  note S = same_service [OF assms(1)]
  let ?r = "r\<lparr>rq_Path := unversioned (rq_Path r)\<rparr>"
  let ?Q = "\<lambda>x t. contents (he_orch H) (srv_orch t) \<noteq> contents (he_orch H) (srv_orch s) \<longrightarrow> authorized_change H ?r s"
  let ?in = "authMiddleware (auditMiddleware (authorizationMiddleware mux))"
  have tick: "wp (?in H ?r) ?Q u" if "srv_auth u = srv_auth s" "contents (he_orch H) (srv_orch u) = contents (he_orch H) (srv_orch s)" for u
    using wp_authMiddleware [OF assms(1), of ?r u] that by (simp add: authorized_change_def acts_as_def)
  have now: "wp (on_orch (time_now (he_orch H))) P u = P (Inr (env_clock (he_orch H) (st_tick (srv_orch u))))
    (u\<lparr>srv_orch := (srv_orch u)\<lparr>st_tick := Suc (st_tick (srv_orch u))\<rparr>\<rparr>)" for P and u :: "'a server"
    by (simp add: wp_def on_orch_def time_now_def)
  have "wp (Handler H r) ?Q s"
    unfolding Handler_def versionMiddleware_def traceMiddleware_def Let_def
    by (auto simp: wp_simps now writeAPIError_def sum.case_eq_if contents_def intro!: wp_conseq [OF tick] split: sum.split)
  from wpD [OF this assms(2)] assms(3) show ?thesis by blast
qed

definition demo_henv :: "memdb henv" where
  "demo_henv = \<lparr>he_orch = demo_oenv,
     he_auth = demo_auth\<lparr>ja_verify := (\<lambda>t k now. if k = HMACKey t then Inr [(''roles'', CString ''admin'')] else Inl (ErrText ''signature''))\<rparr>,
     he_verifier = fst (NewVerifier ''jwt'' '''' ''key'' '''' '''' ''''),
     he_decodeNode = (\<lambda>_. Inl (ErrText ''EOF'')), he_decodeUsed = (\<lambda>_. Inl (ErrText ''EOF'')), he_decodeSpec = (\<lambda>_. Inl (ErrText ''EOF'')),
     he_decodeRevision = (\<lambda>_. 0), he_decodePolicy = (\<lambda>_. Inl (ErrText ''EOF'')), he_decodeMetric = (\<lambda>_. Inl (ErrText ''EOF'')),
     he_decodeStatus = (\<lambda>_. Inl (ErrText ''EOF'')), he_decodeServiceSpec = (\<lambda>_. Inl (ErrText ''EOF'')), he_decodeNamespace = (\<lambda>_. Inl (ErrText ''EOF'')),
     he_decodeQuota = (\<lambda>_. Inl (ErrText ''EOF'')), he_decodeSecret = (\<lambda>_. Inl (ErrText ''EOF'')), he_decodeVolume = (\<lambda>_. Inl (ErrText ''EOF'')),
     he_decodeClaim = (\<lambda>_. Inl (ErrText ''EOF'')), he_decodeNetworkPolicy = (\<lambda>_. Inl (ErrText ''EOF'')), he_decodeJob = (\<lambda>_. Inl (ErrText ''EOF'')),
     he_decodeCronJob = (\<lambda>_. Inl (ErrText ''EOF'')), he_decodeBinding = (\<lambda>_. Inl (ErrText ''EOF'')), he_newRequest = (\<lambda>_. Inr ()),
     he_upstream = (\<lambda>_ _ _. Inl (ErrText ''refused'')), he_flusher = True, he_stream = []\<rparr>"

definition demo_delete :: request where
  "demo_delete = \<lparr>rq_Method = ''DELETE'', rq_Path = ''/api/v1/autoscalers/p'',
     rq_Header = (\<lambda>k. if k = ''Authorization'' then ''Bearer key'' else if k = ''X-Trace-ID'' then ''t1'' else []),
     rq_Query = (\<lambda>_. []), rq_Body = [], rq_Principal = None\<rparr>"

definition demo_server :: "memdb server" where
  "demo_server = NewHTTPServer (NewOrchestrator [(keyAutoscalerPolicy ''p'', JAutoscalerPolicy (demo_policy_as\<lparr>as_ID := ''p''\<rparr>))])
     (snd (NewVerifier ''jwt'' '''' ''key'' '''' '''' ''''))"

lemma demo_orch [simp]: "he_orch demo_henv = demo_oenv"
  by (simp add: demo_henv_def)

lemma demo_delete_authenticated:
  "\<exists>c. VerifyBearer (he_auth demo_henv) (he_verifier demo_henv) (rq_Header demo_delete ''Authorization'') (srv_auth demo_server) =
     (Inr \<lparr>p_Subject = [], p_Roles = [''admin''], p_Source = ''jwt''\<rparr>, c)"
proof -
  have "fst (VerifyBearer (he_auth demo_henv) (he_verifier demo_henv) (rq_Header demo_delete ''Authorization'') (srv_auth demo_server)) =
     Inr \<lparr>p_Subject = [], p_Roles = [''admin''], p_Source = ''jwt''\<rparr>" by code_simp
  then show ?thesis by (metis prod.collapse)
qed

lemma demo_delete_routed:
  assumes "rq_Path r = ''/v1/autoscalers/p''" and "rq_Method r = ''DELETE''"
  shows "mux H r = answered (DeleteAutoscalerPolicy (he_orch H) ''p'') 400 ''autoscaler_delete_failed'' ''Failed to delete autoscaler policy'' 200 (\<lambda>_. POk)"
proof -
  have c: "cleanPath ''/v1/autoscalers/p'' = ''/v1/autoscalers/p''" by code_simp
  have s: "Split (TrimPrefix ''/v1/autoscalers/p'' ''/v1/autoscalers/'') CHR ''/'' = [''p'']" by code_simp
  have b: "\<not> blank ''p''" by code_simp
  have t: "subtree_route ''/v1/autoscalers/p'' = Some handleAutoscalerByID"
    by (simp add: subtree_route_def routes_def HasSuffix_def HasPrefix_def)
  have m: "map_of routes ''/v1/autoscalers/p'' = (None :: 'a handler option)" "map_of routes ''/v1/autoscalers/p/'' = (None :: 'a handler option)"
    by (simp_all add: routes_def)
  show ?thesis by (simp add: mux_def assms c m t handleAutoscalerByID_def s b)
qed

lemma wp_on_orch: "wp (on_orch m) Q s = wp m (\<lambda>x w. Q x (s\<lparr>srv_orch := w\<rparr>)) (srv_orch s)"
  by (auto simp: wp_def on_orch_def split: prod.splits)

lemma wp_on_auth: "wp (on_auth m) Q s = wp m (\<lambda>x c. Q x (s\<lparr>srv_auth := c\<rparr>)) (srv_auth s)"
  by (auto simp: wp_def on_auth_def split: prod.splits)

lemma wp_answered:
  assumes "wp m (\<lambda>x w. P w) (srv_orch s)"
  shows "wp (answered m a b c d f) (\<lambda>x t. P (srv_orch t)) s"
  unfolding answered_def called_def wp_bnd wp_attempt wp_on_orch
  by (rule wp_conseq [OF assms]) (auto simp: wp_simps writeAPIError_def writeJSON_def split: sum.split)

lemma demo_delete_effect:
  "wp (Handler demo_henv demo_delete) (\<lambda>x t. contents demo_oenv (srv_orch t) (keyAutoscalerPolicy ''p'') = None) demo_server"
proof -
  let ?p = "\<lparr>p_Subject = [], p_Roles = [''admin''], p_Source = ''jwt''\<rparr>" and ?r = "demo_delete\<lparr>rq_Path := ''/v1/autoscalers/p''\<rparr>"
  have path: "unversioned (rq_Path demo_delete) = ''/v1/autoscalers/p''" by code_simp
  have hdr: "TrimSpace (rq_Header demo_delete ''X-API-Version'') = []" "TrimSpace (rq_Header demo_delete ''X-Trace-ID'') = ''t1''" by code_simp+
  have role: "isAuthorized ?p ''DELETE'' ''/v1/autoscalers/p''" by code_simp
  have op: "\<not> open_path ?r" and mth: "rq_Method demo_delete = ''DELETE''" by (simp_all add: open_path_def demo_delete_def)
  have del: "wp (mux demo_henv (?r\<lparr>rq_Principal := Some ?p\<rparr>)) (\<lambda>x t. contents demo_oenv (srv_orch t) (keyAutoscalerPolicy ''p'') = None) s" for s
  proof -
    have "wp (st_delete demo_oenv (keyAutoscalerPolicy ''p'')) (\<lambda>x t. contents demo_oenv t (keyAutoscalerPolicy ''p'') = None) (srv_orch s)"
      by (rule wp_delete [OF demo_oenv_ok]) (simp_all add: demo_oenv_total)
    then show ?thesis
      by (subst demo_delete_routed) (auto simp: mth DeleteAutoscalerPolicy_def st_DeleteAutoscalerPolicy_def intro: wp_answered)
  qed
  obtain c where "VerifyBearer (he_auth demo_henv) (he_verifier demo_henv) (rq_Header demo_delete ''Authorization'') (srv_auth demo_server) = (Inr ?p, c)"
    using demo_delete_authenticated by blast
  then have v: "wp (VerifyBearer (he_auth demo_henv) (he_verifier demo_henv) (rq_Header demo_delete ''Authorization'')) Q (srv_auth demo_server) = Q (Inr ?p) c" for Q
    by (simp add: wp_def)
  have op': "\<not> open_path (?r\<lparr>rq_Principal := Some ?p\<rparr>)" using op by (simp add: open_path_def)
  show ?thesis
    unfolding Handler_def versionMiddleware_def traceMiddleware_def authMiddleware_def auditMiddleware_def authorizationMiddleware_def Let_def
      path bound_roles_def
    using role by (simp add: hdr op op' mth wp_simps wp_on_auth v log_audit_def) (auto intro!: wp_conseq [OF del] simp: wp_simps split: sum.split)
qed

theorem changes_need_role_witness:
  "\<exists>q. acts_as demo_henv (demo_delete\<lparr>rq_Path := ''/v1/autoscalers/p''\<rparr>) demo_server q \<and> isAuthorized q ''DELETE'' ''/v1/autoscalers/p'' \<and>
    sufficient q ''DELETE''"
proof -
  have path: "unversioned (rq_Path demo_delete) = ''/v1/autoscalers/p''" by code_simp
  obtain x t where run: "Handler demo_henv demo_delete demo_server = (x, t)" by force
  have "contents demo_oenv (srv_orch t) (keyAutoscalerPolicy ''p'') = None" using wpD [OF demo_delete_effect run] .
  moreover have "contents demo_oenv (srv_orch demo_server) (keyAutoscalerPolicy ''p'') \<noteq> None"
    by (simp add: demo_server_def NewHTTPServer_def)
  ultimately have "contents (he_orch demo_henv) (srv_orch t) \<noteq> contents (he_orch demo_henv) (srv_orch demo_server)" by auto
  with changes_need_role [of demo_henv demo_delete demo_server x t] run show ?thesis
    unfolding authorized_change_def path by (simp add: demo_oenv_ok) (simp add: demo_delete_def)
qed

section \<open>Roles that are too weak\<close>

text \<open>What the table of roles allows: a viewer takes the assignments of a worker and reads the decrypted secrets, and
  an operator creates role bindings, for itself and for every role.\<close>

lemma viewer_takes_assignments:
  "isAuthorized \<lparr>p_Subject = ''v'', p_Roles = [''viewer''], p_Source = ''jwt''\<rparr> ''GET'' ''/v1/workers/n1/assignments''"
  by code_simp

lemma viewer_reads_secrets:
  "isAuthorized \<lparr>p_Subject = ''v'', p_Roles = [''viewer''], p_Source = ''jwt''\<rparr> ''GET'' ''/v1/secrets''"
  by code_simp

lemma operator_binds_roles:
  "isAuthorized \<lparr>p_Subject = ''o'', p_Roles = [''operator''], p_Source = ''jwt''\<rparr> ''POST'' ''/v1/rbac/rolebindings''"
  by code_simp

text \<open>The deletion of deployments and autoscalers, the removal of nodes and the recovery are for administrators.\<close>

lemma admin_only:
  "requiredRoles ''POST'' ''/v1/recovery/run'' = [''admin'']"
  "requiredRoles ''DELETE'' (''/v1/deployments/'' @ i) = [''admin'']"
  "requiredRoles ''DELETE'' (''/v1/autoscalers/'' @ i) = [''admin'']"
  by (simp_all add: requiredRoles_def HasPrefix_def HasSuffix_def)

end
