(* ===== verification/Worker_Server.thy ===== *)
theory Worker_Server
  imports Agent Http_Safety
begin

text \<open>
  A worker and the server together: the client of the worker sends its requests to the HTTP server of
  \<^verbatim>\<open>internal/api/httpserver.go\<close>. The network takes the URL apart and hands the request to the handler; what
  JSON does is a parameter, of which the properties use that decoding gives back what was encoded.
\<close>

section \<open>The network between them\<close>

definition url_query :: "string \<Rightarrow> string gomap" where
  "url_query q = List.map_filter (\<lambda>kv. case SplitN2 kv CHR ''='' of [k, v] \<Rightarrow> Some (k, v) | _ \<Rightarrow> None) (Split q CHR ''&'')"

definition received :: "string \<Rightarrow> http_request \<Rightarrow> request" where
  "received base q = (let target = TrimPrefix (cq_URL q) base in
     \<lparr>rq_Method = cq_Method q, rq_Path = takeWhile (\<lambda>c. c \<noteq> CHR ''?'') target, rq_Header = map_get [] (cq_Header q),
      rq_Query = map_get [] (url_query (drop 1 (dropWhile (\<lambda>c. c \<noteq> CHR ''?'') target))), rq_Body = cq_Body q, rq_Principal = None\<rparr>)"

definition serve :: "'db henv \<Rightarrow> (payload \<Rightarrow> string) \<Rightarrow> string \<Rightarrow> http_request \<Rightarrow> ('db server, http_response) go" where
  "serve H encode base q =
     (if \<not> HasPrefix (cq_URL q) base then throw (ErrText ''connection refused'')
      else bnd (Handler H (received base q)) (\<lambda>resp. ret \<lparr>cp_Status = hr_Status resp, cp_Body = encode (hr_Body resp)\<rparr>))"

section \<open>Requests with a token\<close>

text \<open>An authenticated request with a sufficient role reaches the handler of its route.\<close>

lemma wp_Handler_authorized:
  assumes "unversioned (rq_Path r) = rq_Path r" and "\<not> open_path r" and "blank (rq_Header r ''X-API-Version'')"
    and "\<not> blank (rq_Header r ''X-Trace-ID'')"
    and "VerifyBearer (he_auth H) (he_verifier H) (rq_Header r ''Authorization'') (srv_auth s) = (Inr p, d)"
    and "bound_roles H r p (s\<lparr>srv_auth := d\<rparr>) = (Inr q, s')"
    and "isAuthorized q (rq_Method r) (rq_Path r)"
    and "wp (mux H (r\<lparr>rq_Principal := Some q\<rparr>)) (\<lambda>x t. P (srv_orch t)) s'"
  shows "wp (Handler H r) (\<lambda>x t. P (srv_orch t)) s"
proof -
  have o: "\<not> open_path (r\<lparr>rq_Principal := Some q\<rparr>)" using assms(2) by (simp add: open_path_def)
  have r: "r\<lparr>rq_Path := rq_Path r\<rparr> = r" by simp
  have v: "TrimSpace (rq_Header r ''X-API-Version'') = []" "TrimSpace (rq_Header r ''X-Trace-ID'') \<noteq> []"
    using assms(3,4) by (simp_all add: blank_def)
  have a: "wp (on_auth (VerifyBearer (he_auth H) (he_verifier H) (rq_Header r ''Authorization''))) Q s = Q (Inr p) (s\<lparr>srv_auth := d\<rparr>)" for Q
    using assms(5) by (simp add: wp_def on_auth_def)
  have b: "wp (bound_roles H r p) Q (s\<lparr>srv_auth := d\<rparr>) = Q (Inr q) s'" for Q
    using assms(6) by (simp add: wp_def)
  show ?thesis
    unfolding Handler_def versionMiddleware_def traceMiddleware_def authMiddleware_def auditMiddleware_def authorizationMiddleware_def Let_def
    using assms(2,7) by (simp add: assms(1) r v o a b wp_bnd wp_attempt wp_ret)
      (auto simp: wp_simps log_audit_def split: sum.split intro!: wp_conseq [OF assms(8)])
qed

section \<open>Status reports\<close>

lemma status_path:
  assumes "proper i"
  shows "''/v1/workloads/'' @ i @ ''/status'' = path_of [''v1'', ''workloads'', i, ''status'']"
  by (simp add: path_of_def)

lemma status_routed:
  assumes "proper i" and "rq_Path r = ''/v1/workloads/'' @ i @ ''/status''"
  shows "mux H r = handleWorkloadSubroutes H r"
proof -
  define p where "p = ''/v1/workloads/'' @ i @ ''/status''"
  have "Clean p = p" unfolding p_def status_path [OF assms(1)] by (rule Clean_path_of) (use assms(1) in \<open>simp add: proper_def\<close>)
  then have c: "cleanPath p = p" by (simp add: cleanPath_def p_def)
  have m: "map_of routes p = (None :: 'a handler option)" "map_of routes (p @ ''/'') = (None :: 'a handler option)"
    by (simp_all add: routes_def p_def)
  have t: "subtree_route p = Some handleWorkloadSubroutes"
    by (simp add: subtree_route_def routes_def HasSuffix_def HasPrefix_def p_def)
  show ?thesis using m by (simp add: mux_def assms(2) [folded p_def] c t)
qed
lemma Contains_end: "Contains (a @ p) p"
proof (induction a)
  case Nil
  show ?case by (cases p) (simp_all add: HasPrefix_def)
qed simp

lemma status_roles: "requiredRoles ''POST'' (''/v1/workloads/'' @ i @ ''/status'') = operator_up"
  using Contains_end [of "''/v1/workloads/'' @ i" "''/status''"] by (simp add: requiredRoles_def HasSuffix_def HasPrefix_def del: Contains.simps)

text \<open>A token that authenticates a principal with the role of an operator or an administrator, its bindings in the
  default namespace included.\<close>

definition worker_token :: "'db henv \<Rightarrow> string \<Rightarrow> 'db server \<Rightarrow> 'db server \<Rightarrow> bool" where
  "worker_token H tok s s' \<longleftrightarrow> tok \<noteq> [] \<and> (\<exists>p d q.
     VerifyBearer (he_auth H) (he_verifier H) (''Bearer '' @ tok) (srv_auth s) = (Inr p, d) \<and>
     (\<forall>r. requestNamespace r = ''default'' \<longrightarrow> bound_roles H r p (s\<lparr>srv_auth := d\<rparr>) = (Inr q, s')) \<and>
     (\<exists>x \<in> set (p_Roles q). ToLower (TrimSpace x) \<in> {''operator'', ''admin''}))"

lemma url_query_Nil: "url_query [] = []"
  by (simp add: url_query_def SplitN2_def List.map_filter_def)

lemma serve_status:
  assumes "proper i" and "CHR ''?'' \<notin> set i" and "sent c ''POST'' (ac_baseURL c @ ''/v1/workloads/'' @ i @ ''/status'') body q"
    and "worker_token H (ac_token c) s s'" and "he_decodeStatus H body = Inr (st, cid)"
    and "wp (ReportWorkloadStatus (he_orch H) i st cid) (\<lambda>x w. P w) (srv_orch s')"
  shows "wp (serve H encode (ac_baseURL c) q) (\<lambda>x t. P (srv_orch t)) s"
proof -
  let ?path = "''/v1/workloads/'' @ i @ ''/status''" and ?r = "received (ac_baseURL c) q"
  have url: "cq_URL q = ac_baseURL c @ ?path" and mth: "rq_Method ?r = ''POST''" and bdy: "rq_Body ?r = body"
    using assms(3) by (simp_all add: sent_def received_def)
  have path: "rq_Path ?r = ?path" using assms(2) url by (auto simp: received_def TrimPrefix_def HasPrefix_def takeWhile_eq_all_conv)
  have "dropWhile (\<lambda>c. c \<noteq> CHR ''?'') ?path = []" using assms(2) by (auto simp: dropWhile_eq_Nil_conv)
  then have query: "rq_Query ?r k = []" for k by (simp only: received_def Let_def request.select_convs url TrimPrefix_append drop_Nil url_query_Nil) (simp add: map_get_def)
  have hdr: "rq_Header ?r ''Authorization'' = ''Bearer '' @ ac_token c" "rq_Header ?r ''X-API-Version'' = []" "rq_Header ?r ''X-Namespace'' = []"
    using assms(3,4) by (simp_all add: sent_def received_def map_get_def worker_token_def)
  have ns: "requestNamespace ?r = ''default''" by (simp add: requestNamespace_def query hdr(3) TrimSpace_def)
  have trace: "\<not> blank (rq_Header ?r ''X-Trace-ID'')"
    using assms(3) by (auto simp: sent_def received_def map_get_def blank_iff is_space_def)
  obtain p d u where p: "VerifyBearer (he_auth H) (he_verifier H) (rq_Header ?r ''Authorization'') (srv_auth s) = (Inr p, d)"
    and u: "bound_roles H ?r p (s\<lparr>srv_auth := d\<rparr>) = (Inr u, s')"
    and role: "\<exists>x \<in> set (p_Roles u). ToLower (TrimSpace x) \<in> {''operator'', ''admin''}"
    using assms(4) hdr(1) ns by (auto simp: worker_token_def)
  have auth: "isAuthorized u (rq_Method ?r) (rq_Path ?r)"
    using role by (auto simp: isAuthorized_def mth path status_roles operator_up_def image_iff simp del: append.simps) metis+
  have sp: "Split (TrimPrefix ?path ''/v1/workloads/'') CHR ''/'' = [i, ''status'']"
    unfolding TrimPrefix_append using Split_append [of "CHR ''/''" i "''status''"] assms(1) by (simp add: proper_def)
  have "wp (mux H (?r\<lparr>rq_Principal := Some u\<rparr>)) (\<lambda>x t. P (srv_orch t)) s'"
    by (subst status_routed [OF assms(1)])
      (simp_all add: path handleWorkloadSubroutes_def Let_def sp [unfolded TrimPrefix_append] mth decoded_def bdy assms(5) wp_answered [OF assms(6)] del: append.simps)
  then have "wp (Handler H ?r) (\<lambda>x t. P (srv_orch t)) s"
    by (intro wp_Handler_authorized [OF _ _ _ trace p u auth]) (simp_all add: path hdr(2) unversioned_def open_path_def HasPrefix_def)
  then show ?thesis
    by (auto simp: serve_def url HasPrefix_def wp_simps split: sum.splits elim!: wp_conseq)
qed

section \<open>A deletion from end to end\<close>

lemma token_keeps_contents:
  assumes "env_ok (he_orch H)" and "worker_token H tok s s'"
  shows "contents (he_orch H) (srv_orch s') = contents (he_orch H) (srv_orch s)"
proof -
  obtain p d q where "\<forall>r. requestNamespace r = ''default'' \<longrightarrow> bound_roles H r p (s\<lparr>srv_auth := d\<rparr>) = (Inr q, s')"
    using assms(2) by (auto simp: worker_token_def)
  moreover have "requestNamespace \<lparr>rq_Method = [], rq_Path = [], rq_Header = \<lambda>_. [], rq_Query = \<lambda>_. [], rq_Body = [], rq_Principal = None\<rparr> = ''default''"
    by (simp add: requestNamespace_def TrimSpace_def)
  ultimately have "on_world (same_contents (he_orch H)) (s\<lparr>srv_auth := d\<rparr>) s'"
    using staysD [OF read_service.bound [OF same_service [OF assms(1)] HOL.refl]] by blast
  then show ?thesis by (simp add: on_world_def same_contents_def)
qed

text \<open>
  (C6) Take a runtime that stops the containers it is told to stop (the one in memory does, theory
  \<^verbatim>\<open>Runtimes\<close>), a database that does not fail, a worker whose token the server accepts for an operator or an
  administrator, and a workload whose identifier is a proper name in a URL. A worker that processes the
  deletion of the workload then leaves neither a container nor a record of it: its container is stopped,
  and the status report travels through the client, the network, the authentication and the routes of
  the server to the service, which removes the record and lowers what the node has in use by what the
  workload held.
\<close>

theorem deletion_end_to_end:
  assumes "env_total (he_orch H)" and "store_wf (contents (he_orch H) (srv_orch (ag_net (wk_server s))))"
    and "contents (he_orch H) (srv_orch (ag_net (wk_server s))) (keyWorkload (a_WorkloadID a)) = Some (JWorkload w)"
    and "R = NewRunner node (AgentClient (A\<lparr>ag_Do := serve H encode (ac_baseURL c)\<rparr>) c) rt retries backoff"
    and "reliable_runtime rt managed"
    and "worker_token H (ac_token c) (ag_net (wk_server s)) s'"
    and "ag_marshalStatus A (WorkloadTerminated, []) = Inr body" and "he_decodeStatus H body = Inr (WorkloadTerminated, [])"
    and "\<And>url. ag_urlError A url = None"
    and "proper (a_WorkloadID a)" and "CHR ''?'' \<notin> set (a_WorkloadID a)" and "a_Action a = ''delete''"
  shows "wp (process_assignment E R a) (\<lambda>r t. managed (wk_runtime t) (a_WorkloadID a) = None \<and>
    contents (he_orch H) (srv_orch (ag_net (wk_server t))) (keyWorkload (a_WorkloadID a)) = None \<and>
    node_released (contents (he_orch H) (srv_orch (ag_net (wk_server s)))) (contents (he_orch H) (srv_orch (ag_net (wk_server t)))) w) s"
proof -
  let ?E = "he_orch H" and ?i = "a_WorkloadID a" and ?n = "ag_net (wk_server s)"
  let ?done = "\<lambda>w'. contents ?E w' (keyWorkload ?i) = None \<and> node_released (contents ?E (srv_orch ?n)) (contents ?E w') w"
  have same: "contents ?E (srv_orch s') = contents ?E (srv_orch ?n)"
    by (rule token_keeps_contents [OF env_total_ok [OF assms(1)] assms(6)])
  have service: "wp (ReportWorkloadStatus ?E ?i WorkloadTerminated []) (\<lambda>x w'. ?done w') (srv_orch s')"
    by (rule wp_conseq [OF wp_report_releases [OF assms(1)]]) (use assms(2,3) same in auto)
  have sent: "wp (client_ReportWorkloadStatus (A\<lparr>ag_Do := serve H encode (ac_baseURL c)\<rparr>) c ?i WorkloadTerminated [])
      (\<lambda>r u. ?done (srv_orch (ag_net u))) (wk_server s)"
  proof -
    have "wp (post (A\<lparr>ag_Do := serve H encode (ac_baseURL c)\<rparr>) c (''/v1/workloads/'' @ ?i @ ''/status'') (Inr body))
      (\<lambda>r u. ?done (srv_orch (ag_net u))) (wk_server s)"
    proof (rule wp_post)
      fix q assume "sent c ''POST'' (ac_baseURL c @ ''/v1/workloads/'' @ ?i @ ''/status'') body q"
      note served = serve_status [OF assms(10,11) this assms(6) assms(8) service]
      show "wp (ag_Do (A\<lparr>ag_Do := serve H encode (ac_baseURL c)\<rparr>) q) (\<lambda>r n. case r of
          Inl e \<Rightarrow> ?done (srv_orch (ag_net (wk_server s\<lparr>ag_calls := Suc (ag_calls (wk_server s)), ag_net := n\<rparr>)))
        | Inr resp \<Rightarrow> (cp_Status resp < 300 \<longrightarrow> ?done (srv_orch (ag_net (wk_server s\<lparr>ag_calls := Suc (ag_calls (wk_server s)), ag_net := n\<rparr>)))) \<and>
            (300 \<le> cp_Status resp \<longrightarrow> (\<forall>e. ?done (srv_orch (ag_net (wk_server s\<lparr>ag_calls := Suc (ag_calls (wk_server s)), ag_net := n\<rparr>)))))) ?n"
        by (simp, rule wp_conseq [OF served]) (auto split: sum.split)
    qed (simp add: assms(9))
    then show ?thesis by (simp add: client_ReportWorkloadStatus_def assms(7))
  qed
  have R: "rn_runtime R = rt" "cl_ReportWorkloadStatus (rn_client R) = client_ReportWorkloadStatus (A\<lparr>ag_Do := serve H encode (ac_baseURL c)\<rparr>) c"
    by (simp_all add: assms(4) NewRunner_def AgentClient_def)
  have "wp (process_delete E R a) (\<lambda>r t. managed (wk_runtime t) ?i = None \<and> ?done (srv_orch (ag_net (wk_server t)))) s"
    unfolding process_delete_def wp_seq
  proof (rule wp_conseq [OF wp_cleanup_files_only], goal_cases)
    case (1 r t)
    have i: "?i \<noteq> []" using assms(10) by (simp add: proper_def)
    have stop: "wp (rt_StopWorkload rt ?i (a_ContainerID a)) (\<lambda>r m. r = Inr () \<and> managed m ?i = None) m" for m
      by (rule reliable_runtime.stopped [OF assms(5) i])
    have "wp (client_ReportWorkloadStatus (A\<lparr>ag_Do := serve H encode (ac_baseURL c)\<rparr>) c ?i WorkloadTerminated [])
        (\<lambda>r u. ?done (srv_orch (ag_net u))) (wk_server t)"
      using sent 1 by (simp add: files_only_def)
    then show ?case using 1 by (auto simp: wp_simps R report_def elim!: wp_conseq intro: wp_conseq [OF stop])
  qed
  then show ?thesis using assms(12) by (simp add: process_assignment_def)
qed

definition demo_http :: "memdb henv" where
  "demo_http = demo_henv\<lparr>he_decodeStatus := (\<lambda>b. if b = ''terminated'' then Inr (WorkloadTerminated, []) else Inl (ErrText ''EOF''))\<rparr>"

definition demo_api :: "memdb server" where
  "demo_api = NewHTTPServer demo_hosting (snd (NewVerifier ''jwt'' '''' ''key'' '''' '''' ''''))"

definition demo_agent :: "memdb server agent_env" where
  "demo_agent = \<lparr>ag_Do = (\<lambda>_. throw (ErrText ''closed'')), ag_urlError = (\<lambda>_. None), ag_random = (\<lambda>_. Inr []), ag_unixNano = (\<lambda>_. 0),
     ag_marshalNode = (\<lambda>_. Inr []), ag_marshalUsed = (\<lambda>_. Inr []), ag_marshalStatus = (\<lambda>_. Inr ''terminated''),
     ag_decodeAssignments = (\<lambda>_. Inr []), ag_decodeWorkloads = (\<lambda>_. Inr []), ag_decodeSidecar = (\<lambda>_. Inl (ErrText ''EOF''))\<rparr>"

lemma demo_worker_token: "\<exists>s'. worker_token demo_http ''key'' demo_api s'"
proof -
  let ?p = "\<lparr>p_Subject = [], p_Roles = [''admin''], p_Source = ''jwt''\<rparr>"
  have "fst (VerifyBearer (he_auth demo_http) (he_verifier demo_http) ''Bearer key'' (srv_auth demo_api)) = Inr ?p" by code_simp
  then obtain d where "VerifyBearer (he_auth demo_http) (he_verifier demo_http) ''Bearer key'' (srv_auth demo_api) = (Inr ?p, d)"
    by (metis prod.collapse)
  moreover have "ToLower (TrimSpace ''admin'') = ''admin''" by code_simp
  ultimately have "worker_token demo_http ''key'' demo_api (demo_api\<lparr>srv_auth := d\<rparr>)"
    unfolding worker_token_def by (intro conjI exI [of _ ?p] exI [of _ d]) (simp_all add: bound_roles_def ret_def)
  then show ?thesis ..
qed

theorem deletion_end_to_end_witness:
  "wp (process_assignment calm (NewRunner ''n1'' (AgentClient (demo_agent\<lparr>ag_Do := serve demo_http (\<lambda>_. []) ''http://api''\<rparr>)
       (NewClient ''http://api/'' ''key'')) InMemoryRuntime 3 1) (zero_Assignment\<lparr>a_Action := ''delete'', a_WorkloadID := ''wk-1''\<rparr>))
     (\<lambda>r t. map_of (wk_runtime t) ''wk-1'' = None \<and> contents demo_oenv (srv_orch (ag_net (wk_server t))) (keyWorkload ''wk-1'') = None \<and>
       contents demo_oenv (srv_orch (ag_net (wk_server t))) (keyNode ''n1'') = Some (JNode (demo_host\<lparr>n_Used := \<lparr>MilliCPU = 300, MemoryMB = 0\<rparr>\<rparr>)))
     (new_worker \<lparr>fs_files = [], fs_dirs = [], fs_calls = 0\<rparr> [(''wk-1'', ''mem-wk-1'')] \<lparr>ag_calls = 0, ag_net = demo_api\<rparr>)"
proof -
  let ?a = "zero_Assignment\<lparr>a_Action := ''delete'', a_WorkloadID := ''wk-1''\<rparr>"
    and ?s = "new_worker \<lparr>fs_files = [], fs_dirs = [], fs_calls = 0\<rparr> [(''wk-1'', ''mem-wk-1'')] \<lparr>ag_calls = 0, ag_net = demo_api\<rparr>"
  have net: "ag_net (wk_server ?s) = demo_api" "srv_orch demo_api = demo_hosting" "he_orch demo_http = demo_oenv"
    by (simp_all add: new_worker_def demo_api_def NewHTTPServer_def demo_http_def)
  have c: "NewClient ''http://api/'' ''key'' = \<lparr>ac_baseURL = ''http://api'', ac_token = ''key''\<rparr>" by code_simp
  obtain s' where tok: "worker_token demo_http ''key'' demo_api s'" using demo_worker_token by blast
  show ?thesis
    unfolding c
    by (rule wp_conseq [OF deletion_end_to_end [where H = demo_http and s = ?s and a = ?a and w = demo_hosted and rt = InMemoryRuntime and managed = map_of and s' = s' and A = demo_agent
        and body = "''terminated''" and c = "\<lparr>ac_baseURL = ''http://api'', ac_token = ''key''\<rparr>"]])
      (use tok demo_hosting_stored demo_hosting_released inmemory.reliable_runtime_axioms in
        \<open>auto simp: net demo_oenv_total demo_agent_def demo_http_def proper_def\<close>)
qed

end
