(* ===== verification/Config.thy ===== *)
theory Config
  imports Go_Text Model_Types
begin

text \<open>
  The configuration of the two programs (\<^verbatim>\<open>internal/config/config.go\<close>): every setting is read from an
  environment variable, trimmed, and replaced by its default when it is empty or unusable. The
  environment is an argument.
\<close>

section \<open>Parsers\<close>

definition envOrDefault :: "(string \<Rightarrow> string) \<Rightarrow> string \<Rightarrow> string \<Rightarrow> string" where
  "envOrDefault Getenv key fallback = (let v = TrimSpace (Getenv key) in if v \<noteq> [] then v else fallback)"

definition parsePositiveInt :: "string \<Rightarrow> int \<Rightarrow> int" where
  "parsePositiveInt raw fallback = (case Atoi (TrimSpace raw) of
     None \<Rightarrow> fallback | Some v \<Rightarrow> if v \<le> 0 then fallback else v)"

definition parseNonNegativeInt :: "string \<Rightarrow> int \<Rightarrow> int" where
  "parseNonNegativeInt raw fallback = (case Atoi (TrimSpace raw) of
     None \<Rightarrow> fallback | Some v \<Rightarrow> if v < 0 then fallback else v)"

definition parseCSV :: "string \<Rightarrow> string slice" where
  "parseCSV raw = (let raw = TrimSpace raw in
     if raw = [] then None else Some (filter (\<lambda>v. v \<noteq> []) (map TrimSpace (Split raw CHR '',''))))"

text \<open>One \<^verbatim>\<open>key=value\<close> segment; an empty key or value is skipped.\<close>

definition parse_label :: "string \<Rightarrow> (string \<times> string) option" where
  "parse_label segment = (case SplitN2 (TrimSpace segment) CHR ''='' of
     [a, b] \<Rightarrow> (let k = TrimSpace a; v = TrimSpace b in if k = [] \<or> v = [] then None else Some (k, v))
   | _ \<Rightarrow> None)"

definition put_label :: "string gomap \<Rightarrow> string \<Rightarrow> string gomap" where
  "put_label labels segment = (case parse_label segment of None \<Rightarrow> labels | Some (k, v) \<Rightarrow> map_put k v labels)"

definition parseLabels :: "string \<Rightarrow> string gomap" where
  "parseLabels raw = (if blank raw then [] else foldl put_label [] (Split raw CHR '',''))"

text \<open>One \<^verbatim>\<open>key=value:effect\<close> segment.\<close>

definition parse_taint :: "string \<Rightarrow> Taint option" where
  "parse_taint seg = (case Split (TrimSpace seg) CHR '':'' of
     [kv, eff] \<Rightarrow> (case SplitN2 (TrimSpace kv) CHR ''='' of
       [a, b] \<Rightarrow> (let key = TrimSpace a; val = TrimSpace b; effect = TrimSpace eff in
         if key = [] \<or> effect = [] then None else Some \<lparr>ta_Key = key, ta_Value = val, ta_Effect = effect\<rparr>)
     | _ \<Rightarrow> None)
   | _ \<Rightarrow> None)"

definition parseTaints :: "string \<Rightarrow> Taint slice" where
  "parseTaints raw = (if blank raw then None else Some (List.map_filter parse_taint (Split raw CHR '','')))"

section \<open>The two configurations\<close>

record APIServerConfig =
  ac_HTTPAddr :: string
  ac_HTTPSEnabled :: bool
  ac_HTTPSAddr :: string
  ac_TLSCertFile :: string
  ac_TLSKeyFile :: string
  ac_TLSClientCAFile :: string
  ac_GRPCAddr :: string
  ac_DNSAddr :: string
  ac_EnableDNSServer :: bool
  ac_DBPath :: string
  ac_APIToken :: string
  ac_AuthMode :: string
  ac_JWTSecret :: string
  ac_JWTIssuer :: string
  ac_JWTAudience :: string
  ac_JWKSURL :: string
  ac_SchedulerPolicy :: string
  ac_ControllerID :: string
  ac_ControllerShard :: int
  ac_ControllerTotal :: int
  ac_ControllerLease :: int
  ac_DNSExtraAddrs :: "string slice"

record WorkerConfig =
  wc_WorkerID :: string
  wc_ServerURL :: string
  wc_TLSServerName :: string
  wc_TLSCACertFile :: string
  wc_TLSClientCertFile :: string
  wc_TLSClientKeyFile :: string
  wc_NodeLabels :: "string gomap"
  wc_NodeTaints :: "Taint slice"
  wc_HeartbeatInterval :: duration
  wc_AgentToken :: string
  wc_RuntimeDriver :: string
  wc_RestartMaxRetries :: int
  wc_RestartBackoffMS :: int
  wc_MetricsAddr :: string

definition LoadAPIServerConfig :: "(string \<Rightarrow> string) \<Rightarrow> APIServerConfig" where
  "LoadAPIServerConfig Getenv = (let env = envOrDefault Getenv in
     \<lparr>ac_HTTPAddr = env ''ORCH_HTTP_ADDR'' '':8080'',
      ac_HTTPSEnabled = EqualFold (env ''ORCH_HTTPS_ENABLED'' ''false'') ''true'',
      ac_HTTPSAddr = env ''ORCH_HTTPS_ADDR'' '':8443'',
      ac_TLSCertFile = env ''ORCH_TLS_CERT_FILE'' [],
      ac_TLSKeyFile = env ''ORCH_TLS_KEY_FILE'' [],
      ac_TLSClientCAFile = env ''ORCH_TLS_CLIENT_CA_FILE'' [],
      ac_GRPCAddr = env ''ORCH_GRPC_ADDR'' '':9090'',
      ac_DNSAddr = env ''ORCH_DNS_ADDR'' '':1053'',
      ac_EnableDNSServer = EqualFold (env ''ORCH_ENABLE_DNS_SERVER'' ''true'') ''true'',
      ac_DBPath = env ''ORCH_DB_PATH'' ''./badger'',
      ac_APIToken = env ''ORCH_API_TOKEN'' ''dev-token'',
      ac_AuthMode = env ''ORCH_AUTH_MODE'' ''static'',
      ac_JWTSecret = env ''ORCH_JWT_SECRET'' [],
      ac_JWTIssuer = env ''ORCH_JWT_ISSUER'' [],
      ac_JWTAudience = env ''ORCH_JWT_AUDIENCE'' [],
      ac_JWKSURL = env ''ORCH_JWKS_URL'' [],
      ac_SchedulerPolicy = env ''ORCH_SCHEDULER_POLICY'' ''least-loaded'',
      ac_ControllerID = env ''ORCH_CONTROLLER_ID'' ''controller-1'',
      ac_ControllerShard = parseNonNegativeInt (env ''ORCH_CONTROLLER_SHARD_INDEX'' ''0'') 0,
      ac_ControllerTotal = parsePositiveInt (env ''ORCH_CONTROLLER_SHARD_TOTAL'' ''1'') 1,
      ac_ControllerLease = parsePositiveInt (env ''ORCH_CONTROLLER_LEASE_SECONDS'' ''10'') 10,
      ac_DNSExtraAddrs = parseCSV (env ''ORCH_DNS_EXTRA_ADDRS'' [])\<rparr>)"

definition LoadWorkerConfig :: "(string \<Rightarrow> string) \<Rightarrow> WorkerConfig" where
  "LoadWorkerConfig Getenv = (let
     env = envOrDefault Getenv;
     heartbeatSec = (case Atoi (env ''ORCH_HEARTBEAT_SECONDS'' ''5'') of None \<Rightarrow> 5 | Some v \<Rightarrow> if v \<le> 0 then 5 else v) in
     \<lparr>wc_WorkerID = env ''ORCH_WORKER_ID'' ''worker-local'',
      wc_ServerURL = TrimRight (env ''ORCH_SERVER_URL'' ''http://localhost:8080'') CHR ''/'',
      wc_TLSServerName = env ''ORCH_TLS_SERVER_NAME'' [],
      wc_TLSCACertFile = env ''ORCH_TLS_CA_CERT_FILE'' [],
      wc_TLSClientCertFile = env ''ORCH_TLS_CLIENT_CERT_FILE'' [],
      wc_TLSClientKeyFile = env ''ORCH_TLS_CLIENT_KEY_FILE'' [],
      wc_NodeLabels = parseLabels (env ''ORCH_NODE_LABELS'' []),
      wc_NodeTaints = parseTaints (env ''ORCH_NODE_TAINTS'' []),
      wc_HeartbeatInterval = seconds heartbeatSec,
      wc_AgentToken = env ''ORCH_AGENT_TOKEN'' ''dev-token'',
      wc_RuntimeDriver = env ''ORCH_RUNTIME_DRIVER'' ''docker'',
      wc_RestartMaxRetries = parsePositiveInt (env ''ORCH_RESTART_MAX_RETRIES'' ''3'') 3,
      wc_RestartBackoffMS = parsePositiveInt (env ''ORCH_RESTART_BACKOFF_MS'' ''250'') 250,
      wc_MetricsAddr = env ''ORCH_WORKER_METRICS_ADDR'' '':8081''\<rparr>)"


section \<open>Ranges and round trips\<close>

lemma parsePositiveInt_pos: "0 < d \<Longrightarrow> 0 < parsePositiveInt raw d"
  by (auto simp: parsePositiveInt_def split: option.split)

lemma parseNonNegativeInt_nonneg: "0 \<le> d \<Longrightarrow> 0 \<le> parseNonNegativeInt raw d"
  by (auto simp: parseNonNegativeInt_def split: option.split)

text \<open>Whatever the environment holds, the numbers the controller and the worker start from are usable.\<close>

lemma config_usable:
  "0 \<le> ac_ControllerShard (LoadAPIServerConfig env)" "0 < ac_ControllerTotal (LoadAPIServerConfig env)"
  "0 < ac_ControllerLease (LoadAPIServerConfig env)"
  "0 < wc_RestartMaxRetries (LoadWorkerConfig env)" "0 < wc_RestartBackoffMS (LoadWorkerConfig env)"
  unfolding LoadAPIServerConfig_def LoadWorkerConfig_def Let_def APIServerConfig.select_convs WorkerConfig.select_convs
  by (rule parsePositiveInt_pos parseNonNegativeInt_nonneg; simp)+

text \<open>The heartbeat interval is not: a number of seconds beyond the range of a duration wraps around, and a
  ticker with a negative interval panics.\<close>

lemma heartbeat_interval_wraps:
  assumes "env ''ORCH_HEARTBEAT_SECONDS'' = ''9223372037''"
  shows "wc_HeartbeatInterval (LoadWorkerConfig env) < 0"
proof -
  have "TrimSpace ''9223372037'' = ''9223372037''" by code_simp
  then have "envOrDefault env ''ORCH_HEARTBEAT_SECONDS'' ''5'' = ''9223372037''" using assms by (simp add: envOrDefault_def)
  moreover have "Atoi ''9223372037'' = Some 9223372037"
    by (simp add: Atoi_def HasPrefix_def digits_value_def digit_value_def is_digit_def in64_def)
  moreover have "seconds 9223372037 < 0" by (simp add: seconds_def imul_def i64_def Second_def)
  ultimately show ?thesis unfolding LoadWorkerConfig_def Let_def WorkerConfig.select_convs by simp
qed

definition token :: "string \<Rightarrow> bool" where
  "token s \<longleftrightarrow> s \<noteq> [] \<and> \<not> is_space (hd s) \<and> \<not> is_space (last s) \<and> CHR '','' \<notin> set s \<and> CHR '':'' \<notin> set s \<and> CHR ''='' \<notin> set s"

definition taint_text :: "Taint \<Rightarrow> string" where
  "taint_text t = ta_Key t @ ''='' @ ta_Value t @ '':'' @ ta_Effect t"

definition label_text :: "string \<times> string \<Rightarrow> string" where
  "label_text kv = fst kv @ ''='' @ snd kv"

lemma TrimSpace_id:
  assumes "s \<noteq> []" and "\<not> is_space (hd s)" and "\<not> is_space (last s)"
  shows "TrimSpace s = s"
proof -
  have "dropWhile is_space s = s" using assms by (cases s) auto
  moreover have "dropWhile is_space (rev s) = rev s" using assms by (cases s rule: rev_cases) auto
  ultimately show ?thesis by (simp add: TrimSpace_def)
qed

lemma TrimSpace_token [simp]: "token s \<Longrightarrow> TrimSpace s = s"
  by (simp add: token_def TrimSpace_id)

lemma TrimSpace_around: "token k \<Longrightarrow> token e \<Longrightarrow> TrimSpace (k @ m @ e) = k @ m @ e"
  by (rule TrimSpace_id) (auto simp: token_def hd_append last_append)

lemma not_space_seps [simp]: "\<not> is_space CHR ''=''"
  by code_simp

lemma parse_taint_text:
  assumes "token (ta_Key t)" and "ta_Value t = [] \<or> token (ta_Value t)" and "token (ta_Effect t)"
  shows "parse_taint (taint_text t) = Some t"
proof -
  let ?kv = "ta_Key t @ ''='' @ ta_Value t"
  have a: "TrimSpace (taint_text t) = ?kv @ CHR '':'' # ta_Effect t"
    using TrimSpace_around [OF assms(1,3), of "''='' @ ta_Value t @ '':''"] by (simp add: taint_text_def)
  have b: "Split (?kv @ CHR '':'' # ta_Effect t) CHR '':'' = [?kv, ta_Effect t]"
    using assms by (subst Split_append) (auto simp: token_def Split_free)
  have c: "TrimSpace ?kv = ?kv"
    using assms by (intro TrimSpace_id) (auto simp: token_def hd_append last_append)
  have d: "SplitN2 ?kv CHR ''='' = [ta_Key t, ta_Value t]"
    using SplitN2_append [of "CHR ''=''" "ta_Key t" "ta_Value t"] assms(1) by (simp add: token_def)
  have v: "TrimSpace (ta_Value t) = ta_Value t" using assms(2) by (cases "ta_Value t = []") (simp_all add: TrimSpace_def [of "[]"])
  show ?thesis
    unfolding parse_taint_def a b list.case c d
    using assms v by (auto simp: token_def Let_def)
qed

lemma parse_label_text:
  assumes "token (fst kv)" and "token (snd kv)"
  shows "parse_label (label_text kv) = Some kv"
proof -
  have "TrimSpace (label_text kv) = fst kv @ CHR ''='' # snd kv"
    using TrimSpace_around [OF assms, of "''=''"] by (simp add: label_text_def)
  then show ?thesis
    using assms SplitN2_append [of "CHR ''=''" "fst kv" "snd kv"] by (auto simp: parse_label_def token_def Let_def)
qed

lemma map_filter_Some: "(\<And>x. x \<in> set xs \<Longrightarrow> f (g x) = Some x) \<Longrightarrow> List.map_filter f (map g xs) = xs"
  by (induction xs) (auto simp: List.map_filter_simps)

lemma not_blank_hd: "s \<noteq> [] \<Longrightarrow> \<not> is_space (hd s) \<Longrightarrow> \<not> blank s"
  by (cases s) (auto simp: blank_iff)

lemma hd_Join: "ss \<noteq> [] \<Longrightarrow> hd ss \<noteq> [] \<Longrightarrow> Join ss sep \<noteq> [] \<and> hd (Join ss sep) = hd (hd ss)"
  by (induction ss sep rule: Join.induct) auto

text \<open>The taints and labels a worker is started with are read back exactly.\<close>

theorem parse_taints_roundtrip:
  assumes "ts \<noteq> []" and "\<forall>t \<in> set ts. token (ta_Key t) \<and> (ta_Value t = [] \<or> token (ta_Value t)) \<and> token (ta_Effect t)"
  shows "parseTaints (Join (map taint_text ts) CHR '','') = Some ts"
proof -
  let ?raw = "Join (map taint_text ts) CHR '',''"
  have "hd (map taint_text ts) \<noteq> [] \<and> \<not> is_space (hd (hd (map taint_text ts)))"
    using assms by (cases ts) (auto simp: token_def taint_text_def hd_append)
  then have "\<not> blank ?raw" using hd_Join [of "map taint_text ts" "CHR '',''"] assms(1) by (metis map_is_Nil_conv not_blank_hd)
  moreover have "Split ?raw CHR '','' = map taint_text ts"
    using assms by (intro Split_Join) (auto simp: token_def taint_text_def)
  ultimately show ?thesis using assms(2) by (simp add: parseTaints_def map_filter_Some parse_taint_text)
qed

theorem parse_labels_roundtrip:
  assumes "kvs \<noteq> []" and "\<forall>kv \<in> set kvs. token (fst kv) \<and> token (snd kv)" and "distinct (map fst kvs)"
  shows "map_of (parseLabels (Join (map label_text kvs) CHR '','')) = map_of kvs"
proof -
  let ?raw = "Join (map label_text kvs) CHR '',''"
  have "hd (map label_text kvs) \<noteq> [] \<and> \<not> is_space (hd (hd (map label_text kvs)))"
    using assms by (cases kvs) (auto simp: token_def label_text_def hd_append)
  then have nb: "\<not> blank ?raw" using hd_Join [of "map label_text kvs" "CHR '',''"] assms(1) by (metis map_is_Nil_conv not_blank_hd)
  have sp: "Split ?raw CHR '','' = map label_text kvs"
    using assms by (intro Split_Join) (auto simp: token_def label_text_def)
  have put: "map_of (foldl put_label m (map label_text xs)) = map_of m ++ map_of xs"
    if "\<forall>kv \<in> set xs. token (fst kv) \<and> token (snd kv)" "distinct (map fst xs)" for xs m
    using that
  proof (induction xs arbitrary: m)
    case (Cons kv xs)
    then have "put_label m (label_text kv) = map_put (fst kv) (snd kv) m"
      by (simp add: put_label_def parse_label_text split: prod.split)
    moreover have "map_of xs (fst kv) = None" using Cons.prems(2) by (simp add: map_of_eq_None_iff)
    ultimately show ?case using Cons by (auto simp: map_of_put map_add_def fun_eq_iff split: option.split)
  qed simp
  show ?thesis using put [OF assms(2,3), of "[]"] by (simp add: parseLabels_def nb sp)
qed

end
