(* ===== verification/Programs.thy ===== *)
theory Programs
  imports Worker_Server Config
begin

text \<open>
  The two programs (\<^verbatim>\<open>cmd/worker/main.go\<close>, \<^verbatim>\<open>cmd/apiserver/main.go\<close>): the node a worker registers, one round of
  its loop and its metrics, the TLS settings of its client, the parts the server is put together from,
  and the certificate of the server, which is loaded again when its files change. Files, X.509 and the
  clock are parameters; signals, listeners and log lines are not modelled.
\<close>

section \<open>The worker program\<close>

definition worker_node :: "WorkerConfig \<Rightarrow> Node" where
  "worker_node cfg = zero_Node\<lparr>n_ID := wc_WorkerID cfg, n_Address := wc_WorkerID cfg, n_Labels := Some (wc_NodeLabels cfg),
     n_Taints := elems (wc_NodeTaints cfg), n_Capacity := \<lparr>MilliCPU = 4000, MemoryMB = 8192\<rparr>,
     n_Allocatable := \<lparr>MilliCPU = 3500, MemoryMB = 7168\<rparr>\<rparr>"

definition worker_runner :: "WorkerConfig \<Rightarrow> 'n agent_env \<Rightarrow> 'x runtime \<Rightarrow> ('x, 'n agent) Runner" where
  "worker_runner cfg A rt = NewRunner (wc_WorkerID cfg) (AgentClient A (NewClientWithHTTPClient (wc_ServerURL cfg) (wc_AgentToken cfg)))
     rt (wc_RestartMaxRetries cfg) (imul (wc_RestartBackoffMS cfg) 1000000)"

text \<open>Before the loop: the registration, whose failure ends the program, and a first heartbeat.\<close>

definition worker_start :: "WorkerConfig \<Rightarrow> ('x, 'c) Runner \<Rightarrow> ('x, 'c, unit) wrk" where
  "worker_start cfg R = seq (Register R (worker_node cfg)) (ignore (Heartbeat R))"

datatype worker_event = HeartbeatTick | PollTick

definition worker_round :: "worker_env \<Rightarrow> ('x, 'c) Runner \<Rightarrow> worker_event \<Rightarrow> ('x, 'c, unit) wrk" where
  "worker_round E R ev = (case ev of
     HeartbeatTick \<Rightarrow> ignore (Heartbeat R)
   | PollTick \<Rightarrow> seq (ignore (ProcessAssignments E R 5)) (ignore (ReconcileRuntime R)))"

text \<open>The loop over the events that arrive before the program is stopped.\<close>

definition worker_loop :: "worker_env \<Rightarrow> ('x, 'c) Runner \<Rightarrow> worker_event list \<Rightarrow> ('x, 'c, unit) wrk" where
  "worker_loop E R evs = for_each evs (worker_round E R)"

definition nl :: string where
  "nl = [char_of (10 :: nat)]"

definition worker_metrics :: "('x, 'c) Runner \<Rightarrow> ('x, 'c, string) wrk" where
  "worker_metrics R = bnd UsedResource (\<lambda>used. ret (
     ''# HELP worker_used_millicpu Current worker used CPU in millicores'' @ nl @
     ''# TYPE worker_used_millicpu gauge'' @ nl @
     ''worker_used_millicpu '' @ show_int (MilliCPU used) @ nl @
     ''# HELP worker_used_memory_mb Current worker used memory in MB'' @ nl @
     ''# TYPE worker_used_memory_mb gauge'' @ nl @
     ''worker_used_memory_mb '' @ show_int (MemoryMB used) @ nl @
     ''# HELP worker_identity Worker identity label'' @ nl @
     ''# TYPE worker_identity gauge'' @ nl @
     ''worker_identity{node_id='' @ [CHR 0x22] @ rn_nodeID R @ [CHR 0x22] @ ''} 1'' @ nl))"

text \<open>The TLS settings of the client; \<^verbatim>\<open>None\<close> when the server is not addressed by \<^verbatim>\<open>https\<close>.\<close>

record 'cert tls_config =
  tc_ServerName :: string
  tc_RootCAs :: "string option"
  tc_Certificate :: "'cert option"

record 'cert tls_env =
  te_readFile :: "string \<Rightarrow> err + string"
  te_appendCerts :: "string \<Rightarrow> bool"
  te_loadKeyPair :: "string \<Rightarrow> string \<Rightarrow> err + 'cert"

definition root_cas :: "'cert tls_env \<Rightarrow> string \<Rightarrow> err + string option" where
  "root_cas T file = (if file = [] then Inr None else case te_readFile T file of
     Inl e \<Rightarrow> Inl (ErrWrap ''read CA cert file: '' e)
   | Inr pem \<Rightarrow> if te_appendCerts T pem then Inr (Some pem) else Inl (ErrText ''append CA cert PEM failed''))"

definition client_cert :: "'cert tls_env \<Rightarrow> string \<Rightarrow> string \<Rightarrow> err + 'cert option" where
  "client_cert T cert key =
     (if (cert = []) \<noteq> (key = []) then Inl (ErrText ''ORCH_TLS_CLIENT_CERT_FILE and ORCH_TLS_CLIENT_KEY_FILE must both be set'')
      else if cert \<noteq> [] \<and> key \<noteq> [] then case te_loadKeyPair T cert key of
        Inl e \<Rightarrow> Inl (ErrWrap ''load client keypair: '' e)
      | Inr c \<Rightarrow> Inr (Some c)
      else Inr None)"

definition buildWorkerHTTPClient :: "'cert tls_env \<Rightarrow> WorkerConfig \<Rightarrow> err + 'cert tls_config option" where
  "buildWorkerHTTPClient T cfg =
     (if HasPrefix (ToLower (wc_ServerURL cfg)) ''https://'' then
        case root_cas T (wc_TLSCACertFile cfg) of Inl e \<Rightarrow> Inl e | Inr cas \<Rightarrow>
        case client_cert T (wc_TLSClientCertFile cfg) (wc_TLSClientKeyFile cfg) of Inl e \<Rightarrow> Inl e | Inr c \<Rightarrow>
          Inr (Some \<lparr>tc_ServerName = wc_TLSServerName cfg, tc_RootCAs = cas, tc_Certificate = c\<rparr>)
      else Inr None)"

section \<open>The server program\<close>

text \<open>The parts \<^verbatim>\<open>main\<close> puts together from the configuration.\<close>

definition server_manager :: "APIServerConfig \<Rightarrow> Manager" where
  "server_manager cfg = NewManager (3 * Second) (ac_ControllerID cfg) (ac_ControllerShard cfg) (ac_ControllerTotal cfg) (seconds (ac_ControllerLease cfg))"

definition server_orch_env :: "APIServerConfig \<Rightarrow> 'db oenv \<Rightarrow> 'db oenv" where
  "server_orch_env cfg E = E\<lparr>oe_planner := NewPlanner (ac_SchedulerPolicy cfg), oe_nodeTTL := 20 * Second\<rparr>"

definition server_start :: "APIServerConfig \<Rightarrow> 'db henv \<Rightarrow> 'db \<Rightarrow> 'db henv \<times> 'db server" where
  "server_start cfg H db = (case NewVerifier (ac_AuthMode cfg) (ac_APIToken cfg) (ac_JWTSecret cfg) (ac_JWTIssuer cfg) (ac_JWTAudience cfg) (ac_JWKSURL cfg) of
     (v, cache) \<Rightarrow> (H\<lparr>he_orch := server_orch_env cfg (he_orch H), he_verifier := v\<rparr>, NewHTTPServer (NewOrchestrator db) cache))"

definition dns_addresses :: "APIServerConfig \<Rightarrow> string list" where
  "dns_addresses cfg = (if ac_EnableDNSServer cfg then ac_DNSAddr cfg # elems (ac_DNSExtraAddrs cfg) else [])"

section \<open>The certificate of the server\<close>

record 'cert certReloader =
  cr_cert :: "'cert option"
  cr_certModTime :: gotime
  cr_keyModTime :: gotime
  cr_lastChecked :: gotime
  cr_calls :: nat

record 'cert cert_env =
  ce_certPath :: string
  ce_keyPath :: string
  ce_now :: "nat \<Rightarrow> gotime"
  ce_stat :: "nat \<Rightarrow> string \<Rightarrow> err + gotime"
  ce_load :: "nat \<Rightarrow> string \<Rightarrow> string \<Rightarrow> err + 'cert"

definition statted :: "string \<Rightarrow> err + gotime \<Rightarrow> ('s, gotime) go" where
  "statted text r = (case r of Inl e \<Rightarrow> throw (ErrWrap text e) | Inr t \<Rightarrow> ret t)"

definition reload :: "'cert cert_env \<Rightarrow> bool \<Rightarrow> ('cert certReloader, unit) go" where
  "reload C force = bnd (gets cr_calls) (\<lambda>n. let now = ce_now C n in
     seq (modify (\<lambda>s. s\<lparr>cr_calls := Suc n\<rparr>))
     (bnd (gets (\<lambda>s. \<not> force \<and> time_sub now (cr_lastChecked s) < 5 * Second)) (\<lambda>recent.
     if recent then ret ()
     else seq (modify (\<lambda>s. s\<lparr>cr_lastChecked := now\<rparr>))
       (bnd (statted ''stat cert file: '' (ce_stat C n (ce_certPath C))) (\<lambda>certInfo.
        bnd (statted ''stat key file: '' (ce_stat C n (ce_keyPath C))) (\<lambda>keyInfo.
        bnd (gets (\<lambda>s. \<not> force \<and> \<not> certInfo > cr_certModTime s \<and> \<not> keyInfo > cr_keyModTime s)) (\<lambda>same.
        if same then ret ()
        else case ce_load C n (ce_certPath C) (ce_keyPath C) of
          Inl e \<Rightarrow> throw (ErrWrap ''load tls key pair: '' e)
        | Inr loaded \<Rightarrow> modify (\<lambda>s. s\<lparr>cr_cert := Some loaded, cr_certModTime := certInfo, cr_keyModTime := keyInfo\<rparr>))))))))"

definition empty_reloader :: "'cert certReloader" where
  "empty_reloader = \<lparr>cr_cert = None, cr_certModTime = zero_time, cr_keyModTime = zero_time, cr_lastChecked = zero_time, cr_calls = 0\<rparr>"

definition newCertReloader :: "'cert cert_env \<Rightarrow> err + 'cert certReloader" where
  "newCertReloader C =
     (if ce_certPath C = [] \<or> ce_keyPath C = []
      then Inl (ErrText ''ORCH_TLS_CERT_FILE and ORCH_TLS_KEY_FILE are required when ORCH_HTTPS_ENABLED=true'')
      else case reload C True empty_reloader of (Inl e, s) \<Rightarrow> Inl e | (Inr _, s) \<Rightarrow> Inr s)"

definition GetCertificate :: "'cert cert_env \<Rightarrow> ('cert certReloader, 'cert) go" where
  "GetCertificate C = seq (reload C False) (bnd (gets cr_cert) (\<lambda>c. case c of
     None \<Rightarrow> throw (ErrText ''tls certificate is not loaded'')
   | Some cert \<Rightarrow> ret cert))"
text \<open>A certificate is replaced only by one that was loaded, and a failed attempt keeps the one there is.\<close>

lemma wp_reload:
  "wp (reload C force) (\<lambda>r t. (cr_cert t = cr_cert s \<or> r = Inr () \<and> (\<exists>n c. ce_load C n (ce_certPath C) (ce_keyPath C) = Inr c \<and> cr_cert t = Some c)) \<and>
    (force \<and> r = Inr () \<longrightarrow> cr_cert t \<noteq> None)) s"
  by (auto simp: reload_def Let_def wp_simps statted_def split: sum.split)

lemma new_reloader_loaded: "newCertReloader C = Inr s \<Longrightarrow> cr_cert s \<noteq> None"
  using wp_reload [of C True empty_reloader] by (auto simp: newCertReloader_def wp_def split: if_splits prod.splits sum.splits)

lemma GetCertificate_loaded:
  assumes "cr_cert s \<noteq> None" and "GetCertificate C s = (r, t)"
  shows "cr_cert t \<noteq> None \<and> (\<forall>c. r = Inr c \<longrightarrow> cr_cert t = Some c) \<and> (\<forall>e. r = Inl e \<longrightarrow> cr_cert t = cr_cert s)"
proof -
  have "wp (GetCertificate C) (\<lambda>r t. cr_cert t \<noteq> None \<and> (\<forall>c. r = Inr c \<longrightarrow> cr_cert t = Some c) \<and> (\<forall>e. r = Inl e \<longrightarrow> cr_cert t = cr_cert s)) s"
    unfolding GetCertificate_def wp_seq
    by (rule wp_conseq [OF wp_reload]) (use assms(1) in \<open>auto simp: wp_simps split: sum.split option.split\<close>)
  from wpD [OF this assms(2)] show ?thesis .
qed

text \<open>While the files are being replaced the handshake is refused, although a valid certificate is at hand; for the
  next five seconds the old certificate is served again.\<close>

lemma rotation_refuses_handshake:
  assumes "time_sub (ce_now C (cr_calls s)) (cr_lastChecked s) \<ge> 5 * Second"
    and "ce_stat C (cr_calls s) (ce_certPath C) = Inr m" and "m > cr_certModTime s" and "ce_stat C (cr_calls s) (ce_keyPath C) = Inr k"
    and "ce_load C (cr_calls s) (ce_certPath C) (ce_keyPath C) = Inl e"
  shows "\<exists>t. GetCertificate C s = (Inl (ErrWrap ''load tls key pair: '' e), t)"
  using assms by (simp add: GetCertificate_def reload_def Let_def statted_def seq_def bnd_def gets_def modify_def ret_def throw_def)

section \<open>The defaults fit together\<close>

text \<open>Started without any configuration, the server accepts the token of the worker and takes the worker for an
  administrator.\<close>

lemma default_configuration_connects:
  "fst (VerifyBearer A (he_verifier (fst (server_start (LoadAPIServerConfig (\<lambda>_. [])) H db)))
     (''Bearer '' @ wc_AgentToken (LoadWorkerConfig (\<lambda>_. []))) c) = Inr \<lparr>p_Subject = ''static-token'', p_Roles = [''admin''], p_Source = ''static''\<rparr>"
proof -
  have t: "wc_AgentToken (LoadWorkerConfig (\<lambda>_. [])) = ''dev-token''" by code_simp
  have v: "fst (NewVerifier (ac_AuthMode (LoadAPIServerConfig (\<lambda>_. []))) (ac_APIToken (LoadAPIServerConfig (\<lambda>_. []))) (ac_JWTSecret (LoadAPIServerConfig (\<lambda>_. [])))
    (ac_JWTIssuer (LoadAPIServerConfig (\<lambda>_. []))) (ac_JWTAudience (LoadAPIServerConfig (\<lambda>_. []))) (ac_JWKSURL (LoadAPIServerConfig (\<lambda>_. [])))) =
    \<lparr>vf_mode = ModeStatic, vf_staticTok = ''dev-token'', vf_jwtSecret = [], vf_issuer = [], vf_audience = [], vf_jwksURL = [], vf_jwksRefreshAfter = 5 * 60 * Second\<rparr>"
    by code_simp
  have b: "TrimSpace ''Bearer dev-token'' = ''Bearer dev-token''" "HasPrefix ''Bearer dev-token'' ''Bearer ''" "TrimSpace (TrimPrefix ''Bearer dev-token'' ''Bearer '') = ''dev-token''" by code_simp+
  show ?thesis
    using v b by (simp add: t server_start_def case_prod_beta VerifyBearer_def verifyStatic_def Let_def ret_def)
qed

end
