(* ===== verification/Plugins.thy ===== *)
theory Plugins
  imports Go_Text Go_Effects
begin

text \<open>
  The registry of plugins (\<^verbatim>\<open>internal/plugin\<close>): registration under a name, listing, and switching a plugin on
  and off. Nothing in the repository calls a registered plugin, so there is nothing more to model.
\<close>

record RuntimeIsolationPolicy =
  ip_ExecTimeoutSeconds :: int
  ip_ReadOnlyFS :: bool
  ip_DropNetwork :: bool

record Registration =
  pg_Name :: string
  pg_Type :: string
  pg_Path :: string
  pg_Isolation :: RuntimeIsolationPolicy
  pg_Enabled :: bool

type_synonym registrations = "Registration gomap"

definition plugin_NewManager :: registrations where
  "plugin_NewManager = []"

definition plugin_Register :: "Registration \<Rightarrow> (registrations, unit) go" where
  "plugin_Register r =
     (if pg_Name r = [] then throw (ErrText ''plugin name is required'')
      else if pg_Type r = [] then throw (ErrText ''plugin type is required'')
      else modify (map_put (pg_Name r) r))"

definition plugin_List :: "(registrations, Registration list) go" where
  "plugin_List = gets (map snd)"

definition plugin_Enable :: "string \<Rightarrow> bool \<Rightarrow> (registrations, unit) go" where
  "plugin_Enable name enabled = bnd (gets (\<lambda>m. map_of m name)) (\<lambda>x. case x of
     None \<Rightarrow> throw (ErrText ''plugin not found'')
   | Some r \<Rightarrow> modify (map_put name (r\<lparr>pg_Enabled := enabled\<rparr>)))"

text \<open>The registry holds every plugin under its own name, and switching one on or off changes nothing else.\<close>

definition registry_ok :: "registrations \<Rightarrow> bool" where
  "registry_ok m \<longleftrightarrow> (\<forall>k r. map_of m k = Some r \<longrightarrow> pg_Name r = k \<and> k \<noteq> [] \<and> pg_Type r \<noteq> [])"

lemma registry_ok_new: "registry_ok plugin_NewManager"
  by (simp add: registry_ok_def plugin_NewManager_def)

lemma registry_ok_Register: "registry_ok m \<Longrightarrow> wp (plugin_Register r) (\<lambda>x n. registry_ok n \<and>
    (x = Inr () \<longrightarrow> map_of n = (map_of m)(pg_Name r \<mapsto> r)) \<and> (x \<noteq> Inr () \<longrightarrow> n = m)) m"
  by (auto simp: plugin_Register_def wp_simps registry_ok_def map_of_put)

lemma registry_ok_Enable: "registry_ok m \<Longrightarrow> wp (plugin_Enable name b) (\<lambda>x n. registry_ok n \<and>
    (x = Inr () \<longleftrightarrow> map_of m name \<noteq> None) \<and> (\<forall>k. k \<noteq> name \<longrightarrow> map_of n k = map_of m k) \<and>
    (\<forall>r. map_of m name = Some r \<longrightarrow> map_of n name = Some (r\<lparr>pg_Enabled := b\<rparr>))) m"
  by (auto simp: plugin_Enable_def wp_simps registry_ok_def map_of_put split: option.split)

end
