(* ===== verification/Spec2Isabelle.thy ===== *)
theory Spec2Isabelle
  imports Store_Props Dns_Server Grpc_Server Programs Plugins
begin

text \<open>
  A verification development for the container orchestrator under \<^verbatim>\<open>src/\<close>, a control plane in Go with its
  worker agent.

  \<^bold>\<open>The program.\<close> The server (\<^verbatim>\<open>cmd/apiserver\<close>) keeps the state of a cluster in a key-value store
  (\<^verbatim>\<open>internal/store\<close>): nodes, deployments, workloads, services, jobs, volumes and the rest of
  \<^verbatim>\<open>internal/model\<close>. The service (\<^verbatim>\<open>internal/service\<close>) is the only part that changes it. Clients reach
  the service through the HTTP API with its authentication and authorization (\<^verbatim>\<open>internal/api\<close>,
  \<^verbatim>\<open>internal/auth\<close>), through four gRPC calls and through DNS queries (\<^verbatim>\<open>internal/dnsserver\<close>). Controllers
  (\<^verbatim>\<open>internal/controller\<close>) compete for a lease; the one that holds it runs the reconciliation of its
  shard: rollouts, deletion, autoscaling, endpoints, volumes, jobs and node health. The scheduler
  (\<^verbatim>\<open>internal/scheduler\<close>) chooses nodes and the balancer (\<^verbatim>\<open>internal/loadbalancer\<close>) endpoints. A worker
  (\<^verbatim>\<open>cmd/worker\<close>, \<^verbatim>\<open>internal/worker\<close>, \<^verbatim>\<open>internal/agent\<close>) polls the assignments of its node over HTTP, runs
  containers through a runtime (\<^verbatim>\<open>internal/runtime\<close>) and reports back.

  \<^bold>\<open>Shape of the model.\<close> A Go function that changes state and returns \<^verbatim>\<open>(value, error)\<close> is a function from
  the state to a sum of error and value and the state after it (\<open>go\<close>, theory \<^verbatim>\<open>Go_Effects\<close>); every early
  return, ignored error and panic of the source is a branch. A struct is a record with the fields of the
  source, a string enumeration a datatype, an \<^verbatim>\<open>int\<close> an integer with the wrap-around of 64 bits written out,
  a \<^verbatim>\<open>float64\<close> a rational with the rounding of IEEE, a string a list of bytes. Long routines are split into
  one definition per phase and composed in the order of the source. Third-party code and the outside world
  are parameters: the database (\<open>badger\<close>, with \<open>badger_ok\<close> for what it documents), clock and random source
  (\<open>env\<close>), ciphers, admission and probes (\<open>oenv\<close>), tokens and the JWKS endpoint (\<open>auth_env\<close>), JSON
  decoding and upstreams (\<open>henv\<close>), Docker, the network of the client (\<open>agent_env\<close>), operating system calls
  (\<open>worker_env\<close>). A hypothesis \<open>env_ok\<close> allows every operation of the database to fail; \<open>env_total\<close> is a
  database that does not fail.

  \<^bold>\<open>Theories.\<close>
  \<^item> \<^verbatim>\<open>Go_Prelude\<close>, \<^verbatim>\<open>Go_Text\<close>, \<^verbatim>\<open>Go_Paths\<close>, \<^verbatim>\<open>Http_Client\<close>: integers, floats, strings, time, sorting, paths and
    requests of the language and its library. \<^verbatim>\<open>Go_Effects\<close>: effects, weakest preconditions (\<open>wp\<close>) and frame
    relations (\<open>stays\<close>, locale \<open>frame\<close>), which carry most proofs.
  \<^item> \<^verbatim>\<open>Model_Types\<close> (\<^verbatim>\<open>model/types.go\<close>), \<^verbatim>\<open>State_Store\<close> (\<^verbatim>\<open>store/store.go\<close>, one \<open>st_\<close> definition per method),
    \<^verbatim>\<open>Store_Laws\<close> (locale \<open>collection\<close>, interpreted for every kind of record; \<open>evolves\<close>, the writes an operation
    may make), \<^verbatim>\<open>Store_Props\<close>: records stay at the key their fields determine, round trips, uniqueness,
    cascade, and assignments popped exactly once.
  \<^item> \<^verbatim>\<open>Scheduler\<close> and \<^verbatim>\<open>Balancer\<close>: the choice of a node against its specification, no overcommitment,
    tolerations; fairness of round robin and exact counters over traces of calls.
  \<^item> \<^verbatim>\<open>Orch_World\<close> (state of \<^verbatim>\<open>Orchestrator\<close>, mutex, events, conditions, quotas), \<^verbatim>\<open>Secrets\<close>, \<^verbatim>\<open>Deployments\<close> (update,
    rollback, revision history), \<^verbatim>\<open>Rollout\<close> with \<^verbatim>\<open>Rollout_Safety\<close> and \<^verbatim>\<open>Rollout_Status\<close> (\<^verbatim>\<open>reconcileDeployment\<close>),
    \<^verbatim>\<open>Lifecycle\<close> (creation, deletion, reports of workers), \<^verbatim>\<open>Services\<close>, \<^verbatim>\<open>Nodes\<close>, \<^verbatim>\<open>Autoscaler\<close>,
    \<^verbatim>\<open>Reconcile_Loop\<close>: \<^verbatim>\<open>service/orchestrator.go\<close>.
  \<^item> \<^verbatim>\<open>Leadership\<close>, \<^verbatim>\<open>Storage\<close>, \<^verbatim>\<open>Network_Policy\<close>, \<^verbatim>\<open>Rbac\<close>, \<^verbatim>\<open>Jobs\<close> (and parts of \<^verbatim>\<open>Nodes\<close>, \<^verbatim>\<open>Secrets\<close>):
    \<^verbatim>\<open>service/features.go\<close>. \<^verbatim>\<open>Controller\<close>: \<^verbatim>\<open>controller/manager.go\<close>.
  \<^item> \<^verbatim>\<open>Config\<close>, \<^verbatim>\<open>Auth\<close>, \<^verbatim>\<open>Validation\<close>, \<^verbatim>\<open>Http_Types\<close>, \<^verbatim>\<open>Http_Handlers\<close>, \<^verbatim>\<open>Http_Server\<close>, \<^verbatim>\<open>Http_Safety\<close>,
    \<^verbatim>\<open>Dns_Server\<close>, \<^verbatim>\<open>Grpc_Server\<close>: configuration, tokens and the three front ends. Locales \<open>read_service\<close> and
    \<open>service\<close> are the interface between the HTTP server and the service.
  \<^item> \<^verbatim>\<open>Runtimes\<close> (locales \<open>container_runtime\<close>, \<open>reliable_runtime\<close>), \<^verbatim>\<open>Worker\<close>, \<^verbatim>\<open>Agent\<close>, \<^verbatim>\<open>Worker_Server\<close> (the
    worker's client connected to the server's handler), \<^verbatim>\<open>Programs\<close>, \<^verbatim>\<open>Plugins\<close>: the worker side, the two main
    programs and the plugin registry.
  \<^item> This theory: the steps of the server process and its invariant.

  \<^bold>\<open>What is shown.\<close> Of the whole system: the invariant of the server process over all its steps (C3), that only
  an authorized request changes the database (C4), that a token is accepted only with proof (C7), mutual
  exclusion and refinement of the lease for attempts that do not overlap (C2, C5), that a standby is idle (C8), and a deletion from the worker through the network to
  the store (C6). Of the reconciliation: bounds and status of rollouts (C1, C9, C10), deletion and release
  of resources (C11, C12, C13), evacuation of failed nodes (C14), autoscaler bounds (C15), retries of jobs
  (C16), endpoints and routing (C17, C18), volumes (C24), shards (C25), rollback (C26, C27). Of the worker:
  C19, C20, C21. Of the rest: network policies (C22), roles (C23), scheduler (C28, C29, C30), balancer
  (C31, C32), rollout settings, quotas and secrets (C33, C34, C35) and the store (C36 to C40). Each is stated
  where its component is. Lemmas beside them show where the code departs from what it or its documents
  intend, for example \<open>overlapping_attempts_both_granted\<close>, \<open>pending_counts_as_available\<close>, \<open>last_replica_reported_stable\<close>,
  \<open>one_volume_two_claims\<close>, \<open>visit_cycle_diverges\<close> and \<open>heartbeat_undrains\<close>.

  \<^bold>\<open>Bounds.\<close> Loops over lists are structural recursion. The attempts to start a container recurse on the number
  of attempts left. The closure of role bindings (\<open>visit\<close>) is a partial function, since the source may
  recurse without end; C23 shows that it ends on acyclic bindings. The parser of IPv6 addresses reads at most
  nine groups, one more than an address has. The endless loops of the controller, the worker and an event
  stream are functions of a finite sequence of ticks. No other bound or fuel is used.

  \<^bold>\<open>Interleaving.\<close> A step is one call, run to its end, and the properties over sequences of steps (C2, C3, C16)
  are about calls that do not overlap. Only \<^verbatim>\<open>DeleteDeployment\<close>, \<^verbatim>\<open>UpdateDeployment\<close>, \<^verbatim>\<open>RollbackDeployment\<close>,
  \<^verbatim>\<open>reconcileDeployment\<close> and \<^verbatim>\<open>reconcileDeletion\<close> hold the mutex of the service for their whole length. All other
  calls, \<^verbatim>\<open>TryAcquireControllerLeadership\<close> and \<^verbatim>\<open>HeartbeatNode\<close> among them, make several transactions of the
  store without a lock around them, and what happens when they overlap is not covered, with one exception:
  \<open>overlapping_attempts_both_granted\<close> shows that two overlapping attempts on the lease are both granted.

  \<^bold>\<open>Not modelled.\<close> The generated protocol code (\<^verbatim>\<open>api/proto\<close>); opening the database and its internals; listeners,
  sockets, TLS handshakes, signals and tickers (the \<^verbatim>\<open>Start\<close> functions and the rest of the two \<^verbatim>\<open>main\<close>
  functions); the text of JSON (a stored value is the struct that is read back) with its treatment of
  invalid UTF-8 and of years beyond 9999; the text of log lines; the Docker daemon; truncated files after a
  failed write; the order in which Go visits a map. All of these are input and output or library code.
\<close>

section \<open>The server process\<close>

text \<open>
  One step of the server process: a request to the HTTP server, a call of the gRPC server, a DNS query, a
  tick of a controller or its end. Every step is one call, run to its end. The mutex of the service is
  part of the state; what two calls do to each other when they overlap is modelled only as far as they
  hold it for their whole length.
\<close>

inductive system_step :: "'db henv \<Rightarrow> 'db server \<Rightarrow> 'db server \<Rightarrow> bool" for H where
  http: "Handler H r s = (resp, t) \<Longrightarrow> system_step H s t"
| controller: "on_orch (on_tick (he_orch H) m) s = (done_tick, t) \<Longrightarrow> system_step H s t"
| controller_end: "on_orch (on_done (he_orch H) m) s = (done_end, t) \<Longrightarrow> system_step H s t"
| grpc_create: "on_orch (grpc_CreateDeployment (he_orch H) spec) s = (created, t) \<Longrightarrow> system_step H s t"
| grpc_delete: "on_orch (grpc_DeleteDeployment (he_orch H) i) s = (deleted, t) \<Longrightarrow> system_step H s t"
| grpc_list: "on_orch (grpc_ListDeployments (he_orch H)) s = (listed, t) \<Longrightarrow> system_step H s t"
| grpc_state: "on_orch (grpc_GetClusterState (he_orch H)) s = (state, t) \<Longrightarrow> system_step H s t"
| dns: "on_orch (handleQuery (he_orch H) qs) s = (rrs, t) \<Longrightarrow> system_step H s t"

definition server_ok :: "'db henv \<Rightarrow> 'db server \<Rightarrow> bool" where
  "server_ok H s \<longleftrightarrow> orch_inv (contents (he_orch H) (srv_orch s)) \<and> \<not> o_mu (srv_orch s) \<and> \<not> o_stuck (srv_orch s)"

lemma respects_step:
  assumes "service R (he_orch H)" and "\<And>m. stays R (on_tick (he_orch H) m)" and "\<And>m. stays R (on_done (he_orch H) m)"
    and "\<And>spec. stays R (grpc_CreateDeployment (he_orch H) spec)" and "\<And>i. stays R (grpc_DeleteDeployment (he_orch H) i)"
    and "stays R (grpc_ListDeployments (he_orch H))" and "stays R (grpc_GetClusterState (he_orch H))"
    and "\<And>qs. stays R (handleQuery (he_orch H) qs)"
    and "system_step H s t"
  shows "R (srv_orch s) (srv_orch t)"
proof -
  have "on_world R s t"
    using assms(9)
    by (cases rule: system_step.cases)
      (metis staysD stays_on_orch service.any_request [OF assms(1) HOL.refl] assms(2-8))+
  then show ?thesis by (simp add: on_world_def)
qed

lemma controller_end_frames: "stays free (on_done E m)" "env_ok E \<Longrightarrow> stays (sound E) (on_done E m)"
  unfolding on_done_def by (intro free.ignore sound.ignore free_ops sound_ops; assumption)+

lemma server_ok_step:
  assumes "env_ok (he_orch H)" and "system_step H s t" and "server_ok H s"
  shows "server_ok H t"
proof -
  let ?E = "he_orch H"
  have "free (srv_orch s) (srv_orch t)"
    by (rule respects_step [OF free_service.service_axioms free_on_tick controller_end_frames(1) free_grpc free_handleQuery assms(2)])
  moreover have "sound ?E (srv_orch s) (srv_orch t)"
    by (rule respects_step [OF sound_service sound_on_tick controller_end_frames(2) sound_grpc sound_handleQuery assms(2)]) (rule assms(1))+
  ultimately show ?thesis using assms(3) by (auto simp: server_ok_def free_def sound_def)
qed

text \<open>The server program starts in a state of this kind, on every database that is in order.\<close>

lemma server_start_ok:
  assumes "orch_inv (contents (he_orch H) (NewOrchestrator db))" and "server_start cfg H db = (H', s)"
  shows "server_ok H' s"
  using assms by (auto simp: server_ok_def server_start_def server_orch_env_def NewHTTPServer_def contents_def NewOrchestrator_def split: prod.splits)

lemma server_ok_single:
  assumes "srv_orch s = NewOrchestrator [(k, b)]" and "blob_key b = k" and "\<And>d. b \<noteq> JDeployment d"
  shows "server_ok demo_henv s"
proof -
  have "orch_inv (map_of [(k, b)])" using assms(2,3) by (simp add: orch_inv_def store_wf_def)
  then show ?thesis by (simp add: server_ok_def assms(1)) (simp add: NewOrchestrator_def)
qed

text \<open>
  (C3) Whatever requests, calls, queries and controller ticks the server process runs, and in whatever order,
  also when database operations fail: every record stays at the key its fields determine, every
  deployment keeps a consistent revision history and one condition per type, and the mutex of the
  service is free again after every step and never waited for in vain.
\<close>

theorem system_invariant:
  assumes "env_ok (he_orch H)" and "(system_step H)\<^sup>*\<^sup>* s t" and "server_ok H s"
  shows "server_ok H t"
  using assms(2,3) by (induction rule: rtranclp_induct) (auto intro: server_ok_step [OF assms(1)])

theorem system_invariant_witness: "server_ok demo_henv (snd (Handler demo_henv demo_delete demo_server))"
proof -
  have "system_step demo_henv demo_server (snd (Handler demo_henv demo_delete demo_server))"
    by (rule system_step.http [OF prod.collapse [symmetric]])
  moreover have "server_ok demo_henv demo_server"
    by (rule server_ok_single [of _ "keyAutoscalerPolicy ''p''" "JAutoscalerPolicy (demo_policy_as\<lparr>as_ID := ''p''\<rparr>)"])
      (simp_all add: demo_server_def NewHTTPServer_def blob_key_simps)
  ultimately show ?thesis
    by (rule system_invariant [rotated, OF r_into_rtranclp]) (simp add: demo_oenv_ok)
qed

end
